(* ===== verification/Prelude.thy ===== *)
theory Prelude
  imports Main "HOL-Library.Char_ord" "HOL-Library.List_Lexorder"
begin

text \<open>
  What every component of the model uses: the functions of Go's \<^verbatim>\<open>strings\<close>, \<^verbatim>\<open>strconv\<close> and
  \<^verbatim>\<open>utf8\<close> packages the code calls, the shape of HTTP requests and replies, and the generic
  lemmas on strings, lists and decimal numerals.

  A Go string is a list of bytes (\<^typ>\<open>string\<close>, whose characters are bytes).  Case folding and
  white space are those of ASCII: bytes above 127 are never white space and are left alone by
  the case conversions.  Runes are decoded from UTF-8 as Go's \<^verbatim>\<open>range\<close> loop does.
\<close>

named_theorems op_simps \<open>handlers and statements, unfolded in the proofs about them\<close>
named_theorems split_rules \<open>the case splits of the handlers\<close>

lemmas [split_rules] = if_splits option.splits

text \<open>Times and durations are in seconds.\<close>

type_synonym time = int

section \<open>Strings\<close>

definition is_space :: "char \<Rightarrow> bool" where
  "is_space c \<longleftrightarrow> (let n = (of_char c :: nat) in n = 32 \<or> 9 \<le> n \<and> n \<le> 13)"

definition is_lower :: "char \<Rightarrow> bool" where
  "is_lower c \<longleftrightarrow> (let n = (of_char c :: nat) in 97 \<le> n \<and> n \<le> 122)"

definition is_upper :: "char \<Rightarrow> bool" where
  "is_upper c \<longleftrightarrow> (let n = (of_char c :: nat) in 65 \<le> n \<and> n \<le> 90)"

definition is_digit :: "char \<Rightarrow> bool" where
  "is_digit c \<longleftrightarrow> (let n = (of_char c :: nat) in 48 \<le> n \<and> n \<le> 57)"

definition lower_char :: "char \<Rightarrow> char" where
  "lower_char c = (if is_upper c then char_of ((of_char c :: nat) + 32) else c)"

definition upper_char :: "char \<Rightarrow> char" where
  "upper_char c = (if is_lower c then char_of ((of_char c :: nat) - 32) else c)"

definition to_lower :: "string \<Rightarrow> string" where
  "to_lower s = map lower_char s"

definition to_upper :: "string \<Rightarrow> string" where
  "to_upper s = map upper_char s"

text \<open>\<^verbatim>\<open>strings.EqualFold\<close>.\<close>

definition equal_fold :: "string \<Rightarrow> string \<Rightarrow> bool" where
  "equal_fold s t \<longleftrightarrow> to_lower s = to_lower t"

text \<open>\<^verbatim>\<open>strings.TrimRight\<close> with a predicate for the cut set, \<^verbatim>\<open>strings.Trim\<close> and
  \<^verbatim>\<open>strings.TrimSpace\<close>.\<close>

definition trim_right :: "(char \<Rightarrow> bool) \<Rightarrow> string \<Rightarrow> string" where
  "trim_right p s = rev (dropWhile p (rev s))"

definition trim :: "(char \<Rightarrow> bool) \<Rightarrow> string \<Rightarrow> string" where
  "trim p s = trim_right p (dropWhile p s)"

definition trim_space :: "string \<Rightarrow> string" where
  "trim_space s = trim is_space s"

definition has_prefix :: "string \<Rightarrow> string \<Rightarrow> bool" where
  "has_prefix p s \<longleftrightarrow> take (length p) s = p"

definition has_suffix :: "string \<Rightarrow> string \<Rightarrow> bool" where
  "has_suffix p s \<longleftrightarrow> has_prefix (rev p) (rev s)"

definition trim_prefix :: "string \<Rightarrow> string \<Rightarrow> string" where
  "trim_prefix p s = (if has_prefix p s then drop (length p) s else s)"

definition trim_suffix :: "string \<Rightarrow> string \<Rightarrow> string" where
  "trim_suffix p s = (if has_suffix p s then take (length s - length p) s else s)"

fun contains_str :: "string \<Rightarrow> string \<Rightarrow> bool" where
  "contains_str [] sub = (sub = [])"
| "contains_str (c # cs) sub = (has_prefix sub (c # cs) \<or> contains_str cs sub)"

text \<open>\<^verbatim>\<open>strings.Split\<close> and \<^verbatim>\<open>strings.Join\<close> with a one-byte separator, and \<^verbatim>\<open>strings.Cut\<close>.\<close>

fun split_on :: "char \<Rightarrow> string \<Rightarrow> string list" where
  "split_on c [] = [[]]"
| "split_on c (x # xs) =
     (if x = c then [] # split_on c xs
      else (case split_on c xs of [] \<Rightarrow> [[x]] | p # ps \<Rightarrow> (x # p) # ps))"

fun join_with :: "char \<Rightarrow> string list \<Rightarrow> string" where
  "join_with c [] = []"
| "join_with c [p] = p"
| "join_with c (p # q # ps) = p @ c # join_with c (q # ps)"

fun cut_at :: "char \<Rightarrow> string \<Rightarrow> (string \<times> string) option" where
  "cut_at c [] = None"
| "cut_at c (x # xs) =
     (if x = c then Some ([], xs)
      else (case cut_at c xs of None \<Rightarrow> None | Some (a, b) \<Rightarrow> Some (x # a, b)))"

lemma split_on_nonempty [simp]: "split_on c s \<noteq> []"
  by (induction s) (auto split: list.splits)

lemma split_on_no_sep [simp]: "c \<notin> set s \<Longrightarrow> split_on c s = [s]"
  by (induction s) auto

lemma split_on_append: "c \<notin> set p \<Longrightarrow> split_on c (p @ c # s) = p # split_on c s"
  by (induction p) auto

lemma split_join:
  "ps \<noteq> [] \<Longrightarrow> \<forall>p \<in> set ps. c \<notin> set p \<Longrightarrow> split_on c (join_with c ps) = ps"
  by (induction c ps rule: join_with.induct) (auto simp: split_on_append)

lemma join_split [simp]: "join_with c (split_on c s) = s"
proof (induction s)
  case Nil
  then show ?case by simp
next
  case (Cons x s)
  show ?case
  proof (cases "split_on c s")
    case Nil
    then show ?thesis by simp
  next
    case (Cons p ps)
    with Cons.IH show ?thesis by (cases ps) auto
  qed
qed

lemma join_with_inj:
  assumes "join_with c ps = join_with c qs" and "ps \<noteq> []" and "qs \<noteq> []"
    and "\<forall>p \<in> set ps. c \<notin> set p" and "\<forall>q \<in> set qs. c \<notin> set q"
  shows "ps = qs"
  using assms split_join by metis

lemma split_on_parts: "p \<in> set (split_on c s) \<Longrightarrow> c \<notin> set p"
proof (induction s arbitrary: p)
  case Nil
  then show ?case by simp
next
  case (Cons x s)
  then show ?case by (auto split: list.splits if_splits)
qed

lemma cut_at_None: "cut_at c s = None \<longleftrightarrow> c \<notin> set s"
  by (induction s) (auto split: option.splits)

lemma cut_at_append: "c \<notin> set a \<Longrightarrow> cut_at c (a @ c # b) = Some (a, b)"
  by (induction a) auto

lemma cut_at_SomeD: "cut_at c s = Some (a, b) \<Longrightarrow> s = a @ c # b \<and> c \<notin> set a"
  by (induction s arbitrary: a) (auto split: if_splits option.splits)

lemma cut_eq:
  assumes "(c :: char) \<notin> set a" and "c \<notin> set a'" and "a @ c # s = a' @ c # s'"
  shows "a = a' \<and> s = s'"
proof -
  have "Some (a, s) = Some (a', s')"
    using cut_at_append [OF assms(1), of s] cut_at_append [OF assms(2), of s'] unfolding assms(3) by (rule trans [OF sym])
  then show ?thesis by simp
qed

lemma has_prefix_append [simp]: "has_prefix p (p @ s)"
  by (simp add: has_prefix_def)

lemma has_prefix_iff: "has_prefix p s \<longleftrightarrow> (\<exists>r. s = p @ r)"
  by (metis append_take_drop_id has_prefix_append has_prefix_def)

lemma trim_prefix_append [simp]: "trim_prefix p (p @ s) = s"
  by (simp add: trim_prefix_def)

lemma length_trim_right: "length (trim_right p s) \<le> length s"
  by (simp add: trim_right_def length_dropWhile_le [of p "rev s", simplified])

lemma length_trim: "length (trim p s) \<le> length s"
  by (metis trim_def length_trim_right length_dropWhile_le le_trans)

lemma set_trim_right: "set (trim_right p s) \<subseteq> set s"
  by (auto simp: trim_right_def dest: set_dropWhileD)

lemma set_trim: "set (trim p s) \<subseteq> set s"
  using set_trim_right [of p "dropWhile p s"] by (auto simp: trim_def dest: set_dropWhileD)

lemma trim_right_idem [simp]: "trim_right p (trim_right p s) = trim_right p s"
  by (simp add: trim_right_def)

lemma trim_right_hd: "trim_right p s \<noteq> [] \<Longrightarrow> hd (trim_right p s) = hd s"
proof -
  assume ne: "trim_right p s \<noteq> []"
  have "s = trim_right p s @ rev (takeWhile p (rev s))"
    by (metis rev_append rev_rev_ident takeWhile_dropWhile_id trim_right_def)
  with ne show ?thesis by (metis hd_append2)
qed

lemma trim_idem [simp]: "trim p (trim p s) = trim p s"
proof (cases "trim p s = []")
  case True
  then have "trim p (trim p s) = trim p []" by simp
  also have "\<dots> = []" by (simp add: trim_def trim_right_def)
  finally show ?thesis using True by simp
next
  case False
  then have "hd (trim p s) = hd (dropWhile p s)" and "dropWhile p s \<noteq> []"
    by (auto simp: trim_def trim_right_hd) (auto simp: trim_right_def dest: set_dropWhileD)
  then have "\<not> p (hd (trim p s))" by (metis hd_dropWhile)
  with False have "dropWhile p (trim p s) = trim p s" by (cases "trim p s") auto
  then show ?thesis by (simp add: trim_def)
qed

lemma trim_space_idem [simp]: "trim_space (trim_space s) = trim_space s"
  by (simp add: trim_space_def)

lemma dropWhile_none: "\<forall>c \<in> set s. \<not> p c \<Longrightarrow> dropWhile p s = s"
  by (cases s) auto

lemma trim_space_id: "\<forall>c \<in> set s. \<not> is_space c \<Longrightarrow> trim_space s = s"
  by (simp add: trim_space_def trim_def trim_right_def dropWhile_none)

lemma has_prefix_Cons [simp]:
  "has_prefix (x # p) (y # s) \<longleftrightarrow> x = y \<and> has_prefix p s"
  "has_prefix [] s" "\<not> has_prefix (x # p) []"
  by (auto simp: has_prefix_def)

section \<open>Decimal numerals\<close>

definition digit_char :: "nat \<Rightarrow> char" where
  "digit_char d = char_of (48 + d)"

definition digit_val :: "char \<Rightarrow> nat" where
  "digit_val c = of_char c - 48"

fun show_nat :: "nat \<Rightarrow> string" where
  "show_nat n = (if n < 10 then [digit_char n] else show_nat (n div 10) @ [digit_char (n mod 10)])"

declare show_nat.simps [simp del]

text \<open>\<^verbatim>\<open>strconv.FormatInt(i, 10)\<close> and the \<^verbatim>\<open>%d\<close> of \<^verbatim>\<open>fmt.Sprintf\<close>.\<close>

definition show_int :: "int \<Rightarrow> string" where
  "show_int i = (if i < 0 then CHR ''-'' # show_nat (nat (- i)) else show_nat (nat i))"

definition read_nat :: "string \<Rightarrow> nat" where
  "read_nat s = foldl (\<lambda>n c. 10 * n + digit_val c) 0 s"

text \<open>\<^verbatim>\<open>strconv.ParseInt(s, 10, 64)\<close> (and \<^verbatim>\<open>Atoi\<close> on a 64-bit machine): an optional sign, at least
  one digit, nothing else, and a value that fits; \<^const>\<open>None\<close> is the error.\<close>

definition parse_digits :: "string \<Rightarrow> int option" where
  "parse_digits ds = (if ds \<noteq> [] \<and> list_all is_digit ds then Some (int (read_nat ds)) else None)"

definition parse_int64 :: "string \<Rightarrow> int option" where
  "parse_int64 s =
     (case s of
        [] \<Rightarrow> None
      | c # cs \<Rightarrow>
          if c = CHR ''-'' then
            (case parse_digits cs of
               None \<Rightarrow> None
             | Some v \<Rightarrow> if v \<le> 2 ^ 63 then Some (- v) else None)
          else
            (case parse_digits (if c = CHR ''+'' then cs else s) of
               None \<Rightarrow> None
             | Some v \<Rightarrow> if v < 2 ^ 63 then Some v else None))"

lemma of_char_digit [simp]: "d < 10 \<Longrightarrow> (of_char (digit_char d) :: nat) = 48 + d"
  by (simp add: digit_char_def)

lemma digit_val_digit [simp]: "d < 10 \<Longrightarrow> digit_val (digit_char d) = d"
  by (simp add: digit_val_def)

lemma is_digit_digit [simp]: "d < 10 \<Longrightarrow> is_digit (digit_char d)"
  by (simp add: is_digit_def Let_def)

lemma is_digit_not_sign: "is_digit c \<Longrightarrow> c \<noteq> CHR ''-'' \<and> c \<noteq> CHR ''+'' \<and> c \<noteq> CHR '':'' \<and> c \<noteq> CHR '',''"
  by (auto simp: is_digit_def Let_def)

lemma show_nat_digits: "list_all is_digit (show_nat n)"
  by (induction n rule: show_nat.induct) (subst show_nat.simps, simp)

lemma show_nat_nonempty [simp]: "show_nat n \<noteq> []"
  by (subst show_nat.simps) simp

lemma read_show_nat [simp]: "read_nat (show_nat n) = n"
proof (induction n rule: show_nat.induct)
  case (1 n)
  show ?case
  proof (cases "n < 10")
    case True
    then show ?thesis by (subst show_nat.simps) (simp add: read_nat_def)
  next
    case False
    with "1.IH" have "read_nat (show_nat (n div 10)) = n div 10" by simp
    with False show ?thesis by (subst show_nat.simps) (simp add: read_nat_def)
  qed
qed

lemma parse_digits_show [simp]: "parse_digits (show_nat n) = Some (int n)"
  by (simp add: parse_digits_def show_nat_digits)

lemma parse_show_int:
  assumes "- (2 ^ 63) \<le> i" and "i < 2 ^ 63"
  shows "parse_int64 (show_int i) = Some i"
proof (cases "i < 0")
  case True
  with assms show ?thesis by (simp add: show_int_def parse_int64_def)
next
  case False
  obtain c cs where s: "show_nat (nat i) = c # cs" by (cases "show_nat (nat i)") simp_all
  have "is_digit c" using show_nat_digits [of "nat i"] s by simp
  then have "c \<noteq> CHR ''-''" "c \<noteq> CHR ''+''" by (simp_all add: is_digit_not_sign)
  with False s assms parse_digits_show [of "nat i"] show ?thesis
    by (simp add: show_int_def parse_int64_def del: parse_digits_show)
qed

lemma parse_int64_range: "parse_int64 s = Some i \<Longrightarrow> - (2 ^ 63) \<le> i \<and> i < 2 ^ 63"
  by (auto simp: parse_int64_def parse_digits_def split: list.splits if_splits)

lemma show_int_inj: "show_int i = show_int j \<Longrightarrow> i = j"
proof -
  assume eq: "show_int i = show_int j"
  have hd: "hd (show_nat n) \<noteq> CHR ''-''" for n
    using show_nat_digits [of n] is_digit_not_sign show_nat_nonempty [of n]
    by (metis list.set_sel(1) list_all_iff)
  show ?thesis
  proof (cases "i < 0 \<longleftrightarrow> j < 0")
    case True
    with eq have "read_nat (show_nat (nat (abs i))) = read_nat (show_nat (nat (abs j)))"
      by (auto simp: show_int_def split: if_splits simp del: read_show_nat)
    with True show ?thesis by auto
  next
    case False
    with eq hd [of "nat i"] hd [of "nat j"] show ?thesis
      by (auto simp: show_int_def split: if_splits) (metis list.sel(1))+
  qed
qed

lemma show_int_chars: "c \<in> set (show_int i) \<Longrightarrow> c \<noteq> CHR '':'' \<and> c \<noteq> CHR '',''"
  using show_nat_digits [of "nat i"] show_nat_digits [of "nat (- i)"]
  by (auto simp: show_int_def list_all_iff dest: is_digit_not_sign split: if_splits)

section \<open>UTF-8\<close>

text \<open>The runes a Go \<^verbatim>\<open>range\<close> loop yields; \<^const>\<open>None\<close> is \<^verbatim>\<open>RuneError\<close>, for a byte that starts no valid
  encoding (and is consumed alone).\<close>

definition is_cont :: "nat \<Rightarrow> bool" where
  "is_cont b \<longleftrightarrow> 128 \<le> b \<and> b \<le> 191"

definition decode_rune :: "nat \<Rightarrow> nat list \<Rightarrow> nat option \<times> nat" where
  \<comment> \<open>\<^verbatim>\<open>utf8.DecodeRune\<close> of the bytes \<open>b # bs\<close>: the rune and how many bytes of \<open>bs\<close> it takes\<close>
  "decode_rune b bs =
    (if b < 128 then (Some b, 0)
     else if 194 \<le> b \<and> b \<le> 223 then
       (case bs of
          c # _ \<Rightarrow> if is_cont c then (Some ((b - 192) * 64 + (c - 128)), 1) else (None, 0)
        | _ \<Rightarrow> (None, 0))
     else if 224 \<le> b \<and> b \<le> 239 then
       (case bs of
          c # d # _ \<Rightarrow>
            if is_cont c \<and> is_cont d \<and> (b = 224 \<longrightarrow> 160 \<le> c) \<and> (b = 237 \<longrightarrow> c \<le> 159)
            then (Some ((b - 224) * 4096 + (c - 128) * 64 + (d - 128)), 2) else (None, 0)
        | _ \<Rightarrow> (None, 0))
     else if 240 \<le> b \<and> b \<le> 244 then
       (case bs of
          c # d # f # _ \<Rightarrow>
            if is_cont c \<and> is_cont d \<and> is_cont f \<and> (b = 240 \<longrightarrow> 144 \<le> c) \<and> (b = 244 \<longrightarrow> c \<le> 143)
            then (Some ((b - 240) * 262144 + (c - 128) * 4096 + (d - 128) * 64 + (f - 128)), 3)
            else (None, 0)
        | _ \<Rightarrow> (None, 0))
     else (None, 0))"

function decode_bytes :: "nat list \<Rightarrow> nat option list" where
  "decode_bytes [] = []"
| "decode_bytes (b # bs) = fst (decode_rune b bs) # decode_bytes (drop (snd (decode_rune b bs)) bs)"
  by pat_completeness auto
termination
  by (relation "measure length") auto

definition runes :: "string \<Rightarrow> nat option list" where
  "runes s = decode_bytes (map of_char s)"

definition valid_utf8 :: "string \<Rightarrow> bool" where
  "valid_utf8 s \<longleftrightarrow> None \<notin> set (runes s)"

definition rune_count :: "string \<Rightarrow> nat" where
  "rune_count s = length (runes s)"

lemma length_decode_bytes: "length (decode_bytes bs) \<le> length bs"
proof (induction bs rule: decode_bytes.induct)
  case 1
  then show ?case by simp
next
  case (2 b bs)
  then show ?case by simp
qed

lemma rune_count_le_bytes: "rune_count s \<le> length s"
  using length_decode_bytes [of "map of_char s"] by (simp add: rune_count_def runes_def)

lemma runes_ascii: "\<forall>c \<in> set s. (of_char c :: nat) < 128 \<Longrightarrow> runes s = map (Some \<circ> of_char) s"
  by (induction s) (simp_all add: runes_def decode_rune_def)

end
