(* ===== verification/Http.thy ===== *)
theory Http
  imports Prelude
begin

text \<open>
  Requests and replies as the handlers of \<^verbatim>\<open>internal/app\<close> see them, and the helpers every handler
  calls first: \<^verbatim>\<open>write\<close>, \<^verbatim>\<open>problem\<close>, \<^verbatim>\<open>decode\<close>, \<^verbatim>\<open>dbError\<close> (app.go), \<^verbatim>\<open>admin\<close>, \<^verbatim>\<open>pathID\<close> (auth.go),
  \<^verbatim>\<open>pagination\<close> (admin.go) and \<^verbatim>\<open>codedProblem\<close> (cloud_connection.go).

  A handler is a function of its environment, the signed-in user, the request, the decoded body and
  the world, and returns the reply and the new world.  The environment \<open>env\<close> holds what the code
  takes from outside: the cryptographic functions, the random tokens of the request, the clock, and
  \<open>e_fault\<close>: \<open>e_fault e i\<close> says that the \<open>i\<close>-th call of the handler to PostgreSQL, Redis or the mail
  server (counted in source order) fails.  A theorem for every environment holds for every pattern
  of failures.
\<close>

section \<open>Values\<close>

datatype json =
    JNull
  | JBool bool
  | JInt int
  | JStr string
  | JList "json list"
  | JObj "(string \<times> json) list"

record user =
  u_id :: int
  u_ws :: int
  u_wsname :: string
  u_name :: string
  u_email :: string
  u_role :: string
  u_owner :: bool
  u_version :: int

record request =
  rq_method :: string
  rq_path :: "string \<Rightarrow> string"
  rq_query :: "string \<Rightarrow> string"
  rq_header :: "string \<Rightarrow> string"
  rq_cookie :: "string \<Rightarrow> string option"
  rq_remote :: string

datatype 'a body = Malformed | Trailing | Body 'a

record resp =
  rs_status :: nat
  rs_body :: json
  rs_location :: string
  rs_cookies :: "(string \<times> string \<times> int) list"
  rs_retry :: string

record env =
  e_origin :: string
  e_fault :: "nat \<Rightarrow> bool"
  e_now :: time
  e_token :: "nat \<Rightarrow> string"
  e_digest :: "string \<Rightarrow> string"
  e_hash :: "string \<Rightarrow> string"
  e_check :: "string \<Rightarrow> string \<Rightarrow> bool"
  e_address :: "string \<Rightarrow> string option"
  e_category :: "nat \<Rightarrow> string"

text \<open>
  \<open>e_hash\<close> and \<open>e_check\<close> are bcrypt, \<open>e_digest\<close> is SHA-256 in hexadecimal, \<open>e_address\<close> is the address
  \<^verbatim>\<open>mail.ParseAddress\<close> extracts (\<^const>\<open>None\<close> for its error), \<open>e_category\<close> the Unicode category of a rune.
\<close>

section \<open>Replies\<close>

definition reply :: "nat \<Rightarrow> json \<Rightarrow> resp" where
  "reply st j = \<lparr>rs_status = st, rs_body = j, rs_location = [], rs_cookies = [], rs_retry = []\<rparr>"

definition problem :: "nat \<Rightarrow> string \<Rightarrow> resp" where
  "problem st msg = reply st (JObj [(''error'', JStr msg)])"

definition redirect :: "nat \<Rightarrow> string \<Rightarrow> resp" where
  "redirect st loc = (reply st JNull)\<lparr>rs_location := loc\<rparr>"

definition codedProblem :: "nat \<Rightarrow> string \<Rightarrow> string \<Rightarrow> string list \<Rightarrow> resp" where
  "codedProblem st code msg fixes =
     reply st (JObj [(''error'', JStr msg), (''code'', JStr code),
                     (''how_to_fix'', JList (map JStr fixes))])"

definition fieldProblem :: "nat \<Rightarrow> string \<Rightarrow> string \<Rightarrow> resp" where
  "fieldProblem st msg field = reply st (JObj [(''error'', JStr msg), (''field'', JStr field)])"

text \<open>The answer of the outermost handler to a request whose handler panicked.\<close>

definition panicked :: resp where
  "panicked = problem 500 ''Internal server error''"

definition reply_ok :: resp where
  "reply_ok = reply 200 (JObj [(''ok'', JBool True)])"

definition reply_id :: "int \<Rightarrow> resp" where
  "reply_id i = reply 200 (JObj [(''id'', JInt i)])"

text \<open>Message texts are carried along but never rewritten.\<close>

lemma problem_cong [cong]: "st = st' \<Longrightarrow> problem st m = problem st' m"
  by simp

lemma codedProblem_cong [cong]: "st = st' \<Longrightarrow> codedProblem st c m f = codedProblem st' c m f"
  by simp

lemma fieldProblem_cong [cong]: "st = st' \<Longrightarrow> fieldProblem st m f = fieldProblem st' m f"
  by simp

lemma status_simps [simp]:
  "rs_status (reply st j) = st"
  "rs_status (problem st m) = st"
  "rs_status (redirect st l) = st"
  "rs_status (codedProblem st c m fx) = st"
  "rs_status (fieldProblem st m f) = st"
  "rs_status reply_ok = 200"
  "rs_status panicked = 500"
  "rs_status (reply_id i) = 200"
  by (simp_all add: reply_def problem_def redirect_def codedProblem_def fieldProblem_def
      reply_ok_def reply_id_def panicked_def)

lemma location_simps [simp]:
  "rs_location (reply st j) = []"
  "rs_location (problem st m) = []"
  "rs_location (redirect st l) = l"
  by (simp_all add: reply_def problem_def redirect_def)

lemma cookie_simps [simp]:
  "rs_cookies (reply st j) = []"
  "rs_cookies (problem st m) = []"
  "rs_cookies (redirect st l) = []"
  by (simp_all add: reply_def problem_def redirect_def)

text \<open>\<^verbatim>\<open>dbError\<close>: what a failed statement answers.\<close>

datatype db_err = NoRows | DbFailed

definition dbError :: "db_err \<Rightarrow> resp" where
  "dbError err =
     (if err = NoRows then problem 404 ''Resource not found''
      else problem 409 ''Operation could not be completed; check references and unique names'')"

lemma dbError_status [simp]: "rs_status (dbError err) = (if err = NoRows then 404 else 409)"
  by (simp add: dbError_def)

section \<open>Helpers of the handlers\<close>

definition decode :: "request \<Rightarrow> 'a body \<Rightarrow> resp + 'a" where
  "decode r b =
     (if \<not> has_prefix ''application/json'' (rq_header r ''Content-Type'')
      then Inl (problem 415 ''Content-Type must be application/json'')
      else (case b of
              Malformed \<Rightarrow> Inl (problem 400 ''Invalid JSON request'')
            | Trailing \<Rightarrow> Inl (problem 400 ''Expected one JSON object'')
            | Body x \<Rightarrow> Inr x))"

definition admin :: "user \<Rightarrow> bool" where
  "admin u \<longleftrightarrow> u_role u = ''admin''"

definition admin_required :: resp where
  "admin_required = problem 403 ''Administrator access required''"

definition pathID :: "request \<Rightarrow> string \<Rightarrow> resp + int" where
  "pathID r key =
     (case parse_int64 (rq_path r key) of
        None \<Rightarrow> Inl (problem 400 ''Invalid resource ID'')
      | Some i \<Rightarrow> if i < 1 then Inl (problem 400 ''Invalid resource ID'') else Inr i)"

text \<open>\<^verbatim>\<open>pagination\<close>: a number that does not parse reads as 0 (\<^verbatim>\<open>Atoi\<close>'s error is dropped; out of range
  it yields the nearest bound, which the range check replaces or keeps like any other).\<close>

definition atoi_or_clamp :: "string \<Rightarrow> int" where
  "atoi_or_clamp s =
     (case parse_int64 s of
        Some i \<Rightarrow> i
      | None \<Rightarrow>
          (case s of
             [] \<Rightarrow> 0
           | c # cs \<Rightarrow>
               (case parse_digits (if c = CHR ''-'' \<or> c = CHR ''+'' then cs else s) of
                  None \<Rightarrow> 0
                | Some _ \<Rightarrow> if c = CHR ''-'' then - (2 ^ 63) else 2 ^ 63 - 1)))"

definition pagination :: "request \<Rightarrow> int \<times> int" where
  "pagination r =
     (let limit = atoi_or_clamp (rq_query r ''limit'');
          limit = (if limit < 1 \<or> limit > 200 then 50 else limit);
          offset = atoi_or_clamp (rq_query r ''offset'');
          offset = (if offset < 0 then 0 else offset)
      in (limit, offset))"

lemma decode_Inr: "decode r b = Inr x \<Longrightarrow> b = Body x"
  by (auto simp: decode_def split: if_splits body.splits)

lemma decode_Body: "decode r (Body x) = Inr y \<Longrightarrow> y = x"
  by (drule decode_Inr) simp

lemma decode_Inl_status: "decode r b = Inl p \<Longrightarrow> rs_status p \<in> {400, 415}"
  by (auto simp: decode_def split: if_splits body.splits)

lemma pathID_Inr: "pathID r k = Inr i \<Longrightarrow> 1 \<le> i \<and> i < 2 ^ 63"
  by (auto simp: pathID_def dest: parse_int64_range split: option.splits if_splits)

lemma pathID_Inl_status: "pathID r k = Inl p \<Longrightarrow> rs_status p = 400"
  by (auto simp: pathID_def split: option.splits if_splits)

lemma pathID_show:
  "rq_path r k = show_int i \<Longrightarrow> 1 \<le> i \<Longrightarrow> i < 2 ^ 63 \<Longrightarrow> pathID r k = Inr i"
  by (simp add: pathID_def parse_show_int)

lemma pagination_bounds:
  "pagination r = (limit, offset) \<Longrightarrow> 1 \<le> limit \<and> limit \<le> 200 \<and> 0 \<le> offset"
  by (auto simp: pagination_def Let_def split: if_splits)

lemmas [split_rules] = sum.splits body.splits

end
