(* ===== verification/Redis.thy ===== *)
theory Redis
  imports Prelude
begin

text \<open>
  The Redis database of the program: string keys, values with an optional expiry time (seconds), the
  commands the code issues and its Lua scripts, each of which Redis runs atomically.  Values are the
  Go values the code marshals to JSON; marshalling drops the fields tagged \<^verbatim>\<open>json:"-"\<close> (see
  \<open>exported_job\<close>).

  The locale \<open>kv_store\<close> is the interface the clients rely on; \<open>one_time\<close> and \<open>lease\<close> extend it with
  the two uses the program makes of it: keys that are read once and removed (SSO states, logout
  relays, connection proofs) and keys that mutual exclusion rests on (collector locks, refresh
  scopes).  All three are interpreted on the definitions of this theory.
\<close>

section \<open>Values\<close>

record session =
  ss_user :: int
  ss_version :: int
  ss_provider :: string
  ss_protocol :: string
  ss_subject :: string

record sso_state =
  st_provider :: int
  st_nonce :: string
  st_verifier :: string
  st_request :: string

record job =
  jb_id :: string
  jb_ws :: int
  jb_by :: int
  jb_byname :: string
  jb_accounts :: "int list"
  jb_service :: string
  jb_region :: string
  jb_status :: string
  jb_created :: time
  jb_started :: "time option"
  jb_completed :: "time option"
  jb_duration :: int
  jb_failed :: "(int \<times> string \<times> string) list option"
  jb_error :: string

datatype rval =
    RText string
  | RCount int
  | RSession session
  | RState sso_state
  | RJob job

text \<open>What \<^verbatim>\<open>json.Unmarshal (json.Marshal job)\<close> leaves of a job: \<^verbatim>\<open>WorkspaceID\<close>, \<^verbatim>\<open>RequestedBy\<close> and
  \<^verbatim>\<open>RequestedName\<close> are tagged \<^verbatim>\<open>json:"-"\<close>.\<close>

definition exported_job :: "job \<Rightarrow> job" where
  "exported_job j = j\<lparr>jb_ws := 0, jb_by := 0, jb_byname := []\<rparr>"

section \<open>Commands\<close>

type_synonym redis = "string \<Rightarrow> (rval \<times> time option) option"

definition rget :: "time \<Rightarrow> string \<Rightarrow> redis \<Rightarrow> rval option" where
  "rget now k r =
     (case r k of
        None \<Rightarrow> None
      | Some (v, None) \<Rightarrow> Some v
      | Some (v, Some t) \<Rightarrow> if now < t then Some v else None)"

definition rset :: "time \<Rightarrow> time \<Rightarrow> string \<Rightarrow> rval \<Rightarrow> redis \<Rightarrow> redis" where
  "rset now ttl k v r = r(k := Some (v, Some (now + ttl)))"

definition rdel :: "string \<Rightarrow> redis \<Rightarrow> redis" where
  "rdel k r = r(k := None)"

definition rgetdel :: "time \<Rightarrow> string \<Rightarrow> redis \<Rightarrow> rval option \<times> redis" where
  "rgetdel now k r = (rget now k r, rdel k r)"

text \<open>\<^verbatim>\<open>SET key value NX EX ttl\<close>.\<close>

definition rsetnx :: "time \<Rightarrow> time \<Rightarrow> string \<Rightarrow> rval \<Rightarrow> redis \<Rightarrow> bool \<times> redis" where
  "rsetnx now ttl k v r =
     (case rget now k r of Some _ \<Rightarrow> (False, r) | None \<Rightarrow> (True, rset now ttl k v r))"

text \<open>\<^verbatim>\<open>local n=redis.call('INCR',KEYS[1]); if n==1 then redis.call('EXPIRE',KEYS[1],300) end; return n\<close>;
  \<^const>\<open>None\<close> where the stored value is no integer.\<close>

definition rincr_window :: "time \<Rightarrow> time \<Rightarrow> string \<Rightarrow> redis \<Rightarrow> (int \<times> redis) option" where
  "rincr_window now window k r =
     (case rget now k r of
        None \<Rightarrow> Some (1, r(k := Some (RCount 1, Some (now + window))))
      | Some (RCount n) \<Rightarrow>
          Some (n + 1,
                r(k := Some (RCount (n + 1),
                             if n + 1 = 1 then Some (now + window)
                             else (case r k of None \<Rightarrow> None | Some (_, t) \<Rightarrow> t))))
      | Some _ \<Rightarrow> None)"

text \<open>\<^verbatim>\<open>if redis.call('GET',KEYS[1])==ARGV[1] then return redis.call('DEL',KEYS[1]) else return 0 end\<close>\<close>

definition rdel_if :: "time \<Rightarrow> string \<Rightarrow> rval \<Rightarrow> redis \<Rightarrow> redis" where
  "rdel_if now k v r = (if rget now k r = Some v then rdel k r else r)"

text \<open>\<^verbatim>\<open>if redis.call('GET',KEYS[1])==ARGV[1] then return redis.call('EXPIRE',KEYS[1],ARGV[2]) else return 0 end\<close>\<close>

definition rexpire_if :: "time \<Rightarrow> time \<Rightarrow> string \<Rightarrow> rval \<Rightarrow> redis \<Rightarrow> bool \<times> redis" where
  "rexpire_if now ttl k v r =
     (if rget now k r = Some v then (True, rset now ttl k v r) else (False, r))"

text \<open>\<^verbatim>\<open>if redis.call('GET',KEYS[1]) then redis.call('DEL',KEYS[1]); return 1 else return 0 end\<close>\<close>

definition rtake :: "time \<Rightarrow> string \<Rightarrow> redis \<Rightarrow> bool \<times> redis" where
  "rtake now k r = (case rget now k r of Some _ \<Rightarrow> (True, rdel k r) | None \<Rightarrow> (False, r))"

text \<open>The claim script of the refresh jobs: return the job that holds the scope, or store the new
  job's id under the scope (600 seconds) and the job under its key (3600 seconds).\<close>

definition rclaim :: "time \<Rightarrow> string \<Rightarrow> string \<Rightarrow> string \<Rightarrow> rval \<Rightarrow> redis \<Rightarrow> rval \<times> redis" where
  "rclaim now scope jobkey jid v r =
     (case rget now scope r of
        Some existing \<Rightarrow> (existing, r)
      | None \<Rightarrow> (RText jid, rset now 3600 jobkey v (rset now 600 scope (RText jid) r)))"

section \<open>The interface of the store\<close>

locale kv_store =
  fixes get :: "time \<Rightarrow> 'k \<Rightarrow> 'r \<Rightarrow> 'v option"
    and put :: "time \<Rightarrow> time \<Rightarrow> 'k \<Rightarrow> 'v \<Rightarrow> 'r \<Rightarrow> 'r"
    and del :: "'k \<Rightarrow> 'r \<Rightarrow> 'r"
  assumes get_put:
    "get t k' (put now ttl k v r) =
       (if k' = k then if t < now + ttl then Some v else None else get t k' r)"
    and get_del: "get t k' (del k r) = (if k' = k then None else get t k' r)"
    and get_anti: "t \<le> t' \<Longrightarrow> get t' k r = Some v \<Longrightarrow> get t k r = Some v"
begin

lemma get_put_other: "k' \<noteq> k \<Longrightarrow> get t k' (put now ttl k v r) = get t k' r"
  by (simp add: get_put)

lemma get_put_live: "t < now + ttl \<Longrightarrow> get t k (put now ttl k v r) = Some v"
  by (simp add: get_put)

lemma get_put_expired: "now + ttl \<le> t \<Longrightarrow> get t k (put now ttl k v r) = None"
  by (simp add: get_put)

lemma absent_stays_absent: "get t k r = None \<Longrightarrow> t \<le> t' \<Longrightarrow> get t' k r = None"
  using get_anti by (metis not_Some_eq)

end

text \<open>A key that is consumed by its first reader.\<close>

locale one_time = kv_store get put del
  for get :: "time \<Rightarrow> 'k \<Rightarrow> 'r \<Rightarrow> 'v option"
    and put :: "time \<Rightarrow> time \<Rightarrow> 'k \<Rightarrow> 'v \<Rightarrow> 'r \<Rightarrow> 'r"
    and del :: "'k \<Rightarrow> 'r \<Rightarrow> 'r" +
  fixes take_key :: "time \<Rightarrow> 'k \<Rightarrow> 'r \<Rightarrow> 'v option \<times> 'r"
  assumes take_fst: "fst (take_key t k r) = get t k r"
    and take_snd: "t \<le> t' \<Longrightarrow> get t' k' (snd (take_key t k r)) = get t' k' (del k r)"
begin

lemma taken_once: "t \<le> t' \<Longrightarrow> fst (take_key t' k (snd (take_key t k r))) = None"
  by (simp add: take_fst take_snd get_del)

lemma take_keeps_others: "t \<le> t' \<Longrightarrow> k' \<noteq> k \<Longrightarrow> get t' k' (snd (take_key t k r)) = get t' k' r"
  by (simp add: take_snd get_del)

lemma take_after_put: "t < now + ttl \<Longrightarrow> fst (take_key t k (put now ttl k v r)) = Some v"
  by (simp add: take_fst get_put)

end

text \<open>A key that names its holder: taken when absent, renewed and removed by the holder only.\<close>

locale lease = kv_store get put del
  for get :: "time \<Rightarrow> 'k \<Rightarrow> 'r \<Rightarrow> 'v option"
    and put :: "time \<Rightarrow> time \<Rightarrow> 'k \<Rightarrow> 'v \<Rightarrow> 'r \<Rightarrow> 'r"
    and del :: "'k \<Rightarrow> 'r \<Rightarrow> 'r" +
  fixes acquire :: "time \<Rightarrow> time \<Rightarrow> 'k \<Rightarrow> 'v \<Rightarrow> 'r \<Rightarrow> bool \<times> 'r"
    and renew :: "time \<Rightarrow> time \<Rightarrow> 'k \<Rightarrow> 'v \<Rightarrow> 'r \<Rightarrow> bool \<times> 'r"
    and release :: "time \<Rightarrow> 'k \<Rightarrow> 'v \<Rightarrow> 'r \<Rightarrow> 'r"
  assumes acquire_eq:
    "acquire now ttl k v r = (if get now k r = None then (True, put now ttl k v r) else (False, r))"
    and renew_eq:
    "renew now ttl k v r = (if get now k r = Some v then (True, put now ttl k v r) else (False, r))"
    and release_eq: "release now k v r = (if get now k r = Some v then del k r else r)"
begin

text \<open>Whoever the key names at a time before its expiry keeps it against every other holder's
  acquire, renew and release.\<close>

lemma held_against_acquire:
  "get now k r = Some v \<Longrightarrow> t \<ge> now \<Longrightarrow> get t k (snd (acquire now ttl k w r)) = get t k r"
  by (simp add: acquire_eq)

lemma held_against_renew:
  "get now k r = Some v \<Longrightarrow> w \<noteq> v \<Longrightarrow> get t k (snd (renew now ttl k w r)) = get t k r"
  by (simp add: renew_eq)

lemma held_against_release:
  "get now k r = Some v \<Longrightarrow> w \<noteq> v \<Longrightarrow> get t k (release now k w r) = get t k r"
  by (simp add: release_eq)

lemma acquire_excludes:
  assumes "fst (acquire now ttl k v r)" and "now \<le> t" and "t < now + ttl"
  shows "\<not> fst (acquire t ttl' k w (snd (acquire now ttl k v r)))"
  using assms by (auto simp: acquire_eq get_put split: if_splits)

lemma released_is_free: "get now k r = Some v \<Longrightarrow> get t k (release now k v r) = None"
  by (simp add: release_eq get_del)

lemma lease_frame:
  "k' \<noteq> k \<Longrightarrow> get t k' (snd (acquire now ttl k v r)) = get t k' r"
  "k' \<noteq> k \<Longrightarrow> get t k' (snd (renew now ttl k v r)) = get t k' r"
  "k' \<noteq> k \<Longrightarrow> get t k' (release now k v r) = get t k' r"
  by (simp_all add: acquire_eq renew_eq release_eq get_put get_del)

end

section \<open>The commands implement the interface\<close>

lemma rget_rset:
  "rget t k' (rset now ttl k v r) =
     (if k' = k then if t < now + ttl then Some v else None else rget t k' r)"
  by (simp add: rget_def rset_def)

lemma rget_rdel: "rget t k' (rdel k r) = (if k' = k then None else rget t k' r)"
  by (simp add: rget_def rdel_def)

interpretation kv: kv_store rget rset rdel
proof unfold_locales
  show "rget t k r = Some v" if "t \<le> t'" and "rget t' k r = Some v" for t t' k r v
    using that by (auto simp: rget_def split: option.splits if_splits)
qed (simp_all add: rget_rset rget_rdel)

interpretation once: one_time rget rset rdel rgetdel
  by unfold_locales (simp_all add: rgetdel_def)

definition rtake_val :: "time \<Rightarrow> string \<Rightarrow> redis \<Rightarrow> rval option \<times> redis" where
  "rtake_val now k r = (rget now k r, snd (rtake now k r))"

interpretation proofkey: one_time rget rset rdel rtake_val
proof unfold_locales
  show "rget t' k' (snd (rtake_val t k r)) = rget t' k' (rdel k r)" if "t \<le> t'" for t t' k k' r
    using that kv.absent_stays_absent [of t k r t']
    by (auto simp: rtake_val_def rtake_def rget_rdel split: option.splits)
qed (simp_all add: rtake_val_def)

interpretation redlock: lease rget rset rdel rsetnx rexpire_if rdel_if
  by unfold_locales
    (simp_all add: rsetnx_def rexpire_if_def rdel_if_def split: option.splits)

end
