(* ===== verification/Store.thy ===== *)
theory Store
  imports Http Redis
begin

text \<open>
  The PostgreSQL schema of \<^verbatim>\<open>internal/app/migrations\<close> as a record of tables, each a list of rows, with
  the constraints the statements of the program can run into: unique indexes, checks, foreign keys
  and the \<^verbatim>\<open>ON DELETE\<close> actions.  Columns no modelled statement reads (creation and update times)
  are left out; a time stamp that is only tested for presence is a boolean.

  \<open>world\<close> adds the Redis database, the mails handed to the mail server and the calls submitted to
  the cloud providers.  The unnamed part of the theory is \<^verbatim>\<open>record\<close> (app.go), the audit trail.
\<close>

section \<open>Rows\<close>

record ws_row =
  ws_id :: int
  ws_name :: string
  ws_slug :: string
  ws_limit :: int
  ws_sso_required :: bool

record user_row =
  us_id :: int
  us_ws :: int
  us_name :: string
  us_email :: string
  us_verified :: bool
  us_hash :: string
  us_role :: string
  us_owner :: bool
  us_version :: int

record group_row =
  gr_id :: int
  gr_ws :: int
  gr_name :: string
  gr_desc :: string
  gr_view :: bool
  gr_accounts :: bool
  gr_members :: bool

record member_row =
  mb_user :: int
  mb_group :: int
  mb_role :: string

record grant_row =
  sg_ws :: int
  sg_provider :: int
  sg_user :: int
  sg_group :: int
  sg_ext :: string
  sg_role :: string

record account_row =
  ac_id :: int
  ac_ws :: int
  ac_name :: string
  ac_provider :: string
  ac_owner :: string
  ac_group :: "int option"
  ac_cred :: string
  ac_regions :: "string list"
  ac_sync :: "time option"
  ac_err :: string
  ac_errcode :: string

record role_row =
  rl_id :: int
  rl_ws :: int
  rl_key :: string
  rl_name :: string
  rl_desc :: string
  rl_perms :: "string list"
  rl_builtin :: bool

record assign_row =
  as_id :: int
  as_ws :: int
  as_ptype :: string
  as_user :: "int option"
  as_group :: "int option"
  as_account :: int
  as_role :: int
  as_service :: string
  as_source :: string
  as_ref :: string
  as_by :: "int option"

record idp_row =
  ip_id :: int
  ip_ws :: int
  ip_public :: string
  ip_name :: string
  ip_protocol :: string
  ip_enabled :: bool
  ip_jit :: bool
  ip_config :: string

record extid_row =
  ex_ws :: int
  ex_provider :: int
  ex_user :: int
  ex_subject :: string
  ex_email :: string

record map_row =
  mp_id :: int
  mp_ws :: int
  mp_provider :: int
  mp_ext :: string
  mp_group :: int
  mp_role :: string

record token_row =
  tk_id :: int
  tk_user :: int
  tk_digest :: string
  tk_expires :: time
  tk_used :: bool

record inst_row =
  in_account :: int
  in_iid :: string
  in_region :: string
  in_name :: string
  in_state :: string
  in_type :: string
  in_public :: string
  in_private :: string
  in_details :: json
  in_id :: int
  in_seen :: time

record audit_row =
  au_ws :: int
  au_user :: "int option"
  au_name :: string
  au_action :: string
  au_target :: string
  au_details :: json
  au_at :: time

record settings_row =
  se_ws :: int
  se_retention :: int
  se_last_run :: "time option"

record snap_row =
  sn_ws :: int
  sn_account :: int
  sn_service :: string
  sn_region :: string
  sn_payload :: json
  sn_fetched :: time

record db =
  d_ws :: "ws_row list"
  d_users :: "user_row list"
  d_groups :: "group_row list"
  d_members :: "member_row list"
  d_grants :: "grant_row list"
  d_accounts :: "account_row list"
  d_roles :: "role_row list"
  d_assigns :: "assign_row list"
  d_idps :: "idp_row list"
  d_extids :: "extid_row list"
  d_maps :: "map_row list"
  d_tokens :: "token_row list"
  d_insts :: "inst_row list"
  d_audit :: "audit_row list"
  d_settings :: "settings_row list"
  d_snaps :: "snap_row list"
  d_next :: "string \<Rightarrow> int"

text \<open>A call submitted to a cloud provider: provider, account, operation and its argument.\<close>

record pcall =
  pc_provider :: string
  pc_account :: int
  pc_op :: string
  pc_arg :: json

record world =
  w_db :: db
  w_redis :: redis
  w_mail :: "(string \<times> string \<times> string) list"
  w_calls :: "pcall list"

definition with_db :: "world \<Rightarrow> db \<Rightarrow> world" where
  "with_db w d = w\<lparr>w_db := d\<rparr>"

definition with_redis :: "world \<Rightarrow> redis \<Rightarrow> world" where
  "with_redis w r = w\<lparr>w_redis := r\<rparr>"

lemma with_db_simps [simp]:
  "w_db (with_db w d) = d" "w_redis (with_db w d) = w_redis w"
  "w_mail (with_db w d) = w_mail w" "w_calls (with_db w d) = w_calls w"
  "with_db (with_db w d) d' = with_db w d'" "with_db w (w_db w) = w"
  by (simp_all add: with_db_def)

lemma with_redis_simps [simp]:
  "w_redis (with_redis w r) = r" "w_db (with_redis w r) = w_db w"
  "w_mail (with_redis w r) = w_mail w" "w_calls (with_redis w r) = w_calls w"
  by (simp_all add: with_redis_def)

text \<open>A \<^verbatim>\<open>bigserial\<close> column: the next value of a table's sequence.\<close>

definition next_id :: "db \<Rightarrow> string \<Rightarrow> int" where
  "next_id d t = d_next d t"

definition bump :: "db \<Rightarrow> string \<Rightarrow> db" where
  "bump d t = d\<lparr>d_next := (d_next d)(t := d_next d t + 1)\<rparr>"

lemma bump_simps [simp]:
  "d_ws (bump d t) = d_ws d" "d_users (bump d t) = d_users d" "d_groups (bump d t) = d_groups d"
  "d_members (bump d t) = d_members d" "d_grants (bump d t) = d_grants d"
  "d_accounts (bump d t) = d_accounts d" "d_roles (bump d t) = d_roles d"
  "d_assigns (bump d t) = d_assigns d" "d_idps (bump d t) = d_idps d"
  "d_extids (bump d t) = d_extids d" "d_maps (bump d t) = d_maps d"
  "d_tokens (bump d t) = d_tokens d" "d_insts (bump d t) = d_insts d"
  "d_audit (bump d t) = d_audit d" "d_settings (bump d t) = d_settings d"
  "d_snaps (bump d t) = d_snaps d"
  by (simp_all add: bump_def)

section \<open>Lookups\<close>

definition ws_by_id :: "db \<Rightarrow> int \<Rightarrow> ws_row option" where
  "ws_by_id d i = find (\<lambda>x. ws_id x = i) (d_ws d)"

definition user_by_id :: "db \<Rightarrow> int \<Rightarrow> user_row option" where
  "user_by_id d i = find (\<lambda>x. us_id x = i) (d_users d)"

definition account_in_ws :: "db \<Rightarrow> int \<Rightarrow> int \<Rightarrow> account_row option" where
  "account_in_ws d ws i = find (\<lambda>x. ac_id x = i \<and> ac_ws x = ws) (d_accounts d)"

definition group_in_ws :: "db \<Rightarrow> int \<Rightarrow> int \<Rightarrow> group_row option" where
  "group_in_ws d ws i = find (\<lambda>x. gr_id x = i \<and> gr_ws x = ws) (d_groups d)"

text \<open>The view \<^verbatim>\<open>effective_user_groups\<close>: manual memberships and SSO grants.\<close>

definition effective_user_groups :: "db \<Rightarrow> member_row list" where
  "effective_user_groups d =
     d_members d @
     map (\<lambda>g. \<lparr>mb_user = sg_user g, mb_group = sg_group g, mb_role = sg_role g\<rparr>) (d_grants d)"

lemma find_Some_iff_in: "find P xs = Some x \<Longrightarrow> x \<in> set xs \<and> P x"
  by (auto simp: find_Some_iff)

lemma find_None: "find P xs = None \<longleftrightarrow> (\<forall>x \<in> set xs. \<not> P x)"
  by (auto simp: find_None_iff)

lemma find_by_key:
  "distinct (map f xs) \<Longrightarrow> x \<in> set xs \<Longrightarrow> find (\<lambda>y. f y = f x) xs = Some x"
proof (induction xs)
  case (Cons y ys)
  show ?case
  proof (cases "y = x")
    case False
    with Cons.prems have "x \<in> set ys" by simp
    with Cons.prems(1) have "f y \<noteq> f x" by auto
    with Cons \<open>x \<in> set ys\<close> show ?thesis by simp
  qed simp
qed simp

section \<open>The audit trail (\<^verbatim>\<open>App.record\<close>, \<^verbatim>\<open>App.audit\<close>)\<close>

definition audit_fk :: "db \<Rightarrow> int \<Rightarrow> int \<Rightarrow> bool" where
  "audit_fk d ws uid \<longleftrightarrow> ws_by_id d ws \<noteq> None \<and> (uid > 0 \<longrightarrow> user_by_id d uid \<noteq> None)"

text \<open>\<open>rcd e i w \<dots>\<close> inserts the audit row and says whether it was stored; a failed insert changes
  nothing.\<close>

definition rcd :: "env \<Rightarrow> nat \<Rightarrow> world \<Rightarrow> int \<Rightarrow> int \<Rightarrow> string \<Rightarrow> string \<Rightarrow> string \<Rightarrow> json \<Rightarrow> bool \<times> world" where
  "rcd e i w ws uid name action target details =
     (if e_fault e i \<or> \<not> audit_fk (w_db w) ws uid then (False, w)
      else (True, with_db w ((w_db w)\<lparr>d_audit := d_audit (w_db w) @
              [\<lparr>au_ws = ws, au_user = (if uid > 0 then Some uid else None), au_name = name,
                au_action = action, au_target = target, au_details = details,
                au_at = e_now e\<rparr>]\<rparr>)))"

text \<open>The error of \<^verbatim>\<open>App.record\<close> is dropped by \<^verbatim>\<open>App.audit\<close>.\<close>

definition audit :: "env \<Rightarrow> nat \<Rightarrow> user \<Rightarrow> world \<Rightarrow> string \<Rightarrow> string \<Rightarrow> json \<Rightarrow> world" where
  "audit e i u w action target details =
     snd (rcd e i w (u_ws u) (u_id u) (u_name u) action target details)"

text \<open>Action names are carried along but never rewritten.\<close>

lemma audit_cong [cong]: "w = w' \<Longrightarrow> audit e i u w a t j = audit e i u w' a t j"
  by simp

lemma rcd_cong [cong]: "w = w' \<Longrightarrow> rcd e i w ws uid n a t j = rcd e i w' ws uid n a t j"
  by simp

definition same_but_audit :: "db \<Rightarrow> db \<Rightarrow> bool" where
  "same_but_audit d d' \<longleftrightarrow> d'\<lparr>d_audit := []\<rparr> = d\<lparr>d_audit := []\<rparr>"

lemma rcd_db: "w_db (snd (rcd e i w ws uid n a t j)) = (w_db w)\<lparr>d_audit := d_audit (w_db (snd (rcd e i w ws uid n a t j)))\<rparr>"
  by (simp add: rcd_def)

lemma rcd_simps [simp]:
  "d_ws (w_db (snd (rcd e i w ws uid n a t j))) = d_ws (w_db w)"
  "d_users (w_db (snd (rcd e i w ws uid n a t j))) = d_users (w_db w)"
  "d_groups (w_db (snd (rcd e i w ws uid n a t j))) = d_groups (w_db w)"
  "d_members (w_db (snd (rcd e i w ws uid n a t j))) = d_members (w_db w)"
  "d_grants (w_db (snd (rcd e i w ws uid n a t j))) = d_grants (w_db w)"
  "d_accounts (w_db (snd (rcd e i w ws uid n a t j))) = d_accounts (w_db w)"
  "d_roles (w_db (snd (rcd e i w ws uid n a t j))) = d_roles (w_db w)"
  "d_assigns (w_db (snd (rcd e i w ws uid n a t j))) = d_assigns (w_db w)"
  "d_idps (w_db (snd (rcd e i w ws uid n a t j))) = d_idps (w_db w)"
  "d_extids (w_db (snd (rcd e i w ws uid n a t j))) = d_extids (w_db w)"
  "d_maps (w_db (snd (rcd e i w ws uid n a t j))) = d_maps (w_db w)"
  "d_tokens (w_db (snd (rcd e i w ws uid n a t j))) = d_tokens (w_db w)"
  "d_insts (w_db (snd (rcd e i w ws uid n a t j))) = d_insts (w_db w)"
  "d_settings (w_db (snd (rcd e i w ws uid n a t j))) = d_settings (w_db w)"
  "d_snaps (w_db (snd (rcd e i w ws uid n a t j))) = d_snaps (w_db w)"
  "d_next (w_db (snd (rcd e i w ws uid n a t j))) = d_next (w_db w)"
  "w_redis (snd (rcd e i w ws uid n a t j)) = w_redis w"
  "w_mail (snd (rcd e i w ws uid n a t j)) = w_mail w"
  "w_calls (snd (rcd e i w ws uid n a t j)) = w_calls w"
  by (simp_all add: rcd_def)

lemma audit_simps [simp]:
  "d_ws (w_db (audit e i u w a t j)) = d_ws (w_db w)"
  "d_users (w_db (audit e i u w a t j)) = d_users (w_db w)"
  "d_groups (w_db (audit e i u w a t j)) = d_groups (w_db w)"
  "d_members (w_db (audit e i u w a t j)) = d_members (w_db w)"
  "d_grants (w_db (audit e i u w a t j)) = d_grants (w_db w)"
  "d_accounts (w_db (audit e i u w a t j)) = d_accounts (w_db w)"
  "d_roles (w_db (audit e i u w a t j)) = d_roles (w_db w)"
  "d_assigns (w_db (audit e i u w a t j)) = d_assigns (w_db w)"
  "d_idps (w_db (audit e i u w a t j)) = d_idps (w_db w)"
  "d_extids (w_db (audit e i u w a t j)) = d_extids (w_db w)"
  "d_maps (w_db (audit e i u w a t j)) = d_maps (w_db w)"
  "d_tokens (w_db (audit e i u w a t j)) = d_tokens (w_db w)"
  "d_insts (w_db (audit e i u w a t j)) = d_insts (w_db w)"
  "d_settings (w_db (audit e i u w a t j)) = d_settings (w_db w)"
  "d_snaps (w_db (audit e i u w a t j)) = d_snaps (w_db w)"
  "d_next (w_db (audit e i u w a t j)) = d_next (w_db w)"
  "w_redis (audit e i u w a t j) = w_redis w"
  "w_mail (audit e i u w a t j) = w_mail w"
  "w_calls (audit e i u w a t j) = w_calls w"
  by (simp_all add: audit_def)

lemma rcd_stored:
  "fst (rcd e i w ws uid n a t j) \<Longrightarrow>
     \<exists>row. d_audit (w_db (snd (rcd e i w ws uid n a t j))) = d_audit (w_db w) @ [row] \<and>
       au_ws row = ws \<and> au_action row = a \<and> au_target row = t \<and> au_details row = j \<and> au_name row = n"
  by (auto simp: rcd_def split: if_splits)

lemma rcd_not_stored: "\<not> fst (rcd e i w ws uid n a t j) \<Longrightarrow> snd (rcd e i w ws uid n a t j) = w"
  unfolding rcd_def by (cases "e_fault e i \<or> \<not> audit_fk (w_db w) ws uid") simp_all

lemma rcd_audit_prefix:
  "\<exists>rows. d_audit (w_db (snd (rcd e i w ws uid n a t j))) = d_audit (w_db w) @ rows \<and>
     (\<forall>row \<in> set rows. au_ws row = ws)"
  by (cases "e_fault e i \<or> \<not> audit_fk (w_db w) ws uid") (simp_all add: rcd_def)

end
