(* ===== verification/Tables.thy ===== *)
theory Tables
  imports Store
begin

text \<open>
  The statements on workspaces, users, settings and verification tokens that several components
  share, with the constraints of the schema (\<^verbatim>\<open>internal/app/migrations\<close>): unique user names and
  addresses up to case, the checks on lengths and roles, the trigger that seeds the built-in roles of
  a new workspace, and the \<^verbatim>\<open>ON DELETE\<close> actions of a user and of a team.
  A statement that violates a constraint is \<^const>\<open>None\<close>.
\<close>

section \<open>Inserts\<close>

definition seeded_role :: "int \<Rightarrow> int \<Rightarrow> string \<Rightarrow> string \<Rightarrow> string list \<Rightarrow> role_row" where
  "seeded_role i ws key name perms =
     \<lparr>rl_id = i, rl_ws = ws, rl_key = key, rl_name = name, rl_desc = [], rl_perms = perms, rl_builtin = True\<rparr>"

definition seed_roles :: "db \<Rightarrow> int \<Rightarrow> db" where
  "seed_roles d ws =
     (let i = next_id d ''access_roles''
      in (bump (bump (bump d ''access_roles'') ''access_roles'') ''access_roles'')\<lparr>d_roles := d_roles d @
        [seeded_role i ws ''viewer'' ''Viewer''
           [''account.view'', ''compute.view'', ''eds.view'', ''billing.view''],
         seeded_role (i + 1) ws ''operator'' ''Operator''
           [''account.view'', ''compute.view'', ''compute.operate'', ''eds.view'', ''eds.operate'',
            ''billing.view''],
         seeded_role (i + 2) ws ''account_manager'' ''Account Manager''
           [''account.view'', ''account.manage'', ''compute.view'', ''compute.operate'', ''eds.view'',
            ''eds.operate'', ''eds.manage'', ''billing.view'', ''billing.sync'']]\<rparr>)"

definition insert_workspace :: "db \<Rightarrow> string \<Rightarrow> string \<Rightarrow> (int \<times> db) option" where
  "insert_workspace d name slug =
     (if rune_count name < 2 \<or> rune_count name > 100 \<or> rune_count slug < 3 \<or> rune_count slug > 80 \<or>
         list_ex (\<lambda>x. ws_slug x = slug) (d_ws d) then None
      else let i = next_id d ''workspaces'' in
        Some (i, seed_roles ((bump d ''workspaces'')\<lparr>d_ws := d_ws d @
          [\<lparr>ws_id = i, ws_name = name, ws_slug = slug, ws_limit = 6, ws_sso_required = False\<rparr>]\<rparr>) i))"

definition name_taken :: "db \<Rightarrow> string \<Rightarrow> bool" where
  "name_taken d name = list_ex (\<lambda>x. to_lower (us_name x) = to_lower name) (d_users d)"

definition email_taken :: "db \<Rightarrow> string \<Rightarrow> bool" where
  "email_taken d email = list_ex (\<lambda>x. to_lower (us_email x) = to_lower email) (d_users d)"

definition user_checks :: "string \<Rightarrow> string \<Rightarrow> bool" where
  "user_checks name role \<longleftrightarrow>
     3 \<le> rune_count name \<and> rune_count name \<le> 100 \<and> (role = ''admin'' \<or> role = ''user'')"

definition insert_user ::
    "db \<Rightarrow> int \<Rightarrow> string \<Rightarrow> string \<Rightarrow> bool \<Rightarrow> string \<Rightarrow> string \<Rightarrow> bool \<Rightarrow> (int \<times> db) option" where
  "insert_user d ws name email verified hash role owner =
     (if ws_by_id d ws = None \<or> name_taken d name \<or> email_taken d email \<or> \<not> user_checks name role
      then None
      else let i = next_id d ''users'' in
        Some (i, (bump d ''users'')\<lparr>d_users := d_users d @
          [\<lparr>us_id = i, us_ws = ws, us_name = name, us_email = email, us_verified = verified,
            us_hash = hash, us_role = role, us_owner = owner, us_version = 1\<rparr>]\<rparr>))"

definition insert_settings :: "db \<Rightarrow> int \<Rightarrow> db option" where
  "insert_settings d ws =
     (if ws_by_id d ws = None \<or> list_ex (\<lambda>s. se_ws s = ws) (d_settings d) then None
      else Some (d\<lparr>d_settings := d_settings d @ [\<lparr>se_ws = ws, se_retention = 90, se_last_run = None\<rparr>]\<rparr>))"

definition insert_token :: "db \<Rightarrow> int \<Rightarrow> string \<Rightarrow> time \<Rightarrow> db option" where
  "insert_token d uid digest expires =
     (if user_by_id d uid = None \<or> list_ex (\<lambda>t. tk_digest t = digest) (d_tokens d) then None
      else let i = next_id d ''email_verification_tokens'' in
        Some ((bump d ''email_verification_tokens'')\<lparr>d_tokens := d_tokens d @
          [\<lparr>tk_id = i, tk_user = uid, tk_digest = digest, tk_expires = expires, tk_used = False\<rparr>]\<rparr>))"

section \<open>Updates\<close>

definition use_tokens :: "db \<Rightarrow> int \<Rightarrow> db" where
  "use_tokens d uid =
     d\<lparr>d_tokens := map (\<lambda>t. if tk_user t = uid \<and> \<not> tk_used t then t\<lparr>tk_used := True\<rparr> else t) (d_tokens d)\<rparr>"

definition verify_user :: "db \<Rightarrow> int \<Rightarrow> db" where
  "verify_user d uid =
     d\<lparr>d_users := map (\<lambda>x. if us_id x = uid then x\<lparr>us_verified := True\<rparr> else x) (d_users d)\<rparr>"

section \<open>Deletes\<close>

text \<open>\<^verbatim>\<open>ON DELETE CASCADE\<close> from a user to memberships, grants, tokens, external identities and
  assignments; the audit trail and the creator of an assignment are set to null.\<close>

definition delete_user :: "db \<Rightarrow> int \<Rightarrow> db" where
  "delete_user d uid =
     d\<lparr>d_users := filter (\<lambda>x. us_id x \<noteq> uid) (d_users d),
       d_members := filter (\<lambda>m. mb_user m \<noteq> uid) (d_members d),
       d_grants := filter (\<lambda>g. sg_user g \<noteq> uid) (d_grants d),
       d_tokens := filter (\<lambda>t. tk_user t \<noteq> uid) (d_tokens d),
       d_extids := filter (\<lambda>x. ex_user x \<noteq> uid) (d_extids d),
       d_assigns := map (\<lambda>a. if as_by a = Some uid then a\<lparr>as_by := None\<rparr> else a)
                      (filter (\<lambda>a. as_user a \<noteq> Some uid) (d_assigns d)),
       d_audit := map (\<lambda>a. if au_user a = Some uid then a\<lparr>au_user := None\<rparr> else a) (d_audit d)\<rparr>"

definition delete_group :: "db \<Rightarrow> int \<Rightarrow> db" where
  "delete_group d gid =
     d\<lparr>d_groups := filter (\<lambda>g. gr_id g \<noteq> gid) (d_groups d),
       d_members := filter (\<lambda>m. mb_group m \<noteq> gid) (d_members d),
       d_grants := filter (\<lambda>g. sg_group g \<noteq> gid) (d_grants d),
       d_maps := filter (\<lambda>m. mp_group m \<noteq> gid) (d_maps d),
       d_assigns := filter (\<lambda>a. as_group a \<noteq> Some gid) (d_assigns d),
       d_accounts := map (\<lambda>a. if ac_group a = Some gid then a\<lparr>ac_group := None\<rparr> else a) (d_accounts d)\<rparr>"

section \<open>Facts\<close>

lemma insert_user_Some:
  "insert_user d ws name email verified hash role owner = Some (i, d') \<Longrightarrow>
     \<exists>row. d_users d' = d_users d @ [row] \<and> us_id row = i \<and> us_ws row = ws \<and> us_name row = name \<and>
       us_email row = email \<and> us_verified row = verified \<and> us_hash row = hash \<and> us_role row = role \<and>
       us_owner row = owner \<and> us_version row = 1"
  by (auto simp: insert_user_def Let_def split: if_splits)

lemma use_tokens_simps [simp]:
  "d_users (use_tokens d i) = d_users d" "d_ws (use_tokens d i) = d_ws d"
  "d_groups (use_tokens d i) = d_groups d" "d_roles (use_tokens d i) = d_roles d"
  by (simp_all add: use_tokens_def)

lemma verify_user_simps [simp]:
  "d_tokens (verify_user d i) = d_tokens d" "d_ws (verify_user d i) = d_ws d"
  by (simp_all add: verify_user_def)

end
