(* ===== verification/ClientIP.thy ===== *)
theory ClientIP
  imports Http "HOL-Library.Word"
begin

text \<open>
  The address a request is attributed to (\<^verbatim>\<open>clientIP\<close>, \<^verbatim>\<open>containsIP\<close> in auth.go) and the trusted
  networks of the configuration (\<^verbatim>\<open>parseTrustedProxies\<close>, config.go), over the address functions of
  Go's \<^verbatim>\<open>net\<close> package: \<^verbatim>\<open>SplitHostPort\<close>, \<^verbatim>\<open>ParseIP\<close>, \<^verbatim>\<open>ParseCIDR\<close>, \<^verbatim>\<open>IPNet.Contains\<close>, \<^verbatim>\<open>IP.String\<close>.

  An address is a 128-bit word as in \<^verbatim>\<open>net.IP\<close>; an IPv4 address is mapped under \<open>::ffff:0:0/96\<close>.
\<close>

unbundle bit_operations_syntax

section \<open>Addresses\<close>

type_synonym ip = "128 word"

definition of_v4 :: "32 word \<Rightarrow> ip" where
  "of_v4 w = push_bit 32 (mask 16) OR ucast w"

definition is_v4 :: "ip \<Rightarrow> bool" where
  "is_v4 a \<longleftrightarrow> drop_bit 32 a = mask 16"

definition to_v4 :: "ip \<Rightarrow> 32 word" where
  "to_v4 a = ucast a"

definition parse_octet :: "string \<Rightarrow> 8 word option" where
  "parse_octet p =
     (if p \<noteq> [] \<and> list_all is_digit p \<and> (hd p = CHR ''0'' \<longrightarrow> length p = 1) \<and> read_nat p \<le> 255
      then Some (of_nat (read_nat p)) else None)"

definition v4_of_octets :: "8 word \<Rightarrow> 8 word \<Rightarrow> 8 word \<Rightarrow> 8 word \<Rightarrow> 32 word" where
  "v4_of_octets a b c d =
     push_bit 24 (ucast a) OR push_bit 16 (ucast b) OR push_bit 8 (ucast c) OR ucast d"

definition parse_v4 :: "string \<Rightarrow> 32 word option" where
  "parse_v4 s =
     (case map parse_octet (split_on CHR ''.'' s) of
        [Some a, Some b, Some c, Some d] \<Rightarrow> Some (v4_of_octets a b c d)
      | _ \<Rightarrow> None)"

definition octet_at :: "nat \<Rightarrow> 32 word \<Rightarrow> nat" where
  "octet_at n w = unat (drop_bit (8 * n) w AND mask 8)"

definition show_v4 :: "32 word \<Rightarrow> string" where
  "show_v4 w = join_with CHR ''.'' (map (\<lambda>n. show_nat (octet_at n w)) [3, 2, 1, 0])"

definition hex_val :: "char \<Rightarrow> nat option" where
  "hex_val c = (if is_digit c then Some (digit_val c)
     else let n = of_char (lower_char c) in if 97 \<le> n \<and> n \<le> 102 then Some (n - 87) else None)"

definition parse_hex16 :: "string \<Rightarrow> 16 word option" where
  "parse_hex16 s =
     (if s \<noteq> [] \<and> length s \<le> 4 \<and> list_all (\<lambda>c. hex_val c \<noteq> None) s
      then Some (foldl (\<lambda>w c. 16 * w + of_nat (the (hex_val c))) 0 s) else None)"

text \<open>The fields of an IPv6 address; \<open>v4\<close> says whether the last one may be a dotted IPv4 address.\<close>

fun parse_fields :: "bool \<Rightarrow> string list \<Rightarrow> 16 word list option" where
  "parse_fields v4 [] = Some []"
| "parse_fields v4 [p] =
     (if v4 \<and> CHR ''.'' \<in> set p
      then (case parse_v4 p of None \<Rightarrow> None
            | Some w \<Rightarrow> Some [ucast (drop_bit 16 w), ucast w])
      else (case parse_hex16 p of None \<Rightarrow> None | Some g \<Rightarrow> Some [g]))"
| "parse_fields v4 (p # q # ps) =
     (case parse_hex16 p of
        None \<Rightarrow> None
      | Some g \<Rightarrow> (case parse_fields v4 (q # ps) of None \<Rightarrow> None | Some gs \<Rightarrow> Some (g # gs)))"

fun cut_ellipsis :: "string \<Rightarrow> (string \<times> string) option" where
  "cut_ellipsis (c # d # s) =
     (if c = CHR '':'' \<and> d = CHR '':'' then Some ([], s)
      else (case cut_ellipsis (d # s) of None \<Rightarrow> None | Some (a, b) \<Rightarrow> Some (c # a, b)))"
| "cut_ellipsis s = None"

definition fields_of :: "string \<Rightarrow> string list" where
  "fields_of s = (if s = [] then [] else split_on CHR '':'' s)"

definition word_of_groups :: "16 word list \<Rightarrow> ip" where
  "word_of_groups gs = foldl (\<lambda>acc g. push_bit 16 acc OR ucast g) 0 gs"

definition parse_v6 :: "string \<Rightarrow> ip option" where
  "parse_v6 s =
     (case cut_ellipsis s of
        None \<Rightarrow>
          (case parse_fields True (fields_of s) of
             None \<Rightarrow> None
           | Some gs \<Rightarrow> if length gs = 8 then Some (word_of_groups gs) else None)
      | Some (l, r) \<Rightarrow>
          (case (parse_fields False (fields_of l), parse_fields True (fields_of r)) of
             (Some gs, Some hs) \<Rightarrow>
               if length gs + length hs \<le> 7
               then Some (word_of_groups (gs @ replicate (8 - length gs - length hs) 0 @ hs)) else None
           | _ \<Rightarrow> None))"

text \<open>\<^verbatim>\<open>net.ParseIP\<close> takes the family from the first dot or colon.\<close>

definition parseIP :: "string \<Rightarrow> ip option" where
  "parseIP s =
     (case dropWhile (\<lambda>c. c \<noteq> CHR ''.'' \<and> c \<noteq> CHR '':'') s of
        [] \<Rightarrow> None
      | c # _ \<Rightarrow> if c = CHR ''.'' then map_option of_v4 (parse_v4 s) else parse_v6 s)"

definition groups_of :: "ip \<Rightarrow> 16 word list" where
  "groups_of a = map (\<lambda>i. ucast (drop_bit (16 * i) a)) (rev [0..<8])"

definition hex_digit :: "nat \<Rightarrow> char" where
  "hex_digit n = (if n < 10 then digit_char n else char_of (87 + n))"

fun show_hex :: "nat \<Rightarrow> string" where
  "show_hex n = (if n < 16 then [hex_digit n] else show_hex (n div 16) @ [hex_digit (n mod 16)])"

declare show_hex.simps [simp del]

text \<open>The first longest run of at least two zero groups is written as two colons.\<close>

definition longest_run :: "16 word list \<Rightarrow> nat \<times> nat" where
  "longest_run gs =
     foldl (\<lambda>(bi, bl) i. let l = length (takeWhile (\<lambda>g. g = 0) (drop i gs))
                         in if l > bl then (i, l) else (bi, bl)) (0, 1) [0..<8]"

definition show_groups :: "16 word list \<Rightarrow> string" where
  "show_groups gs = join_with CHR '':'' (map (\<lambda>g. show_hex (unat g)) gs)"

definition showIP :: "ip \<Rightarrow> string" where
  "showIP a =
     (if is_v4 a then show_v4 (to_v4 a)
      else let gs = groups_of a; (i, l) = longest_run gs
           in if l \<le> 1 then show_groups gs
              else show_groups (take i gs) @ ''::'' @ show_groups (drop (i + l) gs))"

section \<open>Networks\<close>

record network =
  nw_v4 :: bool
  nw_addr :: ip
  nw_bits :: nat

definition prefix4 :: "nat \<Rightarrow> 32 word" where
  "prefix4 n = NOT (mask (32 - n))"

definition prefix6 :: "nat \<Rightarrow> ip" where
  "prefix6 n = NOT (mask (128 - n))"

text \<open>\<^verbatim>\<open>IPNet.Contains\<close>: an IPv4 address is never in an IPv6 network, nor the other way round.\<close>

definition contains :: "network \<Rightarrow> ip \<Rightarrow> bool" where
  "contains n a =
     (if nw_v4 n
      then is_v4 a \<and> to_v4 (nw_addr n) AND prefix4 (nw_bits n) = to_v4 a AND prefix4 (nw_bits n)
      else \<not> is_v4 a \<and> nw_addr n AND prefix6 (nw_bits n) = a AND prefix6 (nw_bits n))"

definition containsIP :: "network list \<Rightarrow> ip \<Rightarrow> bool" where
  "containsIP nets a = list_ex (\<lambda>n. contains n a) nets"

text \<open>\<^verbatim>\<open>net.ParseCIDR\<close> of \<open>addr/bits\<close>.  A network written as an IPv6 one is an IPv4 network for
  \<^verbatim>\<open>Contains\<close> where its masked address is a mapped IPv4 address.\<close>

definition parseCIDR :: "string \<Rightarrow> network option" where
  "parseCIDR s =
     (case cut_at CHR ''/'' s of
        None \<Rightarrow> None
      | Some (addr, bits) \<Rightarrow>
          (case (parseIP addr, parse_digits bits) of
             (Some a, Some n) \<Rightarrow>
               if parse_v4 addr \<noteq> None
               then if n \<le> 32 then Some \<lparr>nw_v4 = True, nw_addr = a, nw_bits = nat n\<rparr> else None
               else if n > 128 then None
               else if is_v4 (a AND prefix6 (nat n))
               then Some \<lparr>nw_v4 = True, nw_addr = a, nw_bits = nat n - 96\<rparr>
               else Some \<lparr>nw_v4 = False, nw_addr = a, nw_bits = nat n\<rparr>
           | _ \<Rightarrow> None))"

fun parseProxies :: "string list \<Rightarrow> network list option" where
  "parseProxies [] = Some []"
| "parseProxies (value # values) =
     (let value = trim_space value;
          value = (case parseIP value of
                     None \<Rightarrow> value
                   | Some a \<Rightarrow> value @ CHR ''/'' # show_nat (if is_v4 a then 32 else 128))
      in case parseCIDR value of
           None \<Rightarrow> None
         | Some n \<Rightarrow> (case parseProxies values of None \<Rightarrow> None | Some ns \<Rightarrow> Some (n # ns)))"

definition parseTrustedProxies :: "string \<Rightarrow> network list option" where
  "parseTrustedProxies raw =
     (if trim_space raw = [] then Some [] else parseProxies (split_on CHR '','' raw))"

section \<open>The client of a request\<close>

text \<open>\<^verbatim>\<open>net.SplitHostPort\<close>; \<^const>\<open>None\<close> for its errors.\<close>

definition last_colon :: "string \<Rightarrow> nat option" where
  "last_colon s =
     (if CHR '':'' \<in> set s then Some (length s - 1 - length (takeWhile (\<lambda>c. c \<noteq> CHR '':'') (rev s)))
      else None)"

definition splitHostPort :: "string \<Rightarrow> (string \<times> string) option" where
  "splitHostPort s =
     (case last_colon s of
        None \<Rightarrow> None
      | Some i \<Rightarrow>
          (if has_prefix ''['' s
           then (let e = length (takeWhile (\<lambda>c. c \<noteq> CHR '']'') s)
                 in if e = length s \<or> e + 1 \<noteq> i then None
                    else if CHR ''['' \<in> set (drop 1 s) \<or> CHR '']'' \<in> set (drop (e + 1) s) then None
                    else Some (take (e - 1) (drop 1 s), drop (i + 1) s))
           else if CHR '':'' \<in> set (take i s) \<or> CHR ''['' \<in> set s \<or> CHR '']'' \<in> set s then None
           else Some (take i s, drop (i + 1) s)))"

fun parse_chain :: "string list \<Rightarrow> ip list option" where
  "parse_chain [] = Some []"
| "parse_chain (v # vs) =
     (case parseIP (trim_space v) of
        None \<Rightarrow> None
      | Some a \<Rightarrow> (case parse_chain vs of None \<Rightarrow> None | Some as \<Rightarrow> Some (a # as)))"

text \<open>The loop from the right: the first address that is no trusted proxy.\<close>

fun last_untrusted :: "network list \<Rightarrow> ip list \<Rightarrow> ip option" where
  "last_untrusted nets [] = None"
| "last_untrusted nets (a # as) =
     (case last_untrusted nets as of
        Some b \<Rightarrow> Some b
      | None \<Rightarrow> if containsIP nets a then None else Some a)"

definition peerHost :: "request \<Rightarrow> string" where
  "peerHost r = (case splitHostPort (rq_remote r) of None \<Rightarrow> rq_remote r | Some (h, _) \<Rightarrow> h)"

definition clientIP :: "network list \<Rightarrow> request \<Rightarrow> string" where
  "clientIP nets r =
     (let host = peerHost r
      in case parseIP host of
           None \<Rightarrow> host
         | Some peer \<Rightarrow>
             if \<not> containsIP nets peer then host
             else let values = split_on CHR '','' (rq_header r ''X-Forwarded-For'')
             in if length values > 20 \<or> trim_space (hd values) = [] then host
                else (case parse_chain values of
                        None \<Rightarrow> host
                      | Some chain \<Rightarrow>
                          (case last_untrusted nets chain of
                             Some a \<Rightarrow> showIP a
                           | None \<Rightarrow> showIP (hd chain))))"

section \<open>Facts\<close>

lemma last_untrusted_append:
  "last_untrusted nets (as @ bs) =
     (case last_untrusted nets bs of Some b \<Rightarrow> Some b | None \<Rightarrow> last_untrusted nets as)"
  by (induction as) (auto split: option.splits)

lemma parse_chain_append:
  "parse_chain (vs @ ws) =
     (case parse_chain vs of None \<Rightarrow> None
      | Some as \<Rightarrow> (case parse_chain ws of None \<Rightarrow> None | Some bs \<Rightarrow> Some (as @ bs)))"
  by (induction vs) (auto split: option.splits)

lemma split_on_append_sep: "split_on c (s @ c # t) = split_on c s @ split_on c t"
  by (induction s) (auto split: list.splits)

lemma show_nat_hd: "0 < n \<Longrightarrow> hd (show_nat n) \<noteq> CHR ''0''"
proof (induction n rule: show_nat.induct)
  case (1 n)
  show ?case
  proof (cases "n < 10")
    case True
    have "(of_char (digit_char n) :: nat) = 48 + n" using True by simp
    then have "digit_char n \<noteq> CHR ''0''" using 1 by auto
    then show ?thesis using True by (subst show_nat.simps) simp
  next
    case False
    with 1 have "hd (show_nat (n div 10)) \<noteq> CHR ''0''" by simp
    with False show ?thesis by (subst show_nat.simps) simp
  qed
qed

lemma show_nat_leading: "hd (show_nat n) = CHR ''0'' \<Longrightarrow> length (show_nat n) = 1"
proof (cases "n = 0")
  case True
  then show ?thesis by (simp add: show_nat.simps)
qed (simp add: show_nat_hd)

lemma parse_octet_show: "n \<le> 255 \<Longrightarrow> parse_octet (show_nat n) = Some (of_nat n)"
  by (simp add: parse_octet_def show_nat_digits show_nat_leading)

lemma octet_at_le: "octet_at n w \<le> 255"
proof -
  have "drop_bit (8 * n) w AND mask 8 \<le> mask 8" by (rule word_and_le1)
  then show ?thesis unfolding octet_at_def word_le_nat_alt by (simp add: mask_eq_exp_minus_1)
qed

lemma octets_word:
  "v4_of_octets (of_nat (octet_at 3 w)) (of_nat (octet_at 2 w)) (of_nat (octet_at 1 w)) (of_nat (octet_at 0 w)) = w"
proof -
  have o: "(of_nat (octet_at n w) :: 8 word) = ucast (drop_bit (8 * n) w)" for n
  proof (rule bit_word_eqI)
    fix k assume k: "k < LENGTH(8)"
    have "(of_nat (octet_at n w) :: 8 word) = ucast (drop_bit (8 * n) w AND mask 8)"
      by (simp add: octet_at_def unsigned_ucast_eq)
    then show "bit (of_nat (octet_at n w) :: 8 word) k = bit (ucast (drop_bit (8 * n) w) :: 8 word) k"
      using k by (simp add: bit_simps)
  qed
  show ?thesis
    unfolding v4_of_octets_def o
  proof (rule bit_word_eqI)
    fix n assume n: "n < LENGTH(32)"
    consider "n < 8" | "8 \<le> n" "n < 16" | "16 \<le> n" "n < 24" | "24 \<le> n" by linarith
    then show "bit (push_bit 24 ((ucast (ucast (drop_bit (8 * 3) w) :: 8 word) :: 32 word)) OR
        push_bit 16 ((ucast (ucast (drop_bit (8 * 2) w) :: 8 word) :: 32 word)) OR
        push_bit 8 ((ucast (ucast (drop_bit (8 * 1) w) :: 8 word) :: 32 word)) OR
        (ucast (ucast (drop_bit (8 * 0) w) :: 8 word) :: 32 word)) n = bit w n"
      using n by cases (auto simp: bit_simps)
  qed
qed

lemma parse_show_v4: "parse_v4 (show_v4 w) = Some w"
proof -
  have dots: "CHR ''.'' \<notin> set (show_nat n)" for n
    using show_nat_digits [of n] by (auto simp: list_all_iff is_digit_def Let_def)
  have "split_on CHR ''.'' (show_v4 w) = map (\<lambda>n. show_nat (octet_at n w)) [3, 2, 1, 0]"
    unfolding show_v4_def by (rule split_join) (auto simp: dots)
  then show ?thesis
    using octets_word [of w] by (simp add: parse_v4_def parse_octet_show octet_at_le)
qed

lemma octet_digits: "c \<in> set (show_v4 w) \<Longrightarrow> is_digit c \<or> c = CHR ''.''"
  using show_nat_digits by (auto simp: show_v4_def list_all_iff)

lemma show_v4_no_space: "\<forall>c \<in> set (show_v4 w). \<not> is_space c"
  using octet_digits by (fastforce simp: is_digit_def is_space_def Let_def)

lemma parseIP_show_v4: "parseIP (show_v4 w) = Some (of_v4 w)"
proof -
  have dot: "CHR ''.'' \<in> set (show_v4 w)" by (simp add: show_v4_def)
  have colon: "CHR '':'' \<notin> set (show_v4 w)" using octet_digits [of "CHR '':''" w] by (auto simp: is_digit_def)
  let ?d = "dropWhile (\<lambda>c. c \<noteq> CHR ''.'' \<and> c \<noteq> CHR '':'') (show_v4 w)"
  have ne: "?d \<noteq> []" using dot by (auto simp: dropWhile_eq_Nil_conv)
  have "hd ?d \<in> set (show_v4 w)"
    by (rule set_dropWhileD [of _ "\<lambda>c. c \<noteq> CHR ''.'' \<and> c \<noteq> CHR '':''"]) (use ne in simp)
  with hd_dropWhile [OF ne] colon have "hd ?d = CHR ''.''" by metis
  with ne obtain t where "?d = CHR ''.'' # t" by (cases ?d) auto
  then show ?thesis by (simp add: parseIP_def parse_show_v4)
qed

lemma to_of_v4 [simp]: "to_v4 (of_v4 w) = w"
  unfolding to_v4_def of_v4_def by (rule bit_word_eqI) (auto simp: bit_simps)

lemma is_v4_of_v4 [simp]: "is_v4 (of_v4 w)"
  unfolding is_v4_def of_v4_def
  by (rule bit_word_eqI) (auto simp: bit_simps dest: bit_imp_le_length)

section \<open>Properties\<close>

text \<open>An IPv4 address survives printing and parsing, so the address a request is attributed to and
  the text it is stored under determine each other.\<close>

theorem ipv4_roundtrip: "parseIP (showIP (of_v4 w)) = Some (of_v4 w)"
  by (simp add: showIP_def parseIP_show_v4)

text \<open>A peer that is no trusted proxy cannot choose its address: whatever headers it sends, the
  request is attributed to the peer's own address.\<close>

theorem untrusted_peer_not_forwarded:
  assumes "\<forall>a. parseIP (peerHost r) = Some a \<longrightarrow> \<not> containsIP nets a"
  shows "clientIP nets (r\<lparr>rq_header := h\<rparr>) = peerHost r"
  using assms by (auto simp: clientIP_def peerHost_def Let_def split: option.split)

text \<open>C15: behind a trusted proxy the client cannot choose its address either: with any text \<open>spoof\<close> sent
  by the client in front of what the proxies append, the request is attributed to the last address
  of the appended part that is no proxy, or to the proxy itself.\<close>

theorem forwarded_suffix_decides:
  assumes "parse_chain (split_on CHR '','' appended) = Some chain"
    and "last_untrusted nets chain = Some a"
    and "rq_header r ''X-Forwarded-For'' = spoof @ CHR '','' # appended"
  shows "clientIP nets r = showIP a \<or> clientIP nets r = peerHost r"
  using assms
  by (auto simp: clientIP_def Let_def split_on_append_sep parse_chain_append last_untrusted_append
      split: option.split)

definition proxy_net :: network where
  "proxy_net = \<lparr>nw_v4 = True, nw_addr = of_v4 0x0A000000, nw_bits = 8\<rparr>"

definition forwarded :: "string \<Rightarrow> string \<Rightarrow> request" where
  "forwarded peer chain =
     \<lparr>rq_method = ''POST'', rq_path = (\<lambda>k. []), rq_query = (\<lambda>k. []),
      rq_header = (\<lambda>k. if k = ''X-Forwarded-For'' then chain else []),
      rq_cookie = (\<lambda>k. None), rq_remote = peer\<rparr>"

lemma untrusted_peer_not_forwarded_witness:
  "clientIP [proxy_net] (forwarded ''198.51.100.7:5000'' ''1.1.1.1'') = ''198.51.100.7''"
proof -
  have peer: "parseIP ''198.51.100.7'' = Some (of_v4 0xC6336407)"
    and out: "\<not> containsIP [proxy_net] (of_v4 0xC6336407)"
    and host: "peerHost (forwarded ''198.51.100.7:5000'' []) = ''198.51.100.7''"
    by code_simp+
  have "clientIP [proxy_net] ((forwarded ''198.51.100.7:5000'' [])\<lparr>rq_header :=
      (\<lambda>k. if k = ''X-Forwarded-For'' then ''1.1.1.1'' else [])\<rparr>) = ''198.51.100.7''"
    by (subst untrusted_peer_not_forwarded) (simp_all add: peer out host)
  then show ?thesis by (simp add: forwarded_def)
qed

lemma forwarded_suffix_decides_witness:
  "clientIP [proxy_net] (forwarded ''10.1.2.3:443'' ''1.1.1.1,203.0.113.9, 10.0.0.2'') = ''203.0.113.9''"
proof -
  have c: "parse_chain (split_on CHR '','' ''203.0.113.9, 10.0.0.2'') = Some [of_v4 0xCB007109, of_v4 0x0A000002]"
    and u: "last_untrusted [proxy_net] [of_v4 0xCB007109, of_v4 0x0A000002] = Some (of_v4 0xCB007109)"
    and other: "clientIP [proxy_net] (forwarded ''10.1.2.3:443'' ''1.1.1.1,203.0.113.9, 10.0.0.2'') \<noteq>
      peerHost (forwarded ''10.1.2.3:443'' ''1.1.1.1,203.0.113.9, 10.0.0.2'')"
    and sh: "showIP (of_v4 0xCB007109) = ''203.0.113.9''"
    by code_simp+
  have "rq_header (forwarded ''10.1.2.3:443'' ''1.1.1.1,203.0.113.9, 10.0.0.2'') ''X-Forwarded-For'' =
      ''1.1.1.1'' @ CHR '','' # ''203.0.113.9, 10.0.0.2''"
    by (simp add: forwarded_def)
  from forwarded_suffix_decides [OF c u this] other sh show ?thesis by argo
qed

lemma is_v4_unique: "is_v4 a \<Longrightarrow> to_v4 a = w \<Longrightarrow> a = of_v4 w"
proof (rule bit_word_eqI)
  fix n assume v4: "is_v4 a" and w: "to_v4 a = w" and n: "n < LENGTH(128)"
  show "bit a n = bit (of_v4 w) n"
  proof (cases "n < 32")
    case True
    then have "bit (of_v4 w) n = bit w n" by (simp add: of_v4_def bit_simps)
    also have "\<dots> = bit a n" using True by (simp add: w [symmetric] to_v4_def bit_simps)
    finally show ?thesis ..
  next
    case False
    have "bit a n = bit (drop_bit 32 a) (n - 32)" using False by (simp add: bit_simps)
    also have "\<dots> = (n - 32 < 16)" using v4 n by (auto simp: is_v4_def bit_simps)
    also have "\<dots> = bit (of_v4 w) n"
      using False n by (auto simp: of_v4_def bit_simps dest: bit_imp_le_length)
    finally show ?thesis .
  qed
qed

text \<open>A single IPv4 address in the list of trusted proxies trusts exactly that address.\<close>

theorem trusted_address_exact:
  "\<exists>nets. parseTrustedProxies (show_v4 w) = Some nets \<and> (\<forall>a. containsIP nets a \<longleftrightarrow> a = of_v4 w)"
proof -
  have comma: "CHR '','' \<notin> set (show_v4 w)" and slash: "CHR ''/'' \<notin> set (show_v4 w)"
    using octet_digits [of "CHR '',''" w] octet_digits [of "CHR ''/''" w] by (auto simp: is_digit_def)
  have trim: "trim_space (show_v4 w) = show_v4 w" by (rule trim_space_id [OF show_v4_no_space])
  have ne: "show_v4 w \<noteq> []" by (simp add: show_v4_def)
  have "cut_at CHR ''/'' (show_v4 w @ CHR ''/'' # show_nat 32) = Some (show_v4 w, show_nat 32)"
    by (rule cut_at_append [OF slash])
  then have cidr: "parseCIDR (show_v4 w @ CHR ''/'' # show_nat 32) =
      Some \<lparr>nw_v4 = True, nw_addr = of_v4 w, nw_bits = 32\<rparr>"
    by (simp add: parseCIDR_def parseIP_show_v4 parse_show_v4)
  have "parseTrustedProxies (show_v4 w) = Some [\<lparr>nw_v4 = True, nw_addr = of_v4 w, nw_bits = 32\<rparr>]"
    by (simp add: parseTrustedProxies_def trim ne comma parseIP_show_v4 cidr)
  moreover have "containsIP [\<lparr>nw_v4 = True, nw_addr = of_v4 w, nw_bits = 32\<rparr>] a \<longleftrightarrow> a = of_v4 w" for a
    using is_v4_unique [of a w] by (auto simp: containsIP_def contains_def prefix4_def)
  ultimately show ?thesis by blast
qed

text \<open>An IPv4 address written in its mapped IPv6 form trusts something else: the prefix of 32 bits
  is applied to the IPv6 form, so the address itself stays untrusted and the IPv6 loopback address
  is trusted.\<close>

theorem mapped_proxy_not_trusted:
  "\<exists>nets. parseTrustedProxies ''::ffff:10.0.0.1'' = Some nets \<and>
     parseIP ''10.0.0.1'' = parseIP ''::ffff:10.0.0.1'' \<and>
     \<not> containsIP nets (the (parseIP ''10.0.0.1'')) \<and> containsIP nets (the (parseIP ''::1''))"
proof -
  let ?nets = "[\<lparr>nw_v4 = False, nw_addr = of_v4 0x0A000001, nw_bits = 32\<rparr>]"
  have "parseTrustedProxies ''::ffff:10.0.0.1'' = Some ?nets" by code_simp
  moreover have "parseIP ''10.0.0.1'' = parseIP ''::ffff:10.0.0.1''" by code_simp
  moreover have "\<not> containsIP ?nets (the (parseIP ''10.0.0.1''))" by code_simp
  moreover have "containsIP ?nets (the (parseIP ''::1''))" by code_simp
  ultimately show ?thesis by (intro exI [of _ ?nets] conjI)
qed

end
