(* ===== verification/Auth.thy ===== *)
theory Auth
  imports Tables ClientIP
begin

text \<open>
  Sign-in (\<^verbatim>\<open>internal/app/auth.go\<close>, \<^verbatim>\<open>auth_validation.go\<close>, \<^verbatim>\<open>verificationURL\<close> and \<^verbatim>\<open>SendVerification\<close> of
  mail.go): the checks on addresses and passwords, sessions in Redis, the attempt counters, signing
  up, verifying an address, signing in and out.
\<close>

section \<open>Validation\<close>

definition normalizeEmail :: "env \<Rightarrow> string \<Rightarrow> string option" where
  "normalizeEmail e raw =
     (let value = to_lower (trim_space raw)
      in if length value < 3 \<or> length value > 254 \<or> \<not> valid_utf8 value then None
         else case e_address e value of
                None \<Rightarrow> None
              | Some a \<Rightarrow> if a \<noteq> value \<or> CHR ''@'' \<notin> set value then None else Some value)"

definition rune_is :: "env \<Rightarrow> (string \<Rightarrow> bool) \<Rightarrow> nat option \<Rightarrow> bool" where
  "rune_is e p r = (case r of None \<Rightarrow> False | Some n \<Rightarrow> p (e_category e n))"

text \<open>\<^const>\<open>None\<close> for a strong password, else the error.\<close>

definition strongPassword :: "env \<Rightarrow> string \<Rightarrow> string option" where
  "strongPassword e value =
     (if length value < 10 \<or> length value > 72 \<or> \<not> valid_utf8 value
      then Some ''password must be 10-72 bytes''
      else if list_ex (rune_is e (\<lambda>c. c = ''Ll'')) (runes value) \<and>
              list_ex (rune_is e (\<lambda>c. c = ''Lu'')) (runes value) \<and>
              list_ex (rune_is e (\<lambda>c. c = ''Nd'')) (runes value) \<and>
              list_ex (rune_is e (\<lambda>c. has_prefix ''P'' c \<or> has_prefix ''S'' c)) (runes value)
      then None
      else Some ''password must include uppercase, lowercase, number, and symbol'')"

section \<open>Sessions\<close>

definition sessionToken :: "request \<Rightarrow> string" where
  "sessionToken r =
     (let h = rq_header r ''Authorization''
      in if has_prefix ''Bearer '' h then trim_prefix ''Bearer '' h
         else case rq_cookie r ''nexus_session'' of
                Some v \<Rightarrow> v
              | None \<Rightarrow> (case rq_cookie r ''ccmp_session'' of Some v \<Rightarrow> v | None \<Rightarrow> []))"

definition session_key :: "env \<Rightarrow> string \<Rightarrow> string" where
  "session_key e token = ''session:'' @ e_digest e token"

definition user_of :: "db \<Rightarrow> user_row \<Rightarrow> user option" where
  "user_of d x =
     (case ws_by_id d (us_ws x) of
        None \<Rightarrow> None
      | Some s \<Rightarrow> Some \<lparr>u_id = us_id x, u_ws = us_ws x, u_wsname = ws_name s, u_name = us_name x,
                       u_email = us_email x, u_role = us_role x, u_owner = us_owner x,
                       u_version = us_version x\<rparr>)"

definition stored_session :: "time \<Rightarrow> string \<Rightarrow> redis \<Rightarrow> session option" where
  "stored_session now key red =
     (case rget now key red of Some (RSession s) \<Rightarrow> Some s | _ \<Rightarrow> None)"

definition auth :: "env \<Rightarrow> request \<Rightarrow> world \<Rightarrow> resp + user" where
  "auth e r w =
     (let token = sessionToken r
      in if token = [] then Inl (problem 401 ''Sign in to continue'')
         else case (if e_fault e 0 then None
                    else stored_session (e_now e) (session_key e token) (w_redis w)) of
           None \<Rightarrow> Inl (problem 401 ''Session expired; sign in again'')
         | Some s \<Rightarrow>
             (case (if e_fault e 1 then None else user_by_id (w_db w) (ss_user s)) of
                None \<Rightarrow> Inl (problem 401 ''Session expired; sign in again'')
              | Some x \<Rightarrow>
                  (case user_of (w_db w) x of
                     None \<Rightarrow> Inl (problem 401 ''Session expired; sign in again'')
                   | Some u \<Rightarrow>
                       if u_version u \<noteq> ss_version s
                       then Inl (problem 401 ''Session expired; sign in again'') else Inr u)))"

definition user_json :: "user \<Rightarrow> json" where
  "user_json u = JObj [(''id'', JInt (u_id u)), (''workspace'', JStr (u_wsname u)),
     (''username'', JStr (u_name u)), (''email'', JStr (u_email u)), (''role'', JStr (u_role u)),
     (''is_owner'', JBool (u_owner u))]"

definition session_of :: "user \<Rightarrow> session" where
  "session_of u = \<lparr>ss_user = u_id u, ss_version = u_version u, ss_provider = [], ss_protocol = [], ss_subject = []\<rparr>"

definition establishSession :: "env \<Rightarrow> nat \<Rightarrow> string \<Rightarrow> user \<Rightarrow> world \<Rightarrow> bool \<times> world" where
  "establishSession e i token u w =
     (if e_fault e i then (False, w)
      else (True, with_redis w
              (rset (e_now e) 43200 (session_key e token) (RSession (session_of u)) (w_redis w))))"

definition startSession :: "env \<Rightarrow> nat \<Rightarrow> string \<Rightarrow> user \<Rightarrow> string \<Rightarrow> world \<Rightarrow> resp \<times> world" where
  "startSession e i token u action w =
     (case establishSession e i token u w of
        (False, w1) \<Rightarrow> (problem 503 ''Authentication service unavailable'', w1)
      | (True, w1) \<Rightarrow>
          ((reply 200 (JObj [(''user'', user_json u), (''token'', JStr token), (''expires_in'', JInt 43200)]))
             \<lparr>rs_cookies := [(''nexus_session'', token, 43200)]\<rparr>,
           snd (rcd e (i + 1) w1 (u_ws u) (u_id u) (u_name u) action [] JNull)))"

section \<open>Attempt counters\<close>

definition attempt_key :: "env \<Rightarrow> network list \<Rightarrow> string \<Rightarrow> request \<Rightarrow> string" where
  "attempt_key e nets kind r = kind @ '':'' @ e_digest e (clientIP nets r)"

definition allowAttempt ::
    "env \<Rightarrow> nat \<Rightarrow> network list \<Rightarrow> request \<Rightarrow> string \<Rightarrow> int \<Rightarrow> world \<Rightarrow> bool \<times> world" where
  "allowAttempt e i nets r kind limit w =
     (case (if e_fault e i then None
            else rincr_window (e_now e) 300 (attempt_key e nets kind r) (w_redis w)) of
        None \<Rightarrow> (False, w)
      | Some (n, red) \<Rightarrow> (n \<le> limit, with_redis w red))"

definition too_many :: "string \<Rightarrow> resp" where
  "too_many msg = (problem 429 msg)\<lparr>rs_retry := ''300''\<rparr>"

section \<open>Signing in\<close>

record login_input =
  li_email :: string
  li_password :: string

definition dummy_hash :: string where
  "dummy_hash = ''$2a$10$7EqJtq98hPqEX7fNZaFWoO5uTktUvMlPtVeziJo.Wu0cnP7eCFUXW''"

definition user_by_email :: "db \<Rightarrow> string \<Rightarrow> user_row option" where
  "user_by_email d email = find (\<lambda>x. to_lower (us_email x) = email) (d_users d)"

text \<open>The row of the sign-in query: the user joined with its workspace.\<close>

definition login_row :: "env \<Rightarrow> db \<Rightarrow> string \<Rightarrow> (user_row \<times> user \<times> bool) option" where
  "login_row e d raw =
     (case normalizeEmail e raw of
        None \<Rightarrow> None
      | Some email \<Rightarrow>
          if e_fault e 1 then None
          else case user_by_email d email of
            None \<Rightarrow> None
          | Some x \<Rightarrow> (case (user_of d x, ws_by_id d (us_ws x)) of
              (Some u, Some s) \<Rightarrow> Some (x, u, ws_sso_required s) | _ \<Rightarrow> None))"

definition login ::
    "env \<Rightarrow> network list \<Rightarrow> request \<Rightarrow> login_input body \<Rightarrow> world \<Rightarrow> resp \<times> world" where
  "login e nets r b w =
     (case (if e_fault e 0 then None
            else rincr_window (e_now e) 300 (attempt_key e nets ''login'' r) (w_redis w)) of
        None \<Rightarrow> (problem 503 ''Authentication service unavailable'', w)
      | Some (n, red) \<Rightarrow>
          let w = with_redis w red
          in if n > 20 then (too_many ''Too many attempts; try again in five minutes'', w)
             else case decode r b of
               Inl p \<Rightarrow> (p, w)
             | Inr inp \<Rightarrow>
                 (case login_row e (w_db w) (li_email inp) of
                    None \<Rightarrow> (problem 401 ''Invalid email or password'', w)
                  | Some (x, u, sso_required) \<Rightarrow>
                      if \<not> e_check e (us_hash x) (li_password inp)
                      then (problem 401 ''Invalid email or password'', w)
                      else if \<not> us_verified x
                      then (problem 403 ''Verify your email before signing in'', w)
                      else if sso_required \<and> \<not> u_owner u
                      then (problem 403
                        ''This workspace requires SSO; use its identity provider to sign in'', w)
                      else startSession e 2 (e_token e 0) u ''auth.login'' w))"

section \<open>Mail\<close>

definition hex_upper :: "nat \<Rightarrow> char" where
  "hex_upper n = (if n < 10 then digit_char n else char_of (55 + n))"

definition query_escape :: "string \<Rightarrow> string" where
  "query_escape s = concat (map (\<lambda>c.
     if is_lower c \<or> is_upper c \<or> is_digit c \<or> c \<in> {CHR ''-'', CHR ''_'', CHR ''.'', CHR ''~''} then [c]
     else if c = CHR '' '' then ''+''
     else [CHR ''%'', hex_upper (of_char c div 16), hex_upper (of_char c mod 16)]) s)"

definition verificationURL :: "string \<Rightarrow> string \<Rightarrow> string" where
  "verificationURL origin token = origin @ ''/verify-email?token='' @ query_escape token"

definition sendVerification :: "env \<Rightarrow> nat \<Rightarrow> string \<Rightarrow> string \<Rightarrow> string \<Rightarrow> world \<Rightarrow> bool \<times> world" where
  "sendVerification e i to username url w =
     (case e_address e to of
        None \<Rightarrow> (False, w)
      | Some a \<Rightarrow>
          if \<not> equal_fold a to \<or> e_fault e i then (False, w)
          else (True, w\<lparr>w_mail := w_mail w @ [(a, username, url)]\<rparr>))"

text \<open>A fresh token: earlier ones are used up, the new one is stored, then mailed.\<close>

definition renew_token :: "env \<Rightarrow> nat \<Rightarrow> string \<Rightarrow> int \<Rightarrow> world \<Rightarrow> bool \<times> world" where
  "renew_token e i token uid w =
     (if e_fault e i then (False, w)
      else let w1 = with_db w (use_tokens (w_db w) uid)
           in case (if e_fault e (i + 1) then None
                    else insert_token (w_db w1) uid (e_digest e token) (e_now e + 86400)) of
                None \<Rightarrow> (False, w1)
              | Some d \<Rightarrow> (True, with_db w1 d))"

definition sendNewVerification ::
    "env \<Rightarrow> nat \<Rightarrow> string \<Rightarrow> int \<Rightarrow> string \<Rightarrow> string \<Rightarrow> world \<Rightarrow> bool \<times> world" where
  "sendNewVerification e i token uid email username w =
     (case renew_token e i token uid w of
        (False, w1) \<Rightarrow> (False, w1)
      | (True, w1) \<Rightarrow> sendVerification e (i + 2) email username (verificationURL (e_origin e) token) w1)"

section \<open>Signing up\<close>

record signup_input =
  sp_workspace :: string
  sp_username :: string
  sp_email :: string
  sp_password :: string

text \<open>The transaction: workspace (with its built-in roles), owner, settings, verification token.\<close>

definition signupTx ::
    "env \<Rightarrow> string \<Rightarrow> string \<Rightarrow> string \<Rightarrow> string \<Rightarrow> db \<Rightarrow> (int \<times> int \<times> db) option" where
  "signupTx e workspace username email hash d =
     (if e_fault e 2 then None
      else case insert_workspace d workspace (''ws-'' @ take 12 (e_digest e (e_token e 0))) of
        None \<Rightarrow> None
      | Some (ws, d1) \<Rightarrow>
          if e_fault e 3 then None
          else case insert_user d1 ws username email False hash ''admin'' True of
            None \<Rightarrow> None
          | Some (uid, d2) \<Rightarrow>
              if e_fault e 4 then None
              else case insert_settings d2 ws of
                None \<Rightarrow> None
              | Some d3 \<Rightarrow>
                  if e_fault e 5 then None
                  else case insert_token d3 uid (e_digest e (e_token e 1)) (e_now e + 86400) of
                    None \<Rightarrow> None
                  | Some d4 \<Rightarrow> if e_fault e 6 then None else Some (ws, uid, d4))"

definition signup ::
    "env \<Rightarrow> network list \<Rightarrow> request \<Rightarrow> signup_input body \<Rightarrow> world \<Rightarrow> resp \<times> world" where
  "signup e nets r b w =
     (case allowAttempt e 0 nets r ''signup'' 10 w of
        (False, w) \<Rightarrow> (too_many ''Too many sign-up attempts; try again in five minutes'', w)
      | (True, w) \<Rightarrow>
          (case decode r b of
             Inl p \<Rightarrow> (p, w)
           | Inr inp \<Rightarrow>
               let workspace = trim_space (sp_workspace inp);
                   username = trim_space (sp_username inp)
               in if rune_count workspace < 2 \<or> rune_count workspace > 100
                  then (fieldProblem 400 ''Workspace name must be 2-100 characters'' ''workspace'', w)
                  else if rune_count username < 3 \<or> rune_count username > 100
                  then (fieldProblem 400 ''Owner username must be 3-100 characters'' ''username'', w)
                  else case normalizeEmail e (sp_email inp) of
                    None \<Rightarrow> (fieldProblem 400 ''Enter a valid email address'' ''email'', w)
                  | Some email \<Rightarrow>
                      (case strongPassword e (sp_password inp) of
                         Some err \<Rightarrow> (fieldProblem 400 err ''password'', w)
                       | None \<Rightarrow>
                           if e_fault e 1 then (problem 503 ''Account service unavailable'', w)
                           else case signupTx e workspace username email
                                       (e_hash e (sp_password inp)) (w_db w) of
                             None \<Rightarrow> (problem 409 ''Email or username is already in use'', w)
                           | Some (ws, uid, d) \<Rightarrow>
                               let w1 = snd (rcd e 7 (with_db w d) ws uid username ''workspace.created''
                                          (''ws-'' @ take 12 (e_digest e (e_token e 0)))
                                          (JObj [(''name'', JStr workspace)]))
                               in case sendVerification e 8 email username
                                        (verificationURL (e_origin e) (e_token e 1)) w1 of
                                    (False, w2) \<Rightarrow> (problem 503 ''Account created, but the verification email could not be sent; use resend verification'', w2)
                                  | (True, w2) \<Rightarrow>
                                      (reply 202 (JObj [(''verification_required'', JBool True),
                                         (''message'', JStr ''Check your email to verify your account'')]), w2))))"

definition resendVerification ::
    "env \<Rightarrow> network list \<Rightarrow> request \<Rightarrow> string body \<Rightarrow> world \<Rightarrow> resp \<times> world" where
  "resendVerification e nets r b w =
     (case allowAttempt e 0 nets r ''resend-verification'' 5 w of
        (False, w) \<Rightarrow> (too_many ''Too many requests; try again in five minutes'', w)
      | (True, w) \<Rightarrow>
          (case decode r b of
             Inl p \<Rightarrow> (p, w)
           | Inr raw \<Rightarrow>
               (reply 202 (JObj [(''message'', JStr ''If that address has an unverified account, a new verification email has been sent'')]),
                case normalizeEmail e raw of
                  None \<Rightarrow> w
                | Some email \<Rightarrow>
                    (case (if e_fault e 1 then None else user_by_email (w_db w) email) of
                       None \<Rightarrow> w
                     | Some x \<Rightarrow>
                         if us_verified x then w
                         else snd (sendNewVerification e 2 (e_token e 0) (us_id x) email (us_name x) w)))))"

definition live_token :: "time \<Rightarrow> string \<Rightarrow> token_row \<Rightarrow> bool" where
  "live_token now digest t \<longleftrightarrow> tk_digest t = digest \<and> \<not> tk_used t \<and> tk_expires t > now"

definition verify_failed :: resp where
  "verify_failed = redirect 303 ''/?verification=invalid''"

definition verifyEmail :: "env \<Rightarrow> request \<Rightarrow> world \<Rightarrow> resp \<times> world" where
  "verifyEmail e r w =
     (let token = trim_space (rq_query r ''token'')
      in if token = [] \<or> e_fault e 0 \<or> e_fault e 1 then (verify_failed, w)
         else case find (live_token (e_now e) (e_digest e token)) (d_tokens (w_db w)) of
           None \<Rightarrow> (verify_failed, w)
         | Some t \<Rightarrow>
             (case user_by_id (w_db w) (tk_user t) of
                None \<Rightarrow> (verify_failed, w)
              | Some x \<Rightarrow>
                  if e_fault e 2 \<or> e_fault e 3 \<or> e_fault e 4 then (verify_failed, w)
                  else (redirect 303 ''/?verification=success'',
                        snd (rcd e 5 (with_db w (use_tokens (verify_user (w_db w) (us_id x)) (us_id x)))
                          (us_ws x) (us_id x) (us_name x) ''auth.email_verified'' (show_int (tk_id t)) JNull))))"

section \<open>Signing out\<close>

definition no_session :: session where
  "no_session = \<lparr>ss_user = 0, ss_version = 0, ss_provider = [], ss_protocol = [], ss_subject = []\<rparr>"

text \<open>\<open>sso_url\<close> is \<^verbatim>\<open>ssoLogoutURL\<close>, the address of the identity provider's logout (empty for none,
  \<^const>\<open>None\<close> where it panics).\<close>

definition logout ::
    "(session \<Rightarrow> world \<Rightarrow> string option \<times> world) \<Rightarrow> env \<Rightarrow> request \<Rightarrow> world \<Rightarrow> resp \<times> world" where
  "logout sso_url e r w =
     (let key = session_key e (sessionToken r);
          s = (if e_fault e 0 then no_session
               else case stored_session (e_now e) key (w_redis w) of None \<Rightarrow> no_session | Some s \<Rightarrow> s)
      in if e_fault e 1 then (problem 503 ''Could not revoke session'', w)
         else case sso_url s (with_redis w (rdel key (w_redis w))) of
           (None, w1) \<Rightarrow> (panicked, w1)
         | (Some url, w1) \<Rightarrow>
             ((reply 200 (JObj ([(''ok'', JBool True)] @
                 (if url = [] then [] else [(''redirect_url'', JStr url)]))))
                \<lparr>rs_cookies := [(''nexus_session'', [], -1), (''ccmp_session'', [], -1)]\<rparr>, w1))"

end
