(* ===== verification/Policy.thy ===== *)
theory Policy
  imports Store
begin

text \<open>
  The policy engine (\<^verbatim>\<open>internal/app/policy.go\<close>) and the account selection of a request
  (\<^verbatim>\<open>requestedAccountIDs\<close>, auth.go).

  The engine answers one question by two SQL queries: \<^verbatim>\<open>CanAccount\<close> for one account and
  \<^verbatim>\<open>AccessibleAccountIDs\<close> for the list of all of them.  Both are translated as written; the locale
  \<open>authorizer\<close> states what their callers rely on (the list is exactly the accounts the decision
  admits, inside one workspace), and the interpretation \<open>policy\<close> shows it of the two queries.
\<close>

section \<open>Capabilities\<close>

definition supportedCapabilities :: "string list" where
  "supportedCapabilities =
     [''account.view'', ''account.manage'', ''compute.view'', ''compute.operate'',
      ''eds.view'', ''eds.operate'', ''eds.manage'', ''billing.view'', ''billing.sync'']"

definition membership_rank :: "string \<Rightarrow> nat" where
  "membership_rank r = (if r = ''manager'' then 3 else if r = ''operator'' then 2 else 1)"

definition required_rank :: "string \<Rightarrow> nat" where
  "required_rank c =
     (if c = ''account.manage'' then 3 else if c = ''eds.manage'' then 3
      else if c = ''billing.sync'' then 3 else if c = ''compute.operate'' then 2
      else if c = ''eds.operate'' then 2 else 1)"

section \<open>The two queries\<close>

text \<open>The first \<^verbatim>\<open>EXISTS\<close> of both queries: an assignment of the account, with a role of the
  workspace that holds the capability, to the user or to a team in which the user's membership
  ranks high enough.\<close>

definition explicit_grant :: "db \<Rightarrow> int \<Rightarrow> int \<Rightarrow> int \<Rightarrow> string \<Rightarrow> bool" where
  "explicit_grant d ws uid aid cap \<longleftrightarrow>
     list_ex (\<lambda>aa. as_ws aa = ws \<and> as_account aa = aid \<and> as_service aa = ''*'' \<and>
       list_ex (\<lambda>ar. rl_id ar = as_role aa \<and> rl_ws ar = as_ws aa \<and> cap \<in> set (rl_perms ar))
         (d_roles d) \<and>
       (as_ptype aa = ''user'' \<and> as_user aa = Some uid \<or>
        as_ptype aa = ''team'' \<and>
          list_ex (\<lambda>ug. as_group aa = Some (mb_group ug) \<and> mb_user ug = uid \<and>
              membership_rank (mb_role ug) \<ge> required_rank cap) (effective_user_groups d)))
       (d_assigns d)"

definition has_assignments :: "db \<Rightarrow> int \<Rightarrow> int \<Rightarrow> bool" where
  "has_assignments d ws aid \<longleftrightarrow>
     list_ex (\<lambda>aa. as_ws aa = ws \<and> as_account aa = aid) (d_assigns d)"

definition accessibleAccountIDs ::
    "env \<Rightarrow> nat \<Rightarrow> db \<Rightarrow> user \<Rightarrow> string \<Rightarrow> int list option" where
  "accessibleAccountIDs e i d u cap =
     (if e_fault e i then None
      else Some (sort (map ac_id (filter (\<lambda>a. ac_ws a = u_ws u \<and>
        (u_role u = ''admin'' \<or>
         explicit_grant d (u_ws u) (u_id u) (ac_id a) cap \<or>
         \<not> has_assignments d (u_ws u) (ac_id a) \<and>
         list_ex (\<lambda>lg. mb_user lg = u_id u \<and> ac_group a = Some (mb_group lg) \<and>
           list_ex (\<lambda>g. gr_id g = mb_group lg \<and> gr_ws g = u_ws u \<and>
             (cap \<in> {''account.view'', ''compute.view'', ''billing.view''} \<and> gr_view g \<or>
              cap = ''compute.operate'' \<and> gr_view g \<and> mb_role lg \<in> {''operator'', ''manager''} \<or>
              cap = ''account.manage'' \<and> gr_accounts g \<and> mb_role lg = ''manager'' \<or>
              cap = ''billing.sync'' \<and> gr_accounts g \<and> mb_role lg = ''manager''))
             (d_groups d)) (effective_user_groups d))) (d_accounts d)))))"

definition canAccount :: "env \<Rightarrow> nat \<Rightarrow> db \<Rightarrow> user \<Rightarrow> int \<Rightarrow> string \<Rightarrow> bool" where
  "canAccount e i d u aid cap \<longleftrightarrow>
     \<not> e_fault e i \<and>
     list_ex (\<lambda>a. ac_id a = aid \<and> ac_ws a = u_ws u \<and>
       (u_role u = ''admin'' \<or>
        explicit_grant d (u_ws u) (u_id u) (ac_id a) cap \<or>
        \<not> has_assignments d (u_ws u) (ac_id a) \<and>
        list_ex (\<lambda>lg. mb_user lg = u_id u \<and> ac_group a = Some (mb_group lg) \<and>
          list_ex (\<lambda>g. gr_id g = mb_group lg \<and> gr_ws g = u_ws u \<and>
            (cap = ''account.view'' \<and> gr_view g \<or>
             cap = ''compute.view'' \<and> gr_view g \<or>
             cap = ''compute.operate'' \<and> gr_view g \<and> mb_role lg \<in> {''operator'', ''manager''} \<or>
             cap = ''account.manage'' \<and> gr_accounts g \<and> mb_role lg = ''manager'' \<or>
             cap = ''billing.view'' \<and> gr_view g \<or>
             cap = ''billing.sync'' \<and> gr_accounts g \<and> mb_role lg = ''manager''))
            (d_groups d)) (effective_user_groups d))) (d_accounts d)"

definition canGroup :: "env \<Rightarrow> nat \<Rightarrow> db \<Rightarrow> user \<Rightarrow> int \<Rightarrow> string \<Rightarrow> bool" where
  "canGroup e i d u gid cap \<longleftrightarrow>
     \<not> e_fault e i \<and>
     (if u_role u = ''admin'' then list_ex (\<lambda>g. gr_id g = gid \<and> gr_ws g = u_ws u) (d_groups d)
      else list_ex (\<lambda>ug. mb_user ug = u_id u \<and>
             list_ex (\<lambda>g. gr_id g = mb_group ug \<and> gr_id g = gid \<and> gr_ws g = u_ws u \<and>
               mb_role ug = ''manager'' \<and> (if cap = ''members'' then gr_members g else gr_accounts g))
               (d_groups d)) (effective_user_groups d))"

definition capabilityForMode :: "string \<Rightarrow> string option" where
  "capabilityForMode mode =
     (if mode = ''view'' then Some ''account.view''
      else if mode = ''operate'' then Some ''compute.operate''
      else if mode = ''manage'' then Some ''account.manage'' else None)"

definition accountAccess :: "env \<Rightarrow> nat \<Rightarrow> db \<Rightarrow> user \<Rightarrow> int \<Rightarrow> string \<Rightarrow> bool" where
  "accountAccess e i d u aid mode =
     (case capabilityForMode mode of None \<Rightarrow> False | Some cap \<Rightarrow> canAccount e i d u aid cap)"

definition groupAccess :: "env \<Rightarrow> nat \<Rightarrow> db \<Rightarrow> user \<Rightarrow> int \<Rightarrow> string \<Rightarrow> bool" where
  "groupAccess e i d u gid cap = canGroup e i d u gid cap"

definition mergeAccountIDs :: "int list list \<Rightarrow> int list" where
  "mergeAccountIDs sets = sort (remdups (concat sets))"

section \<open>The account selection of a request\<close>

fun selectAccounts :: "int list \<Rightarrow> string list \<Rightarrow> int list \<Rightarrow> resp + int list" where
  "selectAccounts allowed [] selected = Inr selected"
| "selectAccounts allowed (part # parts) selected =
     (case parse_int64 (trim_space part) of
        None \<Rightarrow> Inl (problem 400 ''Invalid cloud account selection'')
      | Some i \<Rightarrow>
          if i < 1 then Inl (problem 400 ''Invalid cloud account selection'')
          else if i \<notin> set allowed then Inl (problem 403 ''Cloud account access required'')
          else selectAccounts allowed parts
                 (if i \<in> set selected then selected else selected @ [i]))"

definition providerCount :: "db \<Rightarrow> int \<Rightarrow> int list \<Rightarrow> nat" where
  "providerCount d ws ids =
     length (remdups (map ac_provider
       (filter (\<lambda>a. ac_ws a = ws \<and> ac_id a \<in> set ids) (d_accounts d))))"

definition requestedAccountIDs ::
    "env \<Rightarrow> nat \<Rightarrow> db \<Rightarrow> user \<Rightarrow> request \<Rightarrow> int list \<Rightarrow> resp + int list" where
  "requestedAccountIDs e i d u r allowed =
     (let raw = trim_space (rq_query r ''account_ids'');
          raw = (if raw = [] then trim_space (rq_query r ''account_id'') else raw)
      in if raw = [] then Inr allowed
         else let parts = split_on CHR '','' raw
         in if length parts > 100
            then Inl (problem 400 ''Select no more than 100 cloud accounts'')
            else (case selectAccounts allowed parts [] of
                    Inl p \<Rightarrow> Inl p
                  | Inr selected \<Rightarrow>
                      if e_fault e i then Inl (dbError DbFailed)
                      else if providerCount d (u_ws u) selected \<noteq> 1
                      then Inl (problem 400 ''Selected cloud accounts must belong to the same provider'')
                      else Inr selected))"

section \<open>The interface of the policy engine\<close>

text \<open>A decision on one account and the listing of all accounts the decision admits.\<close>

locale authorizer =
  fixes can :: "'d \<Rightarrow> 'u \<Rightarrow> int \<Rightarrow> 'c \<Rightarrow> bool"
    and listing :: "'d \<Rightarrow> 'u \<Rightarrow> 'c \<Rightarrow> int list"
    and tenant :: "'d \<Rightarrow> 'u \<Rightarrow> int set"
    and keyed :: "'d \<Rightarrow> bool"
  assumes listing_iff: "i \<in> set (listing d u c) \<longleftrightarrow> can d u i c"
    and listing_sorted: "sorted (listing d u c)"
    and listing_distinct: "keyed d \<Longrightarrow> distinct (listing d u c)"
    and can_tenant: "can d u i c \<Longrightarrow> i \<in> tenant d u"
begin

lemma listing_tenant: "set (listing d u c) \<subseteq> tenant d u"
  using listing_iff can_tenant by blast

lemma listing_unique:
  assumes "keyed d" and "sorted xs" and "distinct xs" and "\<forall>i. i \<in> set xs \<longleftrightarrow> can d u i c"
  shows "xs = listing d u c"
  using assms listing_iff listing_sorted listing_distinct
  by (intro sorted_distinct_set_unique) (auto simp: set_eq_iff)

lemma merged_listing:
  "i \<in> set (mergeAccountIDs (map (listing d u) cs)) \<longleftrightarrow> (\<exists>c \<in> set cs. can d u i c)"
  by (auto simp: mergeAccountIDs_def listing_iff)

end

text \<open>What the primary key of \<^verbatim>\<open>cloud_accounts\<close> says.\<close>

definition account_keys :: "db \<Rightarrow> bool" where
  "account_keys d \<longleftrightarrow> distinct (map ac_id (d_accounts d))"

definition ws_accounts :: "db \<Rightarrow> user \<Rightarrow> int set" where
  "ws_accounts d u = {i. \<exists>a \<in> set (d_accounts d). ac_id a = i \<and> ac_ws a = u_ws u}"

definition ok_env :: "env \<Rightarrow> bool" where
  "ok_env e \<longleftrightarrow> (\<forall>i. \<not> e_fault e i)"

definition good_env :: env where
  "good_env = \<lparr>e_origin = [], e_fault = (\<lambda>i. False), e_now = 0, e_token = (\<lambda>i. show_nat i),
     e_digest = (\<lambda>s. s), e_hash = (\<lambda>s. s), e_check = (\<lambda>h p. h = p), e_address = Some,
     e_category = (\<lambda>n. [])\<rparr>"

lemma good_env_fault [simp]: "e_fault good_env i = False"
  by (simp add: good_env_def)

text \<open>The two queries differ in how they write the legacy condition: \<open>admits\<close> is the row predicate
  both come to.\<close>

definition legacy_cap :: "string \<Rightarrow> string \<Rightarrow> group_row \<Rightarrow> bool" where
  "legacy_cap cap role g \<longleftrightarrow>
     cap \<in> {''account.view'', ''compute.view'', ''billing.view''} \<and> gr_view g \<or>
     cap = ''compute.operate'' \<and> gr_view g \<and> role \<in> {''operator'', ''manager''} \<or>
     cap \<in> {''account.manage'', ''billing.sync''} \<and> gr_accounts g \<and> role = ''manager''"

definition legacy_grant :: "db \<Rightarrow> user \<Rightarrow> account_row \<Rightarrow> string \<Rightarrow> bool" where
  "legacy_grant d u a cap \<longleftrightarrow>
     (\<exists>lg \<in> set (effective_user_groups d). mb_user lg = u_id u \<and> ac_group a = Some (mb_group lg) \<and>
        (\<exists>g \<in> set (d_groups d). gr_id g = mb_group lg \<and> gr_ws g = u_ws u \<and>
          legacy_cap cap (mb_role lg) g))"

lemma legacy_cap_rank: "legacy_cap cap role g \<Longrightarrow> required_rank cap \<le> membership_rank role"
  unfolding legacy_cap_def insert_iff empty_iff simp_thms
  by (elim disjE conjE) (simp_all add: membership_rank_def required_rank_def)

definition admits :: "db \<Rightarrow> user \<Rightarrow> account_row \<Rightarrow> string \<Rightarrow> bool" where
  "admits d u a cap \<longleftrightarrow> ac_ws a = u_ws u \<and>
     (u_role u = ''admin'' \<or> explicit_grant d (u_ws u) (u_id u) (ac_id a) cap \<or>
      \<not> has_assignments d (u_ws u) (ac_id a) \<and> legacy_grant d u a cap)"

lemma legacy_forms:
  "(a \<and> v \<or> b \<and> v \<or> f \<and> v \<and> x \<or> m \<and> y \<or> c \<and> v \<or> s \<and> y) \<longleftrightarrow>
     ((a \<or> b \<or> c) \<and> v \<or> f \<and> v \<and> x \<or> (m \<or> s) \<and> y)"
  "((a \<or> b \<or> c) \<and> v \<or> f \<and> v \<and> x \<or> m \<and> y \<or> s \<and> y) \<longleftrightarrow>
     ((a \<or> b \<or> c) \<and> v \<or> f \<and> v \<and> x \<or> (m \<or> s) \<and> y)"
  by argo+

lemma canAccount_admits:
  "canAccount e i d u aid cap \<longleftrightarrow>
     \<not> e_fault e i \<and> (\<exists>a \<in> set (d_accounts d). ac_id a = aid \<and> admits d u a cap)"
proof -
  have legacy: "list_ex (\<lambda>lg. mb_user lg = u_id u \<and> ac_group a = Some (mb_group lg) \<and>
          list_ex (\<lambda>g. gr_id g = mb_group lg \<and> gr_ws g = u_ws u \<and>
            (cap = ''account.view'' \<and> gr_view g \<or>
             cap = ''compute.view'' \<and> gr_view g \<or>
             cap = ''compute.operate'' \<and> gr_view g \<and> mb_role lg \<in> {''operator'', ''manager''} \<or>
             cap = ''account.manage'' \<and> gr_accounts g \<and> mb_role lg = ''manager'' \<or>
             cap = ''billing.view'' \<and> gr_view g \<or>
             cap = ''billing.sync'' \<and> gr_accounts g \<and> mb_role lg = ''manager''))
            (d_groups d)) (effective_user_groups d) \<longleftrightarrow> legacy_grant d u a cap" for a
    unfolding legacy_grant_def legacy_cap_def list_ex_iff insert_iff empty_iff simp_thms
    by (intro bex_cong refl conj_cong) (simp only: legacy_forms)
  show ?thesis
    unfolding canAccount_def legacy admits_def by (auto simp: list_ex_iff)
qed

lemma accessible_admits:
  "accessibleAccountIDs e i d u cap =
     (if e_fault e i then None
      else Some (sort (map ac_id (filter (\<lambda>a. admits d u a cap) (d_accounts d)))))"
proof -
  have legacy: "list_ex (\<lambda>lg. mb_user lg = u_id u \<and> ac_group a = Some (mb_group lg) \<and>
           list_ex (\<lambda>g. gr_id g = mb_group lg \<and> gr_ws g = u_ws u \<and>
             (cap \<in> {''account.view'', ''compute.view'', ''billing.view''} \<and> gr_view g \<or>
              cap = ''compute.operate'' \<and> gr_view g \<and> mb_role lg \<in> {''operator'', ''manager''} \<or>
              cap = ''account.manage'' \<and> gr_accounts g \<and> mb_role lg = ''manager'' \<or>
              cap = ''billing.sync'' \<and> gr_accounts g \<and> mb_role lg = ''manager''))
             (d_groups d)) (effective_user_groups d) \<longleftrightarrow> legacy_grant d u a cap" for a
    unfolding legacy_grant_def legacy_cap_def list_ex_iff insert_iff empty_iff simp_thms
    by (intro bex_cong refl conj_cong) (simp only: legacy_forms)
  show ?thesis unfolding accessibleAccountIDs_def legacy admits_def ..
qed

text \<open>The tables a decision reads.\<close>

lemma canAccount_tables:
  assumes "d_accounts d' = d_accounts d" and "d_roles d' = d_roles d" and "d_assigns d' = d_assigns d"
    and "d_groups d' = d_groups d" and "d_members d' = d_members d" and "d_grants d' = d_grants d"
  shows "canAccount e i d' u aid cap = canAccount e i d u aid cap"
  unfolding canAccount_def explicit_grant_def has_assignments_def effective_user_groups_def
  by (simp only: assms)

lemma canAccount_audit [simp]:
  "canAccount e i (w_db (audit e' k u w a t j)) v aid cap = canAccount e i (w_db w) v aid cap"
  by (rule canAccount_tables) simp_all

definition can_op :: "db \<Rightarrow> user \<Rightarrow> int \<Rightarrow> string \<Rightarrow> bool" where
  "can_op d u i cap = canAccount good_env 0 d u i cap"

definition listing_op :: "db \<Rightarrow> user \<Rightarrow> string \<Rightarrow> int list" where
  "listing_op d u cap = (case accessibleAccountIDs good_env 0 d u cap of None \<Rightarrow> [] | Some ids \<Rightarrow> ids)"

lemma canAccount_can_op: "canAccount e i d u aid cap \<longleftrightarrow> \<not> e_fault e i \<and> can_op d u aid cap"
  by (auto simp: can_op_def canAccount_admits)

lemma accessible_listing_op:
  "accessibleAccountIDs e i d u cap = (if e_fault e i then None else Some (listing_op d u cap))"
  by (simp add: listing_op_def accessible_admits)

interpretation policy: authorizer can_op listing_op ws_accounts account_keys
proof unfold_locales
  show "i \<in> set (listing_op d u c) \<longleftrightarrow> can_op d u i c" for i d u c
    by (auto simp: listing_op_def accessible_admits can_op_def canAccount_admits)
  show "sorted (listing_op d u c)" for d u c
    by (simp add: listing_op_def accessible_admits)
  show "distinct (listing_op d u c)" if "account_keys d" for d u c
    using that by (simp add: listing_op_def accessible_admits account_keys_def distinct_map_filter)
  show "i \<in> ws_accounts d u" if "can_op d u i c" for d u i c
    using that by (auto simp: can_op_def canAccount_admits ws_accounts_def admits_def)
qed

section \<open>Facts of the selection\<close>

lemma selectAccounts_Inr:
  "selectAccounts allowed parts selected = Inr ids \<Longrightarrow> set selected \<subseteq> set allowed \<Longrightarrow>
     set ids \<subseteq> set allowed \<and> set ids = set selected \<union> {i. \<exists>p \<in> set parts. parse_int64 (trim_space p) = Some i}"
proof (induction allowed parts selected rule: selectAccounts.induct)
  case (1 allowed selected)
  then show ?case by simp
next
  case (2 allowed part parts selected)
  then show ?case by (auto split: option.splits if_splits)
qed

lemma selectAccounts_Cons:
  "selectAccounts allowed (part # parts) selected = Inr ids \<Longrightarrow>
     \<exists>i. parse_int64 (trim_space part) = Some i \<and> 1 \<le> i \<and> i \<in> set allowed \<and>
       selectAccounts allowed parts (if i \<in> set selected then selected else selected @ [i]) = Inr ids"
  by (cases "parse_int64 (trim_space part)") (auto split: if_split_asm)

lemma selectAccounts_distinct:
  "selectAccounts allowed parts selected = Inr ids \<Longrightarrow> distinct selected \<Longrightarrow> distinct ids"
proof (induction parts arbitrary: selected)
  case (Cons part parts)
  from selectAccounts_Cons [OF Cons.prems(1)] obtain i where
    rest: "selectAccounts allowed parts (if i \<in> set selected then selected else selected @ [i]) = Inr ids"
    by blast
  show ?case by (rule Cons.IH [OF rest]) (use Cons.prems(2) in simp)
qed simp

lemma selectAccounts_length:
  "selectAccounts allowed parts selected = Inr ids \<Longrightarrow> length ids \<le> length selected + length parts"
proof (induction parts arbitrary: selected)
  case (Cons part parts)
  from selectAccounts_Cons [OF Cons.prems] obtain i where
    rest: "selectAccounts allowed parts (if i \<in> set selected then selected else selected @ [i]) = Inr ids"
    by blast
  from Cons.IH [OF rest] show ?case by (auto split: if_splits)
qed simp

lemma selectAccounts_status:
  "selectAccounts allowed parts selected = Inl p \<Longrightarrow> rs_status p \<in> {400, 403}"
  by (induction allowed parts selected rule: selectAccounts.induct)
    (auto split: option.splits if_splits)

text \<open>A list of accounts the user may use comes back to the same selection when the client joins it
  with commas.\<close>

lemma selectAccounts_shown:
  assumes "set ids \<subseteq> set allowed" and "\<forall>i \<in> set ids. 1 \<le> i \<and> i < 2 ^ 63" and "distinct (sel @ ids)"
  shows "selectAccounts allowed (map show_int ids) sel = Inr (sel @ ids)"
  using assms
proof (induction ids arbitrary: sel)
  case Nil
  then show ?case by simp
next
  case (Cons i ids)
  have sp: "\<forall>c \<in> set (show_int i). \<not> is_space c"
    using show_nat_digits [of "nat i"] Cons.prems(2)
    by (auto simp: show_int_def list_all_iff is_digit_def is_space_def Let_def)
  have "parse_int64 (trim_space (show_int i)) = Some i"
    using Cons.prems(2) by (simp add: trim_space_id [OF sp] parse_show_int)
  with Cons show ?case by simp
qed

lemma requested_Inr:
  assumes "requestedAccountIDs e i d u r allowed = Inr ids"
  shows "set ids \<subseteq> set allowed"
proof -
  have "ids = allowed \<or> (\<exists>parts. selectAccounts allowed parts [] = Inr ids)"
    using assms unfolding requestedAccountIDs_def Let_def
    by (auto split: if_splits sum.splits)
  then show ?thesis using selectAccounts_Inr [of allowed _ "[]" ids] by auto
qed

lemma card_set_one:
  assumes "length (remdups (map f xs)) = 1" and "x \<in> set xs" and "y \<in> set xs"
  shows "f x = f y"
proof -
  have "card (f ` set xs) = 1" using assms(1) by (simp add: length_remdups_card_conv)
  then obtain z where "f ` set xs = {z}" by (auto simp: card_1_singleton_iff)
  then have "f x \<in> {z}" "f y \<in> {z}" using assms(2,3) by blast+
  then show ?thesis by simp
qed

lemma providerCount_one:
  assumes "providerCount d ws ids = 1"
    and "a \<in> set (d_accounts d)" "ac_ws a = ws" "ac_id a \<in> set ids"
    and "b \<in> set (d_accounts d)" "ac_ws b = ws" "ac_id b \<in> set ids"
  shows "ac_provider a = ac_provider b"
  using assms(2-)
  by (intro card_set_one [OF assms(1) [unfolded providerCount_def]]) auto

section \<open>Properties\<close>

text \<open>C1: the listing and the decision agree: whatever the two queries are asked, an account is in
  the list of accessible accounts if and only if the engine admits it, and the list is sorted.\<close>

theorem accessible_iff_can:
  assumes "accessibleAccountIDs e i d u cap = Some ids" and "\<not> e_fault e j"
  shows "(aid \<in> set ids \<longleftrightarrow> canAccount e j d u aid cap) \<and> sorted ids"
  using assms policy.listing_iff policy.listing_sorted
  by (auto simp: accessible_listing_op canAccount_can_op split: if_splits)

definition demo_user :: user where
  "demo_user = \<lparr>u_id = 7, u_ws = 1, u_wsname = ''acme'', u_name = ''sam'', u_email = ''s@a.io'',
     u_role = ''user'', u_owner = False, u_version = 1\<rparr>"

definition empty_db :: db where
  "empty_db = \<lparr>d_ws = [], d_users = [], d_groups = [], d_members = [], d_grants = [], d_accounts = [],
     d_roles = [], d_assigns = [], d_idps = [], d_extids = [], d_maps = [], d_tokens = [],
     d_insts = [], d_audit = [], d_settings = [], d_snaps = [], d_next = (\<lambda>t. 1)\<rparr>"

definition demo_account :: "int \<Rightarrow> string \<Rightarrow> int option \<Rightarrow> account_row" where
  "demo_account i prov g = \<lparr>ac_id = i, ac_ws = 1, ac_name = show_int i, ac_provider = prov, ac_owner = [],
     ac_group = g, ac_cred = [], ac_regions = [], ac_sync = None, ac_err = [], ac_errcode = []\<rparr>"

text \<open>A workspace with two accounts of one team, in which the demo user is an operator.\<close>

definition demo_db :: db where
  "demo_db = empty_db\<lparr>
     d_ws := [\<lparr>ws_id = 1, ws_name = ''acme'', ws_slug = ''ws-1'', ws_limit = 6, ws_sso_required = False\<rparr>],
     d_users := [\<lparr>us_id = 7, us_ws = 1, us_name = ''sam'', us_email = ''s@a.io'', us_verified = True,
       us_hash = ''h'', us_role = ''user'', us_owner = False, us_version = 1\<rparr>],
     d_groups := [\<lparr>gr_id = 3, gr_ws = 1, gr_name = ''ops'', gr_desc = [], gr_view = True,
       gr_accounts = False, gr_members = False\<rparr>],
     d_members := [\<lparr>mb_user = 7, mb_group = 3, mb_role = ''operator''\<rparr>],
     d_accounts := [demo_account 5 ''aws'' (Some 3), demo_account 4 ''aws'' (Some 3)]\<rparr>"

definition blank_request :: request where
  "blank_request = \<lparr>rq_method = ''POST'', rq_path = (\<lambda>k. []), rq_query = (\<lambda>k. []),
     rq_header = (\<lambda>k. if k = ''Content-Type'' then ''application/json'' else []),
     rq_cookie = (\<lambda>k. None), rq_remote = ''10.0.0.9:4000''\<rparr>"

lemma accessible_iff_can_witness:
  "accessibleAccountIDs good_env 0 demo_db demo_user ''compute.operate'' = Some [4, 5] \<and>
   canAccount good_env 1 demo_db demo_user 5 ''compute.operate''"
proof -
  have "accessibleAccountIDs good_env 0 demo_db demo_user ''compute.operate'' = Some [4, 5]"
    by code_simp
  with accessible_iff_can [OF this, of 1 5] show ?thesis by simp
qed

text \<open>A selection of accounts is never wider than what the user may use; a selection the request
  names is free of duplicates, not empty, of at most 100 accounts, and of one provider only.\<close>

theorem requested_sound:
  assumes "requestedAccountIDs e i d u r allowed = Inr ids"
  shows "set ids \<subseteq> set allowed \<and>
    (ids = allowed \<and> trim_space (rq_query r ''account_ids'') = [] \<and>
       trim_space (rq_query r ''account_id'') = [] \<or>
     ids \<noteq> [] \<and> distinct ids \<and> length ids \<le> 100 \<and>
       (\<forall>a \<in> set (d_accounts d). \<forall>b \<in> set (d_accounts d).
          ac_ws a = u_ws u \<longrightarrow> ac_ws b = u_ws u \<longrightarrow> ac_id a \<in> set ids \<longrightarrow> ac_id b \<in> set ids \<longrightarrow>
          ac_provider a = ac_provider b))"
proof (rule conjI [OF requested_Inr [OF assms]])
  show "ids = allowed \<and> trim_space (rq_query r ''account_ids'') = [] \<and>
       trim_space (rq_query r ''account_id'') = [] \<or>
     ids \<noteq> [] \<and> distinct ids \<and> length ids \<le> 100 \<and>
       (\<forall>a \<in> set (d_accounts d). \<forall>b \<in> set (d_accounts d).
          ac_ws a = u_ws u \<longrightarrow> ac_ws b = u_ws u \<longrightarrow> ac_id a \<in> set ids \<longrightarrow> ac_id b \<in> set ids \<longrightarrow>
          ac_provider a = ac_provider b)"
    (is "?all \<or> ?named")
  proof (cases ?all)
    case False
    with assms obtain parts where parts: "length parts \<le> 100"
      and sel: "selectAccounts allowed parts [] = Inr ids" and one: "providerCount d (u_ws u) ids = 1"
      unfolding requestedAccountIDs_def Let_def
      by (auto simp: not_less simp del: One_nat_def split: if_splits sum.splits)
    have "distinct ids" using selectAccounts_distinct [OF sel] by simp
    moreover have "ids \<noteq> []" using one by (auto simp: providerCount_def)
    moreover have "length ids \<le> 100" using selectAccounts_length [OF sel] parts by simp
    ultimately show ?thesis using providerCount_one [OF one] by blast
  qed simp
qed

definition select_request :: request where
  "select_request = blank_request\<lparr>rq_query := (\<lambda>k. if k = ''account_ids'' then ''5, 4,5'' else [])\<rparr>"

lemma requested_sound_witness:
  "requestedAccountIDs good_env 0 demo_db demo_user select_request [4, 5, 6] = Inr [5, 4] \<and>
   set [5, 4] \<subseteq> set [4, 5, 6 :: int]"
proof -
  have "requestedAccountIDs good_env 0 demo_db demo_user select_request [4, 5, 6] = Inr [5, 4]"
    by code_simp
  with requested_sound [OF this] show ?thesis by blast
qed

text \<open>Team roles cap team grants: a user who is no administrator, has no assignment of its own and
  is at most a viewer in every team cannot operate or manage an account, whatever the roles
  assigned to the teams allow.\<close>

theorem viewers_only_view:
  assumes "u_role u \<noteq> ''admin''"
    and "\<forall>m \<in> set (effective_user_groups d). mb_user m = u_id u \<longrightarrow> mb_role m = ''viewer''"
    and "\<forall>aa \<in> set (d_assigns d). as_ptype aa = ''user'' \<longrightarrow> as_user aa \<noteq> Some (u_id u)"
    and "required_rank cap > 1"
  shows "\<not> canAccount e i d u aid cap"
proof -
  have "\<not> explicit_grant d (u_ws u) (u_id u) x cap" for x
    using assms(2-4) by (fastforce simp: explicit_grant_def list_ex_iff membership_rank_def)
  moreover have "\<not> legacy_grant d u a cap" for a
    using assms(2,4) legacy_cap_rank [of cap "''viewer''"]
    by (fastforce simp: legacy_grant_def membership_rank_def)
  ultimately show ?thesis using assms(1) by (auto simp: canAccount_admits admits_def)
qed

definition viewer_db :: db where
  "viewer_db = demo_db\<lparr>d_members := [\<lparr>mb_user = 7, mb_group = 3, mb_role = ''viewer''\<rparr>]\<rparr>"

lemma viewers_only_view_witness:
  "\<not> canAccount good_env 0 viewer_db demo_user 5 ''compute.operate'' \<and>
   canAccount good_env 0 viewer_db demo_user 5 ''compute.view''"
proof -
  have "\<not> canAccount good_env 0 viewer_db demo_user 5 ''compute.operate''"
    by (rule viewers_only_view) (code_simp+)
  moreover have "canAccount good_env 0 viewer_db demo_user 5 ''compute.view''"
    by code_simp
  ultimately show ?thesis ..
qed

end
