(* ===== verification/Admin.thy ===== *)
theory Admin
  imports Auth Policy
begin

text \<open>
  Teams, people, memberships, the audit trail and the settings of a workspace
  (\<^verbatim>\<open>internal/app/admin.go\<close>), with \<^verbatim>\<open>App.list\<close> (app.go) for the read handlers.
\<close>

section \<open>Listings\<close>

definition list_reply :: "env \<Rightarrow> nat \<Rightarrow> json list \<Rightarrow> resp" where
  "list_reply e i rows =
     (if e_fault e i then dbError DbFailed else reply 200 (JObj [(''data'', JList rows)]))"

definition group_json :: "db \<Rightarrow> group_row \<Rightarrow> json" where
  "group_json d g = JObj [(''id'', JInt (gr_id g)), (''name'', JStr (gr_name g)),
     (''description'', JStr (gr_desc g)), (''view_dashboard'', JBool (gr_view g)),
     (''manage_cloud_accounts'', JBool (gr_accounts g)), (''manage_group_members'', JBool (gr_members g)),
     (''workspace_id'', JInt (gr_ws g)),
     (''member_count'', JInt (int (length (remdups (map mb_user
        (filter (\<lambda>m. mb_group m = gr_id g) (effective_user_groups d)))))))]"

definition visible_groups :: "db \<Rightarrow> user \<Rightarrow> group_row list" where
  "visible_groups d u =
     sort_key gr_name (filter (\<lambda>g. gr_ws g = u_ws u \<and>
       (u_role u = ''admin'' \<or>
        list_ex (\<lambda>m. mb_group m = gr_id g \<and> mb_user m = u_id u) (effective_user_groups d))) (d_groups d))"

definition groups :: "env \<Rightarrow> user \<Rightarrow> db \<Rightarrow> resp" where
  "groups e u d = list_reply e 0 (map (group_json d) (visible_groups d u))"

definition users :: "env \<Rightarrow> user \<Rightarrow> db \<Rightarrow> resp" where
  "users e u d =
     (if \<not> admin u then admin_required
      else list_reply e 0
        [JObj [(''id'', JInt (us_id x)), (''username'', JStr (us_name x)), (''email'', JStr (us_email x)),
               (''email_verified'', JBool (us_verified x)), (''role'', JStr (us_role x)),
               (''is_owner'', JBool (us_owner x)), (''user_limit'', JInt (ws_limit s)),
               (''workspace_user_count'',
                JInt (int (length (filter (\<lambda>y. us_ws y = us_ws x) (d_users d)))))].
         x \<leftarrow> sort_key us_name (filter us_owner (filter (\<lambda>x. us_ws x = u_ws u) (d_users d))) @
              sort_key us_name (filter (\<lambda>x. \<not> us_owner x) (filter (\<lambda>x. us_ws x = u_ws u) (d_users d))),
         s \<leftarrow> filter (\<lambda>s. ws_id s = us_ws x) (d_ws d)])"

text \<open>The memberships a person may see: everyone's for an administrator, one's own, and those of a
  team one manages with the right to manage members; one line per person and team, with the highest
  role.\<close>

definition sees_membership :: "db \<Rightarrow> user \<Rightarrow> group_row \<Rightarrow> member_row \<Rightarrow> bool" where
  "sees_membership d u g m \<longleftrightarrow>
     u_role u = ''admin'' \<or> mb_user m = u_id u \<or>
     list_ex (\<lambda>own. mb_user own = u_id u \<and> mb_group own = gr_id g \<and> mb_role own = ''manager'' \<and> gr_members g)
       (effective_user_groups d)"

definition top_role :: "member_row list \<Rightarrow> string" where
  "top_role ms = (case rev (sort_key (\<lambda>m. membership_rank (mb_role m)) ms) of [] \<Rightarrow> [] | m # _ \<Rightarrow> mb_role m)"

definition visible_memberships :: "db \<Rightarrow> user \<Rightarrow> (string \<times> string \<times> int \<times> int \<times> string) list" where
  "visible_memberships d u =
     sort_key (\<lambda>(gn, un, _). [gn, un]) (remdups
       [(gr_name g, us_name x, mb_user m, mb_group m,
         top_role (filter (\<lambda>n. mb_user n = mb_user m \<and> mb_group n = mb_group m) (effective_user_groups d))).
        m \<leftarrow> effective_user_groups d,
        x \<leftarrow> filter (\<lambda>x. us_id x = mb_user m) (d_users d),
        g \<leftarrow> filter (\<lambda>g. gr_id g = mb_group m \<and> gr_ws g = u_ws u \<and> sees_membership d u g m) (d_groups d)])"

definition memberships :: "env \<Rightarrow> user \<Rightarrow> db \<Rightarrow> resp" where
  "memberships e u d =
     list_reply e 0 (map (\<lambda>(gn, un, uid, gid, role).
        JObj [(''user_id'', JInt uid), (''group_id'', JInt gid), (''username'', JStr un),
              (''group_name'', JStr gn), (''role'', JStr role)]) (visible_memberships d u))"

text \<open>PostgreSQL's \<^verbatim>\<open>LIKE\<close>, with its escape character.\<close>

fun like :: "string \<Rightarrow> string \<Rightarrow> bool" where
  "like [] s = (s = [])"
| "like (c # ps) s =
     (if c = CHR ''%'' then like ps s \<or> (case s of [] \<Rightarrow> False | _ # s' \<Rightarrow> like (c # ps) s')
      else (case s of
              [] \<Rightarrow> False
            | x # s' \<Rightarrow>
                if c = CHR ''_'' then like ps s'
                else if c = CHR 0x5C then (case ps of [] \<Rightarrow> False | d # ps' \<Rightarrow> d = x \<and> like ps' s')
                else c = x \<and> like ps s'))"

text \<open>\<^verbatim>\<open>value ILIKE '%'||q||'%'\<close>, on ASCII text.\<close>

definition ilike :: "string \<Rightarrow> string \<Rightarrow> bool" where
  "ilike value q \<longleftrightarrow> like (''%'' @ to_lower q @ ''%'') (to_lower value)"

definition audit_json :: "audit_row \<Rightarrow> json" where
  "audit_json a = JObj [(''user_id'', case au_user a of None \<Rightarrow> JNull | Some i \<Rightarrow> JInt i),
     (''username'', JStr (au_name a)), (''action'', JStr (au_action a)), (''target'', JStr (au_target a)),
     (''details'', au_details a), (''created_at'', JInt (au_at a))]"

text \<open>The trail is appended to, so its order by descending id is the reverse.\<close>

definition activity_rows :: "db \<Rightarrow> int \<Rightarrow> string \<Rightarrow> int \<Rightarrow> int \<Rightarrow> audit_row list" where
  "activity_rows d ws q limit offset =
     take (nat limit) (drop (nat offset) (filter (\<lambda>a. au_ws a = ws \<and>
       (q = [] \<or> ilike (au_action a) q \<or> ilike (au_name a) q \<or> ilike (au_target a) q))
       (rev (d_audit d))))"

definition activity :: "env \<Rightarrow> user \<Rightarrow> request \<Rightarrow> db \<Rightarrow> resp" where
  "activity e u r d =
     (if \<not> admin u then admin_required
      else let (limit, offset) = pagination r
           in list_reply e 0 (map audit_json (activity_rows d (u_ws u) (rq_query r ''q'') limit offset)))"

definition settings :: "env \<Rightarrow> user \<Rightarrow> db \<Rightarrow> resp" where
  "settings e u d =
     (if \<not> admin u then admin_required
      else list_reply e 0
        (map (\<lambda>s. JObj [(''audit_retention_days'', JInt (se_retention s)),
              (''last_collector_run_at'', case se_last_run s of None \<Rightarrow> JNull | Some t \<Rightarrow> JInt t)])
           (filter (\<lambda>s. se_ws s = u_ws u) (d_settings d))))"

section \<open>Teams\<close>

record group_input =
  gi_name :: string
  gi_desc :: string
  gi_view :: bool
  gi_accounts :: bool
  gi_members :: bool

definition group_name_free :: "db \<Rightarrow> int \<Rightarrow> int \<Rightarrow> string \<Rightarrow> bool" where
  "group_name_free d ws i name \<longleftrightarrow>
     \<not> list_ex (\<lambda>g. gr_ws g = ws \<and> gr_name g = name \<and> gr_id g \<noteq> i) (d_groups d)"

definition insert_group :: "db \<Rightarrow> int \<Rightarrow> string \<Rightarrow> group_input \<Rightarrow> (int \<times> db) option" where
  "insert_group d ws name g =
     (if ws_by_id d ws = None \<or> list_ex (\<lambda>x. gr_ws x = ws \<and> gr_name x = name) (d_groups d) then None
      else let i = next_id d ''access_groups'' in
        Some (i, (bump d ''access_groups'')\<lparr>d_groups := d_groups d @
          [\<lparr>gr_id = i, gr_ws = ws, gr_name = name, gr_desc = gi_desc g, gr_view = gi_view g,
            gr_accounts = gi_accounts g, gr_members = gi_members g\<rparr>]\<rparr>))"

definition update_group :: "db \<Rightarrow> int \<Rightarrow> int \<Rightarrow> string \<Rightarrow> group_input \<Rightarrow> db_err + db" where
  "update_group d ws i name g =
     (if group_in_ws d ws i = None then Inl NoRows
      else if \<not> group_name_free d ws i name then Inl DbFailed
      else Inr (d\<lparr>d_groups := map (\<lambda>x. if gr_id x = i \<and> gr_ws x = ws
             then x\<lparr>gr_name := name, gr_desc := gi_desc g, gr_view := gi_view g,
                    gr_accounts := gi_accounts g, gr_members := gi_members g\<rparr> else x) (d_groups d)\<rparr>))"

definition group_details :: "string \<Rightarrow> group_input \<Rightarrow> json" where
  "group_details name g = JObj [(''name'', JStr name), (''description'', JStr (gi_desc g)),
     (''view_dashboard'', JBool (gi_view g)), (''manage_cloud_accounts'', JBool (gi_accounts g)),
     (''manage_group_members'', JBool (gi_members g))]"

definition saveGroup :: "env \<Rightarrow> user \<Rightarrow> request \<Rightarrow> group_input body \<Rightarrow> world \<Rightarrow> resp \<times> world" where
  "saveGroup e u r b w =
     (if \<not> admin u then (admin_required, w)
      else case decode r b of
        Inl p \<Rightarrow> (p, w)
      | Inr inp \<Rightarrow>
          let name = trim_space (gi_name inp)
          in if length name < 1 \<or> length name > 100 then (problem 400 ''Name must be 1-100 characters'', w)
             else case (if rq_method r = ''POST''
                        then (if e_fault e 0 then Inl (dbError DbFailed)
                              else case insert_group (w_db w) (u_ws u) name inp of
                                     None \<Rightarrow> Inl (dbError DbFailed) | Some x \<Rightarrow> Inr x)
                        else case pathID r ''id'' of
                               Inl p \<Rightarrow> Inl p
                             | Inr i \<Rightarrow>
                                 if e_fault e 1 then Inl (dbError DbFailed)
                                 else case update_group (w_db w) (u_ws u) i name inp of
                                        Inl err \<Rightarrow> Inl (dbError err) | Inr d \<Rightarrow> Inr (i, d)) of
                    Inl p \<Rightarrow> (p, w)
                  | Inr (i, d) \<Rightarrow>
                      (reply_id i, audit e 2 u (with_db w d) ''group.saved'' (show_int i) (group_details name inp)))"

definition deleteGroup :: "env \<Rightarrow> user \<Rightarrow> request \<Rightarrow> world \<Rightarrow> resp \<times> world" where
  "deleteGroup e u r w =
     (if \<not> admin u then (admin_required, w)
      else case pathID r ''id'' of
        Inl p \<Rightarrow> (p, w)
      | Inr i \<Rightarrow>
          if e_fault e 0 then (dbError DbFailed, w)
          else if group_in_ws (w_db w) (u_ws u) i = None then (problem 404 ''Group not found'', w)
          else (reply_ok, audit e 1 u (with_db w (delete_group (w_db w) i)) ''group.deleted'' (rq_path r ''id'') JNull))"

section \<open>People\<close>

record user_input =
  ui_name :: string
  ui_email :: string
  ui_password :: string
  ui_role :: string

definition ws_users :: "db \<Rightarrow> int \<Rightarrow> user_row list" where
  "ws_users d ws = filter (\<lambda>x. us_ws x = ws) (d_users d)"

text \<open>The seat check of the transaction, under the advisory lock: with no user row the query yields
  no limit, and the scan of the null fails.\<close>

datatype 'a tx = Refused resp | Failed db_err | Done 'a

definition insertMember ::
    "env \<Rightarrow> user \<Rightarrow> string \<Rightarrow> string \<Rightarrow> string \<Rightarrow> string \<Rightarrow> db \<Rightarrow> (int \<times> db) tx" where
  "insertMember e u name email hash role d =
     (if e_fault e 0 \<or> e_fault e 1 \<or> e_fault e 2 then Failed DbFailed
      else case ws_by_id d (u_ws u) of
        None \<Rightarrow> Failed DbFailed
      | Some s \<Rightarrow>
          if ws_users d (u_ws u) = [] then Failed DbFailed
          else if int (length (ws_users d (u_ws u))) \<ge> ws_limit s
          then Refused (problem 409 ''Community workspaces can add up to five team members'')
          else if e_fault e 3 then Failed DbFailed
          else case insert_user d (u_ws u) name email False hash role False of
            None \<Rightarrow> Failed DbFailed
          | Some x \<Rightarrow> if e_fault e 4 then Failed DbFailed else Done x)"

definition set_user :: "string \<Rightarrow> string \<Rightarrow> string \<Rightarrow> string \<Rightarrow> user_row \<Rightarrow> user_row" where
  "set_user name email hash role x =
     x\<lparr>us_name := name, us_email := email,
       us_verified := (if to_lower (us_email x) = to_lower email then us_verified x else False),
       us_hash := (if hash = [] then us_hash x else hash), us_role := role,
       us_version := us_version x + 1\<rparr>"

definition update_user ::
    "db \<Rightarrow> int \<Rightarrow> int \<Rightarrow> string \<Rightarrow> string \<Rightarrow> string \<Rightarrow> string \<Rightarrow> db_err + db" where
  "update_user d ws i name email hash role =
     (if \<not> list_ex (\<lambda>x. us_id x = i \<and> us_ws x = ws) (d_users d) then Inl NoRows
      else if list_ex (\<lambda>x. us_id x \<noteq> i \<and>
                (to_lower (us_name x) = to_lower name \<or> to_lower (us_email x) = to_lower email)) (d_users d) \<or>
              \<not> user_checks name role then Inl DbFailed
      else Inr (d\<lparr>d_users := map (\<lambda>x. if us_id x = i \<and> us_ws x = ws
                     then set_user name email hash role x else x) (d_users d)\<rparr>))"

definition updateMember ::
    "env \<Rightarrow> user \<Rightarrow> int \<Rightarrow> string \<Rightarrow> string \<Rightarrow> string \<Rightarrow> string \<Rightarrow> db \<Rightarrow> (bool \<times> db) tx" where
  "updateMember e u i name email hash role d =
     (if e_fault e 5 then Failed DbFailed
      else case find (\<lambda>x. us_id x = i \<and> us_ws x = u_ws u) (d_users d) of
        None \<Rightarrow> Failed NoRows
      | Some x \<Rightarrow>
          if us_owner x \<and> role \<noteq> ''admin''
          then Refused (problem 400 ''The workspace owner must remain an administrator'')
          else if i = u_id u \<and> role \<noteq> ''admin''
          then Refused (problem 400 ''You cannot demote your own administrator account'')
          else if e_fault e 6 then Failed DbFailed
          else case update_user d (u_ws u) i name email hash role of
            Inl err \<Rightarrow> Failed err
          | Inr d' \<Rightarrow> Done (\<not> equal_fold (us_email x) email \<or> \<not> us_verified x, d'))"

definition user_details :: "string \<Rightarrow> string \<Rightarrow> string \<Rightarrow> json" where
  "user_details name email role =
     JObj [(''username'', JStr name), (''email'', JStr email), (''role'', JStr role)]"

definition saveUser :: "env \<Rightarrow> user \<Rightarrow> request \<Rightarrow> user_input body \<Rightarrow> world \<Rightarrow> resp \<times> world" where
  "saveUser e u r b w =
     (if \<not> admin u then (admin_required, w)
      else case decode r b of
        Inl p \<Rightarrow> (p, w)
      | Inr inp \<Rightarrow>
          let name = trim_space (ui_name inp); role = ui_role inp; post = (rq_method r = ''POST'')
          in case normalizeEmail e (ui_email inp) of
            None \<Rightarrow> (problem 400 ''A valid email, a 3-100 character username, and an admin or user role are required'', w)
          | Some email \<Rightarrow>
              if length name < 3 \<or> length name > 100 \<or> role \<noteq> ''admin'' \<and> role \<noteq> ''user''
              then (problem 400 ''A valid email, a 3-100 character username, and an admin or user role are required'', w)
              else if (post \<or> ui_password inp \<noteq> []) \<and> strongPassword e (ui_password inp) \<noteq> None
              then (problem 400 ''Password must be 10-72 bytes and include uppercase, lowercase, a number, and a symbol'', w)
              else
                let hash = (if ui_password inp = [] then [] else e_hash e (ui_password inp))
                in case (if post
                         then (case insertMember e u name email hash role (w_db w) of
                                 Refused p \<Rightarrow> Inl p
                               | Failed err \<Rightarrow> Inl (dbError err)
                               | Done (i, d) \<Rightarrow> Inr (i, True, d))
                         else (case pathID r ''id'' of
                                 Inl p \<Rightarrow> Inl p
                               | Inr i \<Rightarrow>
                                   (case updateMember e u i name email hash role (w_db w) of
                                      Refused p \<Rightarrow> Inl p
                                    | Failed err \<Rightarrow> Inl (dbError err)
                                    | Done (ch, d) \<Rightarrow> Inr (i, ch, d)))) of
                     Inl p \<Rightarrow> (p, w)
                   | Inr (i, changed, d) \<Rightarrow>
                       let w1 = audit e 7 u (with_db w d) ''user.saved'' (show_int i) (user_details name email role)
                       in if \<not> changed then (reply_id i, w1)
                          else case sendNewVerification e 8 (e_token e 0) i email name w1 of
                            (False, w2) \<Rightarrow> (problem 503 ''User saved, but the verification email could not be sent; try saving the address again'', w2)
                          | (True, w2) \<Rightarrow> (reply_id i, w2))"

definition deleteUser :: "env \<Rightarrow> user \<Rightarrow> request \<Rightarrow> world \<Rightarrow> resp \<times> world" where
  "deleteUser e u r w =
     (if \<not> admin u then (admin_required, w)
      else case pathID r ''id'' of
        Inl p \<Rightarrow> (p, w)
      | Inr i \<Rightarrow>
          if i = u_id u then (problem 400 ''You cannot delete your own account'', w)
          else if e_fault e 0 then (dbError DbFailed, w)
          else if \<not> list_ex (\<lambda>x. us_id x = i \<and> us_ws x = u_ws u \<and> \<not> us_owner x) (d_users (w_db w))
          then (problem 404 ''User not found'', w)
          else (reply_ok, audit e 1 u (with_db w (delete_user (w_db w) i)) ''user.deleted'' (rq_path r ''id'') JNull))"

section \<open>Memberships\<close>

definition put_member :: "db \<Rightarrow> int \<Rightarrow> int \<Rightarrow> string \<Rightarrow> db" where
  "put_member d uid gid role =
     (if list_ex (\<lambda>m. mb_user m = uid \<and> mb_group m = gid) (d_members d)
      then d\<lparr>d_members := map (\<lambda>m. if mb_user m = uid \<and> mb_group m = gid then m\<lparr>mb_role := role\<rparr> else m)
               (d_members d)\<rparr>
      else d\<lparr>d_members := d_members d @ [\<lparr>mb_user = uid, mb_group = gid, mb_role = role\<rparr>]\<rparr>)"

definition both_in_ws :: "db \<Rightarrow> int \<Rightarrow> int \<Rightarrow> int \<Rightarrow> bool" where
  "both_in_ws d ws uid gid \<longleftrightarrow>
     list_ex (\<lambda>x. us_id x = uid \<and> us_ws x = ws) (d_users d) \<and>
     list_ex (\<lambda>g. gr_id g = gid \<and> gr_ws g = ws) (d_groups d)"

definition members_required :: resp where
  "members_required = problem 403 ''Group membership management access required''"

definition saveMembership :: "env \<Rightarrow> user \<Rightarrow> request \<Rightarrow> string body \<Rightarrow> world \<Rightarrow> resp \<times> world" where
  "saveMembership e u r b w =
     (case pathID r ''id'' of
        Inl p \<Rightarrow> (p, w)
      | Inr gid \<Rightarrow>
          (case pathID r ''userID'' of
             Inl p \<Rightarrow> (p, w)
           | Inr uid \<Rightarrow>
               if \<not> groupAccess e 0 (w_db w) u gid ''members'' then (members_required, w)
               else case decode r b of
                 Inl p \<Rightarrow> (p, w)
               | Inr role \<Rightarrow>
                   if role \<noteq> ''viewer'' \<and> role \<noteq> ''operator'' \<and> role \<noteq> ''manager''
                   then (problem 400 ''Role must be viewer, operator or manager'', w)
                   else if e_fault e 1 then (dbError DbFailed, w)
                   else if \<not> both_in_ws (w_db w) (u_ws u) uid gid
                   then (problem 404 ''User or group not found in this workspace'', w)
                   else (reply_ok,
                         audit e 2 u (with_db w (put_member (w_db w) uid gid role)) ''membership.saved''
                           (rq_path r ''id'' @ ''/'' @ rq_path r ''userID'') (JObj [(''role'', JStr role)]))))"

definition deleteMembership :: "env \<Rightarrow> user \<Rightarrow> request \<Rightarrow> world \<Rightarrow> resp \<times> world" where
  "deleteMembership e u r w =
     (case pathID r ''id'' of
        Inl p \<Rightarrow> (p, w)
      | Inr gid \<Rightarrow>
          (case pathID r ''userID'' of
             Inl p \<Rightarrow> (p, w)
           | Inr uid \<Rightarrow>
               if \<not> groupAccess e 0 (w_db w) u gid ''members'' then (members_required, w)
               else if e_fault e 1 then (dbError DbFailed, w)
               else (reply_ok,
                     audit e 2 u
                       (with_db w ((w_db w)\<lparr>d_members :=
                          filter (\<lambda>m. \<not> (mb_group m = gid \<and> mb_user m = uid \<and> both_in_ws (w_db w) (u_ws u) uid gid))
                            (d_members (w_db w))\<rparr>))
                       ''membership.deleted'' (rq_path r ''id'' @ ''/'' @ rq_path r ''userID'') JNull)))"

section \<open>Settings\<close>

definition saveSettings :: "env \<Rightarrow> user \<Rightarrow> request \<Rightarrow> int body \<Rightarrow> world \<Rightarrow> resp \<times> world" where
  "saveSettings e u r b w =
     (if \<not> admin u then (admin_required, w)
      else case decode r b of
        Inl p \<Rightarrow> (p, w)
      | Inr retention \<Rightarrow>
          if retention < 7 \<or> retention > 3650
          then (problem 400 ''Retention must be between 7 and 3650 days'', w)
          else if e_fault e 0 then (dbError DbFailed, w)
          else (reply_ok,
                audit e 1 u
                  (with_db w ((w_db w)\<lparr>d_settings :=
                     map (\<lambda>s. if se_ws s = u_ws u then s\<lparr>se_retention := retention\<rparr> else s)
                       (d_settings (w_db w))\<rparr>))
                  ''settings.updated'' [] (JObj [(''audit_retention_days'', JInt retention)])))"

end
