(* ===== verification/Sso.thy ===== *)
theory Sso
  imports Admin
begin

text \<open>
  Single sign-on (\<^verbatim>\<open>internal/app/sso.go\<close>): the identity providers of a workspace, the mappings from
  their groups to teams, the sign-in flows of OIDC and SAML, provisioning, and the logout relays.

  \<open>sso_ext\<close> holds what the code takes from packages outside the repository (go-oidc, oauth2, crewjam
  saml, the JSON and AES libraries behind the stored configuration): each function returns
  \<^const>\<open>None\<close> where the library returns an error.  A service provider whose key is not RSA makes
  the type assertion of \<^verbatim>\<open>samlServiceProvider\<close> panic; the request is then answered 500.
\<close>

section \<open>Data\<close>

record idp_config =
  cf_issuer :: string
  cf_client :: string
  cf_secret :: string
  cf_scopes :: "string list"
  cf_email_claim :: string
  cf_username_claim :: string
  cf_groups_claim :: string
  cf_metadata :: string
  cf_email_attr :: string
  cf_username_attr :: string
  cf_groups_attr :: string
  cf_cert :: string
  cf_key :: string
  cf_idp_initiated :: bool

record idp_input =
  ii_name :: string
  ii_protocol :: string
  ii_enabled :: bool
  ii_jit :: bool
  ii_config :: idp_config

record mapping_input =
  mi_ext :: string
  mi_group :: int
  mi_role :: string

text \<open>A claim: the values \<^verbatim>\<open>any\<close> takes after \<^verbatim>\<open>json.Unmarshal\<close>, and the \<^verbatim>\<open>[]string\<close> of an assertion.\<close>

datatype claim =
    CNull
  | CBool bool
  | CNum string
  | CStr string
  | CStrs "string list"
  | CArr "claim list"
  | CObj "(string \<times> claim) list"

record identity =
  id_subject :: string
  id_email :: string
  id_verified :: bool
  id_username :: string
  id_groups :: "string list"

datatype keypair = RsaKey | OtherKey

record id_token =
  it_subject :: string
  it_nonce :: string
  it_claims :: "(string \<times> claim) list option"

record attribute =
  at_name :: string
  at_friendly :: string
  at_values :: "string list"

record assertion =
  an_nameid :: "(string \<times> string) option"
  an_attributes :: "attribute list"

record sso_ext =
  x_url :: "string \<Rightarrow> (string \<times> string) option"
  x_encrypt :: "string \<Rightarrow> string"
  x_decrypt :: "string \<Rightarrow> string option"
  x_marshal :: "idp_config \<Rightarrow> string"
  x_unmarshal :: "string \<Rightarrow> idp_config option"
  x_discover :: "string \<Rightarrow> string option option"
  x_auth_url :: "idp_config \<Rightarrow> string \<Rightarrow> string \<Rightarrow> string \<Rightarrow> string \<Rightarrow> string"
  x_exchange :: "idp_config \<Rightarrow> string \<Rightarrow> string \<Rightarrow> string \<Rightarrow> string option option"
  x_verify :: "idp_config \<Rightarrow> string \<Rightarrow> id_token option"
  x_end_session :: "string \<Rightarrow> string \<Rightarrow> string \<Rightarrow> string"
  x_entity :: "string \<Rightarrow> string option"
  x_keypair :: "string \<Rightarrow> string \<Rightarrow> keypair option"
  x_genpair :: "string \<Rightarrow> (string \<times> string) option"
  x_authn :: "idp_config \<Rightarrow> string \<Rightarrow> string \<Rightarrow> (string \<times> string option) option"
  x_response :: "idp_config \<Rightarrow> request \<Rightarrow> string list \<Rightarrow> assertion option"
  x_slo :: "idp_config \<Rightarrow> string"
  x_slo_request :: "idp_config \<Rightarrow> string \<Rightarrow> string \<Rightarrow> string option"
  x_slo_valid :: "idp_config \<Rightarrow> request \<Rightarrow> bool"

text \<open>
  \<open>x_url\<close> gives scheme and host; \<open>x_discover\<close> is \<^verbatim>\<open>oidc.NewProvider\<close> with the end-session endpoint of its
  claims (the inner \<^const>\<open>None\<close> where they do not decode); \<open>x_exchange\<close> yields the \<^verbatim>\<open>id_token\<close> of the token
  response (the inner \<^const>\<open>None\<close> where it is no string); \<open>x_entity\<close> is \<^verbatim>\<open>samlsp.ParseMetadata\<close> with
  its entity ID; \<open>x_authn\<close> gives the ID and the redirect of an authentication request.
\<close>

definition sso_failed :: resp where
  "sso_failed = redirect 303 ''/?sso=failed''"

definition sso_unavailable :: resp where
  "sso_unavailable = redirect 303 ''/?sso=unavailable''"

section \<open>Claims\<close>

fun claim_at :: "string list \<Rightarrow> claim \<Rightarrow> claim option" where
  "claim_at [] v = Some v"
| "claim_at (p # ps) v =
     (case v of
        CObj kvs \<Rightarrow> claim_at ps (case map_of kvs p of None \<Rightarrow> CNull | Some x \<Rightarrow> x)
      | _ \<Rightarrow> None)"

fun item_text :: "claim \<Rightarrow> string list" where
  "item_text (CStr s) = (if trim_space s = [] then [] else [trim_space s])"
| "item_text _ = []"

definition claimValues :: "(string \<times> claim) list \<Rightarrow> string \<Rightarrow> string list" where
  "claimValues claims path =
     (case claim_at (split_on CHR ''.'' path) (CObj claims) of
        Some (CStr s) \<Rightarrow> (if trim_space s = [] then [] else [trim_space s])
      | Some (CStrs xs) \<Rightarrow> xs
      | Some (CArr xs) \<Rightarrow> concat (map item_text xs)
      | _ \<Rightarrow> [])"

definition firstClaim :: "(string \<times> claim) list \<Rightarrow> string \<Rightarrow> string" where
  "firstClaim claims path = (case claimValues claims path of [] \<Rightarrow> [] | v # _ \<Rightarrow> v)"

definition claimBool :: "(string \<times> claim) list \<Rightarrow> string \<Rightarrow> bool" where
  "claimBool claims path =
     (case claim_at (split_on CHR ''.'' path) (CObj claims) of
        Some (CBool b) \<Rightarrow> b
      | Some (CStr s) \<Rightarrow> equal_fold s ''true''
      | _ \<Rightarrow> False)"

section \<open>Configurations\<close>

definition mergeIdentityProviderSecrets :: "idp_config \<Rightarrow> idp_config \<Rightarrow> idp_config" where
  "mergeIdentityProviderSecrets cur prev =
     cur\<lparr>cf_secret := (if cf_secret cur = [] then cf_secret prev else cf_secret cur),
         cf_metadata := (if cf_metadata cur = [] then cf_metadata prev else cf_metadata cur),
         cf_cert := (if cf_cert cur = [] then cf_cert prev else cf_cert cur),
         cf_key := (if cf_key cur = [] then cf_key prev else cf_key cur)\<rparr>"

definition defaultString :: "string \<Rightarrow> string \<Rightarrow> string" where
  "defaultString value fallback = (if trim_space value \<noteq> [] then trim_space value else fallback)"

definition trim_slash :: "string \<Rightarrow> string" where
  "trim_slash s = trim_right (\<lambda>c. c = CHR ''/'') (trim_space s)"

definition with_openid :: "string list \<Rightarrow> string list" where
  "with_openid scopes =
     (let scopes = (if scopes = [] then [''openid'', ''profile'', ''email'', ''groups''] else scopes)
      in if ''openid'' \<in> set scopes then scopes else ''openid'' # scopes)"

definition normalizeOIDC :: "sso_ext \<Rightarrow> idp_config \<Rightarrow> string + idp_config" where
  "normalizeOIDC x cfg =
     (let issuer = trim_slash (cf_issuer cfg)
      in case x_url x issuer of
           Some (scheme, host) \<Rightarrow>
             if scheme \<noteq> ''https'' \<or> host = [] \<or> cf_client cfg = [] \<or> cf_secret cfg = []
             then Inl ''OIDC requires an HTTPS issuer URL, client ID, and client secret''
             else Inr (cfg\<lparr>cf_issuer := issuer,
               cf_email_claim := defaultString (cf_email_claim cfg) ''email'',
               cf_username_claim := defaultString (cf_username_claim cfg) ''preferred_username'',
               cf_groups_claim := defaultString (cf_groups_claim cfg) ''groups'',
               cf_scopes := with_openid (cf_scopes cfg)\<rparr>)
         | None \<Rightarrow> Inl ''OIDC requires an HTTPS issuer URL, client ID, and client secret'')"

definition normalizeSAML :: "sso_ext \<Rightarrow> string \<Rightarrow> idp_config \<Rightarrow> string + idp_config" where
  "normalizeSAML x commonName cfg =
     (if cf_metadata cfg = [] then Inl ''SAML requires IdP metadata XML''
      else if x_entity x (cf_metadata cfg) = None then Inl ''SAML IdP metadata is invalid''
      else
        let cfg = cfg\<lparr>
          cf_email_attr := defaultString (cf_email_attr cfg)
            ''http://schemas.xmlsoap.org/ws/2005/05/identity/claims/emailaddress'',
          cf_username_attr := defaultString (cf_username_attr cfg)
            ''http://schemas.xmlsoap.org/ws/2005/05/identity/claims/name'',
          cf_groups_attr := defaultString (cf_groups_attr cfg)
            ''http://schemas.microsoft.com/ws/2008/06/identity/claims/groups''\<rparr>
        in if cf_cert cfg = [] \<or> cf_key cfg = []
           then case x_genpair x commonName of
                  None \<Rightarrow> Inl ''could not generate the SAML service-provider certificate''
                | Some (cert, key) \<Rightarrow> Inr (cfg\<lparr>cf_cert := cert, cf_key := key\<rparr>)
           else Inr cfg)"

definition normalizeIdentityProviderConfig ::
    "sso_ext \<Rightarrow> string \<Rightarrow> string \<Rightarrow> string \<Rightarrow> idp_config \<Rightarrow> string + idp_config" where
  "normalizeIdentityProviderConfig x protocol origin publicID cfg =
     (if protocol = ''oidc'' then normalizeOIDC x cfg
      else normalizeSAML x (origin @ ''/sso/'' @ publicID) cfg)"

definition decryptIdentityProviderConfig :: "sso_ext \<Rightarrow> string \<Rightarrow> idp_config option" where
  "decryptIdentityProviderConfig x cipher =
     (case x_decrypt x cipher of None \<Rightarrow> None | Some plain \<Rightarrow> x_unmarshal x plain)"

datatype sp = SpError | SpPanic | SpOk

definition samlServiceProvider :: "sso_ext \<Rightarrow> idp_config \<Rightarrow> sp" where
  "samlServiceProvider x cfg =
     (if x_entity x (cf_metadata cfg) = None then SpError
      else case x_keypair x (cf_cert cfg) (cf_key cfg) of
             None \<Rightarrow> SpError | Some OtherKey \<Rightarrow> SpPanic | Some RsaKey \<Rightarrow> SpOk)"

section \<open>Statements on identity providers\<close>

definition idp_in_ws :: "db \<Rightarrow> int \<Rightarrow> int \<Rightarrow> idp_row option" where
  "idp_in_ws d ws i = find (\<lambda>p. ip_id p = i \<and> ip_ws p = ws) (d_idps d)"

definition another_enabled :: "db \<Rightarrow> int \<Rightarrow> int \<Rightarrow> bool" where
  "another_enabled d ws i = list_ex (\<lambda>p. ip_ws p = ws \<and> ip_enabled p \<and> ip_id p \<noteq> i) (d_idps d)"

definition insert_idp :: "db \<Rightarrow> int \<Rightarrow> string \<Rightarrow> idp_input \<Rightarrow> string \<Rightarrow> (int \<times> db) option" where
  "insert_idp d ws public inp cipher =
     (if ws_by_id d ws = None \<or> list_ex (\<lambda>p. ip_public p = public) (d_idps d) \<or>
         list_ex (\<lambda>p. ip_ws p = ws \<and> ip_name p = ii_name inp) (d_idps d) \<or>
         rune_count public < 20 \<or> rune_count public > 100 \<or>
         rune_count (ii_name inp) < 1 \<or> rune_count (ii_name inp) > 100 then None
      else let i = next_id d ''identity_providers'' in
        Some (i, (bump d ''identity_providers'')\<lparr>d_idps := d_idps d @
          [\<lparr>ip_id = i, ip_ws = ws, ip_public = public, ip_name = ii_name inp, ip_protocol = ii_protocol inp,
            ip_enabled = ii_enabled inp, ip_jit = ii_jit inp, ip_config = cipher\<rparr>]\<rparr>))"

definition update_idp :: "db \<Rightarrow> int \<Rightarrow> int \<Rightarrow> idp_input \<Rightarrow> string \<Rightarrow> db_err + db" where
  "update_idp d ws i inp cipher =
     (if idp_in_ws d ws i = None then Inl NoRows
      else if list_ex (\<lambda>p. ip_id p \<noteq> i \<and> ip_ws p = ws \<and> ip_name p = ii_name inp) (d_idps d) \<or>
              rune_count (ii_name inp) < 1 \<or> rune_count (ii_name inp) > 100 then Inl DbFailed
      else Inr (d\<lparr>d_idps := map (\<lambda>p. if ip_id p = i \<and> ip_ws p = ws
             then p\<lparr>ip_name := ii_name inp, ip_enabled := ii_enabled inp, ip_jit := ii_jit inp,
                    ip_config := cipher\<rparr> else p) (d_idps d)\<rparr>))"

text \<open>\<^verbatim>\<open>ON DELETE CASCADE\<close> from a provider to identities, mappings and grants.\<close>

definition delete_idp :: "db \<Rightarrow> int \<Rightarrow> int \<Rightarrow> db" where
  "delete_idp d ws i =
     d\<lparr>d_idps := filter (\<lambda>p. \<not> (ip_id p = i \<and> ip_ws p = ws)) (d_idps d),
       d_extids := filter (\<lambda>x. ex_provider x \<noteq> i) (d_extids d),
       d_maps := filter (\<lambda>m. mp_provider m \<noteq> i) (d_maps d),
       d_grants := filter (\<lambda>g. sg_provider g \<noteq> i) (d_grants d)\<rparr>"

section \<open>Managing identity providers\<close>

definition safe_config :: "idp_config \<Rightarrow> json" where
  "safe_config c = JObj [(''issuer_url'', JStr (cf_issuer c)), (''client_id'', JStr (cf_client c)),
     (''scopes'', JList (map JStr (cf_scopes c))), (''email_claim'', JStr (cf_email_claim c)),
     (''username_claim'', JStr (cf_username_claim c)), (''groups_claim'', JStr (cf_groups_claim c)),
     (''email_attribute'', JStr (cf_email_attr c)), (''username_attribute'', JStr (cf_username_attr c)),
     (''groups_attribute'', JStr (cf_groups_attr c)),
     (''client_secret_configured'', JBool (cf_secret c \<noteq> [])),
     (''idp_metadata_configured'', JBool (cf_metadata c \<noteq> [])),
     (''allow_idp_initiated'', JBool (cf_idp_initiated c))]"

definition idp_json :: "string \<Rightarrow> idp_row \<Rightarrow> idp_config \<Rightarrow> json" where
  "idp_json origin p c = JObj [(''id'', JInt (ip_id p)), (''public_id'', JStr (ip_public p)),
     (''name'', JStr (ip_name p)), (''protocol'', JStr (ip_protocol p)), (''enabled'', JBool (ip_enabled p)),
     (''jit_provisioning'', JBool (ip_jit p)), (''config'', safe_config c),
     (''login_url'', JStr (origin @ ''/sso/'' @ ip_public p @ ''/start'')),
     (''callback_url'', JStr (origin @ ''/sso/'' @ ip_public p @ ''/callback'')),
     (''metadata_url'', JStr (origin @ ''/sso/'' @ ip_public p @ ''/metadata''))]"

fun idp_rows :: "sso_ext \<Rightarrow> string \<Rightarrow> idp_row list \<Rightarrow> json list option" where
  "idp_rows x origin [] = Some []"
| "idp_rows x origin (p # ps) =
     (case decryptIdentityProviderConfig x (ip_config p) of
        None \<Rightarrow> None
      | Some c \<Rightarrow> (case idp_rows x origin ps of None \<Rightarrow> None | Some js \<Rightarrow> Some (idp_json origin p c # js)))"

definition identityProviders :: "env \<Rightarrow> sso_ext \<Rightarrow> user \<Rightarrow> db \<Rightarrow> resp" where
  "identityProviders e x u d =
     (if \<not> admin u then admin_required
      else if e_fault e 0 then dbError DbFailed
      else case idp_rows x (e_origin e) (sort_key ip_name (filter (\<lambda>p. ip_ws p = u_ws u) (d_idps d))) of
        None \<Rightarrow> dbError DbFailed
      | Some providers \<Rightarrow>
          if e_fault e 1 then dbError DbFailed
          else case ws_by_id d (u_ws u) of
            None \<Rightarrow> dbError NoRows
          | Some s \<Rightarrow> reply 200 (JObj [(''data'', JList providers),
              (''sso_required'', JBool (ws_sso_required s)), (''workspace_slug'', JStr (ws_slug s))]))"

text \<open>The checks of an update against the stored provider; the result is the input with the secrets
  it left out.\<close>

definition update_checks ::
    "env \<Rightarrow> sso_ext \<Rightarrow> user \<Rightarrow> int \<Rightarrow> idp_input \<Rightarrow> db \<Rightarrow> resp + (string \<times> idp_input)" where
  "update_checks e x u i inp d =
     (if e_fault e 0 then Inl (dbError DbFailed)
      else case idp_in_ws d (u_ws u) i of
        None \<Rightarrow> Inl (dbError NoRows)
      | Some p \<Rightarrow>
          if ip_protocol p \<noteq> ii_protocol inp
          then Inl (problem 400 ''Create a new provider to change the SSO protocol'')
          else case decryptIdentityProviderConfig x (ip_config p) of
            None \<Rightarrow> Inl (dbError DbFailed)
          | Some prev \<Rightarrow>
              let c = mergeIdentityProviderSecrets (ii_config inp) prev
              in if ii_protocol inp = ''oidc'' \<and> trim_slash (cf_issuer prev) \<noteq> trim_slash (cf_issuer c)
                 then Inl (problem 400 ''Create a new provider to change the OIDC issuer'')
                 else if ii_protocol inp = ''saml'' \<and> cf_metadata c \<noteq> cf_metadata prev \<and>
                      (x_entity x (cf_metadata prev) = None \<or> x_entity x (cf_metadata c) = None \<or>
                       x_entity x (cf_metadata prev) \<noteq> x_entity x (cf_metadata c))
                 then Inl (problem 400 ''Create a new provider to change the SAML IdP entity ID'')
                 else if \<not> ii_enabled inp \<and> e_fault e 1 then Inl (dbError DbFailed)
                 else if \<not> ii_enabled inp \<and> ws_by_id d (u_ws u) = None then Inl (dbError NoRows)
                 else if \<not> ii_enabled inp \<and> ws_sso_required (the (ws_by_id d (u_ws u))) \<and>
                      \<not> another_enabled d (u_ws u) i
                 then Inl (problem 409 ''Disable SSO enforcement before disabling the last identity provider'')
                 else Inr (ip_public p, inp\<lparr>ii_config := c\<rparr>))"

text \<open>The discovery or the certificate check of an enabled provider: \<^const>\<open>None\<close> when it passes.\<close>

definition reachable :: "sso_ext \<Rightarrow> idp_input \<Rightarrow> resp option" where
  "reachable x inp =
     (if \<not> ii_enabled inp then None
      else if ii_protocol inp = ''oidc''
      then if x_discover x (cf_issuer (ii_config inp)) = None
           then Some (problem 400 ''OIDC discovery failed; verify the HTTPS issuer and try again'') else None
      else case samlServiceProvider x (ii_config inp) of
             SpOk \<Rightarrow> None
           | SpPanic \<Rightarrow> Some panicked
           | SpError \<Rightarrow> Some (problem 400 ''SAML metadata or service-provider certificate validation failed''))"

definition store_idp ::
    "env \<Rightarrow> sso_ext \<Rightarrow> user \<Rightarrow> bool \<Rightarrow> int \<Rightarrow> string \<Rightarrow> idp_input \<Rightarrow> db \<Rightarrow> resp + (int \<times> db)" where
  "store_idp e x u new i public inp d =
     (let cipher = x_encrypt x (x_marshal x (ii_config inp))
      in if e_fault e 2 then Inl (dbError DbFailed)
         else if new then (case insert_idp d (u_ws u) public inp cipher of
                             None \<Rightarrow> Inl (dbError DbFailed) | Some res \<Rightarrow> Inr res)
         else (case update_idp d (u_ws u) i inp cipher of
                 Inl err \<Rightarrow> Inl (dbError err) | Inr d' \<Rightarrow> Inr (i, d')))"

definition saveIdentityProvider ::
    "env \<Rightarrow> sso_ext \<Rightarrow> user \<Rightarrow> request \<Rightarrow> idp_input body \<Rightarrow> world \<Rightarrow> resp \<times> world" where
  "saveIdentityProvider e x u r b w =
     (if \<not> admin u then (admin_required, w)
      else case decode r b of
        Inl p \<Rightarrow> (p, w)
      | Inr raw \<Rightarrow>
          let inp = raw\<lparr>ii_name := trim_space (ii_name raw),
                        ii_protocol := to_lower (trim_space (ii_protocol raw))\<rparr>
          in if length (ii_name inp) < 1 \<or> length (ii_name inp) > 100 \<or>
                (ii_protocol inp \<noteq> ''oidc'' \<and> ii_protocol inp \<noteq> ''saml'')
             then (problem 400 ''Provide a name and choose OIDC or SAML'', w)
             else case (if rq_method r = ''PUT''
                        then case pathID r ''id'' of
                               Inl p \<Rightarrow> Inl p
                             | Inr i \<Rightarrow> (case update_checks e x u i inp (w_db w) of
                                          Inl p \<Rightarrow> Inl p | Inr (public, inp) \<Rightarrow> Inr (i, public, inp))
                        else Inr (0, e_token e 0, inp)) of
               Inl p \<Rightarrow> (p, w)
             | Inr (i, public, inp) \<Rightarrow>
                 (case normalizeIdentityProviderConfig x (ii_protocol inp) (e_origin e) public (ii_config inp) of
                    Inl err \<Rightarrow> (problem 400 err, w)
                  | Inr c \<Rightarrow>
                      let inp = inp\<lparr>ii_config := c\<rparr>
                      in case reachable x inp of
                        Some p \<Rightarrow> (p, w)
                      | None \<Rightarrow>
                          (case store_idp e x u (rq_method r = ''POST'') i public inp (w_db w) of
                             Inl p \<Rightarrow> (p, w)
                           | Inr (i, d) \<Rightarrow>
                               (reply 200 (JObj [(''id'', JInt i), (''public_id'', JStr public)]),
                                audit e 3 u (with_db w d) ''identity_provider.saved'' (show_int i)
                                  (JObj [(''name'', JStr (ii_name inp)), (''protocol'', JStr (ii_protocol inp)),
                                     (''enabled'', JBool (ii_enabled inp)),
                                     (''jit_provisioning'', JBool (ii_jit inp))])))))"

text \<open>The guard of \<^verbatim>\<open>deleteIdentityProvider\<close>, a statement of its own before the deletion.\<close>

definition delete_guard :: "db \<Rightarrow> int \<Rightarrow> int \<Rightarrow> resp option" where
  "delete_guard d ws i =
     (case (idp_in_ws d ws i, ws_by_id d ws) of
        (Some p, Some s) \<Rightarrow>
          if ws_sso_required s \<and> ip_enabled p \<and> \<not> another_enabled d ws i
          then Some (problem 409 ''Disable SSO enforcement before deleting the last identity provider'')
          else None
      | _ \<Rightarrow> Some (dbError NoRows))"

definition deleteIdentityProvider :: "env \<Rightarrow> user \<Rightarrow> request \<Rightarrow> world \<Rightarrow> resp \<times> world" where
  "deleteIdentityProvider e u r w =
     (if \<not> admin u then (admin_required, w)
      else case pathID r ''id'' of
        Inl p \<Rightarrow> (p, w)
      | Inr i \<Rightarrow>
          if e_fault e 0 then (dbError DbFailed, w)
          else case delete_guard (w_db w) (u_ws u) i of
            Some p \<Rightarrow> (p, w)
          | None \<Rightarrow>
              if e_fault e 1 then (dbError DbFailed, w)
              else if idp_in_ws (w_db w) (u_ws u) i = None
              then (problem 404 ''Identity provider not found'', w)
              else (reply_ok, audit e 2 u (with_db w (delete_idp (w_db w) (u_ws u) i))
                      ''identity_provider.deleted'' (show_int i) JNull))"

definition set_required :: "db \<Rightarrow> int \<Rightarrow> bool \<Rightarrow> db" where
  "set_required d ws b =
     d\<lparr>d_ws := map (\<lambda>s. if ws_id s = ws then s\<lparr>ws_sso_required := b\<rparr> else s) (d_ws d)\<rparr>"

definition saveSSOSettings :: "env \<Rightarrow> user \<Rightarrow> request \<Rightarrow> bool body \<Rightarrow> world \<Rightarrow> resp \<times> world" where
  "saveSSOSettings e u r b w =
     (if \<not> admin u then (admin_required, w)
      else case decode r b of
        Inl p \<Rightarrow> (p, w)
      | Inr required \<Rightarrow>
          if required \<and> e_fault e 0 then (dbError DbFailed, w)
          else if required \<and> \<not> list_ex (\<lambda>p. ip_ws p = u_ws u \<and> ip_enabled p) (d_idps (w_db w))
          then (problem 400 ''Enable at least one identity provider before requiring SSO'', w)
          else if e_fault e 1 then (dbError DbFailed, w)
          else (reply_ok, audit e 2 u (with_db w (set_required (w_db w) (u_ws u) required))
                  ''sso.enforcement_updated'' [] (JObj [(''sso_required'', JBool required)])))"

end
