(* ===== verification/SsoFlow.thy ===== *)
theory SsoFlow
  imports Sso "HOL-Library.Product_Lexorder"
begin

text \<open>
  The second half of \<^verbatim>\<open>internal/app/sso.go\<close>: group mappings, discovery, the start and the callbacks of
  a sign-in, provisioning with its transaction, the session and the logout relays.
\<close>

section \<open>Group mappings\<close>

definition same_mapping :: "int \<Rightarrow> string \<Rightarrow> int \<Rightarrow> map_row \<Rightarrow> bool" where
  "same_mapping pid ext gid m \<longleftrightarrow> mp_provider m = pid \<and> mp_ext m = ext \<and> mp_group m = gid"

text \<open>\<^verbatim>\<open>INSERT ... SELECT ... ON CONFLICT DO UPDATE ... RETURNING id\<close>.\<close>

definition upsert_mapping :: "db \<Rightarrow> int \<Rightarrow> int \<Rightarrow> mapping_input \<Rightarrow> db_err + (int \<times> db)" where
  "upsert_mapping d ws pid inp =
     (if idp_in_ws d ws pid = None \<or> group_in_ws d ws (mi_group inp) = None then Inl NoRows
      else case find (same_mapping pid (mi_ext inp) (mi_group inp)) (d_maps d) of
        Some m \<Rightarrow> Inr (mp_id m, d\<lparr>d_maps := map (\<lambda>m. if same_mapping pid (mi_ext inp) (mi_group inp) m
                    then m\<lparr>mp_role := mi_role inp\<rparr> else m) (d_maps d)\<rparr>)
      | None \<Rightarrow>
          if rune_count (mi_ext inp) < 1 \<or> rune_count (mi_ext inp) > 512 then Inl DbFailed
          else Inr (next_id d ''identity_group_mappings'', (bump d ''identity_group_mappings'')\<lparr>d_maps := d_maps d @
                 [\<lparr>mp_id = next_id d ''identity_group_mappings'', mp_ws = ws, mp_provider = pid,
                   mp_ext = mi_ext inp, mp_group = mi_group inp, mp_role = mi_role inp\<rparr>]\<rparr>))"

definition grant_of :: "int \<Rightarrow> int \<Rightarrow> string \<Rightarrow> int \<Rightarrow> grant_row \<Rightarrow> bool" where
  "grant_of ws pid ext gid g \<longleftrightarrow> sg_ws g = ws \<and> sg_provider g = pid \<and> sg_ext g = ext \<and> sg_group g = gid"

definition mappingTx :: "env \<Rightarrow> int \<Rightarrow> int \<Rightarrow> mapping_input \<Rightarrow> db \<Rightarrow> db_err + (int \<times> db)" where
  "mappingTx e ws pid inp d =
     (if e_fault e 0 \<or> e_fault e 1 then Inl DbFailed
      else case upsert_mapping d ws pid inp of
        Inl err \<Rightarrow> Inl err
      | Inr (mid, d1) \<Rightarrow>
          if e_fault e 2 \<or> e_fault e 3 then Inl DbFailed
          else Inr (mid, d1\<lparr>d_grants := map (\<lambda>g. if grant_of ws pid (mi_ext inp) (mi_group inp) g
                 then g\<lparr>sg_role := mi_role inp\<rparr> else g) (d_grants d1)\<rparr>))"

definition mapping_rows :: "db \<Rightarrow> int \<Rightarrow> int \<Rightarrow> json list" where
  "mapping_rows d ws pid =
     map (\<lambda>(ext, gname, m). JObj [(''id'', JInt (mp_id m)), (''external_group'', JStr ext),
            (''group_id'', JInt (mp_group m)), (''group_name'', JStr gname),
            (''membership_role'', JStr (mp_role m))])
       (sort_key (\<lambda>(ext, gname, m). (ext, gname))
         [(mp_ext m, gr_name g, m). m \<leftarrow> filter (\<lambda>m. mp_provider m = pid \<and> mp_ws m = ws) (d_maps d),
            g \<leftarrow> filter (\<lambda>g. gr_id g = mp_group m \<and> gr_ws g = mp_ws m) (d_groups d)])"

definition identityGroupMappings ::
    "env \<Rightarrow> user \<Rightarrow> request \<Rightarrow> mapping_input body \<Rightarrow> world \<Rightarrow> resp \<times> world" where
  "identityGroupMappings e u r b w =
     (if \<not> admin u then (admin_required, w)
      else case pathID r ''id'' of
        Inl p \<Rightarrow> (p, w)
      | Inr pid \<Rightarrow>
          if rq_method r = ''GET'' then (list_reply e 0 (mapping_rows (w_db w) (u_ws u) pid), w)
          else case decode r b of
            Inl p \<Rightarrow> (p, w)
          | Inr raw \<Rightarrow>
              let inp = raw\<lparr>mi_ext := trim_space (mi_ext raw)\<rparr>
              in if mi_ext inp = [] \<or> length (mi_ext inp) > 512 \<or> mi_group inp < 1 \<or>
                    mi_role inp \<notin> {''viewer'', ''operator'', ''manager''}
                 then (problem 400 ''Provide an external group, Nexus team, and membership role'', w)
                 else case mappingTx e (u_ws u) pid inp (w_db w) of
                   Inl err \<Rightarrow> (dbError err, w)
                 | Inr (mid, d) \<Rightarrow>
                     (reply_id mid, audit e 4 u (with_db w d) ''identity_group_mapping.saved'' (show_int mid)
                        (JObj [(''external_group'', JStr (mi_ext inp)), (''group_id'', JInt (mi_group inp)),
                               (''membership_role'', JStr (mi_role inp))])))"

text \<open>The transaction of a deletion: the mapping and the grants it gave.\<close>

definition remove_mapping :: "db \<Rightarrow> int \<Rightarrow> int \<Rightarrow> int \<Rightarrow> db option" where
  "remove_mapping d ws pid mid =
     (case find (\<lambda>m. mp_id m = mid \<and> mp_provider m = pid \<and> mp_ws m = ws) (d_maps d) of
        None \<Rightarrow> None
      | Some m \<Rightarrow> Some (d\<lparr>
          d_maps := filter (\<lambda>m. \<not> (mp_id m = mid \<and> mp_provider m = pid \<and> mp_ws m = ws)) (d_maps d),
          d_grants := filter (\<lambda>g. \<not> grant_of ws pid (mp_ext m) (mp_group m) g) (d_grants d)\<rparr>))"

definition deleteIdentityGroupMapping :: "env \<Rightarrow> user \<Rightarrow> request \<Rightarrow> world \<Rightarrow> resp \<times> world" where
  "deleteIdentityGroupMapping e u r w =
     (if \<not> admin u then (admin_required, w)
      else case pathID r ''id'' of
        Inl p \<Rightarrow> (p, w)
      | Inr pid \<Rightarrow>
          (case pathID r ''mappingID'' of
             Inl p \<Rightarrow> (p, w)
           | Inr mid \<Rightarrow>
               if e_fault e 0 \<or> e_fault e 1 then (dbError DbFailed, w)
               else case remove_mapping (w_db w) (u_ws u) pid mid of
                 None \<Rightarrow> (problem 404 ''Group mapping not found'', w)
               | Some d \<Rightarrow>
                   if e_fault e 2 \<or> e_fault e 3 then (dbError DbFailed, w)
                   else (reply_ok, audit e 4 u (with_db w d) ''identity_group_mapping.deleted''
                           (show_int mid) JNull)))"

section \<open>Discovery and lookup\<close>

definition publicIdentityProviders :: "env \<Rightarrow> network list \<Rightarrow> request \<Rightarrow> world \<Rightarrow> resp \<times> world" where
  "publicIdentityProviders e nets r w =
     (case allowAttempt e 0 nets r ''sso-discovery'' 60 w of
        (False, w) \<Rightarrow> (too_many ''Too many SSO discovery requests; try again later'', w)
      | (True, w) \<Rightarrow>
          let slug = trim_space (rq_query r ''workspace'')
          in if slug = [] then (problem 400 ''Workspace SSO code is required'', w)
             else (list_reply e 1
               (map (\<lambda>p. JObj [(''public_id'', JStr (ip_public p)), (''name'', JStr (ip_name p)),
                    (''protocol'', JStr (ip_protocol p)),
                    (''login_url'', JStr (''/sso/'' @ ip_public p @ ''/start''))])
                 (sort_key ip_name
                   [p. s \<leftarrow> filter (\<lambda>s. ws_slug s = slug) (d_ws (w_db w)),
                       p \<leftarrow> filter (\<lambda>p. ip_ws p = ws_id s \<and> ip_enabled p) (d_idps (w_db w))])), w))"

definition loadIdentityProvider ::
    "env \<Rightarrow> nat \<Rightarrow> sso_ext \<Rightarrow> db \<Rightarrow> string \<Rightarrow> bool \<Rightarrow> (idp_row \<times> idp_config) option" where
  "loadIdentityProvider e i x d public enabledOnly =
     (if e_fault e i then None
      else case find (\<lambda>p. ip_public p = public \<and> (enabledOnly \<longrightarrow> ip_enabled p)) (d_idps d) of
        None \<Rightarrow> None
      | Some p \<Rightarrow> (case decryptIdentityProviderConfig x (ip_config p) of
                    None \<Rightarrow> None | Some c \<Rightarrow> Some (p, c)))"

section \<open>Starting a sign-in\<close>

definition state_key :: "env \<Rightarrow> string \<Rightarrow> string" where
  "state_key e token = ''sso-state:'' @ e_digest e token"

definition callback_url :: "env \<Rightarrow> idp_row \<Rightarrow> string" where
  "callback_url e p = e_origin e @ ''/sso/'' @ ip_public p @ ''/callback''"

datatype start = StartFailed | StartPanic | Start sso_state string

definition start_flow :: "env \<Rightarrow> sso_ext \<Rightarrow> idp_row \<Rightarrow> idp_config \<Rightarrow> start" where
  "start_flow e x p c =
     (if ip_protocol p = ''oidc''
      then (if x_discover x (cf_issuer c) = None then StartFailed
            else Start \<lparr>st_provider = ip_id p, st_nonce = e_token e 1, st_verifier = e_token e 2, st_request = []\<rparr>
                   (x_auth_url x c (callback_url e p) (e_token e 0) (e_token e 1) (e_token e 2)))
      else case samlServiceProvider x c of
             SpError \<Rightarrow> StartFailed
           | SpPanic \<Rightarrow> StartPanic
           | SpOk \<Rightarrow>
               (case x_authn x c (e_token e 0) (e_origin e) of
                  None \<Rightarrow> StartFailed
                | Some (rid, None) \<Rightarrow> StartFailed
                | Some (rid, Some url) \<Rightarrow>
                    Start \<lparr>st_provider = ip_id p, st_nonce = [], st_verifier = [], st_request = rid\<rparr> url))"

definition startSSO :: "env \<Rightarrow> sso_ext \<Rightarrow> request \<Rightarrow> world \<Rightarrow> resp \<times> world" where
  "startSSO e x r w =
     (case loadIdentityProvider e 0 x (w_db w) (rq_path r ''provider'') True of
        None \<Rightarrow> (sso_unavailable, w)
      | Some (p, c) \<Rightarrow>
          (case start_flow e x p c of
             StartFailed \<Rightarrow> (sso_unavailable, w)
           | StartPanic \<Rightarrow> (panicked, w)
           | Start st url \<Rightarrow>
               if e_fault e 1 then (sso_unavailable, w)
               else (redirect 302 url, with_redis w
                       (rset (e_now e) 600 (state_key e (e_token e 0)) (RState st) (w_redis w)))))"

text \<open>The state is taken out of Redis before anything else is looked at.\<close>

definition consumeSSOState ::
    "env \<Rightarrow> sso_ext \<Rightarrow> request \<Rightarrow> string \<Rightarrow> string \<Rightarrow> world \<Rightarrow> (idp_row \<times> idp_config \<times> sso_state) option \<times> world" where
  "consumeSSOState e x r token protocol w =
     (if token = [] \<or> e_fault e 0 then (None, w)
      else case rgetdel (e_now e) (state_key e token) (w_redis w) of
        (v, red) \<Rightarrow>
          (case v of
             Some (RState st) \<Rightarrow>
               (case (if e_fault e 1 then None
                      else find (\<lambda>p. ip_id p = st_provider st) (d_idps (w_db w))) of
                  None \<Rightarrow> None
                | Some q \<Rightarrow>
                    (case loadIdentityProvider e 2 x (w_db w) (ip_public q) True of
                       None \<Rightarrow> None
                     | Some (p, c) \<Rightarrow>
                         if ip_protocol p \<noteq> protocol \<or> ip_public p \<noteq> rq_path r ''provider'' then None
                         else Some (p, c, st)))
           | _ \<Rightarrow> None,
           with_redis w red))"

section \<open>Provisioning\<close>

text \<open>\<^verbatim>\<open>[^A-Za-z0-9._-]+\<close> replaced by a dash.\<close>

definition name_char :: "char \<Rightarrow> bool" where
  "name_char c \<longleftrightarrow> is_lower c \<or> is_upper c \<or> is_digit c \<or> c = CHR ''.'' \<or> c = CHR ''_'' \<or> c = CHR ''-''"

function squeeze :: "string \<Rightarrow> string" where
  "squeeze [] = []"
| "squeeze (c # cs) =
     (if name_char c then c # squeeze cs else CHR ''-'' # squeeze (dropWhile (\<lambda>c. \<not> name_char c) cs))"
  by pat_completeness auto
termination
  by (relation "measure length") (auto simp: le_imp_less_Suc length_dropWhile_le)

definition sso_base :: "string \<Rightarrow> string \<Rightarrow> string" where
  "sso_base preferred email =
     (let base = trim_space preferred;
          base = (if base = [] then hd (split_on CHR ''@'' email) else base);
          base = trim (\<lambda>c. c = CHR ''-'' \<or> c = CHR ''.'' \<or> c = CHR ''_'') (squeeze base);
          base = (if length base < 3 then ''sso-user'' else base)
      in take 80 base)"

definition sso_candidate :: "string \<Rightarrow> nat \<Rightarrow> string" where
  "sso_candidate base i = (if i = 0 then base else base @ ''-'' @ show_nat (i + 1))"

text \<open>The loop over \<open>i < 1000\<close>; a candidate whose query fails is skipped.\<close>

fun first_free :: "env \<Rightarrow> db \<Rightarrow> string \<Rightarrow> nat list \<Rightarrow> string option" where
  "first_free e d base [] = None"
| "first_free e d base (i # is) =
     (if \<not> e_fault e (10 + i) \<and> \<not> name_taken d (sso_candidate base i) then Some (sso_candidate base i)
      else first_free e d base is)"

definition availableSSOUsername :: "env \<Rightarrow> db \<Rightarrow> string \<Rightarrow> string \<Rightarrow> string" where
  "availableSSOUsername e d preferred email =
     (case first_free e d (sso_base preferred email) [0..<1000] of
        Some name \<Rightarrow> name
      | None \<Rightarrow> ''sso-'' @ take 12 (e_digest e email))"

text \<open>The person an external identity names.\<close>

definition linked_user :: "db \<Rightarrow> int \<Rightarrow> string \<Rightarrow> user_row option" where
  "linked_user d pid subject =
     (case find (\<lambda>x. ex_provider x = pid \<and> ex_subject x = subject) (d_extids d) of
        None \<Rightarrow> None | Some x \<Rightarrow> user_by_id d (ex_user x))"

definition email_user :: "db \<Rightarrow> int \<Rightarrow> string \<Rightarrow> user_row option" where
  "email_user d ws email = find (\<lambda>x. us_ws x = ws \<and> to_lower (us_email x) = email) (d_users d)"

definition provision :: "env \<Rightarrow> idp_row \<Rightarrow> identity \<Rightarrow> db \<Rightarrow> (user \<times> db) option" where
  "provision e p ident d =
     (if e_fault e 4 \<or> ws_users d (ip_ws p) = [] then None
      else case ws_by_id d (ip_ws p) of
        None \<Rightarrow> None
      | Some s \<Rightarrow>
          if int (length (ws_users d (ip_ws p))) \<ge> ws_limit s \<or> e_fault e 5 then None
          else
            let name = availableSSOUsername e d (id_username ident) (id_email ident)
            in if e_fault e 6 \<or> e_fault e 7 then None
               else case insert_user d (ip_ws p) name (id_email ident) True (e_hash e (e_token e 1)) ''user'' False of
                 None \<Rightarrow> None
               | Some (i, d1) \<Rightarrow>
                   Some (\<lparr>u_id = i, u_ws = ip_ws p, u_wsname = ws_name s, u_name = name,
                          u_email = id_email ident, u_role = ''user'', u_owner = False, u_version = 1\<rparr>, d1))"

definition insert_extid :: "db \<Rightarrow> idp_row \<Rightarrow> int \<Rightarrow> identity \<Rightarrow> db option" where
  "insert_extid d p uid ident =
     (if list_ex (\<lambda>x. ex_provider x = ip_id p \<and> (ex_subject x = id_subject ident \<or> ex_user x = uid)) (d_extids d) \<or>
         idp_in_ws d (ip_ws p) (ip_id p) = None \<or>
         \<not> list_ex (\<lambda>x. us_id x = uid \<and> us_ws x = ip_ws p) (d_users d) \<or>
         rune_count (id_subject ident) < 1 \<or> rune_count (id_subject ident) > 2048 then None
      else Some (d\<lparr>d_extids := d_extids d @
        [\<lparr>ex_ws = ip_ws p, ex_provider = ip_id p, ex_user = uid, ex_subject = id_subject ident,
          ex_email = id_email ident\<rparr>]\<rparr>))"

text \<open>The person of an identity: the one it is linked to, else the one of its address, else a new
  one where the provider provisions; the latter two are linked.\<close>

definition sso_user :: "env \<Rightarrow> idp_row \<Rightarrow> identity \<Rightarrow> db \<Rightarrow> (user \<times> db) option" where
  "sso_user e p ident d =
     (if e_fault e 2 then None
      else case Option.bind (linked_user d (ip_id p) (id_subject ident)) (user_of d) of
        Some u \<Rightarrow> Some (u, d)
      | None \<Rightarrow>
          if e_fault e 3 then None
          else case (case Option.bind (email_user d (ip_ws p) (id_email ident)) (user_of d) of
                       Some u \<Rightarrow> Some (u, d)
                     | None \<Rightarrow> if ip_jit p then provision e p ident d else None) of
            None \<Rightarrow> None
          | Some (u, d1) \<Rightarrow>
              if e_fault e 8 then None
              else (case insert_extid d1 p (u_id u) ident of None \<Rightarrow> None | Some d2 \<Rightarrow> Some (u, d2)))"

text \<open>The grants a provider gives a person: replaced by what the mappings yield for its groups.\<close>

definition provider_grants :: "db \<Rightarrow> idp_row \<Rightarrow> int \<Rightarrow> string list \<Rightarrow> grant_row list" where
  "provider_grants d p uid gs =
     map (\<lambda>m. \<lparr>sg_ws = mp_ws m, sg_provider = mp_provider m, sg_user = uid, sg_group = mp_group m,
               sg_ext = mp_ext m, sg_role = mp_role m\<rparr>)
       (filter (\<lambda>m. mp_ws m = ip_ws p \<and> mp_provider m = ip_id p \<and> mp_ext m \<in> set gs) (d_maps d))"

definition sync_grants :: "db \<Rightarrow> idp_row \<Rightarrow> int \<Rightarrow> string list \<Rightarrow> db" where
  "sync_grants d p uid gs =
     d\<lparr>d_grants := filter (\<lambda>g. \<not> (sg_provider g = ip_id p \<and> sg_user g = uid)) (d_grants d) @
                    provider_grants d p uid gs\<rparr>"

definition touch_extid :: "db \<Rightarrow> idp_row \<Rightarrow> identity \<Rightarrow> db" where
  "touch_extid d p ident =
     d\<lparr>d_extids := map (\<lambda>x. if ex_provider x = ip_id p \<and> ex_subject x = id_subject ident
                             then x\<lparr>ex_email := id_email ident\<rparr> else x) (d_extids d)\<rparr>"

definition finishTx :: "env \<Rightarrow> idp_row \<Rightarrow> identity \<Rightarrow> db \<Rightarrow> (user \<times> db) option" where
  "finishTx e p ident d =
     (if e_fault e 0 \<or> e_fault e 1 then None
      else case sso_user e p ident d of
        None \<Rightarrow> None
      | Some (u, d1) \<Rightarrow>
          if e_fault e 9 \<or> e_fault e 1010 \<or> (id_groups ident \<noteq> [] \<and> e_fault e 1011) \<or> e_fault e 1012 then None
          else Some (u, sync_grants (touch_extid d1 p ident) p (u_id u) (id_groups ident)))"

section \<open>The session\<close>

definition sso_session :: "user \<Rightarrow> idp_row \<Rightarrow> string \<Rightarrow> session" where
  "sso_session u p subject =
     \<lparr>ss_user = u_id u, ss_version = u_version u, ss_provider = ip_public p, ss_protocol = ip_protocol p,
      ss_subject = subject\<rparr>"

definition establishSSOSession ::
    "env \<Rightarrow> nat \<Rightarrow> user \<Rightarrow> idp_row \<Rightarrow> string \<Rightarrow> world \<Rightarrow> (resp + string) \<times> world" where
  "establishSSOSession e i u p subject w =
     (let token = e_token e 3
      in if e_fault e i then (Inl (problem 503 ''Authentication service unavailable''), w)
         else (Inr token, with_redis w (rset (e_now e) 43200 (session_key e token)
                 (RSession (sso_session u p subject)) (w_redis w))))"

definition clean_identity :: "identity \<Rightarrow> identity" where
  "clean_identity ident = ident\<lparr>id_subject := trim_space (id_subject ident),
     id_email := to_lower (trim_space (id_email ident)), id_username := trim_space (id_username ident)\<rparr>"

definition finishSSO :: "env \<Rightarrow> idp_row \<Rightarrow> identity \<Rightarrow> world \<Rightarrow> resp \<times> world" where
  "finishSSO e p raw w =
     (let ident = clean_identity raw
      in if id_subject ident = [] \<or> id_email ident = [] \<or> \<not> id_verified ident \<or>
            normalizeEmail e (id_email ident) = None
         then (sso_failed, w)
         else case finishTx e p ident (w_db w) of
           None \<Rightarrow> (sso_failed, w)
         | Some (u, d) \<Rightarrow>
             let w1 = snd (rcd e 1013 (with_db w d) (u_ws u) (u_id u) (u_name u) ''auth.sso_login''
                        (show_int (ip_id p)) (JObj [(''provider'', JStr (ip_name p)),
                          (''protocol'', JStr (ip_protocol p)), (''groups'', JList (map JStr (id_groups ident)))]))
             in case establishSSOSession e 1014 u p (id_subject ident) w1 of
                  (Inl q, w2) \<Rightarrow> (q, w2)
                | (Inr token, w2) \<Rightarrow>
                    ((redirect 303 ''/'')\<lparr>rs_cookies := [(''nexus_session'', token, 43200)]\<rparr>, w2))"

section \<open>The callbacks\<close>

definition oidc_identity :: "idp_config \<Rightarrow> string \<Rightarrow> (string \<times> claim) list \<Rightarrow> identity" where
  "oidc_identity c subject claims =
     \<lparr>id_subject = subject, id_email = firstClaim claims (cf_email_claim c),
      id_verified = claimBool claims ''email_verified'', id_username = firstClaim claims (cf_username_claim c),
      id_groups = claimValues claims (cf_groups_claim c)\<rparr>"

definition oidc_subject ::
    "env \<Rightarrow> sso_ext \<Rightarrow> idp_row \<Rightarrow> idp_config \<Rightarrow> sso_state \<Rightarrow> string \<Rightarrow> identity option" where
  "oidc_subject e x p c st code =
     (if x_discover x (cf_issuer c) = None then None
      else case x_exchange x c (callback_url e p) code (st_verifier st) of
        Some (Some raw) \<Rightarrow>
          (case x_verify x c raw of
             None \<Rightarrow> None
           | Some t \<Rightarrow>
               if it_nonce t \<noteq> st_nonce st then None
               else (case it_claims t of None \<Rightarrow> None
                     | Some claims \<Rightarrow> Some (oidc_identity c (it_subject t) claims)))
      | _ \<Rightarrow> None)"

text \<open>The calls of \<^verbatim>\<open>finishSSO\<close> are numbered from 100 where a callback precedes it.\<close>

definition later :: "nat \<Rightarrow> env \<Rightarrow> env" where
  "later k e = e\<lparr>e_fault := (\<lambda>i. e_fault e (k + i))\<rparr>"

definition oidcCallback :: "env \<Rightarrow> sso_ext \<Rightarrow> request \<Rightarrow> world \<Rightarrow> resp \<times> world" where
  "oidcCallback e x r w =
     (case consumeSSOState e x r (rq_query r ''state'') ''oidc'' w of
        (None, w1) \<Rightarrow> (sso_failed, w1)
      | (Some (p, c, st), w1) \<Rightarrow>
          (case oidc_subject e x p c st (rq_query r ''code'') of
             None \<Rightarrow> (sso_failed, w1)
           | Some ident \<Rightarrow> finishSSO (later 3 e) p ident w1))"

text \<open>The attributes of an assertion by name and by friendly name, later ones overriding.\<close>

fun put_attributes :: "attribute list \<Rightarrow> (string \<times> claim) list \<Rightarrow> (string \<times> claim) list" where
  "put_attributes [] m = m"
| "put_attributes (a # as) m =
     (let values = CStrs (map trim_space (at_values a));
          m = (at_name a, values) # m
      in put_attributes as (if at_friendly a = [] then m else (at_friendly a, values) # m))"

definition persistent_format :: string where
  "persistent_format = ''urn:oasis:names:tc:SAML:2.0:nameid-format:persistent''"

definition saml_identity :: "idp_config \<Rightarrow> assertion \<Rightarrow> identity option" where
  "saml_identity c a =
     (case an_nameid a of
        None \<Rightarrow> None
      | Some (value, fmt) \<Rightarrow>
          if fmt \<noteq> persistent_format then None
          else let m = put_attributes (an_attributes a) []
               in Some \<lparr>id_subject = trim_space value, id_email = firstClaim m (cf_email_attr c),
                        id_verified = True, id_username = firstClaim m (cf_username_attr c),
                        id_groups = claimValues m (cf_groups_attr c)\<rparr>)"

text \<open>\<open>form\<close> is the \<^verbatim>\<open>RelayState\<close> of the parsed form, \<^const>\<open>None\<close> where it does not parse.\<close>

definition saml_state ::
    "env \<Rightarrow> sso_ext \<Rightarrow> request \<Rightarrow> string \<Rightarrow> world \<Rightarrow> (idp_row \<times> idp_config \<times> string list) option \<times> world" where
  "saml_state e x r relay w =
     (if relay = []
      then (case loadIdentityProvider e 0 x (w_db w) (rq_path r ''provider'') True of
              None \<Rightarrow> None
            | Some (p, c) \<Rightarrow>
                if ip_protocol p \<noteq> ''saml'' \<or> \<not> cf_idp_initiated c then None else Some (p, c, []), w)
      else (case consumeSSOState e x r relay ''saml'' w of
              (None, w1) \<Rightarrow> (None, w1)
            | (Some (p, c, st), w1) \<Rightarrow>
                (Some (p, c, if st_request st = [] then [] else [st_request st]), w1)))"

definition samlCallback :: "env \<Rightarrow> sso_ext \<Rightarrow> request \<Rightarrow> string option \<Rightarrow> world \<Rightarrow> resp \<times> world" where
  "samlCallback e x r form w =
     (case form of
        None \<Rightarrow> (sso_failed, w)
      | Some relay \<Rightarrow>
          (case saml_state e x r relay w of
             (None, w1) \<Rightarrow> (sso_failed, w1)
           | (Some (p, c, ids), w1) \<Rightarrow>
               (case samlServiceProvider x c of
                  SpError \<Rightarrow> (sso_failed, w1)
                | SpPanic \<Rightarrow> (panicked, w1)
                | SpOk \<Rightarrow>
                    (case Option.bind (x_response x c r ids) (saml_identity c) of
                       None \<Rightarrow> (sso_failed, w1)
                     | Some ident \<Rightarrow> finishSSO (later 3 e) p ident w1))))"

section \<open>Signing out at the identity provider\<close>

definition logout_key :: "env \<Rightarrow> string \<Rightarrow> string" where
  "logout_key e relay = ''sso-logout:'' @ e_digest e relay"

text \<open>The result is the address to go to, empty for none, and \<^const>\<open>None\<close> for a panic.\<close>

definition saml_logout ::
    "env \<Rightarrow> sso_ext \<Rightarrow> idp_row \<Rightarrow> idp_config \<Rightarrow> string \<Rightarrow> world \<Rightarrow> string option \<times> world" where
  "saml_logout e x p c subject w =
     (if samlServiceProvider x c = SpPanic then (None, w)
      else if samlServiceProvider x c = SpError \<or> x_slo x c = [] \<or> e_fault e 3 then (Some [], w)
      else (Some (case x_slo_request x c subject (e_token e 4) of None \<Rightarrow> [] | Some url \<Rightarrow> url),
            with_redis w (rset (e_now e) 600 (logout_key e (e_token e 4))
              (RState \<lparr>st_provider = ip_id p, st_nonce = [], st_verifier = [], st_request = []\<rparr>) (w_redis w))))"

definition oidc_logout :: "env \<Rightarrow> sso_ext \<Rightarrow> idp_config \<Rightarrow> string" where
  "oidc_logout e x c =
     (case x_discover x (cf_issuer c) of
        Some (Some endpoint) \<Rightarrow>
          (case x_url x endpoint of
             Some (scheme, host) \<Rightarrow>
               if scheme = ''https'' \<and> host \<noteq> [] then x_end_session x endpoint (cf_client c) (e_origin e) else []
           | None \<Rightarrow> [])
      | _ \<Rightarrow> [])"

definition ssoLogoutURL :: "env \<Rightarrow> sso_ext \<Rightarrow> session \<Rightarrow> world \<Rightarrow> string option \<times> world" where
  "ssoLogoutURL e x s w =
     (if ss_provider s = [] \<or> ss_subject s = [] then (Some [], w)
      else case loadIdentityProvider e 2 x (w_db w) (ss_provider s) True of
        None \<Rightarrow> (Some [], w)
      | Some (p, c) \<Rightarrow>
          if ip_protocol p = ''saml'' then saml_logout e x p c (ss_subject s) w
          else if ip_protocol p = ''oidc'' then (Some (oidc_logout e x c), w)
          else (Some [], w))"

definition samlLogoutCallback :: "env \<Rightarrow> sso_ext \<Rightarrow> request \<Rightarrow> string \<Rightarrow> world \<Rightarrow> resp \<times> world" where
  "samlLogoutCallback e x r form w =
     (let relay = (if rq_query r ''RelayState'' = [] then form else rq_query r ''RelayState'')
      in if e_fault e 0 then (sso_failed, w)
         else case rgetdel (e_now e) (logout_key e relay) (w_redis w) of
           (v, red) \<Rightarrow>
             (case (if relay = [] then None else v) of
                Some (RState st) \<Rightarrow>
                  (case (if e_fault e 1 then None
                         else find (\<lambda>p. ip_id p = st_provider st \<and> ip_enabled p) (d_idps (w_db w))) of
                     None \<Rightarrow> sso_failed
                   | Some q \<Rightarrow>
                       if ip_public q \<noteq> rq_path r ''provider'' then sso_failed
                       else (case loadIdentityProvider e 2 x (w_db w) (ip_public q) True of
                               None \<Rightarrow> sso_failed
                             | Some (p, c) \<Rightarrow>
                                 if ip_protocol p \<noteq> ''saml'' then sso_failed
                                 else (case samlServiceProvider x c of
                                         SpError \<Rightarrow> sso_failed
                                       | SpPanic \<Rightarrow> panicked
                                       | SpOk \<Rightarrow> if x_slo_valid x c r then redirect 303 ''/?logout=success''
                                                 else sso_failed)))
              | _ \<Rightarrow> sso_failed,
              with_redis w red))"

end
