(* ===== verification/Patterns.thy ===== *)
theory Patterns
  imports Prelude
begin

text \<open>
  The anchored regular expressions of the program (\<^verbatim>\<open>regexp.MustCompile\<close> variables of
  \<^verbatim>\<open>internal/app\<close>).  Each is a sequence of character classes with repetition bounds, matched
  with backtracking over the whole string; the one alternation (\<^verbatim>\<open>(?: \<dots> )?\<close>) is written as two
  sequences.  The group of lemmas bounds the length and the characters of what matches.
\<close>

type_synonym atom = "(char \<Rightarrow> bool) \<times> nat \<times> nat"

fun match_seq :: "atom list \<Rightarrow> string \<Rightarrow> bool" where
  "match_seq [] s = (s = [])"
| "match_seq ((p, lo, hi) # as) s =
     list_ex (\<lambda>k. k \<le> length s \<and> list_all p (take k s) \<and> match_seq as (drop k s)) [lo..<Suc hi]"

definition is_alpha :: "char \<Rightarrow> bool" where
  "is_alpha c \<longleftrightarrow> is_lower c \<or> is_upper c"

definition lower_num :: "char \<Rightarrow> bool" where
  "lower_num c \<longleftrightarrow> is_lower c \<or> is_digit c"

definition lower_num_dash :: "char \<Rightarrow> bool" where
  "lower_num_dash c \<longleftrightarrow> lower_num c \<or> c = CHR ''-''"

definition alnum :: "char \<Rightarrow> bool" where
  "alnum c \<longleftrightarrow> is_alpha c \<or> is_digit c"

definition alnum_dash :: "char \<Rightarrow> bool" where
  "alnum_dash c \<longleftrightarrow> alnum c \<or> c = CHR ''-''"

definition hex_char :: "char \<Rightarrow> bool" where
  "hex_char c \<longleftrightarrow> is_digit c \<or> c \<in> set ''abcdefABCDEF''"

definition lit :: "char \<Rightarrow> atom" where
  "lit c = ((=) c, 1, 1)"

definition regionPattern :: "string \<Rightarrow> bool" where
  "regionPattern = match_seq [(lower_num, 1, 1), (lower_num_dash, 0, 62)]"

definition uuidPattern :: "string \<Rightarrow> bool" where
  "uuidPattern = match_seq
     [(hex_char, 8, 8), lit CHR ''-'', (hex_char, 4, 4), lit CHR ''-'', (hex_char, 4, 4),
      lit CHR ''-'', (hex_char, 4, 4), lit CHR ''-'', (hex_char, 12, 12)]"

definition gcpProjectPattern :: "string \<Rightarrow> bool" where
  "gcpProjectPattern = match_seq [(is_lower, 1, 1), (lower_num_dash, 4, 28), (lower_num, 1, 1)]"

definition accessRoleKeyPattern :: "string \<Rightarrow> bool" where
  "accessRoleKeyPattern =
     match_seq [(is_lower, 1, 1), (\<lambda>c. lower_num_dash c \<or> c = CHR ''_'', 1, 62)]"

definition securityGroupIDPattern :: "string \<Rightarrow> bool" where
  "securityGroupIDPattern =
     match_seq [lit CHR ''s'', lit CHR ''g'', lit CHR ''-'', (alnum_dash, 1, 128)]"

definition securityGroupRuleIDPattern :: "string \<Rightarrow> bool" where
  "securityGroupRuleIDPattern =
     match_seq [lit CHR ''s'', lit CHR ''g'', lit CHR ''r'', lit CHR ''-'', (alnum_dash, 1, 128)]"

definition ossBucketNamePattern :: "string \<Rightarrow> bool" where
  "ossBucketNamePattern = match_seq [(lower_num, 1, 1), (lower_num_dash, 1, 61), (lower_num, 1, 1)]"

definition cloudResourcePattern :: "string \<Rightarrow> bool" where
  "cloudResourcePattern =
     match_seq [(alnum, 1, 1), (\<lambda>c. alnum c \<or> c \<in> set ''._:+-'', 0, 127)]"

definition edsUsernamePattern :: "string \<Rightarrow> bool" where
  "edsUsernamePattern = match_seq [(\<lambda>c. lower_num c \<or> c = CHR ''_'', 3, 24)]"

text \<open>\<^verbatim>\<open>^[A-Za-z0-9](?:[A-Za-z0-9-]{0,13}[A-Za-z0-9])?$\<close>\<close>

definition edsHostnamePattern :: "string \<Rightarrow> bool" where
  "edsHostnamePattern s \<longleftrightarrow>
     match_seq [(alnum, 1, 1)] s \<or> match_seq [(alnum, 1, 1), (alnum_dash, 0, 13), (alnum, 1, 1)] s"

text \<open>\<^verbatim>\<open>^\d{4}-(0[1-9]|1[0-2])$\<close>\<close>

definition billingCyclePattern :: "string \<Rightarrow> bool" where
  "billingCyclePattern s \<longleftrightarrow>
     match_seq [(is_digit, 4, 4), lit CHR ''-'', lit CHR ''0'',
                (\<lambda>c. is_digit c \<and> c \<noteq> CHR ''0'', 1, 1)] s \<or>
     match_seq [(is_digit, 4, 4), lit CHR ''-'', lit CHR ''1'', (\<lambda>c. c \<in> set ''012'', 1, 1)] s"

lemmas pattern_defs = regionPattern_def uuidPattern_def gcpProjectPattern_def
  accessRoleKeyPattern_def securityGroupIDPattern_def securityGroupRuleIDPattern_def
  ossBucketNamePattern_def cloudResourcePattern_def edsUsernamePattern_def
  edsHostnamePattern_def billingCyclePattern_def

lemmas class_defs = is_alpha_def lower_num_def lower_num_dash_def alnum_def alnum_dash_def
  hex_char_def is_lower_def is_upper_def is_digit_def lit_def

lemma match_seq_Cons:
  "match_seq ((p, lo, hi) # as) s \<longleftrightarrow>
     (\<exists>a b. s = a @ b \<and> lo \<le> length a \<and> length a \<le> hi \<and> list_all p a \<and> match_seq as b)"
proof
  assume "match_seq ((p, lo, hi) # as) s"
  then obtain k where "lo \<le> k" "k \<le> hi" "k \<le> length s" "list_all p (take k s)"
    "match_seq as (drop k s)" by (auto simp: list_ex_iff)
  then show "\<exists>a b. s = a @ b \<and> lo \<le> length a \<and> length a \<le> hi \<and> list_all p a \<and> match_seq as b"
    by (intro exI [of _ "take k s"] exI [of _ "drop k s"]) simp
next
  assume "\<exists>a b. s = a @ b \<and> lo \<le> length a \<and> length a \<le> hi \<and> list_all p a \<and> match_seq as b"
  then obtain a b where s: "s = a @ b" "lo \<le> length a" "length a \<le> hi" "list_all p a" "match_seq as b"
    by blast
  then have "length a \<in> set [lo..<Suc hi]" by (simp add: less_Suc_eq_le del: upt_Suc)
  with s show "match_seq ((p, lo, hi) # as) s"
    unfolding match_seq.simps list_ex_iff by (intro bexI [of _ "length a"]) auto
qed

lemma match_seq_length:
  "match_seq as s \<Longrightarrow>
     (\<Sum>(p, lo, hi) \<leftarrow> as. lo) \<le> length s \<and> length s \<le> (\<Sum>(p, lo, hi) \<leftarrow> as. hi)"
proof (induction as arbitrary: s)
  case Nil
  then show ?case by simp
next
  case (Cons at as)
  obtain p lo hi where at: "at = (p, lo, hi)" by (cases at)
  with Cons.prems obtain a b where "s = a @ b" "lo \<le> length a" "length a \<le> hi" "match_seq as b"
    by (auto simp: match_seq_Cons simp del: match_seq.simps)
  with Cons.IH [of b] at show ?case by auto
qed

lemma match_seq_chars:
  "match_seq as s \<Longrightarrow> c \<in> set s \<Longrightarrow> \<exists>(p, lo, hi) \<in> set as. p c"
proof (induction as arbitrary: s)
  case Nil
  then show ?case by simp
next
  case (Cons at as)
  obtain p lo hi where at: "at = (p, lo, hi)" by (cases at)
  with Cons.prems obtain a b where s: "s = a @ b" "list_all p a" "match_seq as b"
    by (auto simp: match_seq_Cons simp del: match_seq.simps)
  show ?case
  proof (cases "c \<in> set a")
    case True
    with s at show ?thesis by (auto simp: list_all_iff)
  next
    case False
    with s Cons.prems(2) have "c \<in> set b" by simp
    with s(3) Cons.IH at show ?thesis by fastforce
  qed
qed

lemma match_single:
  "match_seq ((p, Suc 0, Suc 0) # as) s \<longleftrightarrow> (\<exists>c r. s = c # r \<and> p c \<and> match_seq as r)"
proof
  assume "match_seq ((p, Suc 0, Suc 0) # as) s"
  then obtain a b where "s = a @ b" "length a = Suc 0" "list_all p a" "match_seq as b"
    unfolding match_seq_Cons by force
  then show "\<exists>c r. s = c # r \<and> p c \<and> match_seq as r"
    by (auto simp: length_Suc_conv)
next
  assume "\<exists>c r. s = c # r \<and> p c \<and> match_seq as r"
  then obtain c r where "s = [c] @ r" "p c" "match_seq as r" by auto
  then show "match_seq ((p, Suc 0, Suc 0) # as) s"
    unfolding match_seq_Cons by (intro exI [of _ "[c]"] exI [of _ r]) simp
qed

lemma match_last: "match_seq [(p, lo, hi)] s \<longleftrightarrow> lo \<le> length s \<and> length s \<le> hi \<and> list_all p s"
  unfolding match_seq_Cons by auto

lemma regionPattern_iff:
  "regionPattern s \<longleftrightarrow> s \<noteq> [] \<and> length s \<le> 63 \<and> lower_num (hd s) \<and> list_all lower_num_dash (tl s)"
  by (cases s) (auto simp: regionPattern_def match_single match_last simp del: match_seq.simps)

lemma accessRoleKeyPattern_length: "accessRoleKeyPattern s \<Longrightarrow> 2 \<le> length s \<and> length s \<le> 63"
  using match_seq_length unfolding accessRoleKeyPattern_def by fastforce

lemma ossBucketNamePattern_length: "ossBucketNamePattern s \<Longrightarrow> 3 \<le> length s \<and> length s \<le> 63"
  using match_seq_length unfolding ossBucketNamePattern_def by fastforce

lemma ossBucketNamePattern_chars: "ossBucketNamePattern s \<Longrightarrow> list_all lower_num_dash s"
  unfolding ossBucketNamePattern_def list_all_iff
  using match_seq_chars by (fastforce simp: lower_num_dash_def)

end
