(* ===== verification/Access.thy ===== *)
theory Access
  imports Policy Patterns
begin

text \<open>
  Roles and account assignments (\<^verbatim>\<open>internal/app/account_access.go\<close>): the closure of a role's
  permissions, the custom roles of a workspace, the assignments of users and teams to accounts, and
  the step that moves an account from the legacy access groups to explicit assignments.
\<close>

section \<open>Role permissions\<close>

definition close_permissions :: "string set \<Rightarrow> string set" where
  "close_permissions S =
     (let S = (if ''account.manage'' \<in> S then insert ''account.view'' S else S);
          S = (if ''compute.view'' \<in> S \<or> ''compute.operate'' \<in> S then insert ''account.view'' S else S);
          S = (if ''compute.operate'' \<in> S then insert ''compute.view'' S else S);
          S = (if ''eds.view'' \<in> S \<or> ''eds.operate'' \<in> S \<or> ''eds.manage'' \<in> S
               then insert ''eds.view'' (insert ''account.view'' S) else S);
          S = (if ''eds.manage'' \<in> S then insert ''eds.operate'' S else S)
      in S)"

definition validRolePermissions :: "string list \<Rightarrow> string list option" where
  "validRolePermissions values =
     (let vs = map (\<lambda>v. trim_space (to_lower v)) values
      in if \<not> list_all (\<lambda>v. v \<in> set supportedCapabilities) vs then None
         else let perms = filter (\<lambda>c. c \<in> close_permissions (set vs)) supportedCapabilities
              in if perms = [] then None else Some perms)"

definition sameStrings :: "string list \<Rightarrow> string list \<Rightarrow> bool" where
  "sameStrings left right \<longleftrightarrow>
     length left = length right \<and> list_all (\<lambda>v. v \<in> set right) left"

definition containsCapability :: "string list \<Rightarrow> string \<Rightarrow> bool" where
  "containsCapability values cap = list_ex (\<lambda>v. v = cap) values"

section \<open>Statements on \<^verbatim>\<open>access_roles\<close> and \<^verbatim>\<open>account_access_assignments\<close>\<close>

definition insert_role ::
    "db \<Rightarrow> int \<Rightarrow> string \<Rightarrow> string \<Rightarrow> string \<Rightarrow> string list \<Rightarrow> (int \<times> db) option" where
  "insert_role d ws key name desc perms =
     (if ws_by_id d ws = None \<or> list_ex (\<lambda>r. rl_ws r = ws \<and> rl_key r = key) (d_roles d) then None
      else Some (next_id d ''access_roles'',
        (bump d ''access_roles'')\<lparr>d_roles := d_roles d @
          [\<lparr>rl_id = next_id d ''access_roles'', rl_ws = ws, rl_key = key, rl_name = name,
            rl_desc = desc, rl_perms = perms, rl_builtin = False\<rparr>]\<rparr>))"

definition role_matches :: "int \<Rightarrow> int \<Rightarrow> string \<Rightarrow> role_row \<Rightarrow> bool" where
  "role_matches i ws key r \<longleftrightarrow>
     rl_id r = i \<and> rl_ws r = ws \<and> \<not> rl_builtin r \<and> rl_key r = key"

definition update_role ::
    "db \<Rightarrow> int \<Rightarrow> int \<Rightarrow> string \<Rightarrow> string \<Rightarrow> string \<Rightarrow> string list \<Rightarrow> db option" where
  "update_role d i ws key name desc perms =
     (if \<not> list_ex (role_matches i ws key) (d_roles d) then None
      else Some (d\<lparr>d_roles := map (\<lambda>r. if role_matches i ws key r
             then r\<lparr>rl_name := name, rl_desc := desc, rl_perms := perms\<rparr> else r) (d_roles d)\<rparr>))"

definition assign_fk :: "db \<Rightarrow> assign_row \<Rightarrow> bool" where
  "assign_fk d a \<longleftrightarrow>
     account_in_ws d (as_ws a) (as_account a) \<noteq> None \<and>
     list_ex (\<lambda>r. rl_id r = as_role a \<and> rl_ws r = as_ws a) (d_roles d) \<and>
     (case as_user a of None \<Rightarrow> True
      | Some i \<Rightarrow> list_ex (\<lambda>x. us_id x = i \<and> us_ws x = as_ws a) (d_users d)) \<and>
     (case as_group a of None \<Rightarrow> True
      | Some i \<Rightarrow> group_in_ws d (as_ws a) i \<noteq> None) \<and>
     (case as_by a of None \<Rightarrow> True | Some i \<Rightarrow> user_by_id d i \<noteq> None)"

text \<open>The two partial unique indexes.\<close>

definition assign_conflict :: "assign_row \<Rightarrow> assign_row \<Rightarrow> bool" where
  "assign_conflict a b \<longleftrightarrow>
     as_ptype a = as_ptype b \<and> as_ws a = as_ws b \<and> as_account a = as_account b \<and>
     as_service a = as_service b \<and> as_source a = as_source b \<and> as_ref a = as_ref b \<and>
     (if as_ptype a = ''user'' then as_user a = as_user b else as_group a = as_group b)"

definition put_assign :: "db \<Rightarrow> assign_row \<Rightarrow> db" where
  "put_assign d a =
     (bump d ''account_access_assignments'')\<lparr>d_assigns :=
        d_assigns d @ [a\<lparr>as_id := next_id d ''account_access_assignments''\<rparr>]\<rparr>"

definition insert_assign :: "db \<Rightarrow> assign_row \<Rightarrow> (int \<times> db) option" where
  "insert_assign d a =
     (if list_ex (\<lambda>b. assign_conflict b a) (d_assigns d) \<or> \<not> assign_fk d a then None
      else Some (next_id d ''account_access_assignments'', put_assign d a))"

text \<open>\<^verbatim>\<open>INSERT \<dots> SELECT \<dots> ON CONFLICT DO NOTHING\<close>.\<close>

fun insert_assigns :: "db \<Rightarrow> assign_row list \<Rightarrow> db option" where
  "insert_assigns d [] = Some d"
| "insert_assigns d (a # as) =
     (if list_ex (\<lambda>b. assign_conflict b a) (d_assigns d) then insert_assigns d as
      else if \<not> assign_fk d a then None else insert_assigns (put_assign d a) as)"

definition manual_of :: "int \<Rightarrow> string \<Rightarrow> int \<Rightarrow> int \<Rightarrow> string \<Rightarrow> assign_row \<Rightarrow> bool" where
  "manual_of ws ptype pid aid service a \<longleftrightarrow>
     as_ws a = ws \<and> as_ptype a = ptype \<and>
     (if ptype = ''user'' then as_user a = Some pid else as_group a = Some pid) \<and>
     as_account a = aid \<and> as_service a = service \<and> as_source a = ''manual''"

definition assign_of ::
    "int \<Rightarrow> string \<Rightarrow> int \<Rightarrow> int \<Rightarrow> int \<Rightarrow> string \<Rightarrow> string \<Rightarrow> int \<Rightarrow> assign_row" where
  "assign_of ws ptype pid aid role service ref by =
     \<lparr>as_id = 0, as_ws = ws, as_ptype = ptype,
      as_user = (if ptype = ''user'' then Some pid else None),
      as_group = (if ptype = ''user'' then None else Some pid),
      as_account = aid, as_role = role, as_service = service, as_source = ''manual'',
      as_ref = ref, as_by = Some by\<rparr>"

section \<open>Roles\<close>

record role_input =
  ri_key :: string
  ri_name :: string
  ri_desc :: string
  ri_perms :: "string list"

definition bad_role :: resp where
  "bad_role = problem 400 ''Use a valid key and name, and select at least one supported capability''"

definition saveAccessRole ::
    "env \<Rightarrow> user \<Rightarrow> request \<Rightarrow> role_input body \<Rightarrow> world \<Rightarrow> resp \<times> world" where
  "saveAccessRole e u r b w =
     (if \<not> admin u then (admin_required, w)
      else case decode r b of
        Inl p \<Rightarrow> (p, w)
      | Inr inp \<Rightarrow>
          let key = trim_space (to_lower (ri_key inp));
              name = trim_space (ri_name inp);
              desc = trim_space (ri_desc inp)
          in case validRolePermissions (ri_perms inp) of
               None \<Rightarrow> (bad_role, w)
             | Some perms \<Rightarrow>
                 if \<not> accessRoleKeyPattern key \<or> length name < 1 \<or> length name > 100 \<or> length desc > 500
                 then (bad_role, w)
                 else case (if rq_method r = ''POST''
                            then (if e_fault e 0 then Inl (dbError DbFailed)
                                  else case insert_role (w_db w) (u_ws u) key name desc perms of
                                         None \<Rightarrow> Inl (dbError DbFailed) | Some x \<Rightarrow> Inr x)
                            else (case pathID r ''id'' of
                                    Inl p \<Rightarrow> Inl p
                                  | Inr i \<Rightarrow>
                                      if e_fault e 1 then Inl (dbError DbFailed)
                                      else case update_role (w_db w) i (u_ws u) key name desc perms of
                                             None \<Rightarrow> Inl (dbError NoRows) | Some d \<Rightarrow> Inr (i, d))) of
                        Inl p \<Rightarrow> (p, w)
                      | Inr (i, d) \<Rightarrow>
                          (reply_id i,
                           audit e 2 u (with_db w d) ''access_role.saved'' (show_int i)
                             (JObj [(''key'', JStr key),
                                    (''permissions'', JList (map JStr perms))])))"

text \<open>The select counts the assignments of the role in any workspace; the foreign key (whose pairs
  name the workspace too) restricts the delete.\<close>

definition deleteAccessRole :: "env \<Rightarrow> user \<Rightarrow> request \<Rightarrow> world \<Rightarrow> resp \<times> world" where
  "deleteAccessRole e u r w =
     (if \<not> admin u then (admin_required, w)
      else case pathID r ''id'' of
        Inl p \<Rightarrow> (p, w)
      | Inr i \<Rightarrow>
          if e_fault e 0 then (dbError DbFailed, w)
          else case find (\<lambda>x. rl_id x = i \<and> rl_ws x = u_ws u) (d_roles (w_db w)) of
            None \<Rightarrow> (dbError NoRows, w)
          | Some role \<Rightarrow>
              if rl_builtin role then (problem 409 ''Built-in policies cannot be deleted'', w)
              else if list_ex (\<lambda>a. as_role a = i) (d_assigns (w_db w))
              then (problem 409 ''Remove this policy from every account assignment before deleting it'', w)
              else if e_fault e 1 then (dbError DbFailed, w)
              else (reply_ok,
                    audit e 2 u
                      (with_db w ((w_db w)\<lparr>d_roles :=
                         filter (\<lambda>x. \<not> (rl_id x = i \<and> rl_ws x = u_ws u)) (d_roles (w_db w))\<rparr>))
                      ''access_role.deleted'' (show_int i) JNull))"

section \<open>The effective policy of a workspace\<close>

text \<open>The role key the overview of \<^verbatim>\<open>accountAccessPolicy\<close> shows for a person's capabilities on an
  account; \<open>roles\<close> are the workspace's roles in display order.\<close>

definition effectiveCapabilities :: "env \<Rightarrow> nat \<Rightarrow> db \<Rightarrow> user \<Rightarrow> int \<Rightarrow> string list" where
  "effectiveCapabilities e i d identity aid =
     filter (\<lambda>cap. canAccount e i d identity aid cap) supportedCapabilities"

definition effectiveRole :: "string \<Rightarrow> string list \<Rightarrow> role_row list \<Rightarrow> string" where
  "effectiveRole person_role caps roles =
     (let role = (if person_role = ''admin'' then ''workspace_admin''
                  else if containsCapability caps ''account.manage'' then ''account_manager''
                  else if containsCapability caps ''compute.operate'' then ''operator''
                  else if containsCapability caps ''account.view'' then ''viewer''
                  else ''none'')
      in if person_role \<noteq> ''admin''
         then (case find (\<lambda>r. sameStrings caps (rl_perms r)) roles of
                 None \<Rightarrow> role | Some r \<Rightarrow> rl_key r)
         else role)"

definition role_order :: "string \<Rightarrow> nat" where
  "role_order key = (if key = ''viewer'' then 1 else if key = ''operator'' then 2
     else if key = ''account_manager'' then 3 else 4)"

definition displayedRoles :: "db \<Rightarrow> int \<Rightarrow> role_row list" where
  "displayedRoles d ws =
     sort_key (\<lambda>r. role_order (rl_key r))
       (sort_key (\<lambda>r. rl_name r) (filter (\<lambda>r. rl_ws r = ws) (d_roles d)))"

definition effectivePolicy ::
    "env \<Rightarrow> nat \<Rightarrow> db \<Rightarrow> user \<Rightarrow> (int \<times> int \<times> string \<times> string list) list" where
  "effectivePolicy e i d u =
     [let identity = u\<lparr>u_id := us_id person, u_role := us_role person\<rparr>;
          caps = effectiveCapabilities e i d identity (ac_id account)
      in (us_id person, ac_id account,
          effectiveRole (us_role person) caps (displayedRoles d (u_ws u)), caps).
      person \<leftarrow> sort_key (\<lambda>x. us_name x)
        (filter (\<lambda>x. us_owner x) (filter (\<lambda>x. us_ws x = u_ws u) (d_users d))) @
        sort_key (\<lambda>x. us_name x)
        (filter (\<lambda>x. \<not> us_owner x) (filter (\<lambda>x. us_ws x = u_ws u) (d_users d))),
      account \<leftarrow> sort_key (\<lambda>a. ac_name a) (filter (\<lambda>a. ac_ws a = u_ws u) (d_accounts d))]"

definition principal_name :: "db \<Rightarrow> assign_row \<Rightarrow> json" where
  "principal_name d a =
     (if as_ptype a = ''user''
      then (case as_user a of None \<Rightarrow> JNull
            | Some i \<Rightarrow> (case user_by_id d i of None \<Rightarrow> JNull | Some x \<Rightarrow> JStr (us_name x)))
      else (case as_group a of None \<Rightarrow> JNull
            | Some i \<Rightarrow> (case find (\<lambda>g. gr_id g = i) (d_groups d) of
                           None \<Rightarrow> JNull | Some g \<Rightarrow> JStr (gr_name g))))"

definition json_key :: "json \<Rightarrow> string" where
  "json_key j = (case j of JStr s \<Rightarrow> s | _ \<Rightarrow> [])"

text \<open>The joined rows of the assignments, in the order of account, kind of principal and name.\<close>

definition assignmentRows :: "db \<Rightarrow> int \<Rightarrow> json list" where
  "assignmentRows d ws =
     map snd (sort_key (\<lambda>(k, _). k)
       [([ac_name ca, as_ptype aa, json_key (principal_name d aa)],
         JObj [(''id'', JInt (as_id aa)), (''principal_type'', JStr (as_ptype aa)),
               (''principal_id'', (case as_user aa of Some i \<Rightarrow> JInt i
                  | None \<Rightarrow> (case as_group aa of Some i \<Rightarrow> JInt i | None \<Rightarrow> JNull))),
               (''principal_name'', principal_name d aa),
               (''cloud_account_id'', JInt (as_account aa)), (''cloud_account_name'', JStr (ac_name ca)),
               (''role_id'', JInt (as_role aa)), (''role_key'', JStr (rl_key ar)),
               (''role_name'', JStr (rl_name ar)), (''service_key'', JStr (as_service aa)),
               (''source_type'', JStr (as_source aa)), (''source_ref'', JStr (as_ref aa))]).
        aa \<leftarrow> filter (\<lambda>aa. as_ws aa = ws) (d_assigns d),
        ca \<leftarrow> filter (\<lambda>ca. ac_id ca = as_account aa \<and> ac_ws ca = as_ws aa) (d_accounts d),
        ar \<leftarrow> filter (\<lambda>ar. rl_id ar = as_role aa \<and> rl_ws ar = as_ws aa) (d_roles d)])"

definition role_json :: "role_row \<Rightarrow> json" where
  "role_json r = JObj [(''id'', JInt (rl_id r)), (''key'', JStr (rl_key r)), (''name'', JStr (rl_name r)),
     (''description'', JStr (rl_desc r)), (''permissions'', JList (map JStr (rl_perms r))),
     (''built_in'', JBool (rl_builtin r))]"

definition accountAccessPolicy :: "env \<Rightarrow> user \<Rightarrow> db \<Rightarrow> resp" where
  "accountAccessPolicy e u d =
     (if \<not> admin u then admin_required
      else if e_fault e 0 \<or> e_fault e 1 \<or> e_fault e 2 \<or> e_fault e 3 then dbError DbFailed
      else reply 200 (JObj [
        (''assignments'', JList (assignmentRows d (u_ws u))),
        (''roles'', JList (map role_json (displayedRoles d (u_ws u)))),
        (''effective'', JList (map (\<lambda>(uid, aid, role, caps).
            JObj [(''user_id'', JInt uid), (''cloud_account_id'', JInt aid), (''role_key'', JStr role),
                  (''capabilities'', JList (map JStr caps))]) (effectivePolicy e 4 d u)))]))"

section \<open>Assignments\<close>

record access_input =
  ai_ptype :: string
  ai_pid :: int
  ai_account :: int
  ai_role :: string
  ai_service :: string

text \<open>The two \<^verbatim>\<open>INSERT \<dots> SELECT\<close> statements of the opt-in, in their order.\<close>

definition legacy_team_rows :: "db \<Rightarrow> int \<Rightarrow> int \<Rightarrow> int \<Rightarrow> assign_row list" where
  "legacy_team_rows d ws aid by =
     [assign_of ws ''team'' (gr_id g) aid (rl_id ar) ''*'' ''legacy-migration'' by.
        ca \<leftarrow> filter (\<lambda>ca. ac_ws ca = ws \<and> ac_id ca = aid) (d_accounts d),
        g \<leftarrow> filter (\<lambda>g. Some (gr_id g) = ac_group ca \<and> gr_ws g = ws \<and> gr_view g) (d_groups d),
        ar \<leftarrow> filter (\<lambda>ar. rl_ws ar = ws \<and>
          rl_key ar = (if gr_accounts g then ''account_manager'' else ''operator'')) (d_roles d)]"

definition legacy_user_rows :: "db \<Rightarrow> int \<Rightarrow> int \<Rightarrow> int \<Rightarrow> assign_row list" where
  "legacy_user_rows d ws aid by =
     [assign_of ws ''user'' (mb_user ug) aid (rl_id ar) ''*'' ''legacy-migration'' by.
        ca \<leftarrow> filter (\<lambda>ca. ac_ws ca = ws \<and> ac_id ca = aid) (d_accounts d),
        g \<leftarrow> filter (\<lambda>g. Some (gr_id g) = ac_group ca \<and> gr_ws g = ws \<and> \<not> gr_view g \<and> gr_accounts g)
               (d_groups d),
        ug \<leftarrow> filter (\<lambda>ug. mb_group ug = gr_id g \<and> mb_role ug = ''manager'') (effective_user_groups d),
        ar \<leftarrow> filter (\<lambda>ar. rl_ws ar = ws \<and> rl_key ar = ''account_manager'') (d_roles d)]"

definition migrateLegacy :: "env \<Rightarrow> db \<Rightarrow> int \<Rightarrow> int \<Rightarrow> int \<Rightarrow> db option" where
  "migrateLegacy e d ws aid by =
     (if e_fault e 5 then None
      else case insert_assigns d (legacy_team_rows d ws aid by) of
        None \<Rightarrow> None
      | Some d1 \<Rightarrow>
          if e_fault e 6 then None
          else insert_assigns d1 (legacy_user_rows d1 ws aid by))"

definition optIn :: "env \<Rightarrow> db \<Rightarrow> int \<Rightarrow> int \<Rightarrow> int \<Rightarrow> db option" where
  "optIn e d ws aid by =
     (if has_assignments d ws aid then Some d else migrateLegacy e d ws aid by)"

definition assignRole ::
    "env \<Rightarrow> user \<Rightarrow> string \<Rightarrow> int \<Rightarrow> int \<Rightarrow> string \<Rightarrow> string \<Rightarrow> db \<Rightarrow> resp + (int \<times> db)" where
  "assignRole e u ptype pid aid role service d =
     (if role = [] \<or> role = ''none'' then Inr (0, d)
      else case (if e_fault e 8 then None
                 else find (\<lambda>r. rl_ws r = u_ws u \<and> rl_key r = role) (d_roles d)) of
        None \<Rightarrow> Inl (problem 400 ''Choose a valid access role'')
      | Some ar \<Rightarrow>
          if e_fault e 9 then Inl (dbError DbFailed)
          else case insert_assign d
                      (assign_of (u_ws u) ptype pid aid (rl_id ar) service [] (u_id u)) of
            None \<Rightarrow> Inl (dbError DbFailed)
          | Some x \<Rightarrow> Inr x)"

text \<open>The transaction of \<^verbatim>\<open>saveAccountAccess\<close>: the reply of the branch that returns early, or the id
  it answers with (0 for a removal) and the database to commit.\<close>

definition without_manual :: "db \<Rightarrow> int \<Rightarrow> string \<Rightarrow> int \<Rightarrow> int \<Rightarrow> string \<Rightarrow> db" where
  "without_manual d ws ptype pid aid service =
     d\<lparr>d_assigns := filter (\<lambda>a. \<not> manual_of ws ptype pid aid service a) (d_assigns d)\<rparr>"

definition accessTx ::
    "env \<Rightarrow> user \<Rightarrow> string \<Rightarrow> int \<Rightarrow> int \<Rightarrow> string \<Rightarrow> string \<Rightarrow> db \<Rightarrow> resp + (int \<times> db)" where
  "accessTx e u ptype pid aid role service d =
     (if e_fault e 0 \<or> e_fault e 1 \<or> e_fault e 2 \<or> e_fault e 3 then Inl (dbError DbFailed)
      else if \<not> (if ptype = ''user'' then list_ex (\<lambda>x. us_id x = pid \<and> us_ws x = u_ws u) (d_users d)
                 else list_ex (\<lambda>g. gr_id g = pid \<and> gr_ws g = u_ws u) (d_groups d)) \<or>
              \<not> list_ex (\<lambda>a. ac_id a = aid \<and> ac_ws a = u_ws u) (d_accounts d)
      then Inl (problem 404 ''User, team, or cloud account was not found in this workspace'')
      else if e_fault e 4 then Inl (dbError DbFailed)
      else case optIn e d (u_ws u) aid (u_id u) of
        None \<Rightarrow> Inl (dbError DbFailed)
      | Some d1 \<Rightarrow>
          if e_fault e 7 then Inl (dbError DbFailed)
          else case assignRole e u ptype pid aid role service
                      (without_manual d1 (u_ws u) ptype pid aid service) of
            Inl p \<Rightarrow> Inl p
          | Inr x \<Rightarrow> if e_fault e 10 then Inl (dbError DbFailed) else Inr x)"

definition saveAccountAccess ::
    "env \<Rightarrow> user \<Rightarrow> request \<Rightarrow> access_input body \<Rightarrow> world \<Rightarrow> resp \<times> world" where
  "saveAccountAccess e u r b w =
     (if \<not> admin u then (admin_required, w)
      else case decode r b of
        Inl p \<Rightarrow> (p, w)
      | Inr inp \<Rightarrow>
          let ptype = to_lower (trim_space (ai_ptype inp));
              role = to_lower (trim_space (ai_role inp));
              service = to_lower (trim_space (ai_service inp));
              service = (if service = [] then ''*'' else service)
          in if ptype \<noteq> ''user'' \<and> ptype \<noteq> ''team'' \<or> ai_pid inp < 1 \<or> ai_account inp < 1 \<or> service \<noteq> ''*''
             then (problem 400 ''Choose a valid user or team, cloud account, and account-level scope'', w)
             else case accessTx e u ptype (ai_pid inp) (ai_account inp) role service (w_db w) of
                    Inl p \<Rightarrow> (p, w)
                  | Inr (i, d) \<Rightarrow>
                      (reply 200 (JObj [(''id'', JInt i), (''removed'', JBool (i = 0))]),
                       audit e 11 u (with_db w d) ''account_access.saved'' (show_int (ai_account inp))
                         (JObj [(''principal_type'', JStr ptype), (''principal_id'', JInt (ai_pid inp)),
                                (''cloud_account_id'', JInt (ai_account inp)), (''role_key'', JStr role),
                                (''service_key'', JStr service)])))"

section \<open>Facts of the permission closure\<close>

lemma close_permissions_iff:
  "c \<in> close_permissions S \<longleftrightarrow>
     c \<in> S \<or>
     c = ''account.view'' \<and> (\<exists>x \<in> {''account.manage'', ''compute.view'', ''compute.operate'', ''eds.view'',
                                ''eds.operate'', ''eds.manage''}. x \<in> S) \<or>
     c = ''compute.view'' \<and> ''compute.operate'' \<in> S \<or>
     c = ''eds.view'' \<and> (''eds.operate'' \<in> S \<or> ''eds.manage'' \<in> S) \<or>
     c = ''eds.operate'' \<and> ''eds.manage'' \<in> S"
  unfolding close_permissions_def Let_def by auto

lemma close_idem: "close_permissions (close_permissions S) = close_permissions S"
  by (auto simp: close_permissions_iff)

lemma close_mono: "S \<subseteq> close_permissions S"
  by (auto simp: close_permissions_iff)

lemma supported_canonical: "c \<in> set supportedCapabilities \<Longrightarrow> trim_space (to_lower c) = c"
proof -
  have "list_all (\<lambda>c. trim_space (to_lower c) = c) supportedCapabilities" by code_simp
  then show "c \<in> set supportedCapabilities \<Longrightarrow> trim_space (to_lower c) = c"
    by (simp add: list_all_iff)
qed

lemma close_supported:
  "S \<subseteq> set supportedCapabilities \<Longrightarrow> close_permissions S \<subseteq> set supportedCapabilities"
  by (auto simp: close_permissions_iff supportedCapabilities_def)

lemma distinct_supported: "distinct supportedCapabilities"
  by code_simp

lemma validRolePermissions_Some:
  assumes "validRolePermissions values = Some ps"
  shows "ps = filter (\<lambda>c. c \<in> close_permissions ((\<lambda>v. trim_space (to_lower v)) ` set values)) supportedCapabilities"
    and "set ps = close_permissions ((\<lambda>v. trim_space (to_lower v)) ` set values)"
    and "ps \<noteq> []"
proof -
  show ps: "ps = filter (\<lambda>c. c \<in> close_permissions ((\<lambda>v. trim_space (to_lower v)) ` set values)) supportedCapabilities"
    and "ps \<noteq> []"
    using assms by (auto simp: validRolePermissions_def Let_def split: if_splits)
  have "(\<lambda>v. trim_space (to_lower v)) ` set values \<subseteq> set supportedCapabilities"
    using assms by (auto simp: validRolePermissions_def Let_def list_all_iff split: if_splits)
  from close_supported [OF this]
  show "set ps = close_permissions ((\<lambda>v. trim_space (to_lower v)) ` set values)"
    unfolding ps by auto
qed

lemma canonical_image:
  "set ps \<subseteq> set supportedCapabilities \<Longrightarrow> (\<lambda>v. trim_space (to_lower v)) ` set ps = set ps"
  using supported_canonical by (force simp: image_iff)

section \<open>Facts of the statements\<close>

definition row_grants :: "db \<Rightarrow> int \<Rightarrow> int \<Rightarrow> int \<Rightarrow> string \<Rightarrow> assign_row \<Rightarrow> bool" where
  "row_grants d ws uid aid cap aa \<longleftrightarrow>
     as_ws aa = ws \<and> as_account aa = aid \<and> as_service aa = ''*'' \<and>
     (\<exists>ar \<in> set (d_roles d). rl_id ar = as_role aa \<and> rl_ws ar = as_ws aa \<and> cap \<in> set (rl_perms ar)) \<and>
     (as_ptype aa = ''user'' \<and> as_user aa = Some uid \<or>
      as_ptype aa = ''team'' \<and>
        (\<exists>ug \<in> set (effective_user_groups d). as_group aa = Some (mb_group ug) \<and> mb_user ug = uid \<and>
           membership_rank (mb_role ug) \<ge> required_rank cap))"

lemma explicit_grant_rows:
  "explicit_grant d ws uid aid cap \<longleftrightarrow> (\<exists>aa \<in> set (d_assigns d). row_grants d ws uid aid cap aa)"
  by (simp add: explicit_grant_def row_grants_def list_ex_iff)

text \<open>Only the table of assignments (and its sequence) changes.\<close>

definition only_assigns :: "db \<Rightarrow> db \<Rightarrow> bool" where
  "only_assigns d d' \<longleftrightarrow> d' = d\<lparr>d_assigns := d_assigns d', d_next := d_next d'\<rparr>"

lemma only_assigns_refl [simp]: "only_assigns d d"
  by (simp add: only_assigns_def)

lemma only_assigns_trans: "only_assigns d d1 \<Longrightarrow> only_assigns d1 d2 \<Longrightarrow> only_assigns d d2"
  unfolding only_assigns_def by (cases d; cases d1; cases d2) simp

lemma only_assigns_upd [simp]: "only_assigns d (d1\<lparr>d_assigns := x\<rparr>) \<longleftrightarrow> only_assigns d d1"
  unfolding only_assigns_def by (cases d; cases d1) simp

lemma only_assigns_put [simp]: "only_assigns d (put_assign d1 a) \<longleftrightarrow> only_assigns d d1"
  unfolding only_assigns_def put_assign_def bump_def by (cases d; cases d1) simp

lemma only_assignsD:
  assumes "only_assigns d d'"
  shows "d_ws d' = d_ws d" "d_users d' = d_users d" "d_groups d' = d_groups d"
    "d_members d' = d_members d" "d_grants d' = d_grants d" "d_accounts d' = d_accounts d"
    "d_roles d' = d_roles d" "effective_user_groups d' = effective_user_groups d"
  using assms unfolding only_assigns_def effective_user_groups_def
  by (cases d; cases d'; simp)+

lemma row_grants_frame:
  "only_assigns d d' \<Longrightarrow> row_grants d' ws uid aid cap aa = row_grants d ws uid aid cap aa"
  by (simp add: row_grants_def only_assignsD)

lemma row_grants_id [simp]:
  "row_grants d ws uid aid cap (aa\<lparr>as_id := i\<rparr>) = row_grants d ws uid aid cap aa"
  by (simp add: row_grants_def)

lemma legacy_grant_frame: "only_assigns d d' \<Longrightarrow> legacy_grant d' u a cap = legacy_grant d u a cap"
  by (simp add: legacy_grant_def only_assignsD)

lemma put_assign_assigns [simp]:
  "d_assigns (put_assign d a) =
     d_assigns d @ [a\<lparr>as_id := next_id d ''account_access_assignments''\<rparr>]"
  by (simp add: put_assign_def)

lemma assign_conflict_id [simp]: "assign_conflict (a\<lparr>as_id := i\<rparr>) b = assign_conflict a b"
  by (simp add: assign_conflict_def)

lemma assign_conflict_refl [simp]: "assign_conflict a a"
  by (simp add: assign_conflict_def)

lemma insert_assigns_frame: "insert_assigns d as = Some d' \<Longrightarrow> only_assigns d d'"
proof (induction d as rule: insert_assigns.induct)
  case (2 d a as)
  then show ?case
    by (auto split: if_splits dest: only_assigns_trans [rotated])
       (metis only_assigns_put only_assigns_refl only_assigns_trans)
qed simp

lemma insert_assigns_new:
  "insert_assigns d as = Some d' \<Longrightarrow>
     \<exists>new. d_assigns d' = d_assigns d @ new \<and> (\<forall>x \<in> set new. \<exists>a \<in> set as. \<exists>i. x = a\<lparr>as_id := i\<rparr>)"
proof (induction d as rule: insert_assigns.induct)
  case (2 d a as)
  then show ?case by (auto split: if_splits)
qed simp

lemma insert_assigns_new_cases:
  "insert_assigns d as = Some d' \<Longrightarrow> x \<in> set (d_assigns d') \<Longrightarrow>
     x \<in> set (d_assigns d) \<or> (\<exists>a \<in> set as. \<exists>i. x = a\<lparr>as_id := i\<rparr>)"
  using insert_assigns_new by fastforce

lemma insert_assigns_keeps:
  "insert_assigns d as = Some d' \<Longrightarrow> x \<in> set (d_assigns d) \<Longrightarrow> x \<in> set (d_assigns d')"
  using insert_assigns_new by fastforce

lemma insert_assigns_covers:
  "insert_assigns d as = Some d' \<Longrightarrow> a \<in> set as \<Longrightarrow> \<exists>b \<in> set (d_assigns d'). assign_conflict b a"
proof (induction d as rule: insert_assigns.induct)
  case (2 d x as)
  show ?case
  proof (cases "a \<in> set as")
    case True
    with 2 show ?thesis by (auto split: if_splits)
  next
    case False
    with "2.prems" have "a = x" by simp
    with "2.prems" insert_assigns_new [of _ as d'] show ?thesis
      by (fastforce simp: list_ex_iff split: if_splits)
  qed
qed simp

lemma insert_assign_Some:
  "insert_assign d a = Some (i, d') \<Longrightarrow>
     d' = put_assign d a \<and> i = next_id d ''account_access_assignments'' \<and> assign_fk d a"
  by (auto simp: insert_assign_def split: if_splits)

section \<open>The opt-in keeps what the legacy policy admitted\<close>

text \<open>The seeded roles of a workspace hold at least what the legacy memberships gave
  (\<^verbatim>\<open>seed_nexus_access_roles\<close>; no statement changes a built-in role).\<close>

definition operator_perms :: "string set" where
  "operator_perms = {''account.view'', ''compute.view'', ''compute.operate'', ''billing.view''}"

definition manager_perms :: "string set" where
  "manager_perms = operator_perms \<union> {''account.manage'', ''billing.sync''}"

definition migration_roles :: "db \<Rightarrow> int \<Rightarrow> bool" where
  "migration_roles d ws \<longleftrightarrow>
     (\<forall>key \<in> {''operator'', ''account_manager''}.
        \<exists>r \<in> set (d_roles d). rl_ws r = ws \<and> rl_key r = key) \<and>
     (\<forall>r \<in> set (d_roles d). rl_ws r = ws \<longrightarrow>
        (rl_key r = ''operator'' \<longrightarrow> operator_perms \<subseteq> set (rl_perms r)) \<and>
        (rl_key r = ''account_manager'' \<longrightarrow> manager_perms \<subseteq> set (rl_perms r)))"

lemma legacy_cap_manager: "legacy_cap cap role g \<Longrightarrow> cap \<in> manager_perms"
  by (auto simp: legacy_cap_def manager_perms_def operator_perms_def)

lemma legacy_cap_operator: "legacy_cap cap role g \<Longrightarrow> \<not> gr_accounts g \<Longrightarrow> cap \<in> operator_perms"
  by (auto simp: legacy_cap_def operator_perms_def)

lemma migrateLegacy_frame:
  "migrateLegacy e d ws aid by = Some d1 \<Longrightarrow> only_assigns d d1"
  unfolding migrateLegacy_def
  by (auto split: if_splits option.splits
      intro: only_assigns_trans [OF insert_assigns_frame insert_assigns_frame])

lemma in_team_rows:
  "r \<in> set (legacy_team_rows d ws aid by) \<longleftrightarrow>
     (\<exists>ca \<in> set (d_accounts d). ac_ws ca = ws \<and> ac_id ca = aid \<and>
       (\<exists>g \<in> set (d_groups d). Some (gr_id g) = ac_group ca \<and> gr_ws g = ws \<and> gr_view g \<and>
         (\<exists>ar \<in> set (d_roles d). rl_ws ar = ws \<and>
           rl_key ar = (if gr_accounts g then ''account_manager'' else ''operator'') \<and>
           r = assign_of ws ''team'' (gr_id g) aid (rl_id ar) ''*'' ''legacy-migration'' by)))"
  unfolding legacy_team_rows_def by auto

lemma in_user_rows:
  "r \<in> set (legacy_user_rows d ws aid by) \<longleftrightarrow>
     (\<exists>ca \<in> set (d_accounts d). ac_ws ca = ws \<and> ac_id ca = aid \<and>
       (\<exists>g \<in> set (d_groups d). Some (gr_id g) = ac_group ca \<and> gr_ws g = ws \<and> \<not> gr_view g \<and> gr_accounts g \<and>
         (\<exists>ug \<in> set (effective_user_groups d). mb_group ug = gr_id g \<and> mb_role ug = ''manager'' \<and>
           (\<exists>ar \<in> set (d_roles d). rl_ws ar = ws \<and> rl_key ar = ''account_manager'' \<and>
             r = assign_of ws ''user'' (mb_user ug) aid (rl_id ar) ''*'' ''legacy-migration'' by))))"
  unfolding legacy_user_rows_def by auto

lemma user_row_role:
  "r \<in> set (legacy_user_rows d ws aid by) \<Longrightarrow>
     \<exists>uid ar. ar \<in> set (d_roles d) \<and> rl_ws ar = ws \<and> rl_key ar = ''account_manager'' \<and>
       r = assign_of ws ''user'' uid aid (rl_id ar) ''*'' ''legacy-migration'' by"
  unfolding in_user_rows by (elim bexE conjE) (intro exI conjI, assumption+)

lemma assign_of_simps [simp]:
  "as_ws (assign_of ws pt pid aid rl sv rf by) = ws"
  "as_ptype (assign_of ws pt pid aid rl sv rf by) = pt"
  "as_account (assign_of ws pt pid aid rl sv rf by) = aid"
  "as_role (assign_of ws pt pid aid rl sv rf by) = rl"
  "as_service (assign_of ws pt pid aid rl sv rf by) = sv"
  "as_source (assign_of ws pt pid aid rl sv rf by) = ''manual''"
  "as_ref (assign_of ws pt pid aid rl sv rf by) = rf"
  "as_user (assign_of ws pt pid aid rl sv rf by) = (if pt = ''user'' then Some pid else None)"
  "as_group (assign_of ws pt pid aid rl sv rf by) = (if pt = ''user'' then None else Some pid)"
  by (simp_all add: assign_of_def)

lemma migrate_team:
  assumes mig: "migrateLegacy e d ws aid by = Some d1" and none: "\<not> has_assignments d ws aid"
    and r: "r \<in> set (legacy_team_rows d ws aid by)"
  shows "\<exists>b r'. b \<in> set (d_assigns d1) \<and> r' \<in> set (legacy_team_rows d ws aid by) \<and>
           assign_conflict r' r \<and> (\<exists>i. b = r'\<lparr>as_id := i\<rparr>)"
proof -
  from mig obtain dt where t: "insert_assigns d (legacy_team_rows d ws aid by) = Some dt"
    and us: "insert_assigns dt (legacy_user_rows dt ws aid by) = Some d1"
    unfolding migrateLegacy_def by (auto split: if_splits option.splits)
  from insert_assigns_covers [OF t r] obtain b where b: "b \<in> set (d_assigns dt)" "assign_conflict b r" by blast
  have "as_ws r = ws" "as_account r = aid" using r by (auto simp: in_team_rows)
  then have "b \<notin> set (d_assigns d)" using b none
    by (auto simp: has_assignments_def list_ex_iff assign_conflict_def)
  with insert_assigns_new_cases [OF t b(1)] obtain r' i where
    r': "r' \<in> set (legacy_team_rows d ws aid by)" "b = r'\<lparr>as_id := i\<rparr>" by blast
  moreover have "assign_conflict r' r" using b(2) r'(2) by simp
  ultimately show ?thesis using insert_assigns_keeps [OF us b(1)] by blast
qed

lemma migrate_user:
  assumes mig: "migrateLegacy e d ws aid by = Some d1" and none: "\<not> has_assignments d ws aid"
    and r: "r \<in> set (legacy_user_rows d ws aid by)"
  shows "\<exists>b r'. b \<in> set (d_assigns d1) \<and> r' \<in> set (legacy_user_rows d ws aid by) \<and>
           assign_conflict r' r \<and> (\<exists>i. b = r'\<lparr>as_id := i\<rparr>)"
proof -
  from mig obtain dt where t: "insert_assigns d (legacy_team_rows d ws aid by) = Some dt"
    and us: "insert_assigns dt (legacy_user_rows dt ws aid by) = Some d1"
    unfolding migrateLegacy_def by (auto split: if_splits option.splits)
  have rows: "legacy_user_rows dt ws aid by = legacy_user_rows d ws aid by"
    unfolding legacy_user_rows_def by (simp add: only_assignsD [OF insert_assigns_frame [OF t]])
  from insert_assigns_covers [OF us] r rows
  obtain b where b: "b \<in> set (d_assigns d1)" "assign_conflict b r" by metis
  have u: "as_ws r = ws" "as_account r = aid" "as_ptype r = ''user''" using r by (auto simp: in_user_rows)
  then have "b \<notin> set (d_assigns d)" using b none
    by (auto simp: has_assignments_def list_ex_iff assign_conflict_def)
  moreover have "x \<in> set (d_assigns dt) \<Longrightarrow> x \<in> set (d_assigns d) \<or> as_ptype x = ''team''" for x
    using insert_assigns_new_cases [OF t, of x] by (auto simp: in_team_rows)
  moreover have "as_ptype b = ''user''" using b u by (simp add: assign_conflict_def)
  ultimately have "b \<notin> set (d_assigns dt)" by fastforce
  with insert_assigns_new_cases [OF us b(1)] rows obtain r' i where
    r': "r' \<in> set (legacy_user_rows d ws aid by)" "b = r'\<lparr>as_id := i\<rparr>" by auto
  moreover have "assign_conflict r' r" using b(2) r'(2) by simp
  ultimately show ?thesis using b(1) by blast
qed

lemma migrate_grants_team:
  assumes mig: "migrateLegacy e d ws aid by = Some d1" and none: "\<not> has_assignments d ws aid"
    and roles: "migration_roles d ws" and groups: "distinct (map gr_id (d_groups d))"
    and a: "a \<in> set (d_accounts d)" "ac_ws a = ws" "ac_id a = aid"
    and lg: "lg \<in> set (effective_user_groups d)" "mb_user lg = uid" "ac_group a = Some (mb_group lg)"
    and g: "g \<in> set (d_groups d)" "gr_id g = mb_group lg" "gr_ws g = ws" and True: "gr_view g"
    and cap: "legacy_cap cap (mb_role lg) g"
  shows "\<exists>aa \<in> set (d_assigns d1). row_grants d ws uid aid cap aa \<and> as_ptype aa = ''team'' \<and> as_group aa = ac_group a"
proof -
  have rank: "membership_rank (mb_role lg) \<ge> required_rank cap"
    by (rule legacy_cap_rank [OF cap])
  obtain ar where ar: "ar \<in> set (d_roles d)" "rl_ws ar = ws"
    "rl_key ar = (if gr_accounts g then ''account_manager'' else ''operator'')"
    using roles unfolding migration_roles_def by (cases "gr_accounts g") auto
  let ?r = "assign_of ws ''team'' (gr_id g) aid (rl_id ar) ''*'' ''legacy-migration'' by"
  have "?r \<in> set (legacy_team_rows d ws aid by)"
    unfolding in_team_rows using a lg g True ar by metis
  from migrate_team [OF mig none this] obtain b r' i where b: "b \<in> set (d_assigns d1)"
    "r' \<in> set (legacy_team_rows d ws aid by)" "assign_conflict r' ?r" "b = r'\<lparr>as_id := i\<rparr>" by blast
  from b(2) obtain g' ar' where g': "g' \<in> set (d_groups d)" "ar' \<in> set (d_roles d)" "rl_ws ar' = ws"
    "rl_key ar' = (if gr_accounts g' then ''account_manager'' else ''operator'')"
    and r': "r' = assign_of ws ''team'' (gr_id g') aid (rl_id ar') ''*'' ''legacy-migration'' by"
    unfolding in_team_rows by blast
  have "gr_id g' = gr_id g" using b(3) r' by (simp add: assign_conflict_def)
  then have "g' = g" using groups g'(1) g(1) by (metis distinct_map inj_onD)
  have "cap \<in> set (rl_perms ar')"
  proof (cases "gr_accounts g")
    case True
    then have "manager_perms \<subseteq> set (rl_perms ar')"
      using roles g' \<open>g' = g\<close> by (auto simp: migration_roles_def)
    moreover have "cap \<in> manager_perms" by (rule legacy_cap_manager [OF cap])
    ultimately show ?thesis by blast
  next
    case False
    then have "operator_perms \<subseteq> set (rl_perms ar')"
      using roles g' \<open>g' = g\<close> by (auto simp: migration_roles_def)
    moreover have "cap \<in> operator_perms" by (rule legacy_cap_operator [OF cap False])
    ultimately show ?thesis by blast
  qed
  then have "row_grants d ws uid aid cap r'"
    unfolding row_grants_def r' using g'(2,3) lg rank \<open>g' = g\<close> g by auto
  then show ?thesis using b r' lg g \<open>g' = g\<close> by (intro bexI [of _ b]) auto
qed

lemma migrate_grants_manager:
  assumes mig: "migrateLegacy e d ws aid by = Some d1" and none: "\<not> has_assignments d ws aid"
    and roles: "migration_roles d ws"
    and a: "a \<in> set (d_accounts d)" "ac_ws a = ws" "ac_id a = aid"
    and lg: "lg \<in> set (effective_user_groups d)" "mb_user lg = v" "ac_group a = Some (mb_group lg)"
    and g: "g \<in> set (d_groups d)" "gr_id g = mb_group lg" "gr_ws g = ws" and False: "\<not> gr_view g"
    and c: "cap \<in> {''account.manage'', ''billing.sync''}" "gr_accounts g" "mb_role lg = ''manager''"
  shows "\<exists>aa \<in> set (d_assigns d1). row_grants d ws v aid cap aa \<and> as_ptype aa = ''user'' \<and> as_user aa = Some v"
proof -
  obtain ar where ar: "ar \<in> set (d_roles d)" "rl_ws ar = ws" "rl_key ar = ''account_manager''"
    using roles by (auto simp: migration_roles_def)
  let ?r = "assign_of ws ''user'' (mb_user lg) aid (rl_id ar) ''*'' ''legacy-migration'' by"
  have "?r \<in> set (legacy_user_rows d ws aid by)"
    unfolding in_user_rows using a lg g False ar c by metis
  from migrate_user [OF mig none this] obtain b r' i where b: "b \<in> set (d_assigns d1)"
    "r' \<in> set (legacy_user_rows d ws aid by)" "assign_conflict r' ?r" "b = r'\<lparr>as_id := i\<rparr>" by blast
  from user_row_role [OF b(2)] obtain uid ar' where
    ar': "ar' \<in> set (d_roles d)" "rl_ws ar' = ws" "rl_key ar' = ''account_manager''"
    and r': "r' = assign_of ws ''user'' uid aid (rl_id ar') ''*'' ''legacy-migration'' by"
    by blast
  have uid: "uid = v" using b(3) r' lg by (simp add: assign_conflict_def)
  moreover have "manager_perms \<subseteq> set (rl_perms ar')" using roles ar' by (auto simp: migration_roles_def)
  then have "cap \<in> set (rl_perms ar')" using c by (auto simp: manager_perms_def)
  ultimately have "row_grants d ws v aid cap r'"
    unfolding row_grants_def r' using ar' uid by auto
  then show ?thesis using b r' uid by (intro bexI [of _ b]) auto
qed

lemma migrate_grants:
  assumes mig: "migrateLegacy e d ws aid by = Some d1" and none: "\<not> has_assignments d ws aid"
    and roles: "migration_roles d ws" and groups: "distinct (map gr_id (d_groups d))"
    and a: "a \<in> set (d_accounts d)" "ac_ws a = ws" "ac_id a = aid"
    and v: "u_ws v = ws" "legacy_grant d v a cap"
  shows "\<exists>aa \<in> set (d_assigns d1). row_grants d ws (u_id v) aid cap aa \<and>
           (as_ptype aa = ''user'' \<and> as_user aa = Some (u_id v) \<or>
            as_ptype aa = ''team'' \<and> as_group aa = ac_group a)"
proof -
  from v obtain lg g where lg: "lg \<in> set (effective_user_groups d)" "mb_user lg = u_id v"
      "ac_group a = Some (mb_group lg)" and g: "g \<in> set (d_groups d)" "gr_id g = mb_group lg" "gr_ws g = ws"
    and cap: "legacy_cap cap (mb_role lg) g"
    unfolding legacy_grant_def by blast
  show ?thesis
  proof (cases "gr_view g")
    case True
    from migrate_grants_team [OF mig none roles groups a lg g this cap] show ?thesis by blast
  next
    case False
    with cap have "cap \<in> {''account.manage'', ''billing.sync''}" "gr_accounts g" "mb_role lg = ''manager''"
      by (auto simp: legacy_cap_def)
    from migrate_grants_manager [OF mig none roles a lg g False this] show ?thesis by blast
  qed
qed

section \<open>What \<^verbatim>\<open>saveAccountAccess\<close> commits\<close>

lemma migrateLegacy_keeps:
  "migrateLegacy e d ws aid by = Some d1 \<Longrightarrow> x \<in> set (d_assigns d) \<Longrightarrow> x \<in> set (d_assigns d1)"
  unfolding migrateLegacy_def
  by (auto split: if_splits option.splits dest: insert_assigns_keeps)

lemma legacy_rows_account:
  "r \<in> set (legacy_team_rows d ws aid by) \<union> set (legacy_user_rows d ws aid by) \<Longrightarrow>
     as_ws r = ws \<and> as_account r = aid"
  by (auto simp: in_team_rows in_user_rows)

lemma migrateLegacy_new:
  assumes "migrateLegacy e d ws aid by = Some d1" and "x \<in> set (d_assigns d1)"
  shows "x \<in> set (d_assigns d) \<or> as_ws x = ws \<and> as_account x = aid"
proof -
  from assms(1) obtain dt where t: "insert_assigns d (legacy_team_rows d ws aid by) = Some dt"
    and us: "insert_assigns dt (legacy_user_rows dt ws aid by) = Some d1"
    unfolding migrateLegacy_def by (auto split: if_splits option.splits)
  from insert_assigns_new_cases [OF us assms(2)] show ?thesis
  proof
    assume "x \<in> set (d_assigns dt)"
    from insert_assigns_new_cases [OF t this] show ?thesis
      by (auto dest!: legacy_rows_account [OF UnI1])
  qed (auto dest!: legacy_rows_account [OF UnI2])
qed

lemma optIn_facts:
  assumes "optIn e d ws aid by = Some d1"
  shows "only_assigns d d1" "x \<in> set (d_assigns d) \<Longrightarrow> x \<in> set (d_assigns d1)"
    "x \<in> set (d_assigns d1) \<Longrightarrow> x \<in> set (d_assigns d) \<or> as_ws x = ws \<and> as_account x = aid"
  using assms migrateLegacy_frame migrateLegacy_keeps migrateLegacy_new
  by (auto simp: optIn_def split: if_splits)

lemma assign_fk_frame: "only_assigns d d' \<Longrightarrow> assign_fk d' a = assign_fk d a"
  by (simp add: assign_fk_def account_in_ws_def group_in_ws_def user_by_id_def only_assignsD
      split: option.split)

lemma assign_fk_id [simp]: "assign_fk d (a\<lparr>as_id := k\<rparr>) = assign_fk d a"
  by (simp add: assign_fk_def split: option.split)

text \<open>The row \<^verbatim>\<open>saveAccountAccess\<close> stores for the principal, where a role is named.\<close>

definition granted_row :: "user \<Rightarrow> string \<Rightarrow> int \<Rightarrow> int \<Rightarrow> string \<Rightarrow> string \<Rightarrow> db \<Rightarrow> assign_row \<Rightarrow> bool" where
  "granted_row u ptype pid aid role service d a \<longleftrightarrow>
     (\<exists>ar k. find (\<lambda>r. rl_ws r = u_ws u \<and> rl_key r = role) (d_roles d) = Some ar \<and>
        assign_fk d a \<and>
        a = (assign_of (u_ws u) ptype pid aid (rl_id ar) service [] (u_id u))\<lparr>as_id := k\<rparr>)"

lemma granted_row_frame:
  "only_assigns d d' \<Longrightarrow> granted_row u pt pid aid role sv d' a = granted_row u pt pid aid role sv d a"
  by (simp add: granted_row_def only_assignsD assign_fk_frame)

lemma assignRole_Inr:
  assumes "assignRole e u ptype pid aid role service d = Inr (i, d')"
  shows "only_assigns d d' \<and>
     (if role = [] \<or> role = ''none'' then d' = d
      else \<exists>a. granted_row u ptype pid aid role service d a \<and> d_assigns d' = d_assigns d @ [a])"
proof (cases "role = [] \<or> role = ''none''")
  case True
  with assms show ?thesis by (auto simp: assignRole_def)
next
  case False
  with assms obtain ar where ar: "find (\<lambda>r. rl_ws r = u_ws u \<and> rl_key r = role) (d_roles d) = Some ar"
    and ins: "insert_assign d (assign_of (u_ws u) ptype pid aid (rl_id ar) service [] (u_id u)) = Some (i, d')"
    unfolding assignRole_def by (simp split: if_split_asm option.splits)
  note d' = insert_assign_Some [OF ins]
  with False ar d' show ?thesis by (auto simp: granted_row_def)
qed

lemma accessTx_Inr:
  assumes "accessTx e u ptype pid aid role service d = Inr (i, d')"
  shows "\<exists>d1. optIn e d (u_ws u) aid (u_id u) = Some d1 \<and>
     assignRole e u ptype pid aid role service (without_manual d1 (u_ws u) ptype pid aid service) = Inr (i, d')"
  using assms unfolding accessTx_def by (simp split: if_split_asm option.splits sum.splits)

lemma accessTx_frame:
  assumes "accessTx e u ptype pid aid role service d = Inr (i, d')"
  shows "only_assigns d d'"
proof -
  from accessTx_Inr [OF assms] obtain d1 where one: "optIn e d (u_ws u) aid (u_id u) = Some d1"
    and two: "assignRole e u ptype pid aid role service (without_manual d1 (u_ws u) ptype pid aid service) = Inr (i, d')"
    by blast
  have "only_assigns d (without_manual d1 (u_ws u) ptype pid aid service)"
    using optIn_facts(1) [OF one] by (simp add: without_manual_def)
  with assignRole_Inr [OF two] show ?thesis using only_assigns_trans by blast
qed

text \<open>The rows of a commit: those that were there, apart from the principal's manual ones, and new
  rows of the same account.\<close>

lemma accessTx_rows:
  assumes "accessTx e u ptype pid aid role service d = Inr (i, d')"
  shows "optIn e d (u_ws u) aid (u_id u) = Some d1 \<Longrightarrow> x \<in> set (d_assigns d1) \<Longrightarrow>
           \<not> manual_of (u_ws u) ptype pid aid service x \<Longrightarrow> x \<in> set (d_assigns d')"
    and "x \<in> set (d_assigns d') \<Longrightarrow> x \<in> set (d_assigns d) \<or> as_ws x = u_ws u \<and> as_account x = aid"
proof -
  from accessTx_Inr [OF assms] obtain d2 where one: "optIn e d (u_ws u) aid (u_id u) = Some d2"
    and two: "assignRole e u ptype pid aid role service (without_manual d2 (u_ws u) ptype pid aid service) = Inr (i, d')"
    by blast
  note r = assignRole_Inr [OF two]
  show "x \<in> set (d_assigns d')" if "optIn e d (u_ws u) aid (u_id u) = Some d1" "x \<in> set (d_assigns d1)"
      "\<not> manual_of (u_ws u) ptype pid aid service x"
    using r that one by (auto simp: without_manual_def split: if_splits)
  show "x \<in> set (d_assigns d) \<or> as_ws x = u_ws u \<and> as_account x = aid" if "x \<in> set (d_assigns d')"
    using r that optIn_facts(3) [OF one, of x]
    by (auto simp: without_manual_def granted_row_def split: if_splits)
qed

lemma accessTx_Inl: "accessTx e u ptype pid aid role service d = Inl p \<Longrightarrow> rs_status p \<noteq> 200"
  unfolding accessTx_def assignRole_def
  by (auto split: if_split_asm option.splits sum.splits)

lemma saveAccountAccess_unfold:
  assumes "admin u" and "decode r (Body inp) = Inr inp"
    and "ptype = to_lower (trim_space (ai_ptype inp))" and "role = to_lower (trim_space (ai_role inp))"
    and "service = (let s = to_lower (trim_space (ai_service inp)) in if s = [] then ''*'' else s)"
  shows "saveAccountAccess e u r (Body inp) w =
    (if ptype \<noteq> ''user'' \<and> ptype \<noteq> ''team'' \<or> ai_pid inp < 1 \<or> ai_account inp < 1 \<or> service \<noteq> ''*''
     then (problem 400 ''Choose a valid user or team, cloud account, and account-level scope'', w)
     else case accessTx e u ptype (ai_pid inp) (ai_account inp) role service (w_db w) of
            Inl p \<Rightarrow> (p, w)
          | Inr (i, d) \<Rightarrow>
              (reply 200 (JObj [(''id'', JInt i), (''removed'', JBool (i = 0))]),
               audit e 11 u (with_db w d) ''account_access.saved'' (show_int (ai_account inp))
                 (JObj [(''principal_type'', JStr ptype), (''principal_id'', JInt (ai_pid inp)),
                        (''cloud_account_id'', JInt (ai_account inp)), (''role_key'', JStr role),
                        (''service_key'', JStr service)])))"
  unfolding saveAccountAccess_def assms(2) sum.case Let_def assms(3-5)
  by (simp only: assms(1) not_True_eq_False if_False)

lemma saveAccountAccess_200:
  assumes ok: "rs_status (fst (saveAccountAccess e u r (Body inp) w)) = 200"
    and pt: "ptype = to_lower (trim_space (ai_ptype inp))"
  shows "\<exists>i d tgt j. admin u \<and>
    accessTx e u ptype (ai_pid inp) (ai_account inp)
           (to_lower (trim_space (ai_role inp))) ''*'' (w_db w) = Inr (i, d) \<and>
    (ptype = ''user'' \<or> ptype = ''team'') \<and>
    saveAccountAccess e u r (Body inp) w =
      (reply 200 (JObj [(''id'', JInt i), (''removed'', JBool (i = 0))]),
       audit e 11 u (with_db w d) ''account_access.saved'' tgt j)"
proof -
  have adm: "admin u"
    by (rule ccontr) (use ok in \<open>simp add: saveAccountAccess_def admin_required_def\<close>)
  obtain inp' where dec: "decode r (Body inp) = Inr inp'"
    using ok adm decode_Inl_status [of r "Body inp"]
    by (cases "decode r (Body inp)") (auto simp: saveAccountAccess_def)
  then have dec: "decode r (Body inp) = Inr inp" by (simp add: decode_Body [OF dec])
  note unf = saveAccountAccess_unfold [OF adm dec pt refl refl, of e w]
  define service where "service = (let s = to_lower (trim_space (ai_service inp)) in if s = [] then ''*'' else s)"
  have scope: "\<not> (ptype \<noteq> ''user'' \<and> ptype \<noteq> ''team'' \<or> ai_pid inp < 1 \<or> ai_account inp < 1 \<or> service \<noteq> ''*'')"
  proof
    assume bad: "ptype \<noteq> ''user'' \<and> ptype \<noteq> ''team'' \<or> ai_pid inp < 1 \<or> ai_account inp < 1 \<or> service \<noteq> ''*''"
    show False using ok unfolding unf [folded service_def] if_P [OF bad] by simp
  qed
  then have sv: "service = ''*''" by simp
  note unf' = unf [folded service_def, unfolded if_not_P [OF scope], unfolded sv]
  show ?thesis
  proof (cases "accessTx e u ptype (ai_pid inp) (ai_account inp) (to_lower (trim_space (ai_role inp))) ''*'' (w_db w)")
    case (Inl p)
    with ok accessTx_Inl [OF Inl] show ?thesis by (simp add: unf')
  next
    case (Inr x)
    obtain i d where x: "x = (i, d)" by (cases x)
    have "ptype = ''user'' \<or> ptype = ''team''" using scope by blast
    with adm Inr x show ?thesis unfolding unf' by auto
  qed
qed

definition is_principal :: "db \<Rightarrow> string \<Rightarrow> int \<Rightarrow> int \<Rightarrow> bool" where
  "is_principal d ptype pid uid \<longleftrightarrow>
     (if ptype = ''user'' then pid = uid
      else \<exists>m \<in> set (effective_user_groups d). mb_user m = uid \<and> mb_group m = pid)"

lemma peer_row:
  "row_grants d ws uid aid cap aa \<Longrightarrow> \<not> is_principal d ptype pid uid \<Longrightarrow>
     ptype = ''user'' \<or> ptype = ''team'' \<Longrightarrow> \<not> manual_of ws ptype pid aid service aa"
proof
  assume g: "row_grants d ws uid aid cap aa" and np: "\<not> is_principal d ptype pid uid"
    and pt: "ptype = ''user'' \<or> ptype = ''team''" and m: "manual_of ws ptype pid aid service aa"
  from pt show False
  proof
    assume "ptype = ''user''"
    then show False using g np m by (auto simp: row_grants_def is_principal_def manual_of_def)
  next
    assume team: "ptype = ''team''"
    then have "as_ptype aa = ''team''" "as_group aa = Some pid" using m by (auto simp: manual_of_def)
    then obtain ug where "ug \<in> set (effective_user_groups d)" "mb_group ug = pid" "mb_user ug = uid"
      using g by (auto simp: row_grants_def)
    then show False using np team unfolding is_principal_def by auto
  qed
qed

lemma admits_after:
  assumes tx: "accessTx e u ptype pid aid role ''*'' d = Inr (i, d')"
    and peer: "u_ws v = u_ws u" "\<not> is_principal d ptype pid (u_id v)" "ptype = ''user'' \<or> ptype = ''team''"
    and roles: "migration_roles d (u_ws u)" and groups: "distinct (map gr_id (d_groups d))"
    and a: "a \<in> set (d_accounts d)" and adm: "admits d v a cap"
  shows "admits d' v a cap"
proof -
  note frame = accessTx_frame [OF tx]
  from accessTx_Inr [OF tx] obtain d1 where one: "optIn e d (u_ws u) aid (u_id u) = Some d1" by blast
  have keep: "row_grants d' (u_ws v) (u_id v) (ac_id a) cap x \<and> x \<in> set (d_assigns d')"
    if "row_grants d (u_ws v) (u_id v) (ac_id a) cap x" "x \<in> set (d_assigns d1)" for x
  proof -
    have "\<not> manual_of (u_ws u) ptype pid aid ''*'' x"
    proof (cases "ac_id a = aid")
      case True
      then show ?thesis using peer_row [OF that(1) peer(2,3)] peer(1) by auto
    next
      case False
      then show ?thesis using that(1) by (auto simp: row_grants_def manual_of_def)
    qed
    from accessTx_rows(1) [OF tx one that(2) this] that(1) show ?thesis
      by (simp add: row_grants_frame [OF frame])
  qed
  consider "u_role v = ''admin''" | "explicit_grant d (u_ws v) (u_id v) (ac_id a) cap"
    | "\<not> has_assignments d (u_ws v) (ac_id a)" "legacy_grant d v a cap"
    using adm by (auto simp: admits_def)
  then show ?thesis
  proof cases
    case 1
    then show ?thesis using adm by (simp add: admits_def)
  next
    case 2
    then have "explicit_grant d' (u_ws v) (u_id v) (ac_id a) cap"
      using keep optIn_facts(2) [OF one] unfolding explicit_grant_rows by blast
    then show ?thesis using adm by (simp add: admits_def)
  next
    case 3
    show ?thesis
    proof (cases "ac_id a = aid")
      case True
      then have mig: "migrateLegacy e d (u_ws u) aid (u_id u) = Some d1"
        using one 3 peer(1) by (simp add: optIn_def)
      from migrate_grants [OF mig _ roles groups a _ True peer(1) 3(2)] 3(1) adm peer(1) True
      have "\<exists>aa \<in> set (d_assigns d1). row_grants d (u_ws v) (u_id v) (ac_id a) cap aa"
        by (auto simp: admits_def)
      then have "explicit_grant d' (u_ws v) (u_id v) (ac_id a) cap"
        using keep unfolding explicit_grant_rows by blast
      then show ?thesis using adm by (simp add: admits_def)
    next
      case False
      then have "\<not> has_assignments d' (u_ws v) (ac_id a)"
        using 3(1) accessTx_rows(2) [OF tx] by (fastforce simp: has_assignments_def list_ex_iff)
      then show ?thesis using adm 3 by (simp add: admits_def legacy_grant_frame [OF frame])
    qed
  qed
qed

section \<open>Properties\<close>

text \<open>C2: saving an assignment never takes access from anyone but the principal it names: a person of
  the workspace who is not that user (or not in that team) can do on every account at least what the
  person could before, also when the account had no assignments and leaves the legacy policy.\<close>

theorem peers_keep_access:
  assumes "rs_status (fst (saveAccountAccess e u r (Body inp) w)) = 200"
    and "u_ws v = u_ws u"
    and "\<not> is_principal (w_db w) (to_lower (trim_space (ai_ptype inp))) (ai_pid inp) (u_id v)"
    and "migration_roles (w_db w) (u_ws u)" and "distinct (map gr_id (d_groups (w_db w)))"
    and "canAccount e' k (w_db w) v aid cap"
  shows "canAccount e' k (w_db (snd (saveAccountAccess e u r (Body inp) w))) v aid cap"
proof -
  from saveAccountAccess_200 [OF assms(1) refl] obtain i d tgt j where
    tx: "accessTx e u (to_lower (trim_space (ai_ptype inp))) (ai_pid inp) (ai_account inp)
      (to_lower (trim_space (ai_role inp))) ''*'' (w_db w) = Inr (i, d)"
    and pt: "to_lower (trim_space (ai_ptype inp)) = ''user'' \<or> to_lower (trim_space (ai_ptype inp)) = ''team''"
    and w': "snd (saveAccountAccess e u r (Body inp) w) = audit e 11 u (with_db w d) ''account_access.saved'' tgt j"
    by auto
  from assms(6) obtain a where a: "\<not> e_fault e' k" "a \<in> set (d_accounts (w_db w))" "ac_id a = aid"
    "admits (w_db w) v a cap" by (auto simp: canAccount_admits)
  have "canAccount e' k d v aid cap"
    using admits_after [OF tx assms(2,3) pt assms(4,5) a(2,4)] a(1-3)
    by (auto simp: canAccount_admits only_assignsD(6) [OF accessTx_frame [OF tx]])
  then show ?thesis by (simp add: w')
qed
text \<open>A workspace with its built-in roles, one account of team 3 and three people: an administrator,
  an operator and a manager of the team, and an outsider.\<close>

definition builtin_role :: "int \<Rightarrow> string \<Rightarrow> string list \<Rightarrow> role_row" where
  "builtin_role i key perms = \<lparr>rl_id = i, rl_ws = 1, rl_key = key, rl_name = key, rl_desc = [],
     rl_perms = perms, rl_builtin = True\<rparr>"

definition person :: "int \<Rightarrow> string \<Rightarrow> user_row" where
  "person i role = \<lparr>us_id = i, us_ws = 1, us_name = show_int i, us_email = show_int i, us_verified = True,
     us_hash = ''h'', us_role = role, us_owner = False, us_version = 1\<rparr>"

definition team_db :: db where
  "team_db = demo_db\<lparr>
     d_users := [person 1 ''admin'', person 7 ''user'', person 8 ''user'', person 9 ''user''],
     d_groups := [\<lparr>gr_id = 3, gr_ws = 1, gr_name = ''ops'', gr_desc = [], gr_view = True,
       gr_accounts = True, gr_members = False\<rparr>],
     d_members := [\<lparr>mb_user = 7, mb_group = 3, mb_role = ''operator''\<rparr>,
                   \<lparr>mb_user = 8, mb_group = 3, mb_role = ''manager''\<rparr>],
     d_roles := [
       builtin_role 11 ''viewer'' [''account.view'', ''compute.view'', ''eds.view'', ''billing.view''],
       builtin_role 12 ''operator'' [''account.view'', ''compute.view'', ''compute.operate'', ''eds.view'',
         ''eds.operate'', ''billing.view''],
       builtin_role 13 ''account_manager'' [''account.view'', ''account.manage'', ''compute.view'',
         ''compute.operate'', ''eds.view'', ''eds.operate'', ''eds.manage'', ''billing.view'',
         ''billing.sync'']]\<rparr>"

definition world_of :: "db \<Rightarrow> world" where
  "world_of d = \<lparr>w_db = d, w_redis = (\<lambda>k. None), w_mail = [], w_calls = []\<rparr>"

definition demo_admin :: user where
  "demo_admin = demo_user\<lparr>u_id := 1, u_role := ''admin''\<rparr>"

definition grant_request :: "string \<Rightarrow> int \<Rightarrow> string \<Rightarrow> access_input" where
  "grant_request ptype pid role = \<lparr>ai_ptype = ptype, ai_pid = pid, ai_account = 5, ai_role = role, ai_service = []\<rparr>"

definition granted_world :: world where
  "granted_world = snd (saveAccountAccess good_env demo_admin blank_request
     (Body (grant_request ''user'' 9 ''viewer'')) (world_of team_db))"

lemma peers_keep_access_witness:
  "canAccount good_env 0 team_db demo_user 5 ''compute.operate'' \<and>
   canAccount good_env 0 (w_db granted_world) demo_user 5 ''compute.operate'' \<and>
   has_assignments (w_db granted_world) 1 5"
proof -
  have before: "canAccount good_env 0 team_db demo_user 5 ''compute.operate''" by code_simp
  have "canAccount good_env 0 (w_db granted_world) demo_user 5 ''compute.operate''"
    unfolding granted_world_def
    by (rule peers_keep_access) (simp add: world_of_def before | code_simp)+
  moreover have "has_assignments (w_db granted_world) 1 5" by code_simp
  ultimately show ?thesis using before by blast
qed

text \<open>C3: a grant takes effect: once \<^verbatim>\<open>saveAccountAccess\<close> has answered 200 for a user and a role of
  the workspace, that user has every permission of the role on the account.\<close>

theorem grant_takes_effect:
  assumes "rs_status (fst (saveAccountAccess e u r (Body inp) w)) = 200"
    and "to_lower (trim_space (ai_ptype inp)) = ''user''" and "u_id v = ai_pid inp" and "u_ws v = u_ws u"
    and "to_lower (trim_space (ai_role inp)) \<notin> {[], ''none''}"
    and "find (\<lambda>x. rl_ws x = u_ws u \<and> rl_key x = to_lower (trim_space (ai_role inp))) (d_roles (w_db w)) = Some role"
    and "cap \<in> set (rl_perms role)" and "\<not> e_fault e' k"
  shows "canAccount e' k (w_db (snd (saveAccountAccess e u r (Body inp) w))) v (ai_account inp) cap"
proof -
  let ?pt = "to_lower (trim_space (ai_ptype inp))" and ?rl = "to_lower (trim_space (ai_role inp))"
  from saveAccountAccess_200 [OF assms(1) refl] obtain i d tgt j where
    tx: "accessTx e u ?pt (ai_pid inp) (ai_account inp) ?rl ''*'' (w_db w) = Inr (i, d)"
    and w': "snd (saveAccountAccess e u r (Body inp) w) = audit e 11 u (with_db w d) ''account_access.saved'' tgt j"
    by auto
  note frame = accessTx_frame [OF tx]
  from accessTx_Inr [OF tx] obtain d1 where one: "optIn e (w_db w) (u_ws u) (ai_account inp) (u_id u) = Some d1"
    and two: "assignRole e u ?pt (ai_pid inp) (ai_account inp) ?rl ''*''
      (without_manual d1 (u_ws u) ?pt (ai_pid inp) (ai_account inp) ''*'') = Inr (i, d)" by blast
  let ?d2 = "without_manual d1 (u_ws u) ?pt (ai_pid inp) (ai_account inp) ''*''"
  have f2: "only_assigns (w_db w) ?d2" using optIn_facts(1) [OF one] by (simp add: without_manual_def)
  from assignRole_Inr [OF two] assms(5) obtain x where
    x: "granted_row u ?pt (ai_pid inp) (ai_account inp) ?rl ''*'' ?d2 x" "x \<in> set (d_assigns d)"
    by (auto split: if_splits)
  from x(1) have "granted_row u ?pt (ai_pid inp) (ai_account inp) ?rl ''*'' (w_db w) x"
    by (simp only: granted_row_frame [OF f2])
  then obtain k' where row: "assign_fk (w_db w) x"
    "x = (assign_of (u_ws u) ''user'' (ai_pid inp) (ai_account inp) (rl_id role) ''*'' [] (u_id u))\<lparr>as_id := k'\<rparr>"
    unfolding granted_row_def assms(6) assms(2) by auto
  have role: "role \<in> set (d_roles (w_db w))" "rl_ws role = u_ws u"
    using assms(6) find_Some_iff_in by fastforce+
  have "row_grants (w_db w) (u_ws v) (u_id v) (ai_account inp) cap x"
    unfolding row_grants_def row(2) using role assms(3,4,7) by auto
  then have "explicit_grant d (u_ws v) (u_id v) (ai_account inp) cap"
    using x(2) row_grants_frame [OF frame] unfolding explicit_grant_rows by blast
  moreover obtain a where "a \<in> set (d_accounts (w_db w))" "ac_id a = ai_account inp" "ac_ws a = u_ws u"
    using row find_Some_iff_in unfolding assign_fk_def account_in_ws_def by fastforce
  ultimately have "canAccount e' k d v (ai_account inp) cap"
    using assms(4,8) only_assignsD(6) [OF frame] by (auto simp: canAccount_admits admits_def)
  then show ?thesis by (simp add: w')
qed

definition outsider :: user where
  "outsider = demo_user\<lparr>u_id := 9\<rparr>"

lemma grant_takes_effect_witness:
  "\<not> canAccount good_env 0 team_db outsider 5 ''compute.view'' \<and>
   canAccount good_env 0 (w_db granted_world) outsider 5 ''compute.view''"
proof -
  have "canAccount good_env 0 (w_db (snd (saveAccountAccess good_env demo_admin blank_request
     (Body (grant_request ''user'' 9 ''viewer'')) (world_of team_db)))) outsider
     (ai_account (grant_request ''user'' 9 ''viewer'')) ''compute.view''"
    by (rule grant_takes_effect [where role = "builtin_role 11 ''viewer''
         [''account.view'', ''compute.view'', ''eds.view'', ''billing.view'']"])
      (code_simp | simp)+
  moreover have "\<not> canAccount good_env 0 team_db outsider 5 ''compute.view''" by code_simp
  ultimately show ?thesis by (simp add: granted_world_def grant_request_def)
qed

end
