(* ===== verification/AccessRoles.thy ===== *)
theory AccessRoles
  imports Access
begin

text \<open>
  Properties of the roles of a workspace and of removals, on the definitions of \<open>Access\<close>.
\<close>

section \<open>Roles\<close>

text \<open>The rows of a workspace's custom roles hold a closed, canonical list of permissions, and an
  assignment names a role of its workspace.\<close>

definition roles_ok :: "db \<Rightarrow> bool" where
  "roles_ok d \<longleftrightarrow>
     (\<forall>r \<in> set (d_roles d). rl_builtin r \<or> validRolePermissions (rl_perms r) = Some (rl_perms r)) \<and>
     (\<forall>a \<in> set (d_assigns d). \<exists>r \<in> set (d_roles d). rl_id r = as_role a \<and> rl_ws r = as_ws a)"

lemma validRolePermissions_fix:
  assumes "validRolePermissions values = Some ps"
  shows "validRolePermissions ps = Some ps"
proof -
  note v = validRolePermissions_Some [OF assms]
  have sub: "set ps \<subseteq> set supportedCapabilities" unfolding v(1) by auto
  have "map (\<lambda>v. trim_space (to_lower v)) ps = ps"
    by (rule map_idI) (use sub supported_canonical in blast)
  moreover have "list_all (\<lambda>v. v \<in> set supportedCapabilities) ps"
    using sub by (auto simp: list_all_iff)
  moreover have "close_permissions (set ps) = set ps"
    by (simp only: v(2) close_idem)
  moreover have "filter (\<lambda>c. c \<in> set ps) supportedCapabilities = ps"
    unfolding v(2) by (rule v(1) [symmetric])
  ultimately show ?thesis using v(3) by (simp add: validRolePermissions_def)
qed

text \<open>The permissions of a role come out closed under what a permission implies (managing and
  operating include viewing), contain only supported capabilities without repetition, keep what was
  asked for, and validating them again changes nothing.\<close>

theorem role_permissions_closed:
  assumes "validRolePermissions values = Some ps"
  shows "validRolePermissions ps = Some ps \<and> distinct ps \<and> set ps \<subseteq> set supportedCapabilities \<and>
    (\<forall>v \<in> set values. trim_space (to_lower v) \<in> set ps) \<and>
    (\<forall>(c, c') \<in> {(''account.manage'', ''account.view''), (''compute.view'', ''account.view''),
        (''compute.operate'', ''compute.view''), (''eds.view'', ''account.view''),
        (''eds.operate'', ''eds.view''), (''eds.manage'', ''eds.operate'')}.
       c \<in> set ps \<longrightarrow> c' \<in> set ps)"
proof (intro conjI)
  note v = validRolePermissions_Some [OF assms]
  show "validRolePermissions ps = Some ps" by (rule validRolePermissions_fix [OF assms])
  show "distinct ps" unfolding v(1) using distinct_supported by simp
  show "set ps \<subseteq> set supportedCapabilities" unfolding v(1) by auto
  show "\<forall>v \<in> set values. trim_space (to_lower v) \<in> set ps"
    unfolding v(2) using close_mono [of "(\<lambda>v. trim_space (to_lower v)) ` set values"]
    by (simp add: image_subset_iff)
  show "\<forall>(c, c') \<in> {(''account.manage'', ''account.view''), (''compute.view'', ''account.view''),
        (''compute.operate'', ''compute.view''), (''eds.view'', ''account.view''),
        (''eds.operate'', ''eds.view''), (''eds.manage'', ''eds.operate'')}.
       c \<in> set ps \<longrightarrow> c' \<in> set ps"
    unfolding v(2) close_permissions_iff by auto
qed

lemma role_permissions_closed_witness:
  "validRolePermissions ['' EDS.Manage '', ''compute.operate''] =
     Some [''account.view'', ''compute.view'', ''compute.operate'', ''eds.view'', ''eds.operate'', ''eds.manage''] \<and>
   validRolePermissions [''account.view'', ''compute.view'', ''compute.operate'', ''eds.view'', ''eds.operate'', ''eds.manage''] =
     Some [''account.view'', ''compute.view'', ''compute.operate'', ''eds.view'', ''eds.operate'', ''eds.manage'']"
proof -
  have "validRolePermissions ['' EDS.Manage '', ''compute.operate''] =
     Some [''account.view'', ''compute.view'', ''compute.operate'', ''eds.view'', ''eds.operate'', ''eds.manage'']"
    by code_simp
  with role_permissions_closed [OF this] show ?thesis by blast
qed

lemma saveAccessRole_cases:
  "w_db (snd (saveAccessRole e u r b w)) = w_db w \<or>
   (\<exists>key name desc perms i d tgt j.
      validRolePermissions perms \<noteq> None \<and>
      (insert_role (w_db w) (u_ws u) key name desc (the (validRolePermissions perms)) = Some (i, d) \<or>
       update_role (w_db w) i (u_ws u) key name desc (the (validRolePermissions perms)) = Some d) \<and>
      snd (saveAccessRole e u r b w) = audit e 2 u (with_db w d) ''access_role.saved'' tgt j)"
proof (cases "admin u")
  case False
  then show ?thesis by (simp add: saveAccessRole_def)
next
  case True
  show ?thesis
  proof (cases "decode r b")
    case (Inl p)
    with True show ?thesis by (simp add: saveAccessRole_def)
  next
    case (Inr inp)
    show ?thesis
    proof (cases "validRolePermissions (ri_perms inp)")
      case None
      with True Inr show ?thesis by (simp add: saveAccessRole_def Let_def)
    next
      case (Some perms)
      let ?key = "trim_space (to_lower (ri_key inp))" and ?name = "trim_space (ri_name inp)"
        and ?desc = "trim_space (ri_desc inp)"
      let ?res = "if rq_method r = ''POST''
            then (if e_fault e 0 then Inl (dbError DbFailed)
                  else case insert_role (w_db w) (u_ws u) ?key ?name ?desc perms of
                         None \<Rightarrow> Inl (dbError DbFailed) | Some x \<Rightarrow> Inr x)
            else (case pathID r ''id'' of
                    Inl p \<Rightarrow> Inl p
                  | Inr i \<Rightarrow>
                      if e_fault e 1 then Inl (dbError DbFailed)
                      else case update_role (w_db w) i (u_ws u) ?key ?name ?desc perms of
                             None \<Rightarrow> Inl (dbError NoRows) | Some d \<Rightarrow> Inr (i, d))"
      show ?thesis
      proof (cases ?res)
        case (Inl p)
        with True Inr Some show ?thesis by (simp add: saveAccessRole_def Let_def)
      next
        case (Inr x)
        obtain i d where x: "x = (i, d)" by (cases x)
        have "insert_role (w_db w) (u_ws u) ?key ?name ?desc perms = Some (i, d) \<or>
           update_role (w_db w) i (u_ws u) ?key ?name ?desc perms = Some d"
          using Inr x by (auto split: if_split_asm option.splits sum.splits)
        moreover have "snd (saveAccessRole e u r b w) = w \<or>
          (\<exists>tgt j. snd (saveAccessRole e u r b w) = audit e 2 u (with_db w d) ''access_role.saved'' tgt j)"
          using True \<open>decode r b = Inr inp\<close> Some Inr x by (auto simp: saveAccessRole_def Let_def)
        ultimately show ?thesis using Some by (metis option.sel option.distinct(1))
      qed
    qed
  qed
qed

lemma deleteAccessRole_cases:
  "snd (deleteAccessRole e u r w) = w \<or>
   (\<exists>i role tgt. find (\<lambda>x. rl_id x = i \<and> rl_ws x = u_ws u) (d_roles (w_db w)) = Some role \<and>
      \<not> rl_builtin role \<and> \<not> list_ex (\<lambda>a. as_role a = i) (d_assigns (w_db w)) \<and>
      snd (deleteAccessRole e u r w) = audit e 2 u
         (with_db w ((w_db w)\<lparr>d_roles :=
            filter (\<lambda>x. \<not> (rl_id x = i \<and> rl_ws x = u_ws u)) (d_roles (w_db w))\<rparr>))
         ''access_role.deleted'' tgt JNull)"
proof (cases "admin u")
  case adm: True
  show ?thesis
  proof (cases "pathID r ''id''")
    case (Inl p)
    with adm show ?thesis by (simp add: deleteAccessRole_def)
  next
    case i: (Inr i)
    show ?thesis
    proof (cases "find (\<lambda>x. rl_id x = i \<and> rl_ws x = u_ws u) (d_roles (w_db w))")
      case None
      with adm i show ?thesis by (simp add: deleteAccessRole_def)
    next
      case role: (Some role)
      show ?thesis
      proof (cases "e_fault e 0 \<or> rl_builtin role \<or> list_ex (\<lambda>a. as_role a = i) (d_assigns (w_db w)) \<or> e_fault e 1")
        case True
        with adm i role show ?thesis by (auto simp: deleteAccessRole_def)
      next
        case False
        with adm i role have "snd (deleteAccessRole e u r w) = audit e 2 u
         (with_db w ((w_db w)\<lparr>d_roles :=
            filter (\<lambda>x. \<not> (rl_id x = i \<and> rl_ws x = u_ws u)) (d_roles (w_db w))\<rparr>))
         ''access_role.deleted'' (show_int i) JNull"
          by (simp add: deleteAccessRole_def)
        with False role show ?thesis by blast
      qed
    qed
  qed
qed (simp add: deleteAccessRole_def)

lemma distinct_id_unique:
  "distinct (map f xs) \<Longrightarrow> x \<in> set xs \<Longrightarrow> y \<in> set xs \<Longrightarrow> f x = f y \<Longrightarrow> x = y"
  by (metis distinct_map inj_onD)

lemma filter_map_same:
  "(\<And>x. x \<in> set xs \<Longrightarrow> P (f x) = P x) \<Longrightarrow> (\<And>x. x \<in> set xs \<Longrightarrow> P x \<Longrightarrow> f x = x) \<Longrightarrow>
     filter P (map f xs) = filter P xs"
  by (induction xs) auto

text \<open>Built-in roles are immutable: no request to save or delete a role, of any workspace and with
  any body, changes or removes a built-in role or adds one.\<close>

theorem builtin_roles_immutable:
  assumes "distinct (map rl_id (d_roles (w_db w)))"
  shows "filter rl_builtin (d_roles (w_db (snd (saveAccessRole e u r b w)))) =
           filter rl_builtin (d_roles (w_db w)) \<and>
         filter rl_builtin (d_roles (w_db (snd (deleteAccessRole e u r w)))) =
           filter rl_builtin (d_roles (w_db w))"
proof
  have ins: "filter rl_builtin (d_roles d') = filter rl_builtin (d_roles d)"
    if "insert_role d ws key n de ps = Some (i, d')" for d ws key n de ps i d'
    using that by (auto simp: insert_role_def split: if_splits)
  have upd: "filter rl_builtin (d_roles d') = filter rl_builtin (d_roles d)"
    if "update_role d i ws key n de ps = Some d'" for d ws key n de ps i d'
    using that by (auto simp: update_role_def role_matches_def split: if_splits intro!: filter_map_same)
  show "filter rl_builtin (d_roles (w_db (snd (saveAccessRole e u r b w)))) =
           filter rl_builtin (d_roles (w_db w))"
    using saveAccessRole_cases [of e u r b w] by (auto dest: ins upd)
  show "filter rl_builtin (d_roles (w_db (snd (deleteAccessRole e u r w)))) =
           filter rl_builtin (d_roles (w_db w))"
    using deleteAccessRole_cases [of e u r w]
  proof
    assume "\<exists>i role tgt. find (\<lambda>x. rl_id x = i \<and> rl_ws x = u_ws u) (d_roles (w_db w)) = Some role \<and>
      \<not> rl_builtin role \<and> \<not> list_ex (\<lambda>a. as_role a = i) (d_assigns (w_db w)) \<and>
      snd (deleteAccessRole e u r w) = audit e 2 u
         (with_db w ((w_db w)\<lparr>d_roles :=
            filter (\<lambda>x. \<not> (rl_id x = i \<and> rl_ws x = u_ws u)) (d_roles (w_db w))\<rparr>))
         ''access_role.deleted'' tgt JNull"
    then obtain i role tgt where role: "role \<in> set (d_roles (w_db w))" "rl_id role = i" "\<not> rl_builtin role"
      and w': "snd (deleteAccessRole e u r w) = audit e 2 u
         (with_db w ((w_db w)\<lparr>d_roles :=
            filter (\<lambda>x. \<not> (rl_id x = i \<and> rl_ws x = u_ws u)) (d_roles (w_db w))\<rparr>))
         ''access_role.deleted'' tgt JNull"
      by (elim exE conjE) (drule find_Some_iff_in, blast)
    have "x = role" if "x \<in> set (d_roles (w_db w))" "rl_id x = i" for x
      using distinct_id_unique [OF assms that(1) role(1)] role(2) that(2) by simp
    then show ?thesis unfolding w' using role(3) by (auto intro!: filter_cong)
  qed simp
qed

definition role_edit :: role_input where
  "role_edit = \<lparr>ri_key = ''viewer'', ri_name = ''Viewer'', ri_desc = [], ri_perms = [''eds.manage'']\<rparr>"

definition role_request :: "string \<Rightarrow> string \<Rightarrow> request" where
  "role_request m i = blank_request\<lparr>rq_method := m, rq_path := (\<lambda>k. i)\<rparr>"

lemma builtin_roles_immutable_witness:
  "length (filter rl_builtin (d_roles (w_db (snd (saveAccessRole good_env demo_admin
      (role_request ''PUT'' ''11'') (Body role_edit) (world_of team_db)))))) = 3 \<and>
   rs_status (fst (saveAccessRole good_env demo_admin
      (role_request ''PUT'' ''11'') (Body role_edit) (world_of team_db))) = 404"
proof -
  have "distinct (map rl_id (d_roles (w_db (world_of team_db))))" by code_simp
  note builtin_roles_immutable [OF this, of good_env demo_admin "role_request ''PUT'' ''11''" "Body role_edit"]
  moreover have "length (filter rl_builtin (d_roles (w_db (world_of team_db)))) = 3" by code_simp
  moreover have "rs_status (fst (saveAccessRole good_env demo_admin
      (role_request ''PUT'' ''11'') (Body role_edit) (world_of team_db))) = 404" by code_simp
  ultimately show ?thesis by (simp only: simp_thms)
qed

lemma saveAccountAccess_cases:
  "snd (saveAccountAccess e u r b w) = w \<or>
   (\<exists>ptype pid aid role service i d tgt j.
      accessTx e u ptype pid aid role service (w_db w) = Inr (i, d) \<and>
      snd (saveAccountAccess e u r b w) = audit e 11 u (with_db w d) ''account_access.saved'' tgt j)"
proof (cases "admin u")
  case adm: True
  show ?thesis
  proof (cases "decode r b")
    case (Inl p)
    with adm show ?thesis by (simp add: saveAccountAccess_def)
  next
    case (Inr inp)
    then have b: "b = Body inp" by (rule decode_Inr)
    define ptype where "ptype = to_lower (trim_space (ai_ptype inp))"
    define role where "role = to_lower (trim_space (ai_role inp))"
    define service where "service = (let s = to_lower (trim_space (ai_service inp)) in if s = [] then ''*'' else s)"
    note unf = saveAccountAccess_unfold [OF adm Inr [unfolded b] ptype_def role_def service_def, of e w, folded b]
    show ?thesis
    proof (cases "accessTx e u ptype (ai_pid inp) (ai_account inp) role service (w_db w)")
      case (Inl p)
      show ?thesis unfolding unf Inl sum.case by simp
    next
      case (Inr x)
      obtain i d where x: "x = (i, d)" by (cases x)
      have "snd (saveAccountAccess e u r b w) = w \<or>
        (\<exists>tgt j. snd (saveAccountAccess e u r b w) = audit e 11 u (with_db w d) ''account_access.saved'' tgt j)"
        unfolding unf Inr x sum.case prod.case by auto
      with Inr x show ?thesis by blast
    qed
  qed
qed (simp add: saveAccountAccess_def)

lemma put_assign_roles_ok: "assign_fk d a \<Longrightarrow> roles_ok d \<Longrightarrow> roles_ok (put_assign d a)"
  by (auto simp: roles_ok_def assign_fk_def list_ex_iff put_assign_def)

lemma insert_assigns_roles_ok: "insert_assigns d as = Some d' \<Longrightarrow> roles_ok d \<Longrightarrow> roles_ok d'"
  by (induction d as rule: insert_assigns.induct) (auto split: if_splits intro: put_assign_roles_ok)

lemma accessTx_roles_ok:
  assumes "accessTx e u ptype pid aid role service d = Inr (i, d')" and ok: "roles_ok d"
  shows "roles_ok d'"
proof -
  from accessTx_Inr [OF assms(1)] obtain d1 where one: "optIn e d (u_ws u) aid (u_id u) = Some d1"
    and two: "assignRole e u ptype pid aid role service (without_manual d1 (u_ws u) ptype pid aid service) = Inr (i, d')"
    by blast
  have "roles_ok d1"
    using one ok unfolding optIn_def migrateLegacy_def
    by (auto split: if_splits option.splits dest: insert_assigns_roles_ok)
  then have ok2: "roles_ok (without_manual d1 (u_ws u) ptype pid aid service)"
    by (auto simp: roles_ok_def without_manual_def)
  show ?thesis
  proof (cases "role = [] \<or> role = ''none''")
    case True
    with two ok2 show ?thesis by (auto simp: assignRole_def)
  next
    case False
    with two obtain a where "insert_assign (without_manual d1 (u_ws u) ptype pid aid service) a = Some (i, d')"
      unfolding assignRole_def by (simp split: if_split_asm option.splits)
    from insert_assign_Some [OF this] ok2 show ?thesis by (simp add: put_assign_roles_ok)
  qed
qed

lemma update_role_roles_ok:
  assumes ok: "roles_ok d" and ps: "validRolePermissions ps = Some ps"
    and up: "update_role d i ws key n de ps = Some d'"
  shows "roles_ok d'"
proof -
  define f where "f = (\<lambda>r. if role_matches i ws key r then r\<lparr>rl_name := n, rl_desc := de, rl_perms := ps\<rparr> else r)"
  have d': "d_roles d' = map f (d_roles d)" "d_assigns d' = d_assigns d"
    using up unfolding update_role_def f_def by (auto split: if_split_asm)
  have f: "rl_id (f r) = rl_id r" "rl_ws (f r) = rl_ws r"
    "rl_builtin r \<or> validRolePermissions (rl_perms r) = Some (rl_perms r) \<Longrightarrow>
       rl_builtin (f r) \<or> validRolePermissions (rl_perms (f r)) = Some (rl_perms (f r))" for r
    using ps by (simp_all add: f_def)
  have "\<forall>a \<in> set (d_assigns d). \<exists>r \<in> f ` set (d_roles d). rl_id r = as_role a \<and> rl_ws r = as_ws a"
    using ok f(1,2) unfolding roles_ok_def by (metis imageI)
  moreover have "\<forall>r \<in> f ` set (d_roles d). rl_builtin r \<or> validRolePermissions (rl_perms r) = Some (rl_perms r)"
    using ok f(3) unfolding roles_ok_def by blast
  ultimately show ?thesis by (simp add: roles_ok_def d')
qed

text \<open>C4: roles and assignments stay consistent: every custom role keeps a closed permission list,
  and every assignment keeps its role, whatever role is saved or deleted and whatever assignment is
  saved.\<close>

theorem roles_ok_preserved:
  assumes "roles_ok (w_db w)"
  shows "roles_ok (w_db (snd (saveAccessRole e u r b w))) \<and>
         roles_ok (w_db (snd (deleteAccessRole e u r w))) \<and>
         roles_ok (w_db (snd (saveAccountAccess e u r b' w)))"
proof (intro conjI)
  have ins: "roles_ok d'"
    if "roles_ok d" "validRolePermissions vs = Some ps" "insert_role d ws key n de ps = Some (i, d')"
    for d ws key n de vs ps i d'
    using that validRolePermissions_fix [OF that(2)]
    by (auto simp: roles_ok_def insert_role_def split: if_splits)
  have upd: "roles_ok d'"
    if "roles_ok d" "validRolePermissions vs = Some ps" "update_role d i ws key n de ps = Some d'"
    for d ws key n de vs ps i d'
    using update_role_roles_ok [OF that(1) validRolePermissions_fix [OF that(2)] that(3)] .
  have aud: "roles_ok (w_db (audit e' k u' w' a t j)) = roles_ok (w_db w')" for e' k u' w' a t j
    by (simp add: roles_ok_def)
  show "roles_ok (w_db (snd (saveAccessRole e u r b w)))"
    using saveAccessRole_cases [of e u r b w] assms ins [OF assms] upd [OF assms]
    by (auto simp: aud)
  show "roles_ok (w_db (snd (deleteAccessRole e u r w)))"
    using deleteAccessRole_cases [of e u r w]
  proof
    assume "\<exists>i role tgt. find (\<lambda>x. rl_id x = i \<and> rl_ws x = u_ws u) (d_roles (w_db w)) = Some role \<and>
      \<not> rl_builtin role \<and> \<not> list_ex (\<lambda>a. as_role a = i) (d_assigns (w_db w)) \<and>
      snd (deleteAccessRole e u r w) = audit e 2 u
         (with_db w ((w_db w)\<lparr>d_roles :=
            filter (\<lambda>x. \<not> (rl_id x = i \<and> rl_ws x = u_ws u)) (d_roles (w_db w))\<rparr>))
         ''access_role.deleted'' tgt JNull"
    then obtain i tgt where free: "\<not> list_ex (\<lambda>a. as_role a = i) (d_assigns (w_db w))"
      and w': "snd (deleteAccessRole e u r w) = audit e 2 u
         (with_db w ((w_db w)\<lparr>d_roles :=
            filter (\<lambda>x. \<not> (rl_id x = i \<and> rl_ws x = u_ws u)) (d_roles (w_db w))\<rparr>))
         ''access_role.deleted'' tgt JNull" by blast
    show ?thesis unfolding w' aud using assms free by (fastforce simp: roles_ok_def list_ex_iff)
  qed (simp add: assms)
  show "roles_ok (w_db (snd (saveAccountAccess e u r b' w)))"
    using saveAccountAccess_cases [of e u r b' w]
  proof (elim disjE exE conjE)
    fix ptype pid aid role service i d tgt j
    assume tx: "accessTx e u ptype pid aid role service (w_db w) = Inr (i, d)"
      and w': "snd (saveAccountAccess e u r b' w) = audit e 11 u (with_db w d) ''account_access.saved'' tgt j"
    show ?thesis unfolding w' aud using accessTx_roles_ok [OF tx assms] by simp
  qed (simp add: assms)
qed

lemma roles_ok_preserved_witness:
  "roles_ok team_db \<and>
   roles_ok (w_db (snd (saveAccountAccess good_env demo_admin blank_request
      (Body (grant_request ''team'' 3 ''viewer'')) (world_of team_db)))) \<and>
   length (d_assigns (w_db (snd (saveAccountAccess good_env demo_admin blank_request
      (Body (grant_request ''team'' 3 ''viewer'')) (world_of team_db))))) = 1"
proof -
  have ok: "roles_ok team_db" by code_simp
  then have "roles_ok (w_db (world_of team_db))" by (simp add: world_of_def)
  note roles_ok_preserved [OF this, of good_env demo_admin blank_request Malformed
      "Body (grant_request ''team'' 3 ''viewer'')"]
  moreover have "length (d_assigns (w_db (snd (saveAccountAccess good_env demo_admin blank_request
      (Body (grant_request ''team'' 3 ''viewer'')) (world_of team_db))))) = 1" by code_simp
  ultimately show ?thesis using ok by blast
qed

section \<open>Removing the last assignment\<close>

text \<open>Removing the last explicit assignment of an account hands the account back to the legacy
  policy: the reply says the access was removed, and from then on everyone the account's access
  group admitted before it left the legacy policy is admitted again, whoever had been removed in the
  meantime.\<close>

theorem last_removal_restores_legacy:
  assumes "rs_status (fst (saveAccountAccess e u r (Body inp) w)) = 200"
    and "ptype = to_lower (trim_space (ai_ptype inp))"
    and "to_lower (trim_space (ai_role inp)) \<in> {[], ''none''}"
    and "has_assignments (w_db w) (u_ws u) (ai_account inp)"
    and "\<forall>x \<in> set (d_assigns (w_db w)). as_ws x = u_ws u \<longrightarrow> as_account x = ai_account inp \<longrightarrow>
           manual_of (u_ws u) ptype (ai_pid inp) (ai_account inp) ''*'' x"
    and "a \<in> set (d_accounts (w_db w))" and "ac_id a = ai_account inp" and "ac_ws a = u_ws u"
    and "u_ws v = u_ws u" and "legacy_grant (w_db w) v a cap" and "\<not> e_fault e' k"
  shows "canAccount e' k (w_db (snd (saveAccountAccess e u r (Body inp) w))) v (ai_account inp) cap \<and>
         rs_body (fst (saveAccountAccess e u r (Body inp) w)) = JObj [(''id'', JInt 0), (''removed'', JBool True)]"
proof -
  let ?rl = "to_lower (trim_space (ai_role inp))"
  from saveAccountAccess_200 [OF assms(1,2)] obtain i d tgt j where
    tx: "accessTx e u ptype (ai_pid inp) (ai_account inp) ?rl ''*'' (w_db w) = Inr (i, d)"
    and res: "saveAccountAccess e u r (Body inp) w =
      (reply 200 (JObj [(''id'', JInt i), (''removed'', JBool (i = 0))]),
       audit e 11 u (with_db w d) ''account_access.saved'' tgt j)"
    by auto
  from accessTx_Inr [OF tx] assms(3,4)
  have d: "i = 0" "d = without_manual (w_db w) (u_ws u) ptype (ai_pid inp) (ai_account inp) ''*''"
    by (auto simp: optIn_def assignRole_def)
  have frame: "only_assigns (w_db w) d" by (rule accessTx_frame [OF tx])
  have "\<not> has_assignments d (u_ws v) (ai_account inp)"
    using assms(5,9) by (auto simp: d(2) without_manual_def has_assignments_def list_ex_iff)
  then have "canAccount e' k d v (ai_account inp) cap"
    using assms(6-11) frame
    by (auto simp: canAccount_admits admits_def legacy_grant_frame only_assignsD)
  then show ?thesis by (simp add: res d(1) reply_def)
qed

text \<open>An administrator gives the outsider 9 the viewer role on account 5 (which leaves the legacy
  policy, its team 3 becoming an explicit manager team), removes team 3, and then removes 9.\<close>

definition removed_once :: world where
  "removed_once = snd (saveAccountAccess good_env demo_admin blank_request
     (Body (grant_request ''team'' 3 ''none'')) granted_world)"

lemma last_removal_restores_legacy_witness:
  "\<not> canAccount good_env 0 (w_db removed_once) demo_user 5 ''compute.operate'' \<and>
   canAccount good_env 0 (w_db (snd (saveAccountAccess good_env demo_admin blank_request
     (Body (grant_request ''user'' 9 ''none'')) removed_once))) demo_user 5 ''compute.operate''"
proof
  show "\<not> canAccount good_env 0 (w_db removed_once) demo_user 5 ''compute.operate''" by code_simp
  have "canAccount good_env 0 (w_db (snd (saveAccountAccess good_env demo_admin blank_request
     (Body (grant_request ''user'' 9 ''none'')) removed_once))) demo_user
     (ai_account (grant_request ''user'' 9 ''none'')) ''compute.operate''"
    by (rule last_removal_restores_legacy [where a = "demo_account 5 ''aws'' (Some 3)", THEN conjunct1])
      (code_simp | simp)+
  then show "canAccount good_env 0 (w_db (snd (saveAccountAccess good_env demo_admin blank_request
     (Body (grant_request ''user'' 9 ''none'')) removed_once))) demo_user 5 ''compute.operate''"
    by (simp add: grant_request_def)
qed

end
