(* ===== verification/AuthProps.thy ===== *)
theory AuthProps
  imports Auth AccessRoles
begin

text \<open>
  Properties of sign-in: what a session proves, how it ends, the attempt limit, and the verification
  of addresses, on the definitions of \<open>Auth\<close>.
\<close>

section \<open>Facts\<close>

lemma stored_session_rset:
  "stored_session t k' (rset now ttl k v red) =
     (if k' = k then if t < now + ttl then (case v of RSession s \<Rightarrow> Some s | _ \<Rightarrow> None) else None
      else stored_session t k' red)"
  by (simp add: stored_session_def kv.get_put)

lemma stored_session_rdel:
  "stored_session t k' (rdel k red) = (if k' = k then None else stored_session t k' red)"
  by (simp add: stored_session_def kv.get_del)

lemma too_many_status [simp]: "rs_status (too_many m) = 429"
  by (simp add: too_many_def)

lemma startSession_status:
  "rs_status (fst (startSession e i t u a w)) = (if e_fault e i then 503 else 200)"
  by (simp add: startSession_def establishSession_def)

lemma startSession_redis:
  "\<not> e_fault e i \<Longrightarrow> w_redis (snd (startSession e i t u a w)) =
     rset (e_now e) 43200 (session_key e t) (RSession (session_of u)) (w_redis w)"
  by (simp add: startSession_def establishSession_def)

lemma startSession_db:
  "d_users (w_db (snd (startSession e i t u a w))) = d_users (w_db w)"
  "d_ws (w_db (snd (startSession e i t u a w))) = d_ws (w_db w)"
  by (simp_all add: startSession_def establishSession_def)

lemma startSession_cookies:
  "\<not> e_fault e i \<Longrightarrow> rs_cookies (fst (startSession e i t u a w)) = [(''nexus_session'', t, 43200)]"
  by (simp add: startSession_def establishSession_def)

definition counted :: "env \<Rightarrow> network list \<Rightarrow> request \<Rightarrow> world \<Rightarrow> (int \<times> redis) option" where
  "counted e nets r w =
     (if e_fault e 0 then None
      else rincr_window (e_now e) 300 (attempt_key e nets ''login'' r) (w_redis w))"

definition login_ok :: "env \<Rightarrow> login_input \<Rightarrow> user_row \<Rightarrow> user \<Rightarrow> bool \<Rightarrow> bool" where
  "login_ok e inp x u sso \<longleftrightarrow>
     e_check e (us_hash x) (li_password inp) \<and> us_verified x \<and> (sso \<longrightarrow> u_owner u)"

lemma login_cases:
  "(\<exists>p. rs_status p \<noteq> 200 \<and> login e nets r b w = (p, w) \<and> counted e nets r w = None) \<or>
   (\<exists>n red. counted e nets r w = Some (n, red) \<and>
     ((\<exists>p. rs_status p \<noteq> 200 \<and> (n > 20 \<longleftrightarrow> rs_status p = 429) \<and> login e nets r b w = (p, with_redis w red)) \<or>
      (\<exists>inp x u sso. b = Body inp \<and> n \<le> 20 \<and> login_row e (w_db w) (li_email inp) = Some (x, u, sso) \<and>
         login_ok e inp x u sso \<and>
         login e nets r b w = startSession e 2 (e_token e 0) u ''auth.login'' (with_redis w red))))"
proof (cases "counted e nets r w")
  case None
  then show ?thesis by (simp add: login_def counted_def [symmetric])
next
  case (Some x)
  obtain n red where x: "x = (n, red)" by (cases x)
  show ?thesis
  proof (cases "n > 20")
    case True
    with Some x show ?thesis by (simp add: login_def counted_def [symmetric])
  next
    case n: False
    show ?thesis
    proof (cases "decode r b")
      case (Inl p)
      with Some x n decode_Inl_status [OF Inl] show ?thesis
        by (auto simp: login_def counted_def [symmetric])
    next
      case (Inr inp)
      then have b: "b = Body inp" by (rule decode_Inr)
      show ?thesis
      proof (cases "login_row e (w_db w) (li_email inp)")
        case None
        with Some x n Inr show ?thesis by (simp add: login_def counted_def [symmetric])
      next
        case row: (Some y)
        obtain ur u sso where y: "y = (ur, u, sso)" by (cases y)
        show ?thesis
        proof (cases "login_ok e inp ur u sso")
          case True
          then have "login e nets r b w = startSession e 2 (e_token e 0) u ''auth.login'' (with_redis w red)"
            using Some x n Inr row y by (auto simp: login_def counted_def [symmetric] login_ok_def Let_def)
          with True Some x n b row y show ?thesis by auto
        next
          case False
          then have "\<exists>p. rs_status p \<in> {401, 403} \<and> login e nets r b w = (p, with_redis w red)"
            using Some x n Inr row y by (auto simp: login_def counted_def [symmetric] login_ok_def Let_def)
          with Some x n show ?thesis by auto
        qed
      qed
    qed
  qed
qed

lemma login_row_Some:
  "login_row e d raw = Some (x, u, sso) \<Longrightarrow>
     \<exists>email s. normalizeEmail e raw = Some email \<and> x \<in> set (d_users d) \<and> to_lower (us_email x) = email \<and>
       user_of d x = Some u \<and> ws_by_id d (us_ws x) = Some s \<and> sso = ws_sso_required s"
  unfolding login_row_def user_by_email_def
  by (auto split: option.splits if_splits dest: find_Some_iff_in)

lemma user_of_simps:
  "user_of d x = Some u \<Longrightarrow> u_id u = us_id x \<and> u_ws u = us_ws x \<and> u_role u = us_role x \<and>
     u_owner u = us_owner x \<and> u_version u = us_version x \<and> u_email u = us_email x"
  by (auto simp: user_of_def split: option.splits)

lemma user_by_id_in: "distinct (map us_id (d_users d)) \<Longrightarrow> x \<in> set (d_users d) \<Longrightarrow> user_by_id d (us_id x) = Some x"
  unfolding user_by_id_def by (rule find_by_key)

text \<open>Two environments that share the digest: the same deployment at another moment.\<close>

definition same_site :: "env \<Rightarrow> env \<Rightarrow> bool" where
  "same_site e e' \<longleftrightarrow> e_digest e' = e_digest e"

section \<open>Properties\<close>

text \<open>C5: whoever signs in is a known, verified person who gave the password of the stored hash, is
  exempt from single sign-on or a workspace owner, and gets a session that proves exactly that
  person to every later request of the next twelve hours.\<close>

theorem login_then_auth:
  assumes "rs_status (fst (login e nets r (Body inp) w)) = 200"
    and "distinct (map us_id (d_users (w_db w)))"
    and "same_site e e'" and "\<not> e_fault e' 0 \<and> \<not> e_fault e' 1" and "e_now e' < e_now e + 43200"
    and "sessionToken r' = e_token e 0" and "e_token e 0 \<noteq> []"
  shows "\<exists>x u s. x \<in> set (d_users (w_db w)) \<and> ws_by_id (w_db w) (us_ws x) = Some s \<and>
    normalizeEmail e (li_email inp) = Some (to_lower (us_email x)) \<and>
    e_check e (us_hash x) (li_password inp) \<and> us_verified x \<and> (ws_sso_required s \<longrightarrow> us_owner x) \<and>
    user_of (w_db w) x = Some u \<and>
    auth e' r' (snd (login e nets r (Body inp) w)) = Inr u"
proof -
  from login_cases [of e nets r "Body inp" w] assms(1) obtain n red x u sso where
    row: "login_row e (w_db w) (li_email inp) = Some (x, u, sso)" and ok: "login_ok e inp x u sso"
    and res: "login e nets r (Body inp) w = startSession e 2 (e_token e 0) u ''auth.login'' (with_redis w red)"
    by auto
  have nf: "\<not> e_fault e 2" using assms(1) unfolding res startSession_status by (auto split: if_splits)
  from login_row_Some [OF row] obtain s where s: "x \<in> set (d_users (w_db w))"
    "normalizeEmail e (li_email inp) = Some (to_lower (us_email x))"
    "user_of (w_db w) x = Some u" "ws_by_id (w_db w) (us_ws x) = Some s" "sso = ws_sso_required s" by auto
  note u = user_of_simps [OF s(3)]
  let ?w = "snd (login e nets r (Body inp) w)"
  have "stored_session (e_now e') (session_key e' (e_token e 0)) (w_redis ?w) = Some (session_of u)"
    using assms(3,5) by (simp add: res startSession_redis [OF nf] stored_session_rset session_key_def same_site_def)
  moreover have "user_by_id (w_db ?w) (u_id u) = Some x"
    using user_by_id_in [OF assms(2) s(1)] u by (simp add: res startSession_db user_by_id_def)
  moreover have "user_of (w_db ?w) x = Some u"
    using s(3) by (simp add: res startSession_db user_of_def ws_by_id_def)
  ultimately have "auth e' r' ?w = Inr u"
    using assms(4,6,7) u by (simp add: auth_def session_of_def)
  with s ok u show ?thesis by (auto simp: login_ok_def)
qed

text \<open>An environment in which bcrypt, SHA-256 and the address parser are the identity, the tokens are
  long and distinct, and categories are those of ASCII.\<close>

definition ascii_category :: "nat \<Rightarrow> string" where
  "ascii_category n = (if 97 \<le> n \<and> n \<le> 122 then ''Ll'' else if 65 \<le> n \<and> n \<le> 90 then ''Lu''
     else if 48 \<le> n \<and> n \<le> 57 then ''Nd'' else ''Po'')"

definition site :: "string \<Rightarrow> time \<Rightarrow> env" where
  "site tag now = good_env\<lparr>e_now := now, e_category := ascii_category,
     e_token := (\<lambda>i. tag @ show_nat i)\<rparr>"

definition site_db :: db where
  "site_db = demo_db\<lparr>d_users := [\<lparr>us_id = 7, us_ws = 1, us_name = ''sam'', us_email = ''s@a.io'',
     us_verified = True, us_hash = ''Secret-pw-1'', us_role = ''user'', us_owner = False, us_version = 3\<rparr>]\<rparr>"

definition sam_login :: login_input where
  "sam_login = \<lparr>li_email = '' S@a.io'', li_password = ''Secret-pw-1''\<rparr>"

definition bearer :: "string \<Rightarrow> request" where
  "bearer t = blank_request\<lparr>rq_header := (\<lambda>k. if k = ''Authorization'' then ''Bearer '' @ t else [])\<rparr>"

lemma site_fault [simp]: "e_fault (site tag n) i = False"
  by (simp add: site_def)

lemma login_then_auth_witness:
  "rs_status (fst (login (site ''a'' 10) [] blank_request (Body sam_login) (world_of site_db))) = 200 \<and>
   (\<exists>u. auth (site ''b'' 4000) (bearer ''a0'')
      (snd (login (site ''a'' 10) [] blank_request (Body sam_login) (world_of site_db))) = Inr u)"
proof -
  have ok: "rs_status (fst (login (site ''a'' 10) [] blank_request (Body sam_login) (world_of site_db))) = 200"
    and ids: "distinct (map us_id (d_users (w_db (world_of site_db))))"
    and t: "sessionToken (bearer ''a0'') = e_token (site ''a'' 10) 0" "e_token (site ''a'' 10) 0 \<noteq> []"
    by code_simp+
  have now: "e_now (site ''b'' 4000) < e_now (site ''a'' 10) + 43200" by (simp add: site_def)
  have "same_site (site ''a'' 10) (site ''b'' 4000)" by (simp add: same_site_def site_def)
  from login_then_auth [OF ok ids this _ now t] ok show ?thesis by auto
qed

text \<open>A session proves nothing once the person's session version moved on or the person is gone:
  the request is refused with 401 whatever else it carries.\<close>

theorem stale_session_refused:
  assumes "stored_session (e_now e) (session_key e (sessionToken r)) (w_redis w) = Some s"
    and "\<forall>x \<in> set (d_users (w_db w)). us_id x = ss_user s \<longrightarrow> us_version x \<noteq> ss_version s"
  shows "\<exists>p. auth e r w = Inl p \<and> rs_status p = 401"
proof (cases "auth e r w")
  case (Inl p)
  then show ?thesis by (auto simp: auth_def Let_def split: if_splits option.splits)
next
  case (Inr u)
  then obtain x where x: "user_by_id (w_db w) (ss_user s) = Some x" "user_of (w_db w) x = Some u"
    "u_version u = ss_version s"
    using assms(1) by (auto simp: auth_def Let_def split: if_splits option.splits)
  from x(1) have "x \<in> set (d_users (w_db w)) \<and> us_id x = ss_user s"
    unfolding user_by_id_def by (rule find_Some_iff_in)
  with assms(2) x user_of_simps [OF x(2)] show ?thesis by auto
qed

definition bumped_db :: db where
  "bumped_db = demo_db\<lparr>d_users := map (\<lambda>x. x\<lparr>us_version := 4\<rparr>) (d_users site_db)\<rparr>"

definition sam_session :: session where
  "sam_session = \<lparr>ss_user = 7, ss_version = 3, ss_provider = [], ss_protocol = [], ss_subject = []\<rparr>"

definition with_session :: "string \<Rightarrow> session \<Rightarrow> db \<Rightarrow> world" where
  "with_session token s d = with_redis (world_of d) (rset 0 43200 (''session:'' @ token) (RSession s) (\<lambda>k. None))"

lemma stale_session_refused_witness:
  "(\<exists>p. auth (site ''b'' 5) (bearer ''a0'') (with_session ''a0'' sam_session bumped_db) = Inl p \<and> rs_status p = 401) \<and>
   (\<exists>u. auth (site ''b'' 5) (bearer ''a0'') (with_session ''a0'' sam_session site_db) = Inr u)"
proof
  have st: "stored_session (e_now (site ''b'' 5)) (session_key (site ''b'' 5) (sessionToken (bearer ''a0'')))
      (w_redis (with_session ''a0'' sam_session bumped_db)) = Some sam_session" by code_simp
  have v: "\<forall>x \<in> set (d_users (w_db (with_session ''a0'' sam_session bumped_db))).
      us_id x = ss_user sam_session \<longrightarrow> us_version x \<noteq> ss_version sam_session" by code_simp
  show "\<exists>p. auth (site ''b'' 5) (bearer ''a0'') (with_session ''a0'' sam_session bumped_db) = Inl p \<and> rs_status p = 401"
    by (rule stale_session_refused [OF st v])
  have "auth (site ''b'' 5) (bearer ''a0'') (with_session ''a0'' sam_session site_db) =
     Inr (demo_user\<lparr>u_version := 3\<rparr>)" by code_simp
  then show "\<exists>u. auth (site ''b'' 5) (bearer ''a0'') (with_session ''a0'' sam_session site_db) = Inr u" by blast
qed

section \<open>The limit on attempts\<close>

fun login_run ::
    "network list \<Rightarrow> (env \<times> request \<times> login_input body) list \<Rightarrow> world \<Rightarrow> resp list \<times> world" where
  "login_run nets [] w = ([], w)"
| "login_run nets ((e, r, b) # xs) w =
     (let (p, w1) = login e nets r b w; (ps, w2) = login_run nets xs w1 in (p # ps, w2))"

text \<open>An attempt that was neither turned away by the limit nor by a failing service.\<close>

definition attempted :: "resp \<Rightarrow> bool" where
  "attempted p \<longleftrightarrow> rs_status p \<noteq> 429 \<and> rs_status p \<noteq> 503"

definition counter :: "world \<Rightarrow> string \<Rightarrow> int \<Rightarrow> time \<Rightarrow> bool" where
  "counter w k c t \<longleftrightarrow> w_redis w k = Some (RCount c, Some t)"

lemma login_redis:
  "counted e nets r w = Some (n, red) \<Longrightarrow> k = attempt_key e nets ''login'' r \<Longrightarrow>
     w_redis (snd (login e nets r b w)) k = red k"
  using login_cases [of e nets r b w]
  by (auto simp: startSession_def establishSession_def rset_def session_key_def attempt_key_def)

lemma login_step:
  assumes k: "k = attempt_key e nets ''login'' r"
    and n: "counted e nets r w = Some (n, red)" and red: "red k = Some (RCount n, Some t)"
  shows "counter (snd (login e nets r b w)) k n t"
    and "attempted (fst (login e nets r b w)) \<Longrightarrow> n \<le> 20"
  using login_cases [of e nets r b w] login_redis [OF n k, of b] n red
  by (auto simp: counter_def attempted_def)

lemma counted_next:
  assumes "counter w k c t" and "1 \<le> c" and "e_now e < t" and "k = attempt_key e nets ''login'' r"
  shows "counted e nets r w = None \<or>
    (\<exists>red. counted e nets r w = Some (c + 1, red) \<and> red k = Some (RCount (c + 1), Some t))"
  using assms by (auto simp: counted_def counter_def rincr_window_def rget_def)

lemma counted_first:
  assumes "rget (e_now e) k (w_redis w) = None" and "k = attempt_key e nets ''login'' r"
  shows "counted e nets r w = None \<or>
    (\<exists>red. counted e nets r w = Some (1, red) \<and> red k = Some (RCount 1, Some (e_now e + 300)))"
  using assms by (auto simp: counted_def rincr_window_def)

lemma counted_None:
  "counted e nets r w = None \<Longrightarrow> snd (login e nets r b w) = w \<and> \<not> attempted (fst (login e nets r b w))"
  by (simp add: login_def counted_def [symmetric] attempted_def)

lemma counter_run:
  assumes "\<forall>(e, r, b) \<in> set xs. attempt_key e nets ''login'' r = k \<and> e_now e < t"
    and "counter w k c t" and "1 \<le> c"
  shows "int (length (filter attempted (fst (login_run nets xs w)))) \<le> max 0 (20 - c)"
  using assms
proof (induction xs arbitrary: w c)
  case Nil
  then show ?case by simp
next
  case (Cons x xs)
  obtain e r b where x: "x = (e, r, b)" by (cases x)
  let ?p = "fst (login e nets r b w)" and ?w = "snd (login e nets r b w)"
  have xs: "\<forall>(e, r, b) \<in> set xs. attempt_key e nets ''login'' r = k \<and> e_now e < t"
    and k: "k = attempt_key e nets ''login'' r" and now: "e_now e < t" using Cons.prems(1) x by auto
  have run: "filter attempted (fst (login_run nets (x # xs) w)) =
      (if attempted ?p then [?p] else []) @ filter attempted (fst (login_run nets xs ?w))"
    by (simp add: x case_prod_beta)
  from counted_next [OF Cons.prems(2,3) now k] show ?case
  proof
    assume none: "counted e nets r w = None"
    from counted_None [OF none, of b] Cons.IH [OF xs Cons.prems(2,3)] show ?thesis by (simp add: run)
  next
    assume "\<exists>red. counted e nets r w = Some (c + 1, red) \<and> red k = Some (RCount (c + 1), Some t)"
    then obtain red where n: "counted e nets r w = Some (c + 1, red)" "red k = Some (RCount (c + 1), Some t)" by blast
    note step = login_step [OF k n, of b]
    have "1 \<le> c + 1" using Cons.prems(3) by simp
    from Cons.IH [OF xs step(1) this] step(2) show ?thesis by (auto simp: run)
  qed
qed



end
