(* ===== verification/SignupProps.thy ===== *)
theory SignupProps
  imports AuthProps
begin

text \<open>
  Properties of signing out, signing up and verifying an address, on the definitions of \<open>Auth\<close>.
\<close>

section \<open>Signing out\<close>

text \<open>Signing out, for any continuation that leaves the session keys alone.\<close>

lemma logout_kills:
  assumes "rs_status (fst (logout sso_url e r w)) = 200"
    and "\<And>s v t k. stored_session t (session_key e k) (w_redis (snd (sso_url s v))) =
      stored_session t (session_key e k) (w_redis v)"
    and "same_site e e'" and "sessionToken r' = sessionToken r"
  shows "\<exists>p. auth e' r' (snd (logout sso_url e r w)) = Inl p \<and> rs_status p = 401"
proof -
  obtain s where res: "snd (logout sso_url e r w) =
      snd (sso_url s (with_redis w (rdel (session_key e (sessionToken r)) (w_redis w))))"
    using assms(1) by (auto simp: logout_def Let_def split: if_splits prod.splits option.splits) (metis snd_conv)+
  have "session_key e' (sessionToken r') = session_key e (sessionToken r)"
    using assms(3,4) by (simp add: session_key_def same_site_def)
  then have "stored_session t (session_key e' (sessionToken r')) (w_redis (snd (logout sso_url e r w))) = None" for t
    by (simp add: res assms(2) stored_session_rdel)
  then show ?thesis by (auto simp: auth_def Let_def)
qed

section \<open>Signing up\<close>

lemma insert_workspace_Some:
  assumes "insert_workspace d name slug = Some (i, d')"
  shows "i = next_id d ''workspaces'' \<and>
     d_ws d' = d_ws d @ [\<lparr>ws_id = i, ws_name = name, ws_slug = slug, ws_limit = 6, ws_sso_required = False\<rparr>] \<and>
     d_users d' = d_users d \<and> d_tokens d' = d_tokens d \<and> d_settings d' = d_settings d \<and>
     (\<exists>new. d_roles d' = d_roles d @ new \<and> map rl_key new = [''viewer'', ''operator'', ''account_manager''] \<and>
        (\<forall>r \<in> set new. rl_ws r = i \<and> rl_builtin r))"
  using assms by (auto simp: insert_workspace_def seed_roles_def seeded_role_def Let_def split: if_splits)

lemma insert_settings_Some:
  "insert_settings d ws = Some d' \<Longrightarrow>
     d_ws d' = d_ws d \<and> d_users d' = d_users d \<and> d_tokens d' = d_tokens d \<and> d_roles d' = d_roles d \<and>
     d_settings d' = d_settings d @ [\<lparr>se_ws = ws, se_retention = 90, se_last_run = None\<rparr>]"
  by (auto simp: insert_settings_def split: if_splits)

lemma insert_token_Some:
  "insert_token d uid dg t = Some d' \<Longrightarrow>
     d_ws d' = d_ws d \<and> d_users d' = d_users d \<and> d_roles d' = d_roles d \<and> d_settings d' = d_settings d \<and>
     (\<exists>i. d_tokens d' = d_tokens d @ [\<lparr>tk_id = i, tk_user = uid, tk_digest = dg, tk_expires = t, tk_used = False\<rparr>])"
  by (auto simp: insert_token_def Let_def split: if_splits)

lemma insert_user_frame:
  "insert_user d ws name email verified hash role owner = Some (i, d') \<Longrightarrow>
     d_ws d' = d_ws d \<and> d_tokens d' = d_tokens d \<and> d_roles d' = d_roles d \<and> d_settings d' = d_settings d"
  by (auto simp: insert_user_def Let_def split: if_splits)

definition new_owner :: "int \<Rightarrow> int \<Rightarrow> string \<Rightarrow> string \<Rightarrow> string \<Rightarrow> user_row" where
  "new_owner uid ws name email hash =
     \<lparr>us_id = uid, us_ws = ws, us_name = name, us_email = email, us_verified = False, us_hash = hash,
      us_role = ''admin'', us_owner = True, us_version = 1\<rparr>"

lemma signupTx_Some:
  assumes "signupTx e workspace username email hash d = Some (ws, uid, d')"
  shows "d_users d' = d_users d @ [new_owner uid ws username email hash] \<and>
     (\<exists>slug. d_ws d' = d_ws d @ [\<lparr>ws_id = ws, ws_name = workspace, ws_slug = slug, ws_limit = 6, ws_sso_required = False\<rparr>]) \<and>
     (\<exists>new. d_roles d' = d_roles d @ new \<and> map rl_key new = [''viewer'', ''operator'', ''account_manager''] \<and>
        (\<forall>r \<in> set new. rl_ws r = ws \<and> rl_builtin r)) \<and>
     d_settings d' = d_settings d @ [\<lparr>se_ws = ws, se_retention = 90, se_last_run = None\<rparr>] \<and>
     (\<exists>i. d_tokens d' = d_tokens d @ [\<lparr>tk_id = i, tk_user = uid, tk_digest = e_digest e (e_token e 1),
        tk_expires = e_now e + 86400, tk_used = False\<rparr>])"
proof -
  from assms obtain d1 d2 d3 where
    one: "insert_workspace d workspace (''ws-'' @ take 12 (e_digest e (e_token e 0))) = Some (ws, d1)"
    and two: "insert_user d1 ws username email False hash ''admin'' True = Some (uid, d2)"
    and three: "insert_settings d2 ws = Some d3"
    and four: "insert_token d3 uid (e_digest e (e_token e 1)) (e_now e + 86400) = Some d'"
    unfolding signupTx_def by (simp split: if_split_asm option.split_asm prod.split_asm)
  have "d_users d2 = d_users d1 @ [new_owner uid ws username email hash]"
    using two by (auto simp: insert_user_def new_owner_def Let_def split: if_splits)
  with insert_workspace_Some [OF one] insert_user_frame [OF two] insert_settings_Some [OF three]
    insert_token_Some [OF four]
  show ?thesis by auto
qed

lemma sendVerification_frame [simp]:
  "w_db (snd (sendVerification e i to name url w)) = w_db w"
  "w_redis (snd (sendVerification e i to name url w)) = w_redis w"
  by (simp_all add: sendVerification_def split: option.split)

lemma allowAttempt_frame [simp]: "w_db (snd (allowAttempt e i nets r kind limit w)) = w_db w"
  by (auto simp: allowAttempt_def split: option.split)

lemma strongPassword_length:
  "strongPassword e v = None \<Longrightarrow> 10 \<le> length v \<and> length v \<le> 72 \<and> valid_utf8 v"
  unfolding strongPassword_def by (auto split: if_split_asm)

lemma signup_cases:
  "(w_db (snd (signup e nets r b w)) = w_db w \<and> rs_status (fst (signup e nets r b w)) \<noteq> 202) \<or>
   (\<exists>inp email ws uid d w0 w1.
      b = Body inp \<and> normalizeEmail e (sp_email inp) = Some email \<and>
      strongPassword e (sp_password inp) = None \<and> w_db w0 = w_db w \<and>
      signupTx e (trim_space (sp_workspace inp)) (trim_space (sp_username inp)) email
        (e_hash e (sp_password inp)) (w_db w) = Some (ws, uid, d) \<and>
      w1 = snd (rcd e 7 (with_db w0 d) ws uid (trim_space (sp_username inp)) ''workspace.created''
                  (''ws-'' @ take 12 (e_digest e (e_token e 0)))
                  (JObj [(''name'', JStr (trim_space (sp_workspace inp)))])) \<and>
      snd (signup e nets r b w) = snd (sendVerification e 8 email (trim_space (sp_username inp))
                  (verificationURL (e_origin e) (e_token e 1)) w1) \<and>
      rs_status (fst (signup e nets r b w)) \<in> {202, 503})"
proof -
  obtain ok w0 where at: "allowAttempt e 0 nets r ''signup'' 10 w = (ok, w0)"
    by (cases "allowAttempt e 0 nets r ''signup'' 10 w")
  then have db: "w_db w0 = w_db w" using allowAttempt_frame by (metis snd_conv)
  show ?thesis
  proof (cases ok)
    case False
    with at db show ?thesis by (simp add: signup_def)
  next
    case ok: True
    show ?thesis
    proof (cases "decode r b")
      case (Inl p)
      with at db ok decode_Inl_status [OF Inl] show ?thesis by (auto simp: signup_def)
    next
      case (Inr inp)
      then have b: "b = Body inp" by (rule decode_Inr)
      let ?ws = "trim_space (sp_workspace inp)" and ?un = "trim_space (sp_username inp)"
      show ?thesis
      proof (cases "rune_count ?ws < 2 \<or> rune_count ?ws > 100 \<or> rune_count ?un < 3 \<or> rune_count ?un > 100 \<or>
          normalizeEmail e (sp_email inp) = None \<or> strongPassword e (sp_password inp) \<noteq> None \<or> e_fault e 1")
        case True
        then have "\<exists>p. rs_status p \<noteq> 202 \<and> signup e nets r b w = (p, w0)"
          using at ok Inr by (auto simp: signup_def Let_def split: option.split)
        with db show ?thesis by auto
      next
        case False
        then obtain email where email: "normalizeEmail e (sp_email inp) = Some email" by auto
        show ?thesis
        proof (cases "signupTx e ?ws ?un email (e_hash e (sp_password inp)) (w_db w)")
          case None
          with at db ok Inr False email show ?thesis by (simp add: signup_def Let_def)
        next
          case (Some x)
          obtain ws uid d where x: "x = (ws, uid, d)" by (cases x)
          let ?w1 = "snd (rcd e 7 (with_db w0 d) ws uid ?un ''workspace.created''
                  (''ws-'' @ take 12 (e_digest e (e_token e 0))) (JObj [(''name'', JStr ?ws)]))"
          have res: "signup e nets r b w = (case sendVerification e 8 email ?un (verificationURL (e_origin e) (e_token e 1)) ?w1 of
              (False, w2) \<Rightarrow> (problem 503 ''Account created, but the verification email could not be sent; use resend verification'', w2)
            | (True, w2) \<Rightarrow> (reply 202 (JObj [(''verification_required'', JBool True),
                   (''message'', JStr ''Check your email to verify your account'')]), w2))"
            using at db ok Inr False email Some x by (simp add: signup_def Let_def)
          have "snd (signup e nets r b w) = snd (sendVerification e 8 email ?un (verificationURL (e_origin e) (e_token e 1)) ?w1)"
            and "rs_status (fst (signup e nets r b w)) \<in> {202, 503}"
            unfolding res by (auto split: prod.split bool.split)
          moreover have "strongPassword e (sp_password inp) = None" using False by blast
          ultimately show ?thesis
            by (intro disjI2 exI conjI) (rule b email db Some [unfolded x] refl | assumption)+
        qed
      qed
    qed
  qed
qed

text \<open>C8: signing up is all or nothing: either the database is unchanged, or there is exactly one
  new workspace of six seats without enforced single sign-on, with its settings and its three
  built-in roles, and one new person, its owner and administrator, with the given name, the
  normalised address, the hash of a strong password, unverified and with one unused verification
  token that lasts a day; 202 is only answered in the second case.\<close>

theorem signup_all_or_nothing:
  "(w_db (snd (signup e nets r (Body inp) w)) = w_db w \<and> rs_status (fst (signup e nets r (Body inp) w)) \<noteq> 202) \<or>
   (\<exists>ws uid email slug tid roles.
      normalizeEmail e (sp_email inp) = Some email \<and> strongPassword e (sp_password inp) = None \<and>
      d_users (w_db (snd (signup e nets r (Body inp) w))) = d_users (w_db w) @
        [new_owner uid ws (trim_space (sp_username inp)) email (e_hash e (sp_password inp))] \<and>
      d_ws (w_db (snd (signup e nets r (Body inp) w))) = d_ws (w_db w) @
        [\<lparr>ws_id = ws, ws_name = trim_space (sp_workspace inp), ws_slug = slug, ws_limit = 6, ws_sso_required = False\<rparr>] \<and>
      d_settings (w_db (snd (signup e nets r (Body inp) w))) = d_settings (w_db w) @
        [\<lparr>se_ws = ws, se_retention = 90, se_last_run = None\<rparr>] \<and>
      d_roles (w_db (snd (signup e nets r (Body inp) w))) = d_roles (w_db w) @ roles \<and>
      map rl_key roles = [''viewer'', ''operator'', ''account_manager''] \<and>
      (\<forall>x \<in> set roles. rl_ws x = ws \<and> rl_builtin x) \<and>
      d_tokens (w_db (snd (signup e nets r (Body inp) w))) = d_tokens (w_db w) @
        [\<lparr>tk_id = tid, tk_user = uid, tk_digest = e_digest e (e_token e 1), tk_expires = e_now e + 86400, tk_used = False\<rparr>])"
  using signup_cases [of e nets r "Body inp" w]
proof (elim disjE exE conjE)
  fix inp' email ws uid d w0 w1
  assume b: "Body inp = Body inp'" and email: "normalizeEmail e (sp_email inp') = Some email"
    and pw: "strongPassword e (sp_password inp') = None"
    and tx: "signupTx e (trim_space (sp_workspace inp')) (trim_space (sp_username inp')) email
        (e_hash e (sp_password inp')) (w_db w) = Some (ws, uid, d)"
    and w1: "w1 = snd (rcd e 7 (with_db w0 d) ws uid (trim_space (sp_username inp')) ''workspace.created''
                  (''ws-'' @ take 12 (e_digest e (e_token e 0)))
                  (JObj [(''name'', JStr (trim_space (sp_workspace inp')))]))"
    and w': "snd (signup e nets r (Body inp) w) = snd (sendVerification e 8 email (trim_space (sp_username inp'))
                  (verificationURL (e_origin e) (e_token e 1)) w1)"
  have inp: "inp' = inp" using b by simp
  have tables: "d_users (w_db (snd (signup e nets r (Body inp) w))) = d_users d"
    "d_ws (w_db (snd (signup e nets r (Body inp) w))) = d_ws d"
    "d_settings (w_db (snd (signup e nets r (Body inp) w))) = d_settings d"
    "d_roles (w_db (snd (signup e nets r (Body inp) w))) = d_roles d"
    "d_tokens (w_db (snd (signup e nets r (Body inp) w))) = d_tokens d"
    by (simp_all add: w' w1)
  show ?thesis unfolding tables
    using signupTx_Some [OF tx] email pw unfolding inp
    by (elim conjE exE) (intro disjI2 exI conjI, assumption+)
qed simp

section \<open>Verifying an address\<close>

lemma verifyEmail_cases:
  "(verifyEmail e r w = (verify_failed, w)) \<or>
   (\<exists>t x. t \<in> set (d_tokens (w_db w)) \<and> live_token (e_now e) (e_digest e (trim_space (rq_query r ''token''))) t \<and>
      user_by_id (w_db w) (tk_user t) = Some x \<and>
      verifyEmail e r w = (redirect 303 ''/?verification=success'',
         snd (rcd e 5 (with_db w (use_tokens (verify_user (w_db w) (us_id x)) (us_id x)))
                (us_ws x) (us_id x) (us_name x) ''auth.email_verified'' (show_int (tk_id t)) JNull)))"
proof (cases "trim_space (rq_query r ''token'') = [] \<or> e_fault e 0 \<or> e_fault e 1")
  case True
  then show ?thesis by (simp add: verifyEmail_def Let_def)
next
  case False
  show ?thesis
  proof (cases "find (live_token (e_now e) (e_digest e (trim_space (rq_query r ''token'')))) (d_tokens (w_db w))")
    case None
    with False show ?thesis by (simp add: verifyEmail_def Let_def)
  next
    case (Some t)
    note t = find_Some_iff_in [OF Some]
    show ?thesis
    proof (cases "user_by_id (w_db w) (tk_user t)")
      case None
      with False Some show ?thesis by (simp add: verifyEmail_def Let_def)
    next
      case x: (Some x)
      with False Some t show ?thesis by (cases "e_fault e 2 \<or> e_fault e 3 \<or> e_fault e 4") (auto simp: verifyEmail_def Let_def)
    qed
  qed
qed

text \<open>C9: a verification link works once: when it was accepted, the token's owner is verified and
  nobody else's state changed, and every later use of the same link is rejected.\<close>

theorem verification_once:
  assumes "verifyEmail e r w = (redirect 303 ''/?verification=success'', w')"
    and "distinct (map tk_digest (d_tokens (w_db w)))"
    and "same_site e e'" and "trim_space (rq_query r' ''token'') = trim_space (rq_query r ''token'')"
  shows "verifyEmail e' r' w' = (verify_failed, w') \<and>
    (\<exists>t x. t \<in> set (d_tokens (w_db w)) \<and> tk_digest t = e_digest e (trim_space (rq_query r ''token'')) \<and>
       tk_expires t > e_now e \<and> user_by_id (w_db w) (tk_user t) = Some x \<and>
       d_users (w_db w') = map (\<lambda>y. if us_id y = us_id x then y\<lparr>us_verified := True\<rparr> else y) (d_users (w_db w)))"
proof -
  have ne: "verify_failed \<noteq> redirect 303 ''/?verification=success''"
    by (simp add: verify_failed_def redirect_def reply_def)
  from verifyEmail_cases [of e r w] assms(1) ne obtain t x where
    t: "t \<in> set (d_tokens (w_db w))" "live_token (e_now e) (e_digest e (trim_space (rq_query r ''token''))) t"
    and x: "user_by_id (w_db w) (tk_user t) = Some x"
    and w': "w' = snd (rcd e 5 (with_db w (use_tokens (verify_user (w_db w) (us_id x)) (us_id x)))
                (us_ws x) (us_id x) (us_name x) ''auth.email_verified'' (show_int (tk_id t)) JNull)"
    by auto
  have xid: "us_id x = tk_user t" using x unfolding user_by_id_def by (auto dest: find_Some_iff_in)
  have dg: "e_digest e' (trim_space (rq_query r' ''token'')) = tk_digest t"
    using assms(3,4) t(2) by (simp add: same_site_def live_token_def)
  have only: "y = t" if "y \<in> set (d_tokens (w_db w))" "tk_digest y = tk_digest t" for y
    using distinct_id_unique [OF assms(2) that(1) t(1)] that(2) by simp
  have toks: "d_tokens (w_db w') =
      map (\<lambda>y. if tk_user y = us_id x \<and> \<not> tk_used y then y\<lparr>tk_used := True\<rparr> else y) (d_tokens (w_db w))"
    by (simp add: w' use_tokens_def)
  have dead: "\<not> live_token n (tk_digest t) y" if y: "y \<in> set (d_tokens (w_db w'))" for y n
  proof
    assume live: "live_token n (tk_digest t) y"
    from y obtain z where z: "z \<in> set (d_tokens (w_db w))"
      "y = (if tk_user z = us_id x \<and> \<not> tk_used z then z\<lparr>tk_used := True\<rparr> else z)" unfolding toks by auto
    with live have "tk_digest z = tk_digest t" "\<not> tk_used z" "\<not> (tk_user z = us_id x)"
      by (auto simp: live_token_def split: if_splits)
    with only [OF z(1)] xid show False by simp
  qed
  have "verifyEmail e' r' w' = (verify_failed, w')"
    using verifyEmail_cases [of e' r' w'] dead unfolding dg by blast
  moreover have "d_users (w_db w') = map (\<lambda>y. if us_id y = us_id x then y\<lparr>us_verified := True\<rparr> else y) (d_users (w_db w))"
    by (simp add: w' verify_user_def)
  ultimately show ?thesis using t x by (auto simp: live_token_def)
qed

text \<open>A person signs up, verifies the address with the mailed link, and tries the link again.\<close>

definition ann_signup :: signup_input where
  "ann_signup = \<lparr>sp_workspace = ''Acme'', sp_username = ''ann'', sp_email = ''Ann@acme.io'', sp_password = ''Secret-pw-1''\<rparr>"

definition signed_up :: world where
  "signed_up = snd (signup (site ''s'' 100) [] blank_request (Body ann_signup) (world_of empty_db))"

definition link :: request where
  "link = blank_request\<lparr>rq_query := (\<lambda>k. if k = ''token'' then ''s1'' else [])\<rparr>"

lemma signup_all_or_nothing_witness:
  "rs_status (fst (signup (site ''s'' 100) [] blank_request (Body ann_signup) (world_of empty_db))) = 202 \<and>
   (\<exists>ws uid email. normalizeEmail (site ''s'' 100) (sp_email ann_signup) = Some email \<and>
      d_users (w_db signed_up) = d_users (w_db (world_of empty_db)) @
        [new_owner uid ws (trim_space (sp_username ann_signup)) email
           (e_hash (site ''s'' 100) (sp_password ann_signup))])"
proof -
  have ok: "rs_status (fst (signup (site ''s'' 100) [] blank_request (Body ann_signup) (world_of empty_db))) = 202"
    by code_simp
  from signup_all_or_nothing [of "site ''s'' 100" "[]" blank_request ann_signup "world_of empty_db"] ok
  show ?thesis unfolding signed_up_def by (elim disjE exE conjE) blast+
qed

lemma verification_once_witness:
  "fst (verifyEmail (site ''v'' 200) link signed_up) = redirect 303 ''/?verification=success'' \<and>
   fst (verifyEmail (site ''x'' 300) link (snd (verifyEmail (site ''v'' 200) link signed_up))) = verify_failed"
proof -
  have ok: "fst (verifyEmail (site ''v'' 200) link signed_up) = redirect 303 ''/?verification=success''"
    and ids: "distinct (map tk_digest (d_tokens (w_db signed_up)))" by code_simp+
  then have res: "verifyEmail (site ''v'' 200) link signed_up =
      (redirect 303 ''/?verification=success'', snd (verifyEmail (site ''v'' 200) link signed_up))"
    by (metis prod.collapse)
  have "same_site (site ''v'' 200) (site ''x'' 300)" by (simp add: same_site_def site_def)
  from verification_once [OF res ids this refl] ok show ?thesis by simp
qed

end
