(* ===== verification/AdminProps.thy ===== *)
theory AdminProps
  imports Admin SignupProps
begin

text \<open>
  What the handlers of \<open>Admin\<close> do to the database, and the properties that follow: owners, seats,
  tenants, sessions of edited people.
\<close>

section \<open>Effects of the handlers\<close>

lemma saveGroup_effect:
  "snd (saveGroup e u r b w) = w \<or>
   (\<exists>i name inp d a t j. admin u \<and>
      (insert_group (w_db w) (u_ws u) name inp = Some (i, d) \<or>
       update_group (w_db w) (u_ws u) i name inp = Inr d) \<and>
      snd (saveGroup e u r b w) = audit e 2 u (with_db w d) a t j)"
proof (cases "admin u")
  case adm: True
  show ?thesis
  proof (cases "decode r b")
    case (Inl p)
    with adm show ?thesis by (simp add: saveGroup_def)
  next
    case dec: (Inr inp)
    let ?name = "trim_space (gi_name inp)"
    let ?res = "if rq_method r = ''POST''
       then (if e_fault e 0 then Inl (dbError DbFailed)
             else case insert_group (w_db w) (u_ws u) ?name inp of
                    None \<Rightarrow> Inl (dbError DbFailed) | Some x \<Rightarrow> Inr x)
       else case pathID r ''id'' of
              Inl p \<Rightarrow> Inl p
            | Inr i \<Rightarrow>
                if e_fault e 1 then Inl (dbError DbFailed)
                else case update_group (w_db w) (u_ws u) i ?name inp of
                       Inl err \<Rightarrow> Inl (dbError err) | Inr d \<Rightarrow> Inr (i, d)"
    show ?thesis
    proof (cases ?res)
      case (Inl p)
      with adm dec show ?thesis by (simp add: saveGroup_def Let_def)
    next
      case (Inr x)
      obtain i d where x: "x = (i, d)" by (cases x)
      have ups: "insert_group (w_db w) (u_ws u) ?name inp = Some (i, d) \<or>
           update_group (w_db w) (u_ws u) i ?name inp = Inr d"
        using Inr x by (auto split: if_split_asm option.splits sum.splits)
      have "snd (saveGroup e u r b w) = w \<or>
          (\<exists>a t j. snd (saveGroup e u r b w) = audit e 2 u (with_db w d) a t j)"
        using adm dec Inr x by (auto simp: saveGroup_def Let_def)
      with ups adm show ?thesis by blast
    qed
  qed
qed (simp add: saveGroup_def)

lemma deleteGroup_effect:
  "snd (deleteGroup e u r w) = w \<or>
   (\<exists>i a t. admin u \<and> group_in_ws (w_db w) (u_ws u) i \<noteq> None \<and>
      snd (deleteGroup e u r w) = audit e 1 u (with_db w (delete_group (w_db w) i)) a t JNull)"
proof (cases "admin u")
  case adm: True
  show ?thesis
  proof (cases "pathID r ''id''")
    case (Inl p)
    with adm show ?thesis by (simp add: deleteGroup_def)
  next
    case (Inr i)
    show ?thesis
    proof (cases "e_fault e 0 \<or> group_in_ws (w_db w) (u_ws u) i = None")
      case True
      with adm Inr show ?thesis by (auto simp: deleteGroup_def)
    next
      case False
      with adm Inr have "snd (deleteGroup e u r w) =
          audit e 1 u (with_db w (delete_group (w_db w) i)) ''group.deleted'' (rq_path r ''id'') JNull"
        by (auto simp: deleteGroup_def)
      with adm False show ?thesis by blast
    qed
  qed
qed (simp add: deleteGroup_def)

lemma deleteUser_effect:
  "snd (deleteUser e u r w) = w \<or>
   (\<exists>i x a t. admin u \<and> i \<noteq> u_id u \<and> x \<in> set (d_users (w_db w)) \<and> us_id x = i \<and> us_ws x = u_ws u \<and>
      \<not> us_owner x \<and> snd (deleteUser e u r w) = audit e 1 u (with_db w (delete_user (w_db w) i)) a t JNull)"
proof (cases "admin u")
  case adm: True
  show ?thesis
  proof (cases "pathID r ''id''")
    case (Inl p)
    with adm show ?thesis by (simp add: deleteUser_def)
  next
    case (Inr i)
    show ?thesis
    proof (cases "i = u_id u \<or> e_fault e 0 \<or>
        \<not> list_ex (\<lambda>x. us_id x = i \<and> us_ws x = u_ws u \<and> \<not> us_owner x) (d_users (w_db w))")
      case True
      with adm Inr show ?thesis by (auto simp: deleteUser_def)
    next
      case False
      then obtain x where x: "x \<in> set (d_users (w_db w))" "us_id x = i" "us_ws x = u_ws u" "\<not> us_owner x"
        by (auto simp: list_ex_iff)
      have "snd (deleteUser e u r w) =
          audit e 1 u (with_db w (delete_user (w_db w) i)) ''user.deleted'' (rq_path r ''id'') JNull"
        using adm Inr False by (simp add: deleteUser_def)
      with adm False x show ?thesis by blast
    qed
  qed
qed (simp add: deleteUser_def)

lemma saveMembership_effect:
  "snd (saveMembership e u r b w) = w \<or>
   (\<exists>uid gid role a t j. groupAccess e 0 (w_db w) u gid ''members'' \<and> both_in_ws (w_db w) (u_ws u) uid gid \<and>
      pathID r ''id'' = Inr gid \<and> pathID r ''userID'' = Inr uid \<and> b = Body role \<and>
      role \<in> {''viewer'', ''operator'', ''manager''} \<and>
      snd (saveMembership e u r b w) = audit e 2 u (with_db w (put_member (w_db w) uid gid role)) a t j)"
proof (cases "pathID r ''id''")
  case gid: (Inr gid)
  show ?thesis
  proof (cases "pathID r ''userID''")
    case uid: (Inr uid)
    show ?thesis
    proof (cases "decode r b")
      case (Inl p)
      with gid uid show ?thesis by (simp add: saveMembership_def)
    next
      case role: (Inr role)
      show ?thesis
      proof (cases "groupAccess e 0 (w_db w) u gid ''members'' \<and> role \<in> {''viewer'', ''operator'', ''manager''} \<and>
          \<not> e_fault e 1 \<and> both_in_ws (w_db w) (u_ws u) uid gid")
        case True
        then have "snd (saveMembership e u r b w) =
            audit e 2 u (with_db w (put_member (w_db w) uid gid role)) ''membership.saved''
              (rq_path r ''id'' @ ''/'' @ rq_path r ''userID'') (JObj [(''role'', JStr role)])"
          using gid uid role by (auto simp: saveMembership_def)
        with True gid uid decode_Inr [OF role] show ?thesis by blast
      next
        case False
        with gid uid role show ?thesis by (auto simp: saveMembership_def)
      qed
    qed
  qed (simp add: saveMembership_def gid)
qed (simp add: saveMembership_def)

lemma deleteMembership_effect:
  "snd (deleteMembership e u r w) = w \<or>
   (\<exists>uid gid a t. groupAccess e 0 (w_db w) u gid ''members'' \<and>
      snd (deleteMembership e u r w) = audit e 2 u
        (with_db w ((w_db w)\<lparr>d_members :=
           filter (\<lambda>m. \<not> (mb_group m = gid \<and> mb_user m = uid \<and> both_in_ws (w_db w) (u_ws u) uid gid))
             (d_members (w_db w))\<rparr>)) a t JNull)"
proof (cases "pathID r ''id''")
  case gid: (Inr gid)
  show ?thesis
  proof (cases "pathID r ''userID''")
    case uid: (Inr uid)
    show ?thesis
    proof (cases "groupAccess e 0 (w_db w) u gid ''members'' \<and> \<not> e_fault e 1")
      case True
      with gid uid show ?thesis by (auto simp: deleteMembership_def)
    next
      case False
      with gid uid show ?thesis by (auto simp: deleteMembership_def)
    qed
  qed (simp add: deleteMembership_def gid)
qed (simp add: deleteMembership_def)

lemma saveSettings_effect:
  "snd (saveSettings e u r b w) = w \<or>
   (\<exists>n a t j. admin u \<and> 7 \<le> n \<and> n \<le> 3650 \<and>
      snd (saveSettings e u r b w) = audit e 1 u
        (with_db w ((w_db w)\<lparr>d_settings := map (\<lambda>s. if se_ws s = u_ws u then s\<lparr>se_retention := n\<rparr> else s)
           (d_settings (w_db w))\<rparr>)) a t j)"
proof (cases "admin u")
  case adm: True
  show ?thesis
  proof (cases "decode r b")
    case (Inl p)
    with adm show ?thesis by (simp add: saveSettings_def)
  next
    case (Inr n)
    show ?thesis
    proof (cases "n < 7 \<or> n > 3650 \<or> e_fault e 0")
      case True
      with adm Inr show ?thesis by (auto simp: saveSettings_def)
    next
      case False
      with adm Inr have "snd (saveSettings e u r b w) = audit e 1 u
        (with_db w ((w_db w)\<lparr>d_settings := map (\<lambda>s. if se_ws s = u_ws u then s\<lparr>se_retention := n\<rparr> else s)
           (d_settings (w_db w))\<rparr>)) ''settings.updated'' [] (JObj [(''audit_retention_days'', JInt n)])"
        by (simp add: saveSettings_def)
      with adm False show ?thesis by (intro disjI2) (auto simp: not_less)
    qed
  qed
qed (simp add: saveSettings_def)

lemma renew_token_frame:
  "d_users (w_db (snd (renew_token e i t uid w))) = d_users (w_db w)"
  "d_ws (w_db (snd (renew_token e i t uid w))) = d_ws (w_db w)"
  "d_groups (w_db (snd (renew_token e i t uid w))) = d_groups (w_db w)"
  "d_members (w_db (snd (renew_token e i t uid w))) = d_members (w_db w)"
  "d_accounts (w_db (snd (renew_token e i t uid w))) = d_accounts (w_db w)"
  "w_redis (snd (renew_token e i t uid w)) = w_redis w"
  by (auto simp: renew_token_def Let_def use_tokens_def insert_token_def split: option.splits if_splits)

lemma sendNewVerification_frame:
  "d_users (w_db (snd (sendNewVerification e i t uid em n w))) = d_users (w_db w)"
  "d_ws (w_db (snd (sendNewVerification e i t uid em n w))) = d_ws (w_db w)"
  "d_groups (w_db (snd (sendNewVerification e i t uid em n w))) = d_groups (w_db w)"
  "d_members (w_db (snd (sendNewVerification e i t uid em n w))) = d_members (w_db w)"
  "d_accounts (w_db (snd (sendNewVerification e i t uid em n w))) = d_accounts (w_db w)"
  "w_redis (snd (sendNewVerification e i t uid em n w)) = w_redis w"
  using renew_token_frame [of e i t uid w]
  by (auto simp: sendNewVerification_def split: prod.split bool.split)

definition saved_user ::
    "env \<Rightarrow> user \<Rightarrow> request \<Rightarrow> user_input \<Rightarrow> db \<Rightarrow> resp + (int \<times> bool \<times> db)" where
  "saved_user e u r inp d =
     (let name = trim_space (ui_name inp); role = ui_role inp;
          hash = (if ui_password inp = [] then [] else e_hash e (ui_password inp));
          email = the (normalizeEmail e (ui_email inp))
      in if rq_method r = ''POST''
         then (case insertMember e u name email hash role d of
                 Refused p \<Rightarrow> Inl p
               | Failed err \<Rightarrow> Inl (dbError err)
               | Done (i, d) \<Rightarrow> Inr (i, True, d))
         else (case pathID r ''id'' of
                 Inl p \<Rightarrow> Inl p
               | Inr i \<Rightarrow>
                   (case updateMember e u i name email hash role d of
                      Refused p \<Rightarrow> Inl p
                    | Failed err \<Rightarrow> Inl (dbError err)
                    | Done (ch, d) \<Rightarrow> Inr (i, ch, d))))"

definition valid_role :: "string \<Rightarrow> bool" where
  "valid_role role \<longleftrightarrow> role = ''admin'' \<or> role = ''user''"

lemma saveUser_effect:
  "snd (saveUser e u r b w) = w \<or>
   (\<exists>inp i ch d a t j. admin u \<and> b = Body inp \<and> normalizeEmail e (ui_email inp) \<noteq> None \<and>
      valid_role (ui_role inp) \<and>
      (ui_password inp \<noteq> [] \<or> rq_method r = ''POST'' \<longrightarrow> strongPassword e (ui_password inp) = None) \<and>
      saved_user e u r inp (w_db w) = Inr (i, ch, d) \<and>
      (snd (saveUser e u r b w) = audit e 7 u (with_db w d) a t j \<or>
       snd (saveUser e u r b w) = snd (sendNewVerification e 8 (e_token e 0) i
         (the (normalizeEmail e (ui_email inp))) (trim_space (ui_name inp)) (audit e 7 u (with_db w d) a t j))))"
proof (cases "admin u")
  case adm: True
  show ?thesis
  proof (cases "decode r b")
    case (Inl p)
    with adm show ?thesis by (simp add: saveUser_def)
  next
    case dec: (Inr inp)
    show ?thesis
    proof (cases "normalizeEmail e (ui_email inp)")
      case None
      with adm dec show ?thesis by (simp add: saveUser_def Let_def)
    next
      case em: (Some email)
      let ?bad = "length (trim_space (ui_name inp)) < 3 \<or> length (trim_space (ui_name inp)) > 100 \<or>
        ui_role inp \<noteq> ''admin'' \<and> ui_role inp \<noteq> ''user''"
      let ?weak = "(rq_method r = ''POST'' \<or> ui_password inp \<noteq> []) \<and> strongPassword e (ui_password inp) \<noteq> None"
      show ?thesis
      proof (cases "?bad \<or> ?weak")
        case True
        then show ?thesis
        proof
          assume ?bad
          with adm dec em show ?thesis by (auto simp: saveUser_def Let_def)
        next
          assume ?weak
          with adm dec em show ?thesis by (auto simp: saveUser_def Let_def)
        qed
      next
        case False
        then have nb: "\<not> ?bad" and nw: "\<not> ?weak" by blast+
        have unf: "saveUser e u r b w =
          (case saved_user e u r inp (w_db w) of
             Inl p \<Rightarrow> (p, w)
           | Inr (i, changed, d) \<Rightarrow>
               let w1 = audit e 7 u (with_db w d) ''user.saved'' (show_int i) (user_details (trim_space (ui_name inp)) email (ui_role inp))
               in if \<not> changed then (reply_id i, w1)
                  else case sendNewVerification e 8 (e_token e 0) i email (trim_space (ui_name inp)) w1 of
                    (False, w2) \<Rightarrow> (problem 503 ''User saved, but the verification email could not be sent; try saving the address again'', w2)
                  | (True, w2) \<Rightarrow> (reply_id i, w2))"
          unfolding saveUser_def dec sum.case em option.case if_not_P [OF nb] if_not_P [OF nw] Let_def
            saved_user_def option.sel
          using adm by simp
        show ?thesis
        proof (cases "saved_user e u r inp (w_db w)")
          case (Inl p)
          then show ?thesis by (simp add: unf)
        next
          case (Inr x)
          obtain i ch d where x: "x = (i, ch, d)" by (cases x)
          let ?w1 = "audit e 7 u (with_db w d) ''user.saved'' (show_int i) (user_details (trim_space (ui_name inp)) email (ui_role inp))"
          have "snd (saveUser e u r b w) = ?w1 \<or>
             snd (saveUser e u r b w) = snd (sendNewVerification e 8 (e_token e 0) i email (trim_space (ui_name inp)) ?w1)"
            unfolding unf Inr x by (auto simp: Let_def split: prod.split bool.split)
          moreover have "b = Body inp" by (rule decode_Inr [OF dec])
          moreover have "valid_role (ui_role inp)" using nb by (auto simp: valid_role_def)
          ultimately show ?thesis using adm em nw Inr x by (metis option.sel option.distinct(1))
        qed
      qed
    qed
  qed
qed (simp add: saveUser_def)

section \<open>Steps of the administration\<close>

text \<open>One request to a handler of \<open>Admin\<close> by the signed-in user \<open>u\<close>, whatever its body and whatever
  fails.\<close>

inductive admin_step :: "user \<Rightarrow> world \<Rightarrow> world \<Rightarrow> bool" where
  save_group: "admin_step u w (snd (saveGroup e u r gb w))"
| delete_group: "admin_step u w (snd (deleteGroup e u r w))"
| save_user: "admin_step u w (snd (saveUser e u r ub w))"
| delete_user: "admin_step u w (snd (deleteUser e u r w))"
| save_member: "admin_step u w (snd (saveMembership e u r sb w))"
| delete_member: "admin_step u w (snd (deleteMembership e u r w))"
| save_settings: "admin_step u w (snd (saveSettings e u r nb w))"

inductive_cases admin_stepE: "admin_step u w w'"

text \<open>What a step does to the people.\<close>

definition people_change :: "user \<Rightarrow> db \<Rightarrow> db \<Rightarrow> bool" where
  "people_change u d d' \<longleftrightarrow>
     d_users d' = d_users d \<and> d_next d' ''users'' = d_next d ''users'' \<or>
     (\<exists>e name email hash role i d1. insertMember e u name email hash role d = Done (i, d1) \<and>
        d_users d' = d_users d1 \<and> d_next d' ''users'' = d_next d1 ''users'') \<or>
     (\<exists>e i name email hash role ch d1. updateMember e u i name email hash role d = Done (ch, d1) \<and>
        d_users d' = d_users d1 \<and> d_next d' ''users'' = d_next d1 ''users'') \<or>
     (\<exists>x \<in> set (d_users d). us_ws x = u_ws u \<and> \<not> us_owner x \<and> us_id x \<noteq> u_id u \<and>
        d_users d' = filter (\<lambda>y. us_id y \<noteq> us_id x) (d_users d) \<and> d_next d' ''users'' = d_next d ''users'')"

lemma sendNewVerification_next:
  "d_next (w_db (snd (sendNewVerification e i t uid em n w))) ''users'' = d_next (w_db w) ''users''"
proof -
  have "d_next (w_db (snd (renew_token e i t uid w))) ''users'' = d_next (w_db w) ''users''"
    by (auto simp: renew_token_def Let_def use_tokens_def insert_token_def bump_def split: option.splits if_splits)
  then show ?thesis
    by (auto simp: sendNewVerification_def split: prod.split bool.split)
qed

lemma saved_user_cases:
  assumes "saved_user e u r inp d = Inr (i, ch, d')"
  shows "\<exists>name email hash role.
    insertMember e u name email hash role d = Done (i, d') \<or>
    updateMember e u i name email hash role d = Done (ch, d')"
  using assms unfolding saved_user_def Let_def
  by (auto split: if_splits sum.splits tx.splits prod.splits)

lemma insert_group_frame:
  "insert_group d ws n g = Some (i, d') \<Longrightarrow> d_users d' = d_users d \<and> d_ws d' = d_ws d \<and>
     d_next d' ''users'' = d_next d ''users'' \<and> d_members d' = d_members d \<and> d_settings d' = d_settings d \<and>
     (\<exists>row. d_groups d' = d_groups d @ [row] \<and> gr_ws row = ws)"
  by (auto simp: insert_group_def Let_def bump_def split: if_splits)

lemma update_group_frame:
  "update_group d ws i n g = Inr d' \<Longrightarrow> d_users d' = d_users d \<and> d_ws d' = d_ws d \<and> d_next d' = d_next d \<and>
     d_members d' = d_members d \<and> d_settings d' = d_settings d \<and>
     (\<exists>f. d_groups d' = map f (d_groups d) \<and> (\<forall>g. gr_id (f g) = gr_id g \<and> gr_ws (f g) = gr_ws g) \<and>
        (\<forall>g. gr_ws g \<noteq> ws \<longrightarrow> f g = g))"
  unfolding update_group_def
  by (simp split: if_split_asm, intro exI [of _ "\<lambda>x. if gr_id x = i \<and> gr_ws x = ws
      then x\<lparr>gr_name := n, gr_desc := gi_desc g, gr_view := gi_view g, gr_accounts := gi_accounts g,
             gr_members := gi_members g\<rparr> else x"] conjI) auto

lemma put_member_frame [simp]:
  "d_users (put_member d uid gid role) = d_users d" "d_ws (put_member d uid gid role) = d_ws d"
  "d_groups (put_member d uid gid role) = d_groups d" "d_settings (put_member d uid gid role) = d_settings d"
  "d_next (put_member d uid gid role) = d_next d"
  by (simp_all add: put_member_def)

lemma delete_group_simps [simp]:
  "d_users (delete_group d i) = d_users d" "d_ws (delete_group d i) = d_ws d"
  "d_next (delete_group d i) = d_next d" "d_settings (delete_group d i) = d_settings d"
  "d_groups (delete_group d i) = filter (\<lambda>g. gr_id g \<noteq> i) (d_groups d)"
  "d_members (delete_group d i) = filter (\<lambda>m. mb_group m \<noteq> i) (d_members d)"
  by (simp_all add: delete_group_def)

lemma delete_user_simps [simp]:
  "d_users (delete_user d i) = filter (\<lambda>x. us_id x \<noteq> i) (d_users d)" "d_ws (delete_user d i) = d_ws d"
  "d_next (delete_user d i) = d_next d" "d_settings (delete_user d i) = d_settings d"
  "d_groups (delete_user d i) = d_groups d"
  "d_members (delete_user d i) = filter (\<lambda>m. mb_user m \<noteq> i) (d_members d)"
  by (simp_all add: delete_user_def)

lemma people_change_refl: "people_change u d d"
  by (simp add: people_change_def)

lemma people_change_same:
  "d_users d' = d_users d \<Longrightarrow> d_next d' ''users'' = d_next d ''users'' \<Longrightarrow> people_change u d d'"
  by (simp add: people_change_def)

lemma step_people: "admin_step u w w' \<Longrightarrow> people_change u (w_db w) (w_db w')"
proof (erule admin_stepE)
  fix e r gb
  assume w': "w' = snd (saveGroup e u r gb w)"
  show ?thesis using saveGroup_effect [of e u r gb w] unfolding w' [symmetric]
    by (auto intro!: people_change_same simp: people_change_refl dest: insert_group_frame update_group_frame)
next
  fix e r
  assume w': "w' = snd (deleteGroup e u r w)"
  show ?thesis using deleteGroup_effect [of e u r w] unfolding w' [symmetric]
    by (auto intro!: people_change_same simp: people_change_refl)
next
  fix e r ub
  assume w': "w' = snd (saveUser e u r ub w)"
  show ?thesis using saveUser_effect [of e u r ub w] unfolding w' [symmetric]
  proof (elim disjE exE conjE)
    fix inp i ch d a t j
    assume s: "saved_user e u r inp (w_db w) = Inr (i, ch, d)" and "w' = audit e 7 u (with_db w d) a t j"
    then have "d_users (w_db w') = d_users d" "d_next (w_db w') = d_next d" by simp_all
    with saved_user_cases [OF s] show ?thesis unfolding people_change_def by metis
  next
    fix inp i ch d a t j
    assume s: "saved_user e u r inp (w_db w) = Inr (i, ch, d)"
      and "w' = snd (sendNewVerification e 8 (e_token e 0) i (the (normalizeEmail e (ui_email inp)))
         (trim_space (ui_name inp)) (audit e 7 u (with_db w d) a t j))"
    then have "d_users (w_db w') = d_users d" "d_next (w_db w') ''users'' = d_next d ''users''"
      by (simp_all add: sendNewVerification_frame sendNewVerification_next)
    with saved_user_cases [OF s] show ?thesis unfolding people_change_def by metis
  qed (simp_all add: people_change_refl)
next
  fix e r
  assume w': "w' = snd (deleteUser e u r w)"
  show ?thesis using deleteUser_effect [of e u r w] unfolding w' [symmetric]
  proof (elim disjE exE conjE)
    fix i x a t
    assume "x \<in> set (d_users (w_db w))" "us_id x = i" "us_ws x = u_ws u" "\<not> us_owner x" "i \<noteq> u_id u"
      and "w' = audit e 1 u (with_db w (delete_user (w_db w) i)) a t JNull"
    then show ?thesis unfolding people_change_def by (intro disjI2 bexI [of _ x]) auto
  qed (simp add: people_change_refl)
next
  fix e r sb
  assume w': "w' = snd (saveMembership e u r sb w)"
  show ?thesis using saveMembership_effect [of e u r sb w] unfolding w' [symmetric]
    by (auto intro!: people_change_same simp: people_change_refl)
next
  fix e r
  assume w': "w' = snd (deleteMembership e u r w)"
  show ?thesis using deleteMembership_effect [of e u r w] unfolding w' [symmetric]
    by (auto intro!: people_change_same simp: people_change_refl)
next
  fix e r nb
  assume w': "w' = snd (saveSettings e u r nb w)"
  show ?thesis using saveSettings_effect [of e u r nb w] unfolding w' [symmetric]
    by (auto intro!: people_change_same simp: people_change_refl)
qed

section \<open>People, owners and seats\<close>

definition people_ok :: "db \<Rightarrow> bool" where
  "people_ok d \<longleftrightarrow>
     distinct (map us_id (d_users d)) \<and> (\<forall>x \<in> set (d_users d). us_id x < d_next d ''users'') \<and>
     (\<forall>x \<in> set (d_users d). us_owner x \<longrightarrow> us_role x = ''admin'') \<and>
     distinct (map (\<lambda>x. to_lower (us_name x)) (d_users d))"

definition owners :: "db \<Rightarrow> (int \<times> int) list" where
  "owners d = map (\<lambda>x. (us_id x, us_ws x)) (filter us_owner (d_users d))"

lemma insertMember_Done:
  "insertMember e u name email hash role d = Done (i, d') \<Longrightarrow>
     (\<exists>s. ws_by_id d (u_ws u) = Some s \<and> int (length (ws_users d (u_ws u))) < ws_limit s) \<and>
     insert_user d (u_ws u) name email False hash role False = Some (i, d')"
  unfolding insertMember_def by (simp split: if_split_asm option.split_asm add: not_le)

lemma updateMember_Done:
  "updateMember e u i name email hash role d = Done (ch, d') \<Longrightarrow>
     (\<exists>x \<in> set (d_users d). us_id x = i \<and> us_ws x = u_ws u \<and> (us_owner x \<longrightarrow> role = ''admin'')) \<and>
     (i = u_id u \<longrightarrow> role = ''admin'') \<and> update_user d (u_ws u) i name email hash role = Inr d'"
  unfolding updateMember_def
  by (auto split: if_split_asm option.split_asm sum.split_asm dest: find_Some_iff_in)

lemma update_user_Inr:
  "update_user d ws i name email hash role = Inr d' \<Longrightarrow>
     d_users d' = map (\<lambda>x. if us_id x = i \<and> us_ws x = ws then set_user name email hash role x else x) (d_users d) \<and>
     d_next d' = d_next d \<and> d_ws d' = d_ws d \<and>
     (\<forall>x \<in> set (d_users d). us_id x \<noteq> i \<longrightarrow> to_lower (us_name x) \<noteq> to_lower name)"
  by (auto simp: update_user_def list_ex_iff split: if_splits)

lemma set_user_simps [simp]:
  "us_id (set_user n em h rl x) = us_id x" "us_ws (set_user n em h rl x) = us_ws x"
  "us_owner (set_user n em h rl x) = us_owner x" "us_role (set_user n em h rl x) = rl"
  "us_version (set_user n em h rl x) = us_version x + 1" "us_name (set_user n em h rl x) = n"
  by (simp_all add: set_user_def)

lemma distinct_map_upd:
  assumes "distinct (map f xs)" and "distinct (map g xs)"
    and "\<And>x. x \<in> set xs \<Longrightarrow> k x = (if f x = i then v else g x)"
    and "\<And>x. x \<in> set xs \<Longrightarrow> f x \<noteq> i \<Longrightarrow> g x \<noteq> v"
  shows "distinct (map k xs)"
proof -
  have "inj_on k (set xs)"
  proof (rule inj_onI)
    fix x y
    assume xy: "x \<in> set xs" "y \<in> set xs" and eq: "k x = k y"
    have "f x = f y \<or> g x = g y"
      using eq assms(3) [OF xy(1)] assms(3) [OF xy(2)] assms(4) [OF xy(1)] assms(4) [OF xy(2)]
      by (auto split: if_splits)
    then show "x = y"
      using distinct_id_unique [OF assms(1) xy] distinct_id_unique [OF assms(2) xy] by blast
  qed
  moreover have "distinct xs" using assms(1) by (simp add: distinct_map)
  ultimately show ?thesis by (simp add: distinct_map)
qed

lemma people_insert:
  assumes ok: "people_ok d" and ins: "insertMember e u name email hash role d = Done (i, d1)"
    and same: "d_users d' = d_users d1" "d_next d' ''users'' = d_next d1 ''users''"
  shows "people_ok d' \<and> owners d' = owners d"
proof -
  have u: "insert_user d (u_ws u) name email False hash role False = Some (i, d1)"
    using insertMember_Done [OF ins] by blast
  then have free: "\<not> name_taken d name" and i: "i = d_next d ''users''" "d_next d1 ''users'' = d_next d ''users'' + 1"
    by (auto simp: insert_user_def Let_def next_id_def bump_def split: if_splits)
  from insert_user_Some [OF u] obtain row where row: "d_users d1 = d_users d @ [row]" "us_id row = i"
    "us_name row = name" "\<not> us_owner row" by blast
  have lt: "us_id x < d_next d ''users''" if "x \<in> set (d_users d)" for x using ok that by (simp add: people_ok_def)
  have "us_id x \<noteq> i" "us_id x < d_next d ''users'' + 1" if "x \<in> set (d_users d)" for x
    using lt [OF that] i by simp_all
  then show ?thesis
    using ok row free i(2) same i(1) [symmetric]
    by (auto simp: people_ok_def owners_def name_taken_def list_ex_iff)
qed

lemma people_update:
  assumes ok: "people_ok d" and up: "updateMember e u i name email hash role d = Done (ch, d1)"
    and same: "d_users d' = d_users d1" "d_next d' ''users'' = d_next d1 ''users''"
  shows "people_ok d' \<and> owners d' = owners d"
proof -
  from updateMember_Done [OF up] obtain x where
    x: "x \<in> set (d_users d)" "us_id x = i" "us_ws x = u_ws u" "us_owner x \<longrightarrow> role = ''admin''"
    and up': "update_user d (u_ws u) i name email hash role = Inr d1" by blast
  define f where "f = (\<lambda>y. if us_id y = i \<and> us_ws y = u_ws u then set_user name email hash role y else y)"
  from update_user_Inr [OF up'] have d1: "d_users d1 = map f (d_users d)" "d_next d1 = d_next d"
    and free: "\<And>y. y \<in> set (d_users d) \<Longrightarrow> us_id y \<noteq> i \<Longrightarrow> to_lower (us_name y) \<noteq> to_lower name"
    by (auto simp: f_def)
  have only: "y = x" if "y \<in> set (d_users d)" "us_id y = i" for y
    using ok distinct_id_unique [of us_id "d_users d" y x] that x by (simp add: people_ok_def)
  have ws: "us_ws y = u_ws u" if "y \<in> set (d_users d)" "us_id y = i" for y
    using only [OF that] x(3) by simp
  have f: "us_id (f y) = us_id y" "us_ws (f y) = us_ws y" "us_owner (f y) = us_owner y" for y
    by (simp_all add: f_def)
  have ids: "map us_id (map f (d_users d)) = map us_id (d_users d)" by (simp add: f)
  have "distinct (map (\<lambda>y. to_lower (us_name (f y))) (d_users d))"
    by (rule distinct_map_upd [where f = us_id and g = "\<lambda>y. to_lower (us_name y)" and i = i and v = "to_lower name"])
      (use ok free ws in \<open>simp_all add: people_ok_def f_def\<close>)
  moreover have "us_owner (f y) \<longrightarrow> us_role (f y) = ''admin''" if "y \<in> set (d_users d)" for y
    using ok x only [OF that] that by (auto simp: f_def people_ok_def)
  ultimately have "people_ok d'"
    using ok ids by (auto simp: people_ok_def same d1 f comp_def)
  moreover have "owners d' = owners d"
    by (simp add: owners_def same d1 filter_map comp_def f)
  ultimately show ?thesis ..
qed

lemma people_delete:
  assumes ok: "people_ok d" and x: "x \<in> set (d_users d)" "\<not> us_owner x"
    and same: "d_users d' = filter (\<lambda>y. us_id y \<noteq> us_id x) (d_users d)" "d_next d' ''users'' = d_next d ''users''"
  shows "people_ok d' \<and> owners d' = owners d"
proof -
  have only: "y = x" if "y \<in> set (d_users d)" "us_id y = us_id x" for y
    using ok distinct_id_unique [of us_id "d_users d" y x] that x by (simp add: people_ok_def)
  have "filter us_owner (filter (\<lambda>y. us_id y \<noteq> us_id x) (d_users d)) = filter us_owner (d_users d)"
    unfolding filter_filter by (rule filter_cong [OF refl]) (use only x(2) in blast)
  with ok show ?thesis
    by (auto simp: people_ok_def owners_def same distinct_map_filter)
qed

lemma people_step: "people_change u d d' \<Longrightarrow> people_ok d \<Longrightarrow> people_ok d' \<and> owners d' = owners d"
  unfolding people_change_def
proof (elim disjE exE bexE conjE)
  assume "people_ok d" "d_users d' = d_users d" "d_next d' ''users'' = d_next d ''users''"
  then show ?thesis by (simp add: people_ok_def owners_def)
next
  fix e name email hash role i d1
  assume "people_ok d" "insertMember e u name email hash role d = Done (i, d1)"
    "d_users d' = d_users d1" "d_next d' ''users'' = d_next d1 ''users''"
  then show ?thesis by (rule people_insert)
next
  fix e i name email hash role ch d1
  assume "people_ok d" "updateMember e u i name email hash role d = Done (ch, d1)"
    "d_users d' = d_users d1" "d_next d' ''users'' = d_next d1 ''users''"
  then show ?thesis by (rule people_update)
next
  fix x
  assume "people_ok d" "x \<in> set (d_users d)" "\<not> us_owner x"
    "d_users d' = filter (\<lambda>y. us_id y \<noteq> us_id x) (d_users d)" "d_next d' ''users'' = d_next d ''users''"
  then show ?thesis by (rule people_delete)
qed

text \<open>Whatever sequence of administration requests is handled, by whomever, a workspace keeps
  exactly its owners, they stay administrators, ids stay unique and no two people share a name up to
  case.\<close>

theorem owners_kept:
  assumes "(\<lambda>v v'. \<exists>u. admin_step u v v')\<^sup>*\<^sup>* w w'" and "people_ok (w_db w)"
  shows "people_ok (w_db w') \<and> owners (w_db w') = owners (w_db w)"
  using assms
proof (induction rule: rtranclp_induct)
  case (step v v')
  then show ?case using people_step [OF step_people] by auto
qed simp

definition admin_world :: world where
  "admin_world = world_of (team_db\<lparr>d_next := (\<lambda>t. 100)\<rparr>)"

lemma owners_kept_witness:
  "people_ok (w_db admin_world) \<and>
   people_ok (w_db (snd (deleteUser good_env demo_admin (role_request ''DELETE'' ''7'') admin_world))) \<and>
   length (d_users (w_db (snd (deleteUser good_env demo_admin (role_request ''DELETE'' ''7'') admin_world)))) = 3"
proof -
  have ok: "people_ok (w_db admin_world)" by code_simp
  have "(\<lambda>v v'. \<exists>u. admin_step u v v')\<^sup>*\<^sup>* admin_world (snd (deleteUser good_env demo_admin (role_request ''DELETE'' ''7'') admin_world))"
    by (rule r_into_rtranclp) (blast intro: delete_user)
  from owners_kept [OF this ok] ok show ?thesis by (intro conjI) (blast+, code_simp)
qed

text \<open>Seats: no workspace has more people than its limit.\<close>

definition seats_ok :: "db \<Rightarrow> bool" where
  "seats_ok d \<longleftrightarrow> (\<forall>s \<in> set (d_ws d). int (length (ws_users d (ws_id s))) \<le> ws_limit s) \<and>
     distinct (map ws_id (d_ws d))"

lemma step_ws: "admin_step u w w' \<Longrightarrow> d_ws (w_db w') = d_ws (w_db w)"
proof (erule admin_stepE)
  fix e r ub
  assume w': "w' = snd (saveUser e u r ub w)"
  have "saved_user e u r inp d = Inr (i, ch, d') \<Longrightarrow> d_ws d' = d_ws d" for inp d i ch d'
    by (drule saved_user_cases)
      (auto dest!: insertMember_Done updateMember_Done update_user_Inr insert_user_frame)
  then show ?thesis using saveUser_effect [of e u r ub w] unfolding w' [symmetric]
    by (auto simp: sendNewVerification_frame)
next
  fix e r gb
  assume w': "w' = snd (saveGroup e u r gb w)"
  show ?thesis using saveGroup_effect [of e u r gb w] unfolding w' [symmetric]
    by (auto dest: insert_group_frame update_group_frame)
next
  fix e r
  assume w': "w' = snd (deleteGroup e u r w)"
  show ?thesis using deleteGroup_effect [of e u r w] unfolding w' [symmetric] by auto
next
  fix e r
  assume w': "w' = snd (deleteUser e u r w)"
  show ?thesis using deleteUser_effect [of e u r w] unfolding w' [symmetric] by auto
next
  fix e r sb
  assume w': "w' = snd (saveMembership e u r sb w)"
  show ?thesis using saveMembership_effect [of e u r sb w] unfolding w' [symmetric] by auto
next
  fix e r
  assume w': "w' = snd (deleteMembership e u r w)"
  show ?thesis using deleteMembership_effect [of e u r w] unfolding w' [symmetric] by auto
next
  fix e r nb
  assume w': "w' = snd (saveSettings e u r nb w)"
  show ?thesis using saveSettings_effect [of e u r nb w] unfolding w' [symmetric] by auto
qed

lemma length_ws_users_map:
  "(\<And>x. us_ws (f x) = us_ws x) \<Longrightarrow> length (filter (\<lambda>x. us_ws x = ws) (map f xs)) = length (filter (\<lambda>x. us_ws x = ws) xs)"
  by (induction xs) auto

lemma people_change_seats:
  assumes "people_change u d d'" and "d_ws d' = d_ws d" and "seats_ok d"
  shows "seats_ok d'"
proof -
  have lim: "int (length (ws_users d (ws_id s))) \<le> ws_limit s" if "s \<in> set (d_ws d)" for s
    using assms(3) that by (simp add: seats_ok_def)
  have "int (length (ws_users d' (ws_id s))) \<le> ws_limit s" if s: "s \<in> set (d_ws d)" for s
    using assms(1) unfolding people_change_def
  proof (elim disjE exE bexE conjE)
    assume "d_users d' = d_users d"
    then show ?thesis using lim [OF s] by (simp add: ws_users_def)
  next
    fix e name email hash role i d1
    assume ins: "insertMember e u name email hash role d = Done (i, d1)" and same: "d_users d' = d_users d1"
    from insertMember_Done [OF ins] obtain t where t: "ws_by_id d (u_ws u) = Some t"
      "int (length (ws_users d (u_ws u))) < ws_limit t"
      "insert_user d (u_ws u) name email False hash role False = Some (i, d1)" by blast
    from insert_user_Some [OF t(3)] obtain row where row: "d_users d1 = d_users d @ [row]" "us_ws row = u_ws u" by blast
    show ?thesis
    proof (cases "ws_id s = u_ws u")
      case True
      have "t = s" using t(1) s True assms(3) distinct_id_unique [of ws_id "d_ws d" t s]
        unfolding ws_by_id_def seats_ok_def by (auto dest: find_Some_iff_in)
      with t(2) True row same show ?thesis by (simp add: ws_users_def)
    next
      case False
      with lim [OF s] row same show ?thesis by (simp add: ws_users_def)
    qed
  next
    fix e i name email hash role ch d1
    assume up: "updateMember e u i name email hash role d = Done (ch, d1)" and same: "d_users d' = d_users d1"
    then have "update_user d (u_ws u) i name email hash role = Inr d1" using updateMember_Done [OF up] by blast
    from update_user_Inr [OF this] same have d': "d_users d' =
      map (\<lambda>x. if us_id x = i \<and> us_ws x = u_ws u then set_user name email hash role x else x) (d_users d)" by simp
    have "length (ws_users d' (ws_id s)) = length (ws_users d (ws_id s))"
      unfolding ws_users_def d' by (rule length_ws_users_map) simp
    then show ?thesis using lim [OF s] by simp
  next
    fix x
    assume d': "d_users d' = filter (\<lambda>y. us_id y \<noteq> us_id x) (d_users d)"
    have "ws_users d' (ws_id s) = filter (\<lambda>y. us_id y \<noteq> us_id x) (ws_users d (ws_id s))"
      unfolding ws_users_def d' by (induction "d_users d") (simp_all add: conj_commute)
    then have "length (ws_users d' (ws_id s)) \<le> length (ws_users d (ws_id s))"
      by simp
    then show ?thesis using lim [OF s] by simp
  qed
  then show ?thesis using assms(2,3) by (simp add: seats_ok_def)
qed

text \<open>C10: whatever sequence of administration requests is handled, no workspace exceeds its seats.\<close>

theorem seats_kept:
  assumes "(\<lambda>v v'. \<exists>u. admin_step u v v')\<^sup>*\<^sup>* w w'" and "seats_ok (w_db w)"
  shows "seats_ok (w_db w')"
  using assms
proof (induction rule: rtranclp_induct)
  case (step v v')
  then show ?case using people_change_seats [OF step_people] step_ws by blast
qed simp

text \<open>A workspace with all of its four seats taken: the fifth person is refused.\<close>

definition full_world :: world where
  "full_world = world_of (team_db\<lparr>d_next := (\<lambda>t. 100),
     d_ws := [\<lparr>ws_id = 1, ws_name = ''acme'', ws_slug = ''ws-1'', ws_limit = 4, ws_sso_required = False\<rparr>]\<rparr>)"

definition zoe :: user_input where
  "zoe = \<lparr>ui_name = ''zoe'', ui_email = ''zoe@acme.io'', ui_password = ''Secret-pw-1'', ui_role = ''user''\<rparr>"

lemma seats_kept_witness:
  "seats_ok (w_db full_world) \<and>
   seats_ok (w_db (snd (saveUser (site ''t'' 9) demo_admin blank_request (Body zoe) full_world))) \<and>
   rs_status (fst (saveUser (site ''t'' 9) demo_admin blank_request (Body zoe) full_world)) = 409 \<and>
   rs_status (fst (saveUser (site ''t'' 9) demo_admin blank_request (Body zoe) admin_world)) = 200"
proof -
  have ok: "seats_ok (w_db full_world)" by code_simp
  have "(\<lambda>v v'. \<exists>u. admin_step u v v')\<^sup>*\<^sup>* full_world (snd (saveUser (site ''t'' 9) demo_admin blank_request (Body zoe) full_world))"
    by (rule r_into_rtranclp) (blast intro: save_user)
  note seats_kept [OF this ok]
  moreover have "rs_status (fst (saveUser (site ''t'' 9) demo_admin blank_request (Body zoe) full_world)) = 409" by code_simp
  moreover have "rs_status (fst (saveUser (site ''t'' 9) demo_admin blank_request (Body zoe) admin_world)) = 200" by code_simp
  ultimately show ?thesis using ok by (intro conjI)
qed

end
