(* ===== verification/SsoProps.thy ===== *)
theory SsoProps
  imports SsoFlow AdminProps SignupProps
begin

text \<open>
  Properties of single sign-on, on the definitions of \<open>Sso\<close> and \<open>SsoFlow\<close>: the one-time states, the
  effect of a sign-in on memberships and seats, the user names, the enforcement of single sign-on, and
  the sign-out that goes through the identity provider.
\<close>

section \<open>Signing out\<close>

lemma ssoLogoutURL_sessions:
  "stored_session t (session_key e k) (w_redis (snd (ssoLogoutURL e' x s w))) = stored_session t (session_key e k) (w_redis w)"
  by (simp add: ssoLogoutURL_def saml_logout_def logout_key_def session_key_def stored_session_def
      rget_def rset_def split: option.split)

text \<open>C7: after a sign-out was answered 200, the session token is worthless: every later request with
  it is refused with 401, whatever the identity provider's logout did.\<close>

theorem logout_revokes:
  assumes "rs_status (fst (logout (ssoLogoutURL e x) e r w)) = 200"
    and "same_site e e'" and "sessionToken r' = sessionToken r"
  shows "\<exists>p. auth e' r' (snd (logout (ssoLogoutURL e x) e r w)) = Inl p \<and> rs_status p = 401"
  by (rule logout_kills [OF assms(1) ssoLogoutURL_sessions assms(2,3)])

text \<open>A site with one SAML and one OIDC provider; the libraries are stubbed by finite tables.\<close>

definition oidc_config :: idp_config where
  "oidc_config = \<lparr>cf_issuer = ''https://idp'', cf_client = ''c'', cf_secret = ''s'', cf_scopes = [''openid''],
     cf_email_claim = ''email'', cf_username_claim = ''name'', cf_groups_claim = ''groups'', cf_metadata = [],
     cf_email_attr = [], cf_username_attr = [], cf_groups_attr = [], cf_cert = [], cf_key = [],
     cf_idp_initiated = False\<rparr>"

definition saml_config :: idp_config where
  "saml_config = oidc_config\<lparr>cf_metadata := ''<md/>'', cf_cert := ''cert'', cf_key := ''key'',
     cf_email_attr := ''http://schemas.xmlsoap.org/ws/2005/05/identity/claims/emailaddress'',
     cf_idp_initiated := True\<rparr>"

definition idp_claims :: "(string \<times> claim) list" where
  "idp_claims = [(''email'', CStr ''New@A.io''), (''name'', CStr ''N ew!''),
     (''groups'', CArr [CStr ''eng'', CNum ''7'', CStr '' ops '']), (''email_verified'', CBool True)]"

definition idp_assertion :: assertion where
  "idp_assertion = \<lparr>an_nameid = Some (''sub-2'', persistent_format),
     an_attributes = [\<lparr>at_name = ''http://schemas.xmlsoap.org/ws/2005/05/identity/claims/emailaddress'',
       at_friendly = ''email'', at_values = [''s@a.io'']\<rparr>]\<rparr>"

definition demo_ext :: sso_ext where
  "demo_ext = \<lparr>
     x_url = (\<lambda>s. if has_prefix ''https://'' s then Some (''https'', drop 8 s) else None),
     x_encrypt = (\<lambda>s. s), x_decrypt = Some,
     x_marshal = (\<lambda>c. if cf_metadata c = [] then ''oidc'' else ''saml''),
     x_unmarshal = (\<lambda>s. if s = ''oidc'' then Some oidc_config else if s = ''saml'' then Some saml_config else None),
     x_discover = (\<lambda>s. Some (Some ''https://idp/logout'')),
     x_auth_url = (\<lambda>c cb st n v. ''https://idp/auth''),
     x_exchange = (\<lambda>c cb code v. if code = ''code'' then Some (Some v) else None),
     x_verify = (\<lambda>c raw. Some \<lparr>it_subject = ''sub-1'', it_nonce = butlast raw @ ''1'', it_claims = Some idp_claims\<rparr>),
     x_end_session = (\<lambda>u c a. u),
     x_entity = (\<lambda>s. if s = ''<md/>'' then Some ''idp'' else None),
     x_keypair = (\<lambda>c k. if k = ''key'' then Some RsaKey else Some OtherKey),
     x_genpair = (\<lambda>n. Some (''cert'', ''key'')),
     x_authn = (\<lambda>c t a. Some (''rid'', Some ''https://idp/saml'')),
     x_response = (\<lambda>c r ids. Some idp_assertion),
     x_slo = (\<lambda>c. ''slo''), x_slo_request = (\<lambda>c s t. Some ''https://idp/slo''), x_slo_valid = (\<lambda>c r. True)\<rparr>"

definition sso_db :: db where
  "sso_db = team_db\<lparr>d_next := (\<lambda>t. 100),
     d_idps := [\<lparr>ip_id = 11, ip_ws = 1, ip_public = ''acme-oidc'', ip_name = ''oidc'', ip_protocol = ''oidc'',
                  ip_enabled = True, ip_jit = True, ip_config = ''oidc''\<rparr>,
                \<lparr>ip_id = 12, ip_ws = 1, ip_public = ''acme-saml'', ip_name = ''saml'', ip_protocol = ''saml'',
                  ip_enabled = True, ip_jit = False, ip_config = ''saml''\<rparr>],
     d_maps := [\<lparr>mp_id = 1, mp_ws = 1, mp_provider = 11, mp_ext = ''eng'', mp_group = 3, mp_role = ''operator''\<rparr>,
                \<lparr>mp_id = 2, mp_ws = 1, mp_provider = 11, mp_ext = ''hr'', mp_group = 3, mp_role = ''manager''\<rparr>]\<rparr>"

definition provider_request :: "string \<Rightarrow> string \<Rightarrow> request" where
  "provider_request provider state = blank_request\<lparr>rq_method := ''GET'',
     rq_path := (\<lambda>k. if k = ''provider'' then provider else []),
     rq_query := (\<lambda>k. if k = ''state'' then state else if k = ''code'' then ''code'' else [])\<rparr>"

definition sso_started :: world where
  "sso_started = snd (startSSO (site ''t'' 100) demo_ext (provider_request ''acme-oidc'' []) (world_of sso_db))"

definition sso_returned :: world where
  "sso_returned = snd (oidcCallback (site ''t'' 200) demo_ext (provider_request ''acme-oidc'' ''t0'') sso_started)"

lemma logout_revokes_witness:
  "rs_status (fst (logout (ssoLogoutURL (site ''b'' 300) demo_ext) (site ''b'' 300) (bearer ''t3'') sso_returned)) = 200 \<and>
   (\<exists>p. auth (site ''c'' 301) (bearer ''t3'')
      (snd (logout (ssoLogoutURL (site ''b'' 300) demo_ext) (site ''b'' 300) (bearer ''t3'') sso_returned)) = Inl p \<and>
      rs_status p = 401)"
proof -
  have ok: "rs_status (fst (logout (ssoLogoutURL (site ''b'' 300) demo_ext) (site ''b'' 300) (bearer ''t3'') sso_returned)) = 200"
    by code_simp
  have "same_site (site ''b'' 300) (site ''c'' 301)" by (simp add: same_site_def site_def)
  from logout_revokes [OF ok this refl] ok show ?thesis by blast
qed

section \<open>Attributes of assertions\<close>

lemma split_on_dot: "CHR ''.'' \<in> set s \<Longrightarrow> \<exists>p q ps. split_on CHR ''.'' s = p # q # ps"
proof (induction s)
  case (Cons x s)
  show ?case
  proof (cases "x = CHR ''.''")
    case True
    then show ?thesis by (cases "split_on CHR ''.'' s") (use split_on_nonempty in auto)
  next
    case False
    with Cons obtain p q ps where "split_on CHR ''.'' s = p # q # ps" by auto
    with False show ?thesis by simp
  qed
qed simp

lemma put_attributes_values:
  "map_of (put_attributes as m) k = Some v \<Longrightarrow> (\<exists>xs. v = CStrs xs) \<or> map_of m k = Some v"
proof (induction as arbitrary: m)
  case (Cons a as)
  from Cons.IH [of "if at_friendly a = [] then (at_name a, CStrs (map trim_space (at_values a))) # m
      else (at_friendly a, CStrs (map trim_space (at_values a))) # (at_name a, CStrs (map trim_space (at_values a))) # m"]
    Cons.prems
  show ?case by (auto simp: Let_def split: if_splits)
qed simp

text \<open>A path with a dot descends into an object, and an assertion has none.\<close>

lemma dotted_attribute:
  assumes "CHR ''.'' \<in> set path"
  shows "claimValues (put_attributes as []) path = []"
proof -
  obtain p q ps where path: "split_on CHR ''.'' path = p # q # ps" using split_on_dot [OF assms] by blast
  have "claim_at (q # ps) (case map_of (put_attributes as []) p of None \<Rightarrow> CNull | Some x \<Rightarrow> x) = None"
    using put_attributes_values [of as "[]" p] by (cases "map_of (put_attributes as []) p") auto
  then show ?thesis by (simp add: claimValues_def path)
qed

lemma sso_failed_simps [simp]:
  "rs_status sso_failed = 303" "rs_cookies sso_failed = []" "rs_location sso_failed = ''/?sso=failed''"
  by (simp_all add: sso_failed_def)

section \<open>States of sign-ins\<close>

lemma loadIdentityProvider_Some:
  "loadIdentityProvider e i x d public en = Some (p, c) \<Longrightarrow>
     p \<in> set (d_idps d) \<and> ip_public p = public \<and> (en \<longrightarrow> ip_enabled p) \<and>
     decryptIdentityProviderConfig x (ip_config p) = Some c"
  by (auto simp: loadIdentityProvider_def dest: find_Some_iff_in split: if_splits option.splits)

lemma consume_db [simp]: "w_db (snd (consumeSSOState e x r token protocol w)) = w_db w"
  by (simp add: consumeSSOState_def rgetdel_def)

lemma consume_deletes:
  "\<not> e_fault e 0 \<Longrightarrow> token \<noteq> [] \<Longrightarrow>
     snd (consumeSSOState e x r token protocol w) = with_redis w (rdel (state_key e token) (w_redis w))"
  by (simp add: consumeSSOState_def rgetdel_def)

lemma consume_Some:
  assumes "consumeSSOState e x r token protocol w = (Some (p, c, st), w1)"
  shows "token \<noteq> [] \<and> rget (e_now e) (state_key e token) (w_redis w) = Some (RState st) \<and>
    p \<in> set (d_idps (w_db w)) \<and> ip_enabled p \<and> ip_protocol p = protocol \<and>
    ip_public p = rq_path r ''provider'' \<and> decryptIdentityProviderConfig x (ip_config p) = Some c"
  using assms
  by (auto simp: consumeSSOState_def rgetdel_def dest!: loadIdentityProvider_Some
      split: if_splits option.splits rval.splits prod.splits)

lemma consume_absent:
  "rget (e_now e) (state_key e token) (w_redis w) = None \<Longrightarrow>
     fst (consumeSSOState e x r token protocol w) = None"
  by (simp add: consumeSSOState_def rgetdel_def)

lemma saml_state_Some:
  assumes "saml_state e x r relay w = (Some (p, c, ids), w1)"
  shows "p \<in> set (d_idps (w_db w)) \<and> ip_protocol p = ''saml'' \<and> ip_enabled p \<and>
    decryptIdentityProviderConfig x (ip_config p) = Some c"
  using assms
  by (auto simp: saml_state_def dest!: loadIdentityProvider_Some consume_Some
      split: if_splits option.splits prod.splits)

lemma saml_state_db [simp]: "w_db (snd (saml_state e x r relay w)) = w_db w"
  by (cases "consumeSSOState e x r relay ''saml'' w")
    (use consume_db [of e x r relay "''saml''" w] in \<open>auto simp: saml_state_def split: option.split\<close>)

lemma default_email_attribute:
  "normalizeSAML x n cfg = Inr c \<Longrightarrow> trim_space (cf_email_attr cfg) = [] \<Longrightarrow> CHR ''.'' \<in> set (cf_email_attr c)"
  by (auto simp: normalizeSAML_def defaultString_def Let_def split: if_splits option.splits)

text \<open>A SAML provider whose address attribute has a dot in its name, such as the default one that
  \<^verbatim>\<open>normalizeIdentityProviderConfig\<close> fills in, can sign nobody in: every callback fails and the
  database stays as it was, whatever the assertion says.\<close>

theorem dotted_email_attribute_fails:
  assumes "\<forall>p \<in> set (d_idps (w_db w)). \<forall>c. decryptIdentityProviderConfig x (ip_config p) = Some c \<longrightarrow>
      ip_protocol p = ''saml'' \<longrightarrow> CHR ''.'' \<in> set (cf_email_attr c)"
  shows "w_db (snd (samlCallback e x r form w)) = w_db w \<and>
    fst (samlCallback e x r form w) \<in> {sso_failed, panicked}"
proof (cases form)
  case None
  then show ?thesis by (simp add: samlCallback_def)
next
  case (Some relay)
  obtain res w1 where st: "saml_state e x r relay w = (res, w1)" by (cases "saml_state e x r relay w")
  then have db: "w_db w1 = w_db w" using saml_state_db by (metis snd_conv)
  show ?thesis
  proof (cases res)
    case None
    with Some st db show ?thesis by (simp add: samlCallback_def)
  next
    case (Some res)
    then obtain p c ids where res: "res = (p, c, ids)" "saml_state e x r relay w = (Some (p, c, ids), w1)"
      using st by (metis prod_cases3)
    have dot: "CHR ''.'' \<in> set (cf_email_attr c)" using saml_state_Some [OF res(2)] assms by blast
    have "finishSSO e' p ident w1 = (sso_failed, w1)"
      if "saml_identity c a = Some ident" for e' a ident
    proof -
      have "id_email ident = []"
        using that dotted_attribute [OF dot]
        by (auto simp: saml_identity_def firstClaim_def Let_def split: option.splits if_splits)
      then show ?thesis by (simp add: finishSSO_def clean_identity_def trim_space_def trim_def trim_right_def to_lower_def Let_def)
    qed
    then show ?thesis using \<open>form = Some relay\<close> res(2) db
      by (auto simp: samlCallback_def split: sp.split option.split bind_splits)
  qed
qed

lemma dotted_email_attribute_fails_witness:
  "w_db (snd (samlCallback (site ''t'' 5) demo_ext (provider_request ''acme-saml'' []) (Some []) (world_of sso_db))) = sso_db \<and>
   fst (samlCallback (site ''t'' 5) demo_ext (provider_request ''acme-saml'' []) (Some []) (world_of sso_db)) = sso_failed"
proof -
  have h: "\<forall>p \<in> set (d_idps (w_db (world_of sso_db))). \<forall>c.
      decryptIdentityProviderConfig demo_ext (ip_config p) = Some c \<longrightarrow>
      ip_protocol p = ''saml'' \<longrightarrow> CHR ''.'' \<in> set (cf_email_attr c)"
    by (simp add: world_of_def sso_db_def decryptIdentityProviderConfig_def demo_ext_def saml_config_def)
  have ne: "rs_status (fst (samlCallback (site ''t'' 5) demo_ext (provider_request ''acme-saml'' []) (Some []) (world_of sso_db))) \<noteq> 500"
    by code_simp
  show ?thesis
    using dotted_email_attribute_fails [OF h, of "site ''t'' 5" "provider_request ''acme-saml'' []" "Some []"] ne
    by (auto simp: world_of_def)
qed

section \<open>Finishing a sign-in\<close>

lemma finishSSO_cases:
  "(\<exists>q. finishSSO e p raw w = (q, w) \<and> q = sso_failed) \<or>
   (\<exists>u d w1. id_subject (clean_identity raw) \<noteq> [] \<and> id_verified raw \<and>
      finishTx e p (clean_identity raw) (w_db w) = Some (u, d) \<and>
      w1 = snd (rcd e 1013 (with_db w d) (u_ws u) (u_id u) (u_name u) ''auth.sso_login''
             (show_int (ip_id p)) (JObj [(''provider'', JStr (ip_name p)), (''protocol'', JStr (ip_protocol p)),
                (''groups'', JList (map JStr (id_groups raw)))])) \<and>
      ((rs_cookies (fst (finishSSO e p raw w)) = [] \<and> rs_status (fst (finishSSO e p raw w)) = 503 \<and>
          snd (finishSSO e p raw w) = w1) \<or>
       (rs_cookies (fst (finishSSO e p raw w)) = [(''nexus_session'', e_token e 3, 43200)] \<and>
          rs_location (fst (finishSSO e p raw w)) = ''/'' \<and>
          snd (finishSSO e p raw w) = with_redis w1 (rset (e_now e) 43200 (session_key e (e_token e 3))
            (RSession (sso_session u p (id_subject (clean_identity raw)))) (w_redis w1)))))"
proof (cases "id_subject (clean_identity raw) = [] \<or> id_email (clean_identity raw) = [] \<or>
    \<not> id_verified (clean_identity raw) \<or> normalizeEmail e (id_email (clean_identity raw)) = None")
  case True
  then show ?thesis by (simp add: finishSSO_def Let_def)
next
  case ok: False
  show ?thesis
  proof (cases "finishTx e p (clean_identity raw) (w_db w)")
    case None
    with ok show ?thesis by (simp add: finishSSO_def Let_def)
  next
    case (Some x)
    obtain u d where x: "x = (u, d)" by (cases x)
    have eqs: "id_groups (clean_identity raw) = id_groups raw" "id_verified (clean_identity raw) = id_verified raw"
      by (simp_all add: clean_identity_def)
    define w1 where "w1 = snd (rcd e 1013 (with_db w d) (u_ws u) (u_id u) (u_name u) ''auth.sso_login''
             (show_int (ip_id p)) (JObj [(''provider'', JStr (ip_name p)), (''protocol'', JStr (ip_protocol p)),
                (''groups'', JList (map JStr (id_groups raw)))]))"
    have res: "finishSSO e p raw w =
       (case establishSSOSession e 1014 u p (id_subject (clean_identity raw)) w1 of
          (Inl q, w2) \<Rightarrow> (q, w2)
        | (Inr token, w2) \<Rightarrow> ((redirect 303 ''/'')\<lparr>rs_cookies := [(''nexus_session'', token, 43200)]\<rparr>, w2))"
      unfolding finishSSO_def Let_def if_not_P [OF ok] Some x w1_def unfolding eqs by simp
    have "(rs_cookies (fst (finishSSO e p raw w)) = [] \<and> rs_status (fst (finishSSO e p raw w)) = 503 \<and>
          snd (finishSSO e p raw w) = w1) \<or>
       (rs_cookies (fst (finishSSO e p raw w)) = [(''nexus_session'', e_token e 3, 43200)] \<and>
          rs_location (fst (finishSSO e p raw w)) = ''/'' \<and>
          snd (finishSSO e p raw w) = with_redis w1 (rset (e_now e) 43200 (session_key e (e_token e 3))
            (RSession (sso_session u p (id_subject (clean_identity raw)))) (w_redis w1)))"
      unfolding res establishSSOSession_def Let_def by (cases "e_fault e 1014") simp_all
    moreover have "id_subject (clean_identity raw) \<noteq> [] \<and> id_verified raw" using ok eqs by blast
    ultimately show ?thesis using Some x w1_def
      by (intro disjI2 exI [of _ u] exI [of _ d] exI [of _ w1]) blast
  qed
qed

lemma finishSSO_redis:
  "w_redis (snd (finishSSO e p raw w)) = w_redis w \<or>
   (\<exists>s. w_redis (snd (finishSSO e p raw w)) = rset (e_now e) 43200 (session_key e (e_token e 3)) (RSession s) (w_redis w))"
  using finishSSO_cases [of e p raw w] by (elim disjE exE conjE) (simp_all, blast)

lemma later_digest [simp]: "session_key (later k e) t = session_key e t" "e_now (later k e) = e_now e"
  "e_token (later k e) = e_token e" "state_key (later k e) t = state_key e t"
  by (simp_all add: later_def session_key_def state_key_def)

lemma session_state_keys [simp]: "session_key e t \<noteq> state_key e' t'" "state_key e' t' \<noteq> session_key e t"
  by (simp_all add: session_key_def state_key_def)

lemma finishSSO_state:
  "w_redis (snd (finishSSO e p raw w)) (state_key e' t) = w_redis w (state_key e' t)"
  using finishSSO_redis [of e p raw w] by (auto simp: rset_def)

lemma oidcCallback_burns:
  assumes "\<not> e_fault e 0" and "rq_query r ''state'' = token" and "token \<noteq> []"
  shows "w_redis (snd (oidcCallback e x r w)) (state_key e token) = None"
proof -
  obtain res w1 where c: "consumeSSOState e x r token ''oidc'' w = (res, w1)"
    by (cases "consumeSSOState e x r token ''oidc'' w")
  then have w1: "w_redis w1 (state_key e token) = None"
    using consume_deletes [OF assms(1,3), of x r "''oidc''" w] by (simp add: rdel_def)
  from c w1 assms(2) show ?thesis
    by (auto simp: oidcCallback_def finishSSO_state split: option.split)
qed

lemma samlCallback_burns:
  assumes "\<not> e_fault e 0" and "token \<noteq> []"
  shows "w_redis (snd (samlCallback e x r (Some token) w)) (state_key e token) = None"
proof -
  obtain res w1 where c: "consumeSSOState e x r token ''saml'' w = (res, w1)"
    by (cases "consumeSSOState e x r token ''saml'' w")
  then have w1: "w_redis w1 (state_key e token) = None"
    using consume_deletes [OF assms(1,2), of x r "''saml''" w] by (simp add: rdel_def)
  from c w1 assms(2) show ?thesis
    by (auto simp: samlCallback_def saml_state_def finishSSO_state split: option.split sp.split)
qed

lemma oidcCallback_absent:
  assumes "w_redis w (state_key e (rq_query r ''state'')) = None"
  shows "fst (oidcCallback e x r w) = sso_failed \<and> w_db (snd (oidcCallback e x r w)) = w_db w"
proof -
  have "fst (consumeSSOState e x r (rq_query r ''state'') ''oidc'' w) = None"
    by (rule consume_absent) (simp add: rget_def assms)
  then show ?thesis using consume_db [of e x r "rq_query r ''state''" "''oidc''" w]
    by (cases "consumeSSOState e x r (rq_query r ''state'') ''oidc'' w") (simp add: oidcCallback_def)
qed

lemma samlCallback_absent:
  assumes "w_redis w (state_key e token) = None" and "token \<noteq> []"
  shows "fst (samlCallback e x r (Some token) w) = sso_failed \<and> w_db (snd (samlCallback e x r (Some token) w)) = w_db w"
proof -
  have "fst (consumeSSOState e x r token ''saml'' w) = None"
    by (rule consume_absent) (simp add: rget_def assms)
  then show ?thesis using consume_db [of e x r token "''saml''" w] assms(2)
    by (cases "consumeSSOState e x r token ''saml'' w") (simp add: samlCallback_def saml_state_def)
qed

text \<open>C13: a sign-in state works once: when a callback of either protocol was given a state, whatever it
  made of it, no later callback of either protocol is accepted with it, and the database stays as it is.\<close>

theorem state_works_once:
  assumes "w' = snd (oidcCallback e x r w) \<and> rq_query r ''state'' = token \<or>
      w' = snd (samlCallback e x r (Some token) w)"
    and "\<not> e_fault e 0" and "token \<noteq> []" and "same_site e e'" and "rq_query r' ''state'' = token"
  shows "fst (oidcCallback e' x' r' w') = sso_failed \<and> w_db (snd (oidcCallback e' x' r' w')) = w_db w' \<and>
    fst (samlCallback e' x' r'' (Some token) w') = sso_failed \<and>
    w_db (snd (samlCallback e' x' r'' (Some token) w')) = w_db w'"
proof -
  have "w_redis w' (state_key e token) = None"
    using assms(1) oidcCallback_burns [OF assms(2) _ assms(3), of r x w] samlCallback_burns [OF assms(2,3), of x r w]
    by auto
  then have "w_redis w' (state_key e' token) = None" using assms(4) by (simp add: state_key_def same_site_def)
  then show ?thesis
    using oidcCallback_absent [of w' e' r' x'] samlCallback_absent [OF _ assms(3), of w' e' x' r''] assms(5) by simp
qed

lemma state_works_once_witness:
  "rs_location (fst (oidcCallback (site ''t'' 200) demo_ext (provider_request ''acme-oidc'' ''t0'') sso_started)) = ''/'' \<and>
   fst (oidcCallback (site ''v'' 201) demo_ext (provider_request ''acme-oidc'' ''t0'') sso_returned) = sso_failed"
proof -
  have ok: "rs_location (fst (oidcCallback (site ''t'' 200) demo_ext (provider_request ''acme-oidc'' ''t0'') sso_started)) = ''/''"
    by code_simp
  have q: "rq_query (provider_request ''acme-oidc'' ''t0'') ''state'' = ''t0''" by (simp add: provider_request_def)
  have s: "same_site (site ''t'' 200) (site ''v'' 201)" by (simp add: same_site_def site_def)
  have w: "sso_returned = snd (oidcCallback (site ''t'' 200) demo_ext (provider_request ''acme-oidc'' ''t0'') sso_started) \<and>
      rq_query (provider_request ''acme-oidc'' ''t0'') ''state'' = ''t0'' \<or>
    sso_returned = snd (samlCallback (site ''t'' 200) demo_ext (provider_request ''acme-oidc'' ''t0'') (Some ''t0'') sso_started)"
    using q by (simp add: sso_returned_def)
  from state_works_once [OF w _ _ s q, of demo_ext] ok show ?thesis by simp
qed

section \<open>Whom a sign-in signs in\<close>

lemma bind_Some_cases: "Option.bind m f = Some y \<longleftrightarrow> (\<exists>x. m = Some x \<and> f x = Some y)"
  by (cases m) auto

lemma sso_user_cases:
  assumes "sso_user e p ident d = Some (u, d1)"
  shows "(\<exists>x. linked_user d (ip_id p) (id_subject ident) = Some x \<and> user_of d x = Some u \<and> d1 = d) \<or>
    (\<exists>d0. insert_extid d0 p (u_id u) ident = Some d1 \<and>
       ((\<exists>x. email_user d (ip_ws p) (id_email ident) = Some x \<and> user_of d x = Some u \<and> d0 = d) \<or>
        (ip_jit p \<and> provision e p ident d = Some (u, d0))))"
proof (cases "Option.bind (linked_user d (ip_id p) (id_subject ident)) (user_of d)")
  case (Some v)
  with assms show ?thesis by (auto simp: sso_user_def bind_Some_cases split: if_splits)
next
  case None
  show ?thesis
  proof (cases "Option.bind (email_user d (ip_ws p) (id_email ident)) (user_of d)")
    case e: (Some v)
    with None assms have "insert_extid d p (u_id u) ident = Some d1" "v = u"
      by (auto simp: sso_user_def split: if_splits option.splits)
    with e show ?thesis by (auto simp: bind_Some_cases)
  next
    case e: None
    with None assms show ?thesis by (auto simp: sso_user_def split: if_splits option.splits)
  qed
qed

lemma insert_extid_Some:
  assumes "insert_extid d p uid ident = Some d1"
  shows "d_users d1 = d_users d \<and> d_ws d1 = d_ws d \<and> d_maps d1 = d_maps d \<and> d_grants d1 = d_grants d \<and>
    d_members d1 = d_members d \<and> d_idps d1 = d_idps d \<and> d_next d1 = d_next d \<and>
    (\<exists>l \<in> set (d_extids d1). ex_provider l = ip_id p \<and> ex_user l = uid \<and> ex_subject l = id_subject ident) \<and>
    list_ex (\<lambda>x. us_id x = uid \<and> us_ws x = ip_ws p) (d_users d)"
  using assms by (auto simp: insert_extid_def split: if_splits)

lemma insert_user_more:
  "insert_user d ws name email verified hash role owner = Some (i, d') \<Longrightarrow>
     d_ws d' = d_ws d \<and> d_maps d' = d_maps d \<and> d_grants d' = d_grants d \<and> d_members d' = d_members d \<and>
     i = d_next d ''users''"
  by (auto simp: insert_user_def Let_def next_id_def split: if_splits)

lemma provision_Some:
  assumes "provision e p ident d = Some (u, d1)"
  shows "\<exists>s row. ws_by_id d (ip_ws p) = Some s \<and> int (length (ws_users d (ip_ws p))) < ws_limit s \<and>
    d_users d1 = d_users d @ [row] \<and> us_id row = d_next d ''users'' \<and> us_ws row = ip_ws p \<and>
    user_of d1 row = Some u \<and> d_ws d1 = d_ws d \<and> d_maps d1 = d_maps d \<and> d_grants d1 = d_grants d \<and>
    d_members d1 = d_members d"
proof -
  from assms obtain s i where s: "ws_by_id d (ip_ws p) = Some s" "int (length (ws_users d (ip_ws p))) < ws_limit s"
    and ins: "insert_user d (ip_ws p) (availableSSOUsername e d (id_username ident) (id_email ident))
        (id_email ident) True (e_hash e (e_token e 1)) ''user'' False = Some (i, d1)"
    and u: "u = \<lparr>u_id = i, u_ws = ip_ws p, u_wsname = ws_name s,
        u_name = availableSSOUsername e d (id_username ident) (id_email ident),
        u_email = id_email ident, u_role = ''user'', u_owner = False, u_version = 1\<rparr>"
    unfolding provision_def Let_def by (auto split: if_split_asm option.split_asm prod.split_asm)
  from insert_user_Some [OF ins] obtain row where row: "d_users d1 = d_users d @ [row]" "us_id row = i"
    "us_ws row = ip_ws p" "us_name row = availableSSOUsername e d (id_username ident) (id_email ident)"
    "us_email row = id_email ident" "us_role row = ''user''" "us_owner row = False" "us_version row = 1" by auto
  note fr = insert_user_more [OF ins]
  have "ws_by_id d1 (ip_ws p) = Some s" using s(1) fr by (simp add: ws_by_id_def)
  then have "user_of d1 row = Some u" by (simp add: user_of_def row u)
  with s row fr show ?thesis by blast
qed

lemma sso_user_Some:
  assumes "sso_user e p ident d = Some (u, d1)" and "people_ok d"
  shows "\<exists>x. x \<in> set (d_users d1) \<and> user_of d1 x = Some u \<and> user_by_id d1 (us_id x) = Some x \<and> us_id x = u_id u \<and>
    d_maps d1 = d_maps d \<and> d_grants d1 = d_grants d \<and> d_members d1 = d_members d \<and> d_ws d1 = d_ws d \<and>
    (\<exists>l \<in> set (d_extids d1). ex_provider l = ip_id p \<and> ex_user l = u_id u \<and> ex_subject l = id_subject ident)"
proof -
  have ids: "distinct (map us_id (d_users d))" using assms(2) by (simp add: people_ok_def)
  consider x where "linked_user d (ip_id p) (id_subject ident) = Some x" "user_of d x = Some u" "d1 = d"
    | x where "insert_extid d p (u_id u) ident = Some d1" "email_user d (ip_ws p) (id_email ident) = Some x"
        "user_of d x = Some u"
    | d0 where "insert_extid d0 p (u_id u) ident = Some d1" "provision e p ident d = Some (u, d0)"
    using sso_user_cases [OF assms(1)] by blast
  then show ?thesis
  proof cases
    case 1
    from 1(1) obtain l where l: "l \<in> set (d_extids d)" "ex_provider l = ip_id p" "ex_subject l = id_subject ident"
      "user_by_id d (ex_user l) = Some x"
      by (auto simp: linked_user_def dest: find_Some_iff_in split: option.splits)
    have x: "x \<in> set (d_users d)" "us_id x = ex_user l"
      using l(4) unfolding user_by_id_def by (auto dest: find_Some_iff_in)
    show ?thesis using 1(2,3) l x user_of_simps [OF 1(2)] user_by_id_in [OF ids x(1)] by auto
  next
    case 2
    have x: "x \<in> set (d_users d)" using 2(2) unfolding email_user_def by (auto dest: find_Some_iff_in)
    note fr = insert_extid_Some [OF 2(1)]
    have "user_of d1 x = Some u" using 2(3) fr by (simp add: user_of_def ws_by_id_def)
    moreover have "user_by_id d1 (us_id x) = Some x" using user_by_id_in [OF ids x] fr by (simp add: user_by_id_def)
    ultimately show ?thesis using x fr user_of_simps [OF 2(3)] by auto
  next
    case 3
    from provision_Some [OF 3(2)] obtain row where row: "d_users d0 = d_users d @ [row]"
      "us_id row = d_next d ''users''" "user_of d0 row = Some u" "d_ws d0 = d_ws d" "d_maps d0 = d_maps d"
      "d_grants d0 = d_grants d" "d_members d0 = d_members d" by blast
    note fr = insert_extid_Some [OF 3(1)]
    have "distinct (map us_id (d_users d0))" using assms(2) row by (auto simp: people_ok_def)
    then have "user_by_id d0 (us_id row) = Some row" by (rule user_by_id_in) (simp add: row)
    then have "user_by_id d1 (us_id row) = Some row" using fr by (simp add: user_by_id_def)
    moreover have "user_of d1 row = Some u" using row(3) fr by (simp add: user_of_def ws_by_id_def)
    ultimately show ?thesis using row fr user_of_simps [OF row(3)] by (intro exI [of _ row]) auto
  qed
qed

lemma finishTx_Some:
  assumes "finishTx e p ident d = Some (u, d2)"
  shows "\<exists>d1. sso_user e p ident d = Some (u, d1) \<and>
    d2 = sync_grants (touch_extid d1 p ident) p (u_id u) (id_groups ident)"
  using assms by (auto simp: finishTx_def split: if_splits option.splits)

lemma sync_grants_parts:
  "filter (\<lambda>g. sg_provider g \<noteq> ip_id p \<or> sg_user g \<noteq> uid) (d_grants (sync_grants d p uid gs)) =
     filter (\<lambda>g. sg_provider g \<noteq> ip_id p \<or> sg_user g \<noteq> uid) (d_grants d)"
  "filter (\<lambda>g. sg_provider g = ip_id p \<and> sg_user g = uid) (d_grants (sync_grants d p uid gs)) =
     provider_grants d p uid gs"
proof -
  have all: "\<forall>g \<in> set (provider_grants d p uid gs). sg_provider g = ip_id p \<and> sg_user g = uid"
    by (auto simp: provider_grants_def)
  then have "filter (\<lambda>g. sg_provider g = ip_id p \<and> sg_user g = uid) (provider_grants d p uid gs) = provider_grants d p uid gs"
    by (simp add: filter_id_conv)
  moreover have "filter (\<lambda>g. sg_provider g \<noteq> ip_id p \<or> sg_user g \<noteq> uid) (provider_grants d p uid gs) = []"
    using all by (simp add: filter_empty_conv)
  moreover have "filter P (filter (\<lambda>g. \<not> P g) gs) = []" for P and gs :: "grant_row list"
    by (simp add: filter_empty_conv)
  ultimately show
    "filter (\<lambda>g. sg_provider g \<noteq> ip_id p \<or> sg_user g \<noteq> uid) (d_grants (sync_grants d p uid gs)) =
       filter (\<lambda>g. sg_provider g \<noteq> ip_id p \<or> sg_user g \<noteq> uid) (d_grants d)"
    "filter (\<lambda>g. sg_provider g = ip_id p \<and> sg_user g = uid) (d_grants (sync_grants d p uid gs)) =
       provider_grants d p uid gs"
    by (simp_all add: sync_grants_def de_Morgan_conj)
qed

lemma touch_extid_simps [simp]:
  "d_users (touch_extid d p i) = d_users d" "d_ws (touch_extid d p i) = d_ws d"
  "d_members (touch_extid d p i) = d_members d" "d_grants (touch_extid d p i) = d_grants d"
  "d_maps (touch_extid d p i) = d_maps d"
  by (simp_all add: touch_extid_def)

lemma sync_grants_simps [simp]:
  "d_users (sync_grants d p u gs) = d_users d" "d_ws (sync_grants d p u gs) = d_ws d"
  "d_members (sync_grants d p u gs) = d_members d" "d_extids (sync_grants d p u gs) = d_extids d"
  by (simp_all add: sync_grants_def)

lemma clean_identity_simps [simp]:
  "id_subject (clean_identity raw) = trim_space (id_subject raw)" "id_groups (clean_identity raw) = id_groups raw"
  by (simp_all add: clean_identity_def)

lemma finishSSO_signed_in:
  assumes "rs_location (fst (finishSSO e p raw w)) = ''/''"
  shows "\<exists>u d1 w1. id_verified raw \<and> sso_user e p (clean_identity raw) (w_db w) = Some (u, d1) \<and>
    w1 = with_db w (sync_grants (touch_extid d1 p (clean_identity raw)) p (u_id u) (id_groups raw)) \<and>
    (\<exists>a t j. snd (finishSSO e p raw w) =
      with_redis (snd (rcd e 1013 w1 (u_ws u) (u_id u) (u_name u) a t j))
        (rset (e_now e) 43200 (session_key e (e_token e 3))
          (RSession (sso_session u p (trim_space (id_subject raw)))) (w_redis w)))"
  using finishSSO_cases [of e p raw w]
proof (elim disjE exE conjE)
  fix q assume "finishSSO e p raw w = (q, w)" "q = sso_failed"
  with assms show ?thesis by simp
next
  fix u d w1
  assume tx: "finishTx e p (clean_identity raw) (w_db w) = Some (u, d)" and ver: "id_verified raw"
    and w1: "w1 = snd (rcd e 1013 (with_db w d) (u_ws u) (u_id u) (u_name u) ''auth.sso_login''
             (show_int (ip_id p)) (JObj [(''provider'', JStr (ip_name p)), (''protocol'', JStr (ip_protocol p)),
                (''groups'', JList (map JStr (id_groups raw)))]))"
    and w': "snd (finishSSO e p raw w) = with_redis w1 (rset (e_now e) 43200 (session_key e (e_token e 3))
            (RSession (sso_session u p (id_subject (clean_identity raw)))) (w_redis w1))"
  from finishTx_Some [OF tx] obtain d1 where d1: "sso_user e p (clean_identity raw) (w_db w) = Some (u, d1)"
    "d = sync_grants (touch_extid d1 p (clean_identity raw)) p (u_id u) (id_groups raw)" by auto
  have "w_redis w1 = w_redis w" by (simp add: w1)
  with w' have "snd (finishSSO e p raw w) = with_redis w1 (rset (e_now e) 43200 (session_key e (e_token e 3))
            (RSession (sso_session u p (trim_space (id_subject raw)))) (w_redis w))" by simp
  with d1 ver w1 show ?thesis by blast
next
  assume "rs_cookies (fst (finishSSO e p raw w)) = []" "rs_status (fst (finishSSO e p raw w)) = 503"
  then show ?thesis using assms by (auto simp: finishSSO_def Let_def establishSSOSession_def split: if_splits option.splits)
qed

text \<open>C12: a sign-in that ends at the console signs in the person linked to the verified subject, and
  the token of its cookie proves exactly that person for the next twelve hours; the teams the provider
  gave that person are exactly those its mappings give for the groups of the identity, and everyone
  else's grants, other providers' grants and all manual memberships stay as they were.\<close>

theorem sso_sign_in:
  assumes "rs_location (fst (finishSSO e p raw w)) = ''/''" and "w' = snd (finishSSO e p raw w)"
    and "people_ok (w_db w)" and "same_site e e'" and "\<not> e_fault e' 0 \<and> \<not> e_fault e' 1"
    and "e_now e' < e_now e + 43200" and "sessionToken r' = e_token e 3" and "e_token e 3 \<noteq> []"
  shows "\<exists>u. auth e' r' w' = Inr u \<and> id_verified raw \<and>
    (\<exists>l \<in> set (d_extids (w_db w')). ex_provider l = ip_id p \<and> ex_user l = u_id u \<and>
       ex_subject l = trim_space (id_subject raw)) \<and>
    d_members (w_db w') = d_members (w_db w) \<and>
    filter (\<lambda>g. sg_provider g \<noteq> ip_id p \<or> sg_user g \<noteq> u_id u) (d_grants (w_db w')) =
      filter (\<lambda>g. sg_provider g \<noteq> ip_id p \<or> sg_user g \<noteq> u_id u) (d_grants (w_db w)) \<and>
    filter (\<lambda>g. sg_provider g = ip_id p \<and> sg_user g = u_id u) (d_grants (w_db w')) =
      provider_grants (w_db w) p (u_id u) (id_groups raw)"
proof -
  let ?i = "clean_identity raw"
  from finishSSO_signed_in [OF assms(1)] obtain u d1 w1 a t j where ver: "id_verified raw"
    and su: "sso_user e p ?i (w_db w) = Some (u, d1)"
    and w1: "w1 = with_db w (sync_grants (touch_extid d1 p ?i) p (u_id u) (id_groups raw))"
    and w': "w' = with_redis (snd (rcd e 1013 w1 (u_ws u) (u_id u) (u_name u) a t j))
        (rset (e_now e) 43200 (session_key e (e_token e 3))
          (RSession (sso_session u p (trim_space (id_subject raw)))) (w_redis w))"
    unfolding assms(2) by blast
  from sso_user_Some [OF su assms(3)] obtain x l where x: "user_of d1 x = Some u" "user_by_id d1 (us_id x) = Some x"
    "us_id x = u_id u" and l: "l \<in> set (d_extids d1)" "ex_provider l = ip_id p" "ex_user l = u_id u"
      "ex_subject l = trim_space (id_subject raw)"
    and same: "d_maps d1 = d_maps (w_db w)" "d_grants d1 = d_grants (w_db w)" "d_members d1 = d_members (w_db w)"
    by auto
  have "stored_session (e_now e') (session_key e' (e_token e 3)) (w_redis w') =
      Some (sso_session u p (trim_space (id_subject raw)))"
    using assms(4,6) by (simp add: w' stored_session_rset session_key_def same_site_def)
  moreover have "user_by_id (w_db w') (u_id u) = Some x" using x by (simp add: w' w1 user_by_id_def)
  moreover have "user_of (w_db w') x = Some u" using x(1) by (simp add: w' w1 user_of_def ws_by_id_def)
  ultimately have auth: "auth e' r' w' = Inr u"
    using assms(5,7,8) by (simp add: auth_def sso_session_def)
  have link: "\<exists>l \<in> set (d_extids (w_db w')). ex_provider l = ip_id p \<and> ex_user l = u_id u \<and>
       ex_subject l = trim_space (id_subject raw)"
  proof (rule bexI [of _ "l\<lparr>ex_email := id_email ?i\<rparr>"])
    show "l\<lparr>ex_email := id_email ?i\<rparr> \<in> set (d_extids (w_db w'))"
      using l by (simp add: w' w1 touch_extid_def image_iff) blast
  qed (use l in simp)
  have "d_grants (w_db w') = d_grants (sync_grants d1 p (u_id u) (id_groups raw))"
    by (simp add: w' w1 sync_grants_def provider_grants_def)
  moreover have "provider_grants d1 p (u_id u) (id_groups raw) = provider_grants (w_db w) p (u_id u) (id_groups raw)"
    by (simp add: provider_grants_def same)
  ultimately show ?thesis using auth ver link same(2) sync_grants_parts [of p "u_id u" d1 "id_groups raw"]
    by (intro exI [of _ u]) (simp add: w' w1 same(3))
qed

lemma sso_sign_in_witness:
  "rs_location (fst (finishSSO (site ''t'' 200) (hd (d_idps sso_db)) (oidc_identity oidc_config ''sub-1'' idp_claims) (world_of sso_db))) = ''/'' \<and>
   (\<exists>u. auth (site ''c'' 300) (bearer ''t3'')
      (snd (finishSSO (site ''t'' 200) (hd (d_idps sso_db)) (oidc_identity oidc_config ''sub-1'' idp_claims) (world_of sso_db))) = Inr u)"
proof -
  let ?f = "finishSSO (site ''t'' 200) (hd (d_idps sso_db)) (oidc_identity oidc_config ''sub-1'' idp_claims) (world_of sso_db)"
  have ok: "rs_location (fst ?f) = ''/''" by code_simp
  have ppl: "people_ok (w_db (world_of sso_db))" by code_simp
  have s: "same_site (site ''t'' 200) (site ''c'' 300)" by (simp add: same_site_def site_def)
  have t: "e_now (site ''c'' 300) < e_now (site ''t'' 200) + 43200"
    "sessionToken (bearer ''t3'') = e_token (site ''t'' 200) 3" "e_token (site ''t'' 200) 3 \<noteq> []" by code_simp+
  from sso_sign_in [OF ok refl ppl s _ t] ok show ?thesis by auto
qed

end
