(* ===== verification/SsoRules.thy ===== *)
theory SsoRules
  imports SsoProps
begin

text \<open>
  Properties of the management of identity providers: the enforcement of single sign-on never outlives
  its last provider (request by request; two concurrent requests can break it), seats, the user names
  of provisioned people, and what the listing of providers shows.
\<close>

section \<open>Enforcement\<close>

definition enforcement_ok :: "db \<Rightarrow> bool" where
  "enforcement_ok d \<longleftrightarrow> distinct (map ws_id (d_ws d)) \<and> distinct (map ip_id (d_idps d)) \<and>
     (\<forall>p \<in> set (d_idps d). ip_id p < d_next d ''identity_providers'') \<and>
     (\<forall>s \<in> set (d_ws d). ws_sso_required s \<longrightarrow> list_ex (\<lambda>p. ip_ws p = ws_id s \<and> ip_enabled p) (d_idps d))"

text \<open>One request that manages the sign-on of a workspace; the router passes only POST and PUT to
  \<^const>\<open>saveIdentityProvider\<close>.\<close>

definition saves :: "request \<Rightarrow> bool" where
  "saves r \<longleftrightarrow> rq_method r = ''POST'' \<or> rq_method r = ''PUT''"

inductive sso_step :: "world \<Rightarrow> world \<Rightarrow> bool" where
  save_provider: "saves r \<Longrightarrow> sso_step w (snd (saveIdentityProvider e x u r b w))"
| delete_provider: "sso_step w (snd (deleteIdentityProvider e u r w))"
| save_required: "sso_step w (snd (saveSSOSettings e u r rb w))"
| save_mapping: "sso_step w (snd (identityGroupMappings e u r mb w))"
| delete_mapping: "sso_step w (snd (deleteIdentityGroupMapping e u r w))"
| oidc_login: "sso_step w (snd (oidcCallback e x r w))"
| saml_login: "sso_step w (snd (samlCallback e x r form w))"

inductive_cases sso_stepE: "sso_step w w'"

lemma update_checks_guard:
  assumes "update_checks e x u i inp d = Inr (public, inp')"
  shows "ii_enabled inp' = ii_enabled inp \<and>
    (ii_enabled inp \<or> (\<exists>s. ws_by_id d (u_ws u) = Some s \<and> (ws_sso_required s \<longrightarrow> another_enabled d (u_ws u) i)))"
  using assms by (auto simp: update_checks_def Let_def split: if_splits option.splits)

definition provider_saved :: "user \<Rightarrow> db \<Rightarrow> db \<Rightarrow> bool" where
  "provider_saved u d d' \<longleftrightarrow>
     (\<exists>public inp cipher i. insert_idp d (u_ws u) public inp cipher = Some (i, d')) \<or>
     (\<exists>inp cipher i. update_idp d (u_ws u) i inp cipher = Inr d' \<and>
        (ii_enabled inp \<or> (\<exists>s. ws_by_id d (u_ws u) = Some s \<and> (ws_sso_required s \<longrightarrow> another_enabled d (u_ws u) i))))"

lemma store_idp_Inr:
  assumes "store_idp e x u new i public inp d = Inr (i', d')"
  shows "if new then (\<exists>cipher. insert_idp d (u_ws u) public inp cipher = Some (i', d'))
    else (\<exists>cipher. update_idp d (u_ws u) i inp cipher = Inr d')"
  using assms by (auto simp: store_idp_def Let_def split: if_splits option.splits sum.splits)

text \<open>What a request that stored a provider went through.\<close>

definition save_result :: "env \<Rightarrow> sso_ext \<Rightarrow> user \<Rightarrow> request \<Rightarrow> db \<Rightarrow> db \<Rightarrow> bool" where
  "save_result e x u r d d' \<longleftrightarrow>
     (\<exists>i i' public inp c0. store_idp e x u (rq_method r = ''POST'') i public inp d = Inr (i', d') \<and>
        normalizeIdentityProviderConfig x (ii_protocol inp) (e_origin e) public c0 = Inr (ii_config inp) \<and>
        reachable x inp = None \<and> (ii_protocol inp = ''oidc'' \<or> ii_protocol inp = ''saml'') \<and>
        (rq_method r = ''PUT'' \<longrightarrow>
          (\<exists>raw inp1. update_checks e x u i raw d = Inr (public, inp1) \<and>
             ii_enabled inp = ii_enabled inp1 \<and> ii_protocol inp = ii_protocol inp1)))"

lemma update_checks_Inr:
  assumes "update_checks e x u i inp d = Inr (public, inp')"
  shows "ii_enabled inp' = ii_enabled inp \<and> ii_protocol inp' = ii_protocol inp \<and>
    (\<exists>p. idp_in_ws d (u_ws u) i = Some p \<and> ip_protocol p = ii_protocol inp)"
  using assms by (auto simp: update_checks_def Let_def split: if_splits option.splits)

lemma saveIdentityProvider_result:
  "snd (saveIdentityProvider e x u r b w) = w \<or>
   (\<exists>d a t j. admin u \<and> save_result e x u r (w_db w) d \<and>
      snd (saveIdentityProvider e x u r b w) = audit e 3 u (with_db w d) a t j)"
proof (cases "admin u")
  case adm: True
  show ?thesis
  proof (cases "decode r b")
    case (Inl p)
    with adm show ?thesis by (simp add: saveIdentityProvider_def)
  next
    case dec: (Inr raw)
    define inp where "inp = raw\<lparr>ii_name := trim_space (ii_name raw), ii_protocol := to_lower (trim_space (ii_protocol raw))\<rparr>"
    define loaded where "loaded = (if rq_method r = ''PUT''
        then case pathID r ''id'' of Inl p \<Rightarrow> Inl p
             | Inr i \<Rightarrow> (case update_checks e x u i inp (w_db w) of
                          Inl p \<Rightarrow> Inl p | Inr (public, inp) \<Rightarrow> Inr (i, public, inp))
        else Inr (0, e_token e 0, inp))"
    show ?thesis
    proof (cases "length (ii_name inp) < 1 \<or> length (ii_name inp) > 100 \<or>
                (ii_protocol inp \<noteq> ''oidc'' \<and> ii_protocol inp \<noteq> ''saml'')")
      case True
      then show ?thesis
        unfolding saveIdentityProvider_def dec sum.case Let_def inp_def [symmetric] if_P [OF True] by simp
    next
      case ok: False
      note unf = saveIdentityProvider_def dec sum.case Let_def inp_def [symmetric] if_not_P [OF ok] loaded_def [symmetric]
      show ?thesis
      proof (cases loaded)
        case (Inl p)
        then show ?thesis unfolding unf by simp
      next
        case (Inr ld)
        obtain i public inp1 where ld: "ld = (i, public, inp1)" by (cases ld)
        have put: "update_checks e x u i inp (w_db w) = Inr (public, inp1)" if "rq_method r = ''PUT''"
          using Inr ld that by (auto simp: loaded_def split: sum.splits prod.splits)
        have new: "inp1 = inp" if "rq_method r \<noteq> ''PUT''" using Inr ld that by (simp add: loaded_def)
        have proto: "ii_protocol inp1 = ii_protocol inp"
          using update_checks_Inr [OF put] new by blast
        show ?thesis
        proof (cases "normalizeIdentityProviderConfig x (ii_protocol inp1) (e_origin e) public (ii_config inp1)")
          case (Inl err)
          then show ?thesis unfolding unf Inr ld prod.case by simp
        next
          case c: (Inr c)
          define inp2 where "inp2 = inp1\<lparr>ii_config := c\<rparr>"
          show ?thesis
          proof (cases "reachable x inp2")
            case (Some p)
            then show ?thesis unfolding unf Inr ld prod.case c inp2_def [symmetric] by simp
          next
            case None
            show ?thesis
            proof (cases "store_idp e x u (rq_method r = ''POST'') i public inp2 (w_db w)")
              case (Inl p)
              then show ?thesis unfolding unf Inr ld prod.case c inp2_def [symmetric] None by simp
            next
              case st: (Inr y)
              obtain i' d where y: "y = (i', d)" by (cases y)
              have "\<exists>a t j. snd (saveIdentityProvider e x u r b w) = audit e 3 u (with_db w d) a t j"
                unfolding unf Inr ld prod.case c inp2_def [symmetric] None using st y adm by auto
              moreover have "save_result e x u r (w_db w) d"
                unfolding save_result_def
              proof (intro exI conjI)
                show "store_idp e x u (rq_method r = ''POST'') i public inp2 (w_db w) = Inr (i', d)" using st y by simp
                show "normalizeIdentityProviderConfig x (ii_protocol inp2) (e_origin e) public (ii_config inp1) = Inr (ii_config inp2)"
                  using c by (simp add: inp2_def)
                show "reachable x inp2 = None" by (rule None)
                show "ii_protocol inp2 = ''oidc'' \<or> ii_protocol inp2 = ''saml''" using ok proto by (auto simp: inp2_def)
                show "rq_method r = ''PUT'' \<longrightarrow> (\<exists>raw inp1. update_checks e x u i raw (w_db w) = Inr (public, inp1) \<and>
                    ii_enabled inp2 = ii_enabled inp1 \<and> ii_protocol inp2 = ii_protocol inp1)"
                  using put by (auto simp: inp2_def)
              qed
              ultimately show ?thesis using adm by blast
            qed
          qed
        qed
      qed
    qed
  qed
qed (simp add: saveIdentityProvider_def)

lemma save_result_saved:
  assumes "save_result e x u r d d'" and "saves r"
  shows "provider_saved u d d'"
proof -
  from assms(1) obtain i i' public inp where
    st: "store_idp e x u (rq_method r = ''POST'') i public inp d = Inr (i', d')"
    and put: "rq_method r = ''PUT'' \<longrightarrow> (\<exists>raw inp1. update_checks e x u i raw d = Inr (public, inp1) \<and>
             ii_enabled inp = ii_enabled inp1 \<and> ii_protocol inp = ii_protocol inp1)"
    unfolding save_result_def by blast
  show ?thesis
  proof (cases "rq_method r = ''POST''")
    case True
    with store_idp_Inr [OF st] show ?thesis by (auto simp: provider_saved_def)
  next
    case False
    then have "rq_method r = ''PUT''" using assms(2) by (simp add: saves_def)
    with put obtain raw inp1 where "update_checks e x u i raw d = Inr (public, inp1)" "ii_enabled inp = ii_enabled inp1" by blast
    with update_checks_guard [OF this(1)] store_idp_Inr [OF st] False show ?thesis
      by (auto simp: provider_saved_def)
  qed
qed

lemma saveIdentityProvider_effect:
  assumes "saves r"
  shows "snd (saveIdentityProvider e x u r b w) = w \<or>
    (\<exists>d a t j. admin u \<and> provider_saved u (w_db w) d \<and>
       snd (saveIdentityProvider e x u r b w) = audit e 3 u (with_db w d) a t j)"
  using saveIdentityProvider_result [of e x u r b w] save_result_saved [OF _ assms] by blast

section \<open>The effects of a step\<close>

text \<open>What a step may do to people: nothing, or add one whose workspace has a free seat.\<close>

definition person_added :: "db \<Rightarrow> db \<Rightarrow> bool" where
  "person_added d d' \<longleftrightarrow> d_ws d' = d_ws d \<and>
     (d_users d' = d_users d \<and> d_next d' ''users'' = d_next d ''users'' \<or>
      (\<exists>s row. ws_by_id d (us_ws row) = Some s \<and> int (length (ws_users d (us_ws row))) < ws_limit s \<and>
         d_users d' = d_users d @ [row] \<and> us_id row = d_next d ''users'' \<and> \<not> us_owner row \<and>
         \<not> name_taken d (us_name row) \<and> d_next d' ''users'' = d_next d ''users'' + 1))"

lemma person_added_ok:
  assumes add: "person_added d d'" and seats: "seats_ok d" and ok: "people_ok d"
  shows "seats_ok d' \<and> people_ok d' \<and> owners d' = owners d"
  using add unfolding person_added_def
proof (elim conjE disjE exE)
  assume "d_ws d' = d_ws d" "d_users d' = d_users d" "d_next d' ''users'' = d_next d ''users''"
  with seats ok show ?thesis by (simp add: seats_ok_def people_ok_def owners_def ws_users_def)
next
  fix s row
  assume ws: "d_ws d' = d_ws d" and s: "ws_by_id d (us_ws row) = Some s"
    and free: "int (length (ws_users d (us_ws row))) < ws_limit s"
    and us: "d_users d' = d_users d @ [row]" and row: "us_id row = d_next d ''users''" "\<not> us_owner row"
      "\<not> name_taken d (us_name row)" and nx: "d_next d' ''users'' = d_next d ''users'' + 1"
  have only: "t = s" if "t \<in> set (d_ws d)" "ws_id t = us_ws row" for t
  proof -
    have "s \<in> set (d_ws d)" "ws_id s = us_ws row" using s by (auto simp: ws_by_id_def dest: find_Some_iff_in)
    with that seats show ?thesis using distinct_id_unique [of ws_id "d_ws d" t s] by (simp add: seats_ok_def)
  qed
  have "int (length (ws_users d' (ws_id t))) \<le> ws_limit t" if t: "t \<in> set (d_ws d)" for t
  proof (cases "ws_id t = us_ws row")
    case True
    with only [OF t] free show ?thesis by (simp add: ws_users_def us)
  next
    case False
    with seats t show ?thesis by (simp add: ws_users_def us seats_ok_def)
  qed
  then have "seats_ok d'" using seats ws by (simp add: seats_ok_def)
  moreover have "people_ok d'"
    using ok row by (auto simp: people_ok_def us nx name_taken_def list_ex_iff)
  moreover have "owners d' = owners d" using row by (simp add: owners_def us)
  ultimately show ?thesis by blast
qed

definition providers_same :: "db \<Rightarrow> db \<Rightarrow> bool" where
  "providers_same d d' \<longleftrightarrow> d_idps d' = d_idps d \<and>
     d_next d' ''identity_providers'' = d_next d ''identity_providers''"

lemma person_added_same: "d_ws d' = d_ws d \<Longrightarrow> d_users d' = d_users d \<Longrightarrow> d_next d' = d_next d \<Longrightarrow> person_added d d'"
  by (simp add: person_added_def providers_same_def)

lemma insert_extid_next: "insert_extid d p uid i = Some d1 \<Longrightarrow> d_next d1 = d_next d"
  by (auto simp: insert_extid_def split: if_splits)

lemma provision_added: "provision e p ident d = Some (u, d1) \<Longrightarrow> person_added d d1 \<and> providers_same d d1"
proof -
  assume pr: "provision e p ident d = Some (u, d1)"
  then obtain i where ins: "insert_user d (ip_ws p) (availableSSOUsername e d (id_username ident) (id_email ident))
        (id_email ident) True (e_hash e (e_token e 1)) ''user'' False = Some (i, d1)"
    unfolding provision_def Let_def by (auto split: if_split_asm option.split_asm prod.split_asm)
  then have nt: "\<not> name_taken d (availableSSOUsername e d (id_username ident) (id_email ident))"
    "d_next d1 ''users'' = d_next d ''users'' + 1" "providers_same d d1"
    by (auto simp: providers_same_def insert_user_def Let_def next_id_def bump_def split: if_splits)
  from insert_user_Some [OF ins] obtain row where row: "d_users d1 = d_users d @ [row]" "us_ws row = ip_ws p"
    "us_name row = availableSSOUsername e d (id_username ident) (id_email ident)" "\<not> us_owner row" by blast
  moreover obtain s row' where "ws_by_id d (ip_ws p) = Some s" "int (length (ws_users d (ip_ws p))) < ws_limit s"
    "d_users d1 = d_users d @ [row']" "us_id row' = d_next d ''users''" "d_ws d1 = d_ws d"
    using provision_Some [OF pr] by blast
  ultimately show ?thesis using nt unfolding person_added_def by auto
qed

lemma sso_user_added: "sso_user e p ident d = Some (u, d1) \<Longrightarrow> person_added d d1 \<and> providers_same d d1"
  by (drule sso_user_cases)
    (auto simp: person_added_def providers_same_def dest!: insert_extid_Some
      dest: insert_extid_next provision_added [unfolded person_added_def providers_same_def])

lemma person_added_frame:
  assumes "person_added d d1" and "d_ws d' = d_ws d1" and "d_users d' = d_users d1" and "d_next d' = d_next d1"
  shows "person_added d d'"
  using assms(1) unfolding person_added_def assms(2-4) .

lemma finishSSO_added:
  "person_added (w_db w) (w_db (snd (finishSSO e p raw w))) \<and> providers_same (w_db w) (w_db (snd (finishSSO e p raw w)))"
proof -
  consider q where "finishSSO e p raw w = (q, w)"
    | u d w1 where "finishTx e p (clean_identity raw) (w_db w) = Some (u, d)" "w_db (snd (finishSSO e p raw w)) = w_db w1"
       "\<exists>n a t j. w1 = snd (rcd e 1013 (with_db w d) (u_ws u) (u_id u) n a t j)"
    using finishSSO_cases [of e p raw w] by (elim disjE exE conjE) (simp_all, blast+)
  then show ?thesis
  proof cases
    case 1
    then show ?thesis by (simp add: person_added_def providers_same_def)
  next
    case 2
    from finishTx_Some [OF 2(1)] obtain d1 where d1: "sso_user e p (clean_identity raw) (w_db w) = Some (u, d1)"
      "d = sync_grants (touch_extid d1 p (clean_identity raw)) p (u_id u) (id_groups (clean_identity raw))" by blast
    have "d_ws (w_db w1) = d_ws d1" "d_users (w_db w1) = d_users d1" "d_next (w_db w1) = d_next d1" "d_idps (w_db w1) = d_idps d1"
      using 2(3) by (auto simp: d1(2) sync_grants_def touch_extid_def)
    then show ?thesis using sso_user_added [OF d1(1)] person_added_frame [of "w_db w" d1 "w_db w1"] 2(2)
      by (simp add: providers_same_def)
  qed
qed

section \<open>Invariants of the console\<close>

lemma oidcCallback_added:
  "person_added (w_db w) (w_db (snd (oidcCallback e x r w))) \<and> providers_same (w_db w) (w_db (snd (oidcCallback e x r w)))"
proof -
  obtain res w1 where c: "consumeSSOState e x r (rq_query r ''state'') ''oidc'' w = (res, w1)"
    by (cases "consumeSSOState e x r (rq_query r ''state'') ''oidc'' w")
  then have db: "w_db w1 = w_db w" using consume_db by (metis snd_conv)
  show ?thesis
  proof (cases "\<exists>e' p raw. snd (oidcCallback e x r w) = snd (finishSSO e' p raw w1)")
    case True
    then show ?thesis using finishSSO_added [of w1] db by auto
  next
    case False
    then have "snd (oidcCallback e x r w) = w1"
      using c by (auto simp: oidcCallback_def split: option.splits) blast
    then show ?thesis using db by (simp add: person_added_def providers_same_def)
  qed
qed

lemma samlCallback_added:
  "person_added (w_db w) (w_db (snd (samlCallback e x r form w))) \<and> providers_same (w_db w) (w_db (snd (samlCallback e x r form w)))"
proof (cases form)
  case None
  then show ?thesis by (simp add: samlCallback_def person_added_def providers_same_def)
next
  case (Some relay)
  obtain res w1 where c: "saml_state e x r relay w = (res, w1)" by (cases "saml_state e x r relay w")
  then have db: "w_db w1 = w_db w" using saml_state_db by (metis snd_conv)
  show ?thesis
  proof (cases "\<exists>e' p raw. snd (samlCallback e x r form w) = snd (finishSSO e' p raw w1)")
    case True
    then show ?thesis using finishSSO_added [of w1] db by auto
  next
    case False
    then have "snd (samlCallback e x r form w) = w1"
      using c Some by (auto simp: samlCallback_def split: option.splits sp.splits) blast
    then show ?thesis using db by (simp add: person_added_def providers_same_def)
  qed
qed

text \<open>Enforcement through the statements on providers.\<close>

lemma ws_by_id_unique:
  "distinct (map ws_id (d_ws d)) \<Longrightarrow> s \<in> set (d_ws d) \<Longrightarrow> ws_by_id d (ws_id s) = Some s"
  unfolding ws_by_id_def by (rule find_by_key)

lemma enforcement_frame:
  "d_ws d' = d_ws d \<Longrightarrow> providers_same d d' \<Longrightarrow> enforcement_ok d' = enforcement_ok d"
  by (simp add: enforcement_ok_def providers_same_def)

lemma provider_inserted_ok:
  assumes ok: "enforcement_ok d" and ins: "insert_idp d (u_ws u) public inp cipher = Some (i, d')"
  shows "enforcement_ok d' \<and> person_added d d'"
proof -
  from ins obtain row where row: "d_idps d' = d_idps d @ [row]" "ip_id row = d_next d ''identity_providers''"
    and same: "d_ws d' = d_ws d" "d_users d' = d_users d" "d_next d' = (d_next d)(''identity_providers'' := d_next d ''identity_providers'' + 1)"
    by (auto simp: insert_idp_def Let_def bump_def next_id_def split: if_splits)
  have lt: "ip_id p < d_next d ''identity_providers''" if "p \<in> set (d_idps d)" for p
    using ok that by (simp add: enforcement_ok_def)
  have "ip_id row \<notin> ip_id ` set (d_idps d)" using lt row(2) by force
  moreover have "ip_id p < d_next d' ''identity_providers''" if "p \<in> set (d_idps d')" for p
    using that lt [of p] row same by auto
  ultimately show ?thesis using ok row(1) same by (auto simp: enforcement_ok_def person_added_def)
qed

lemma provider_updated_ok:
  assumes ok: "enforcement_ok d" and up: "update_idp d (u_ws u) i inp cipher = Inr d'"
    and guard: "ii_enabled inp \<or> (\<exists>s. ws_by_id d (u_ws u) = Some s \<and> (ws_sso_required s \<longrightarrow> another_enabled d (u_ws u) i))"
  shows "enforcement_ok d' \<and> person_added d d'"
proof -
  define f :: "idp_row \<Rightarrow> idp_row" where "f = (\<lambda>p. if ip_id p = i \<and> ip_ws p = u_ws u
             then p\<lparr>ip_name := ii_name inp, ip_enabled := ii_enabled inp, ip_jit := ii_jit inp,
                    ip_config := cipher\<rparr> else p)"
  from up have d': "d' = d\<lparr>d_idps := map f (d_idps d)\<rparr>" by (auto simp: update_idp_def f_def split: if_splits)
  have ws: "ip_ws (f p) = ip_ws p" for p by (simp add: f_def)
  have "list_ex (\<lambda>p. ip_ws p = ws_id s \<and> ip_enabled p) (map f (d_idps d))"
    if s: "s \<in> set (d_ws d)" "ws_sso_required s" for s
  proof -
    from ok s obtain p where p: "p \<in> set (d_idps d)" "ip_ws p = ws_id s" "ip_enabled p"
      by (auto simp: enforcement_ok_def list_ex_iff)
    show ?thesis
    proof (cases "ip_id p = i \<and> ip_ws p = u_ws u \<and> \<not> ii_enabled inp")
      case True
      with guard obtain t where t: "ws_by_id d (u_ws u) = Some t" "ws_sso_required t \<longrightarrow> another_enabled d (u_ws u) i" by blast
      have "t = s" using t(1) ws_by_id_unique [of d s] ok s(1) True p(2) by (simp add: enforcement_ok_def)
      with t(2) s(2) obtain q where q: "q \<in> set (d_idps d)" "ip_ws q = u_ws u" "ip_enabled q" "ip_id q \<noteq> i"
        by (auto simp: another_enabled_def list_ex_iff)
      then have "f q = q" by (simp add: f_def)
      with q True p(2) show ?thesis by (force simp: list_ex_iff)
    next
      case False
      then have "ip_enabled (f p)" using p(3) by (auto simp: f_def)
      with p ws [of p] show ?thesis by (force simp: list_ex_iff)
    qed
  qed
  moreover have ids: "map ip_id (d_idps d') = map ip_id (d_idps d)" by (simp add: d' f_def)
  moreover have "ip_id (f p) = ip_id p" for p by (simp add: f_def)
  ultimately have "enforcement_ok d'" using ok unfolding enforcement_ok_def ids by (auto simp: d')
  then show ?thesis by (simp add: d' person_added_def)
qed

lemma provider_saved_ok:
  assumes "provider_saved u d d'" and "enforcement_ok d"
  shows "enforcement_ok d' \<and> person_added d d'"
  using assms(1) provider_inserted_ok [OF assms(2)] provider_updated_ok [OF assms(2)]
  unfolding provider_saved_def by metis

lemma delete_idp_ok:
  assumes "delete_guard d ws i = None" and "enforcement_ok d"
  shows "enforcement_ok (delete_idp d ws i)"
proof -
  from assms(1) obtain p t where g: "idp_in_ws d ws i = Some p" "ws_by_id d ws = Some t"
    "\<not> (ws_sso_required t \<and> ip_enabled p \<and> \<not> another_enabled d ws i)"
    by (auto simp: delete_guard_def split: option.splits if_splits)
  have "list_ex (\<lambda>p. ip_ws p = ws_id s \<and> ip_enabled p) (filter (\<lambda>p. \<not> (ip_id p = i \<and> ip_ws p = ws)) (d_idps d))"
    if s: "s \<in> set (d_ws d)" "ws_sso_required s" for s
  proof -
    from assms(2) s obtain q where q: "q \<in> set (d_idps d)" "ip_ws q = ws_id s" "ip_enabled q"
      by (auto simp: enforcement_ok_def list_ex_iff)
    show ?thesis
    proof (cases "ip_id q = i \<and> ip_ws q = ws")
      case True
      then have t: "t = s" using g(2) ws_by_id_unique [of d s] assms(2) s(1) q(2) by (simp add: enforcement_ok_def)
      have "p = q" using g(1) True q(1) assms(2) distinct_id_unique [of ip_id "d_idps d" p q]
        by (auto simp: idp_in_ws_def enforcement_ok_def dest: find_Some_iff_in)
      with g(3) t s(2) q(3) have "another_enabled d ws i" by simp
      then show ?thesis using True q(2) by (auto simp: another_enabled_def list_ex_iff)
    next
      case False
      with q show ?thesis by (auto simp: list_ex_iff)
    qed
  qed
  then show ?thesis using assms(2) by (simp add: enforcement_ok_def delete_idp_def distinct_map_filter)
qed

lemma set_required_ids: "map ws_id (d_ws (set_required d ws b)) = map ws_id (d_ws d)"
  by (simp add: set_required_def)

lemma set_required_ok:
  assumes "b \<Longrightarrow> list_ex (\<lambda>p. ip_ws p = ws \<and> ip_enabled p) (d_idps d)" and "enforcement_ok d"
  shows "enforcement_ok (set_required d ws b)"
  using assms unfolding enforcement_ok_def set_required_ids by (auto simp: set_required_def)

lemma set_required_seats: "seats_ok d \<Longrightarrow> seats_ok (set_required d ws b)"
  unfolding seats_ok_def set_required_ids by (auto simp: set_required_def ws_users_def)

text \<open>The invariant of the console.\<close>

definition console_ok :: "db \<Rightarrow> bool" where
  "console_ok d \<longleftrightarrow> enforcement_ok d \<and> seats_ok d \<and> people_ok d"

lemma added_console_ok:
  assumes "person_added d d'" and "providers_same d d'" and "console_ok d"
  shows "console_ok d' \<and> owners d' = owners d"
proof -
  have "d_ws d' = d_ws d" using assms(1) by (simp add: person_added_def)
  then show ?thesis
    using person_added_ok [OF assms(1)] enforcement_frame [of d' d] assms(2,3) by (simp add: console_ok_def)
qed

lemma console_ok_audit [simp]:
  "enforcement_ok (w_db (audit e i u w a t j)) = enforcement_ok (w_db w)"
  "seats_ok (w_db (audit e i u w a t j)) = seats_ok (w_db w)"
  "people_ok (w_db (audit e i u w a t j)) = people_ok (w_db w)"
  "console_ok (w_db (audit e i u w a t j)) = console_ok (w_db w)"
  "owners (w_db (audit e i u w a t j)) = owners (w_db w)"
  by (simp_all add: console_ok_def enforcement_ok_def seats_ok_def people_ok_def owners_def ws_users_def)

lemma deleteIdentityProvider_effect:
  "snd (deleteIdentityProvider e u r w) = w \<or>
   (\<exists>i a t. delete_guard (w_db w) (u_ws u) i = None \<and>
      snd (deleteIdentityProvider e u r w) = audit e 2 u (with_db w (delete_idp (w_db w) (u_ws u) i)) a t JNull)"
  by (auto simp: deleteIdentityProvider_def split: sum.split option.split)

lemma saveSSOSettings_effect:
  "snd (saveSSOSettings e u r b w) = w \<or>
   (\<exists>required a t j. (required \<longrightarrow> list_ex (\<lambda>p. ip_ws p = u_ws u \<and> ip_enabled p) (d_idps (w_db w))) \<and>
      snd (saveSSOSettings e u r b w) = audit e 2 u (with_db w (set_required (w_db w) (u_ws u) required)) a t j)"
  by (auto simp: saveSSOSettings_def split: sum.split)

lemma mappingTx_frame:
  "mappingTx e ws pid inp d = Inr (i, d') \<Longrightarrow> d_ws d' = d_ws d \<and> d_users d' = d_users d \<and> d_idps d' = d_idps d \<and>
     d_next d' ''users'' = d_next d ''users'' \<and> d_next d' ''identity_providers'' = d_next d ''identity_providers''"
  by (auto simp: mappingTx_def upsert_mapping_def bump_def split: if_splits sum.splits option.splits)

lemma identityGroupMappings_effect:
  "snd (identityGroupMappings e u r b w) = w \<or>
   (\<exists>pid inp i d a t j. mappingTx e (u_ws u) pid inp (w_db w) = Inr (i, d) \<and>
      snd (identityGroupMappings e u r b w) = audit e 4 u (with_db w d) a t j)"
  unfolding identityGroupMappings_def Let_def
  by (auto split: sum.split prod.split) blast+

lemma remove_mapping_frame:
  "remove_mapping d ws pid mid = Some d' \<Longrightarrow>
     d_ws d' = d_ws d \<and> d_users d' = d_users d \<and> d_idps d' = d_idps d \<and> d_next d' = d_next d"
  by (auto simp: remove_mapping_def split: option.splits)

lemma deleteIdentityGroupMapping_effect:
  "snd (deleteIdentityGroupMapping e u r w) = w \<or>
   (\<exists>pid mid d a t. remove_mapping (w_db w) (u_ws u) pid mid = Some d \<and>
      snd (deleteIdentityGroupMapping e u r w) = audit e 4 u (with_db w d) a t JNull)"
  by (auto simp: deleteIdentityGroupMapping_def split: sum.split option.split) blast

lemma console_ok_frame:
  assumes "d_ws d' = d_ws d" and "d_users d' = d_users d" and "d_idps d' = d_idps d"
    and "d_next d' ''users'' = d_next d ''users''" and "d_next d' ''identity_providers'' = d_next d ''identity_providers''"
  shows "console_ok d' = console_ok d \<and> owners d' = owners d"
  using assms by (simp add: console_ok_def enforcement_ok_def seats_ok_def people_ok_def owners_def ws_users_def)

lemma sso_step_ok:
  assumes "sso_step w w'" and "console_ok (w_db w)"
  shows "console_ok (w_db w') \<and> owners (w_db w') = owners (w_db w)"
  using assms(1)
proof (rule sso_stepE)
  fix r e x u and b :: "idp_input body"
  assume w': "w' = snd (saveIdentityProvider e x u r b w)" and "saves r"
  from saveIdentityProvider_effect [OF this(2), of e x u b w] show ?thesis unfolding w' [symmetric]
  proof (elim disjE exE conjE)
    fix d a t j
    assume "provider_saved u (w_db w) d" and eff: "w' = audit e 3 u (with_db w d) a t j"
    from provider_saved_ok [OF this(1)] person_added_ok [of "w_db w" d] assms(2)
    show ?thesis unfolding eff by (simp add: console_ok_def)
  qed (use assms(2) in simp)
next
  fix e u r
  assume w': "w' = snd (deleteIdentityProvider e u r w)"
  from deleteIdentityProvider_effect [of e u r w] show ?thesis unfolding w' [symmetric]
  proof (elim disjE exE conjE)
    fix i a t
    assume "delete_guard (w_db w) (u_ws u) i = None"
      and eff: "w' = audit e 2 u (with_db w (delete_idp (w_db w) (u_ws u) i)) a t JNull"
    from delete_idp_ok [OF this(1)] assms(2) have "enforcement_ok (delete_idp (w_db w) (u_ws u) i)"
      by (simp add: console_ok_def)
    with assms(2) show ?thesis unfolding eff
      by (simp add: console_ok_def seats_ok_def people_ok_def owners_def ws_users_def) (simp add: delete_idp_def)
  qed (use assms(2) in simp)
next
  fix e u r rb
  assume w': "w' = snd (saveSSOSettings e u r rb w)"
  from saveSSOSettings_effect [of e u r rb w] show ?thesis unfolding w' [symmetric]
  proof (elim disjE exE conjE)
    fix required a t j
    assume req: "required \<longrightarrow> list_ex (\<lambda>p. ip_ws p = u_ws u \<and> ip_enabled p) (d_idps (w_db w))"
      and eff: "w' = audit e 2 u (with_db w (set_required (w_db w) (u_ws u) required)) a t j"
    have "people_ok (set_required d ws b) = people_ok d" "owners (set_required d ws b) = owners d" for d ws b
      by (simp_all add: people_ok_def owners_def set_required_def)
    then show ?thesis unfolding eff
      using set_required_ok [of required "u_ws u" "w_db w"] set_required_seats [of "w_db w"] req assms(2)
      by (simp add: console_ok_def)
  qed (use assms(2) in simp)
next
  fix e u r mb
  assume w': "w' = snd (identityGroupMappings e u r mb w)"
  from identityGroupMappings_effect [of e u r mb w] show ?thesis unfolding w' [symmetric]
  proof (elim disjE exE conjE)
    fix pid inp i d a t j
    assume "mappingTx e (u_ws u) pid inp (w_db w) = Inr (i, d)" and eff: "w' = audit e 4 u (with_db w d) a t j"
    from mappingTx_frame [OF this(1)] console_ok_frame [of d "w_db w"] assms(2) show ?thesis unfolding eff by simp
  qed (use assms(2) in simp)
next
  fix e u r
  assume w': "w' = snd (deleteIdentityGroupMapping e u r w)"
  from deleteIdentityGroupMapping_effect [of e u r w] show ?thesis unfolding w' [symmetric]
  proof (elim disjE exE conjE)
    fix pid mid d a t
    assume "remove_mapping (w_db w) (u_ws u) pid mid = Some d" and eff: "w' = audit e 4 u (with_db w d) a t JNull"
    from remove_mapping_frame [OF this(1)] console_ok_frame [of d "w_db w"] assms(2) show ?thesis unfolding eff by simp
  qed (use assms(2) in simp)
next
  fix e x r
  assume "w' = snd (oidcCallback e x r w)"
  then show ?thesis using oidcCallback_added [of w e x r] added_console_ok [OF _ _ assms(2)] by simp
next
  fix e x r form
  assume "w' = snd (samlCallback e x r form w)"
  then show ?thesis using samlCallback_added [of w e x r form] added_console_ok [OF _ _ assms(2)] by simp
qed

lemma insert_token_idps: "insert_token d u g t = Some d' \<Longrightarrow> providers_same d d'"
  by (auto simp: insert_token_def Let_def bump_def providers_same_def split: if_splits)

lemma renew_token_idps: "providers_same (w_db w) (w_db (snd (renew_token e i t uid w)))"
  by (auto simp: renew_token_def Let_def providers_same_def use_tokens_def dest!: insert_token_idps
      split: option.splits)

lemma sendNewVerification_idps: "providers_same (w_db w) (w_db (snd (sendNewVerification e i t uid em n w)))"
  using renew_token_idps [of w e i t uid]
  by (auto simp: sendNewVerification_def split: prod.split bool.split)

lemma saved_user_idps: "saved_user e u r inp d = Inr (i, ch, d') \<Longrightarrow> providers_same d d'"
  by (drule saved_user_cases)
    (auto dest!: insertMember_Done updateMember_Done simp: insert_user_def update_user_def Let_def bump_def
      providers_same_def split: if_splits)

lemma admin_step_idps: "admin_step u w w' \<Longrightarrow> providers_same (w_db w) (w_db w')"
proof (erule admin_stepE)
  fix e r gb
  assume w': "w' = snd (saveGroup e u r gb w)"
  have "insert_group d ws n g = Some (i, d') \<Longrightarrow> providers_same d d'"
    "update_group d ws i n g = Inr d' \<Longrightarrow> providers_same d d'" for d ws n g i d'
    by (auto simp: insert_group_def update_group_def bump_def Let_def providers_same_def split: if_splits)
  then show ?thesis using saveGroup_effect [of e u r gb w] unfolding w' [symmetric]
    by (auto simp: providers_same_def)
next
  fix e r ub
  assume w': "w' = snd (saveUser e u r ub w)"
  show ?thesis using saveUser_effect [of e u r ub w] unfolding w' [symmetric]
    using sendNewVerification_idps by (auto simp: providers_same_def dest!: saved_user_idps)
next
  fix e r
  assume w': "w' = snd (deleteGroup e u r w)"
  show ?thesis using deleteGroup_effect [of e u r w] unfolding w' [symmetric]
    by (auto simp: providers_same_def delete_group_def)
next
  fix e r
  assume w': "w' = snd (deleteUser e u r w)"
  show ?thesis using deleteUser_effect [of e u r w] unfolding w' [symmetric]
    by (auto simp: providers_same_def delete_user_def)
next
  fix e r sb
  assume w': "w' = snd (saveMembership e u r sb w)"
  show ?thesis using saveMembership_effect [of e u r sb w] unfolding w' [symmetric]
    by (auto simp: providers_same_def put_member_def)
next
  fix e r
  assume w': "w' = snd (deleteMembership e u r w)"
  show ?thesis using deleteMembership_effect [of e u r w] unfolding w' [symmetric]
    by (auto simp: providers_same_def)
next
  fix e r nb
  assume w': "w' = snd (saveSettings e u r nb w)"
  show ?thesis using saveSettings_effect [of e u r nb w] unfolding w' [symmetric]
    by (auto simp: providers_same_def)
qed

text \<open>C11: whatever sequence of requests that manage people, teams and identity providers, and whatever
  single sign-ons are handled, by whomever and with whatever failures: a workspace that enforces single
  sign-on has an enabled provider, no workspace exceeds its seats, names and ids stay unique, and every
  workspace keeps exactly its owners.\<close>

theorem console_invariant:
  assumes "(\<lambda>v v'. sso_step v v' \<or> (\<exists>u. admin_step u v v'))\<^sup>*\<^sup>* w w'" and "console_ok (w_db w)"
  shows "console_ok (w_db w') \<and> owners (w_db w') = owners (w_db w)"
  using assms
proof (induction rule: rtranclp_induct)
  case (step v v')
  from step.hyps(2) show ?case
  proof
    assume "sso_step v v'"
    then show ?thesis using sso_step_ok [of v v'] step by simp
  next
    assume "\<exists>u. admin_step u v v'"
    then obtain u where st: "admin_step u v v'" by blast
    note pc = step_people [OF st] and ws = step_ws [OF st]
    show ?thesis
      using people_step [OF pc] people_change_seats [OF pc ws] enforcement_frame [OF ws admin_step_idps [OF st]] step
      by (simp add: console_ok_def)
  qed
qed simp

definition enforced_db :: db where
  "enforced_db = sso_db\<lparr>d_ws := map (\<lambda>s. s\<lparr>ws_sso_required := True\<rparr>) (d_ws sso_db)\<rparr>"

definition delete_request :: "string \<Rightarrow> request" where
  "delete_request i = blank_request\<lparr>rq_method := ''DELETE'', rq_path := (\<lambda>k. i)\<rparr>"

definition one_left :: world where
  "one_left = snd (deleteIdentityProvider (site ''d'' 5) demo_admin (delete_request ''11'') (world_of enforced_db))"

lemma console_invariant_witness:
  "console_ok enforced_db \<and> map ip_id (d_idps (w_db one_left)) = [12] \<and>
   console_ok (w_db (snd (deleteIdentityProvider (site ''d'' 6) demo_admin (delete_request ''12'') one_left))) \<and>
   rs_status (fst (deleteIdentityProvider (site ''d'' 6) demo_admin (delete_request ''12'') one_left)) = 409"
proof -
  let ?w' = "snd (deleteIdentityProvider (site ''d'' 6) demo_admin (delete_request ''12'') one_left)"
  have ok: "console_ok (w_db (world_of enforced_db))" by code_simp
  have "(\<lambda>v v'. sso_step v v' \<or> (\<exists>u. admin_step u v v'))\<^sup>*\<^sup>* (world_of enforced_db) one_left"
    unfolding one_left_def by (rule r_into_rtranclp) (blast intro: delete_provider)
  moreover have "(\<lambda>v v'. sso_step v v' \<or> (\<exists>u. admin_step u v v'))\<^sup>*\<^sup>* one_left ?w'"
    by (rule r_into_rtranclp) (blast intro: delete_provider)
  ultimately have "console_ok (w_db ?w')" using console_invariant [OF _ ok] by (meson rtranclp_trans)
  moreover have "map ip_id (d_idps (w_db one_left)) = [12]" by code_simp
  moreover have "rs_status (fst (deleteIdentityProvider (site ''d'' 6) demo_admin (delete_request ''12'') one_left)) = 409"
    by code_simp
  ultimately show ?thesis using ok by (simp add: world_of_def)
qed

text \<open>The guard of a deletion is a statement of its own: two administrators who delete the two last
  enabled providers at the same moment both pass it, and the workspace is left with enforced single
  sign-on and no provider.\<close>

theorem concurrent_deletes_lock_out:
  "enforcement_ok enforced_db \<and> delete_guard enforced_db 1 11 = None \<and> delete_guard enforced_db 1 12 = None \<and>
   \<not> enforcement_ok (delete_idp (delete_idp enforced_db 1 11) 1 12)"
  by code_simp

section \<open>User names of provisioned people\<close>

lemma to_lower_append: "to_lower (a @ b) = to_lower a @ to_lower b"
  by (simp add: to_lower_def)

lemma to_lower_Cons: "to_lower (c # s) = lower_char c # to_lower s"
  by (simp add: to_lower_def)

lemma lower_digit: "is_digit c \<Longrightarrow> lower_char c = c"
  by (auto simp: lower_char_def is_digit_def is_upper_def Let_def)

lemma to_lower_show_nat: "to_lower (show_nat n) = show_nat n"
proof -
  have "\<forall>c \<in> set (show_nat n). lower_char c = c"
    using show_nat_digits [of n] lower_digit by (auto simp: list_all_iff)
  then show ?thesis by (simp add: to_lower_def map_idI)
qed

lemma sso_candidate_inj: "inj (\<lambda>i. to_lower (sso_candidate base i))"
proof (rule injI)
  fix i j
  assume eq: "to_lower (sso_candidate base i) = to_lower (sso_candidate base j)"
  have len: "length (to_lower (sso_candidate base k)) = length base \<longleftrightarrow> k = 0" for k
    by (simp add: sso_candidate_def to_lower_def)
  show "i = j"
  proof (cases "i = 0 \<or> j = 0")
    case True
    have "i = 0 \<longleftrightarrow> j = 0" using len [of i] len [of j] unfolding eq by blast
    with True show ?thesis by blast
  next
    case False
    with eq have "show_nat (i + 1) = show_nat (j + 1)"
      by (simp add: sso_candidate_def to_lower_append to_lower_Cons to_lower_show_nat)
    then show ?thesis by (metis read_show_nat add_right_cancel)
  qed
qed

lemma first_free_Some:
  "first_free e d base is = Some name \<Longrightarrow> \<not> name_taken d name"
  by (induction "is") (auto split: if_splits)

lemma first_free_append:
  "first_free e d base is = Some name \<Longrightarrow> first_free e d base (is @ js) = Some name"
  by (induction "is") (auto split: if_splits)

lemma first_free_None:
  "first_free e d base is = None \<Longrightarrow> \<forall>i. \<not> e_fault e i \<Longrightarrow> \<forall>i \<in> set is. name_taken d (sso_candidate base i)"
  by (induction "is") (auto split: if_splits)

text \<open>As long as no query fails and fewer than 1,000 people exist, provisioning finds a user name that
  nobody has, whatever the identity provider proposes.\<close>

theorem sso_username_free:
  assumes "\<forall>i. \<not> e_fault e i" and "length (d_users d) < 1000"
  shows "\<not> name_taken d (availableSSOUsername e d preferred email)"
proof (cases "first_free e d (sso_base preferred email) [0..<1000]")
  case (Some name)
  then show ?thesis using first_free_Some by (simp add: availableSSOUsername_def)
next
  case None
  let ?c = "\<lambda>i. to_lower (sso_candidate (sso_base preferred email) i)"
  have "?c ` {0..<1000} \<subseteq> (\<lambda>x. to_lower (us_name x)) ` set (d_users d)"
    using first_free_None [OF None assms(1)] by (simp add: name_taken_def list_ex_iff image_iff subset_iff) metis
  then have "card (?c ` {0..<1000}) \<le> card ((\<lambda>x. to_lower (us_name x)) ` set (d_users d))"
    by (rule card_mono [rotated]) simp
  also have "\<dots> \<le> length (d_users d)"
    using card_image_le [of "set (d_users d)"] card_length [of "d_users d"] by (meson List.finite_set le_trans)
  finally have "card (?c ` {0..<1000}) \<le> length (d_users d)" .
  moreover have "card (?c ` {0..<1000}) = 1000"
    using card_image [OF inj_on_subset [OF sso_candidate_inj [of "sso_base preferred email"] subset_UNIV], of "{0..<1000}"] by simp
  ultimately show ?thesis using assms(2) by simp
qed

lemma sso_username_free_witness:
  "length (d_users site_db) < 1000 \<and> availableSSOUsername (site ''t'' 1) site_db ''Sam!'' [] = ''Sam-2'' \<and>
   \<not> name_taken site_db ''Sam-2''"
proof -
  have "length (d_users site_db) \<le> 5" by code_simp
  then have len: "length (d_users site_db) < 1000" by simp
  have "first_free (site ''t'' 1) site_db (sso_base ''Sam!'' []) [0, 1] = Some ''Sam-2''" by code_simp
  from first_free_append [OF this, of "[2..<1000]"]
  have "first_free (site ''t'' 1) site_db (sso_base ''Sam!'' []) [0..<1000] = Some ''Sam-2''"
    by (subst upt_conv_Cons, simp, subst upt_conv_Cons) (simp_all del: first_free.simps add: numeral_2_eq_2)
  then have n: "availableSSOUsername (site ''t'' 1) site_db ''Sam!'' [] = ''Sam-2''"
    by (simp only: availableSSOUsername_def option.case)
  from sso_username_free [OF _ len, of "site ''t'' 1" "''Sam!''" "[]"] n len show ?thesis by simp
qed

section \<open>What the listing of providers shows\<close>

text \<open>Two configurations that differ at most in the contents of their secrets.\<close>

definition same_but_secrets :: "idp_config \<Rightarrow> idp_config \<Rightarrow> bool" where
  "same_but_secrets c c' \<longleftrightarrow>
     c'\<lparr>cf_secret := cf_secret c, cf_metadata := cf_metadata c, cf_cert := cf_cert c, cf_key := cf_key c\<rparr> = c \<and>
     (cf_secret c = [] \<longleftrightarrow> cf_secret c' = []) \<and> (cf_metadata c = [] \<longleftrightarrow> cf_metadata c' = [])"

lemma safe_config_secrets: "same_but_secrets c c' \<Longrightarrow> safe_config c = safe_config c'"
  unfolding same_but_secrets_def safe_config_def by (cases c; cases c') simp

lemma idp_rows_secrets:
  assumes "\<forall>p \<in> set ps. rel_option same_but_secrets (decryptIdentityProviderConfig x (ip_config p))
      (decryptIdentityProviderConfig x' (ip_config p))"
  shows "idp_rows x origin ps = idp_rows x' origin ps"
  using assms
proof (induction ps)
  case (Cons p ps)
  then have "rel_option same_but_secrets (decryptIdentityProviderConfig x (ip_config p))
      (decryptIdentityProviderConfig x' (ip_config p))" "idp_rows x origin ps = idp_rows x' origin ps" by simp_all
  then show ?case
    by (cases "decryptIdentityProviderConfig x (ip_config p)"; cases "decryptIdentityProviderConfig x' (ip_config p)")
      (simp_all add: idp_json_def safe_config_secrets split: option.split)
qed simp

text \<open>The listing of identity providers tells nothing about a stored secret but whether there is one:
  with any other client secrets, metadata, certificates and private keys in the stored configurations
  the reply is the same.\<close>

theorem secrets_not_shown:
  assumes "\<forall>p \<in> set (d_idps d). rel_option same_but_secrets (decryptIdentityProviderConfig x (ip_config p))
      (decryptIdentityProviderConfig x' (ip_config p))"
  shows "identityProviders e x u d = identityProviders e x' u d"
  using idp_rows_secrets [of "sort_key ip_name (filter (\<lambda>p. ip_ws p = u_ws u) (d_idps d))" x x' "e_origin e"] assms
  by (simp add: identityProviders_def)

definition other_ext :: sso_ext where
  "other_ext = demo_ext\<lparr>x_unmarshal := (\<lambda>s. if s = ''oidc'' then Some (oidc_config\<lparr>cf_secret := ''other''\<rparr>)
     else if s = ''saml'' then Some (saml_config\<lparr>cf_key := ''other''\<rparr>) else None)\<rparr>"

lemma secrets_not_shown_witness:
  "rs_status (identityProviders (site ''t'' 1) demo_ext demo_admin sso_db) = 200 \<and>
   identityProviders (site ''t'' 1) demo_ext demo_admin sso_db = identityProviders (site ''t'' 1) other_ext demo_admin sso_db"
proof -
  have "rel_option same_but_secrets (decryptIdentityProviderConfig demo_ext (ip_config p))
      (decryptIdentityProviderConfig other_ext (ip_config p))" if "p \<in> set (d_idps sso_db)" for p
    using that by (auto simp: sso_db_def decryptIdentityProviderConfig_def other_ext_def demo_ext_def
        same_but_secrets_def oidc_config_def saml_config_def)
  then have "identityProviders (site ''t'' 1) demo_ext demo_admin sso_db = identityProviders (site ''t'' 1) other_ext demo_admin sso_db"
    by (intro secrets_not_shown) blast
  moreover have "rs_status (identityProviders (site ''t'' 1) demo_ext demo_admin sso_db) = 200" by code_simp
  ultimately show ?thesis by blast
qed

section \<open>Stored configurations\<close>

text \<open>A configuration the flows can work with.\<close>

definition config_ok :: "sso_ext \<Rightarrow> string \<Rightarrow> bool \<Rightarrow> idp_config \<Rightarrow> bool" where
  "config_ok x protocol enabled c \<longleftrightarrow>
     (if protocol = ''oidc''
      then (\<exists>host. x_url x (cf_issuer c) = Some (''https'', host) \<and> host \<noteq> []) \<and> cf_client c \<noteq> [] \<and> cf_secret c \<noteq> [] \<and>
        ''openid'' \<in> set (cf_scopes c) \<and> cf_email_claim c \<noteq> [] \<and> cf_username_claim c \<noteq> [] \<and> cf_groups_claim c \<noteq> [] \<and>
        (enabled \<longrightarrow> x_discover x (cf_issuer c) \<noteq> None)
      else protocol = ''saml'' \<and> x_entity x (cf_metadata c) \<noteq> None \<and> cf_cert c \<noteq> [] \<and> cf_key c \<noteq> [] \<and>
        cf_email_attr c \<noteq> [] \<and> cf_username_attr c \<noteq> [] \<and> cf_groups_attr c \<noteq> [] \<and>
        (enabled \<longrightarrow> samlServiceProvider x c = SpOk))"

definition configs_ok :: "sso_ext \<Rightarrow> db \<Rightarrow> bool" where
  "configs_ok x d \<longleftrightarrow> (\<forall>p \<in> set (d_idps d). \<exists>c. decryptIdentityProviderConfig x (ip_config p) = Some c \<and>
     config_ok x (ip_protocol p) (ip_enabled p) c)"

lemma defaultString_ne: "f \<noteq> [] \<Longrightarrow> defaultString v f \<noteq> []"
  by (simp add: defaultString_def)

lemma with_openid_in: "''openid'' \<in> set (with_openid scopes)"
  by (simp add: with_openid_def Let_def)

lemma normalizeOIDC_Inr:
  "normalizeOIDC x c0 = Inr c \<Longrightarrow> (\<exists>host. x_url x (cf_issuer c) = Some (''https'', host) \<and> host \<noteq> []) \<and>
     cf_client c \<noteq> [] \<and> cf_secret c \<noteq> [] \<and> ''openid'' \<in> set (cf_scopes c) \<and>
     cf_email_claim c \<noteq> [] \<and> cf_username_claim c \<noteq> [] \<and> cf_groups_claim c \<noteq> []"
  by (auto simp: normalizeOIDC_def Let_def defaultString_ne with_openid_in split: option.splits if_splits)

lemma normalizeSAML_Inr:
  assumes "normalizeSAML x n c0 = Inr c"
    and "\<And>n cert key. x_genpair x n = Some (cert, key) \<Longrightarrow> cert \<noteq> [] \<and> key \<noteq> []"
  shows "x_entity x (cf_metadata c) \<noteq> None \<and> cf_cert c \<noteq> [] \<and> cf_key c \<noteq> [] \<and>
     cf_email_attr c \<noteq> [] \<and> cf_username_attr c \<noteq> [] \<and> cf_groups_attr c \<noteq> []"
  using assms(1) assms(2) [of n]
  by (auto simp: normalizeSAML_def Let_def defaultString_ne split: option.splits if_splits prod.splits)

lemma normalized_ok:
  assumes "normalizeIdentityProviderConfig x (ii_protocol inp) origin public c0 = Inr (ii_config inp)"
    and "reachable x inp = None" and "ii_protocol inp = ''oidc'' \<or> ii_protocol inp = ''saml''"
    and "\<And>n cert key. x_genpair x n = Some (cert, key) \<Longrightarrow> cert \<noteq> [] \<and> key \<noteq> []"
  shows "config_ok x (ii_protocol inp) (ii_enabled inp) (ii_config inp)"
  using assms(3)
proof
  assume p: "ii_protocol inp = ''oidc''"
  have "normalizeOIDC x c0 = Inr (ii_config inp)" using assms(1) p by (simp add: normalizeIdentityProviderConfig_def)
  moreover have "ii_enabled inp \<longrightarrow> x_discover x (cf_issuer (ii_config inp)) \<noteq> None"
    using assms(2) p by (auto simp: reachable_def split: if_splits)
  ultimately show ?thesis using p normalizeOIDC_Inr by (simp add: config_ok_def)
next
  assume p: "ii_protocol inp = ''saml''"
  have "normalizeSAML x (origin @ ''/sso/'' @ public) c0 = Inr (ii_config inp)"
    using assms(1) p by (simp add: normalizeIdentityProviderConfig_def)
  moreover have "ii_enabled inp \<longrightarrow> samlServiceProvider x (ii_config inp) = SpOk"
    using assms(2) p by (auto simp: reachable_def split: if_splits sp.splits)
  ultimately show ?thesis using p normalizeSAML_Inr [OF _ assms(4)] by (simp add: config_ok_def)
qed

lemma save_result_configs:
  assumes res: "save_result e x u r (w_db w) d" and "saves r" and "distinct (map ip_id (d_idps (w_db w)))"
    and "\<And>s. x_decrypt x (x_encrypt x s) = Some s" and "\<And>c. x_unmarshal x (x_marshal x c) = Some c"
    and "\<And>n cert key. x_genpair x n = Some (cert, key) \<Longrightarrow> cert \<noteq> [] \<and> key \<noteq> []"
    and configs: "configs_ok x (w_db w)"
  shows "configs_ok x d"
proof -
  from res obtain i i' public inp c0 where
    st: "store_idp e x u (rq_method r = ''POST'') i public inp (w_db w) = Inr (i', d)"
    and nz: "normalizeIdentityProviderConfig x (ii_protocol inp) (e_origin e) public c0 = Inr (ii_config inp)"
    and rc: "reachable x inp = None" and pr: "ii_protocol inp = ''oidc'' \<or> ii_protocol inp = ''saml''"
    and put: "rq_method r = ''PUT'' \<longrightarrow> (\<exists>raw inp1. update_checks e x u i raw (w_db w) = Inr (public, inp1) \<and>
             ii_enabled inp = ii_enabled inp1 \<and> ii_protocol inp = ii_protocol inp1)"
    unfolding save_result_def by blast
  have ok: "config_ok x (ii_protocol inp) (ii_enabled inp) (ii_config inp)"
    by (rule normalized_ok [OF nz rc pr assms(6)])
  let ?cipher = "x_encrypt x (x_marshal x (ii_config inp))"
  have dc: "decryptIdentityProviderConfig x ?cipher = Some (ii_config inp)"
    by (simp add: decryptIdentityProviderConfig_def assms(4,5))
  show ?thesis
  proof (cases "rq_method r = ''POST''")
    case True
    then have "insert_idp (w_db w) (u_ws u) public inp ?cipher = Some (i', d)"
      using st by (auto simp: store_idp_def Let_def split: if_splits option.splits)
    then have "\<exists>row. d_idps d = d_idps (w_db w) @ [row] \<and> ip_config row = ?cipher \<and>
        ip_protocol row = ii_protocol inp \<and> ip_enabled row = ii_enabled inp"
      by (auto simp: insert_idp_def Let_def split: if_splits)
    with configs ok dc show ?thesis by (auto simp: configs_ok_def)
  next
    case False
    then have "rq_method r = ''PUT''" using assms(2) by (simp add: saves_def)
    with put obtain raw inp1 where "update_checks e x u i raw (w_db w) = Inr (public, inp1)"
      "ii_protocol inp = ii_protocol inp1" by blast
    with update_checks_Inr [OF this(1)] obtain p where p: "idp_in_ws (w_db w) (u_ws u) i = Some p"
      "ip_protocol p = ii_protocol inp" by auto
    have up: "update_idp (w_db w) (u_ws u) i inp ?cipher = Inr d"
      using st False by (auto simp: store_idp_def Let_def split: if_splits sum.splits)
    have pin: "p \<in> set (d_idps (w_db w))" "ip_id p = i" using p(1) by (auto simp: idp_in_ws_def dest: find_Some_iff_in)
    have only: "ip_protocol q = ii_protocol inp" if "q \<in> set (d_idps (w_db w))" "ip_id q = i" for q
      using distinct_id_unique [OF assms(3) that(1) pin(1)] that(2) pin(2) p(2) by simp
    have "d_idps d = map (\<lambda>p. if ip_id p = i \<and> ip_ws p = u_ws u
             then p\<lparr>ip_name := ii_name inp, ip_enabled := ii_enabled inp, ip_jit := ii_jit inp,
                    ip_config := ?cipher\<rparr> else p) (d_idps (w_db w))"
      using up by (auto simp: update_idp_def split: if_splits)
    then show ?thesis using configs ok dc only by (auto simp: configs_ok_def)
  qed
qed


text \<open>A codec for configurations, standing for JSON in the witness: strings with every byte marked,
  lists of strings, and the record as a list.\<close>

fun enc_str :: "string \<Rightarrow> string" where
  "enc_str [] = ''.''"
| "enc_str (c # s) = CHR ''-'' # c # enc_str s"

fun dec_str :: "string \<Rightarrow> string \<times> string" where
  "dec_str (x # c # r) = (if x = CHR ''-'' then (c # fst (dec_str r), snd (dec_str r)) else ([], c # r))"
| "dec_str _ = ([], [])"

fun enc_list :: "string list \<Rightarrow> string" where
  "enc_list [] = ''.''"
| "enc_list (s # ss) = CHR ''-'' # enc_str s @ enc_list ss"

fun dec_list :: "nat \<Rightarrow> string \<Rightarrow> string list" where
  "dec_list (Suc n) (x # r) = (if x = CHR ''-'' then fst (dec_str r) # dec_list n (snd (dec_str r)) else [])"
| "dec_list _ _ = []"

lemma dec_enc_str: "dec_str (enc_str s @ t) = (s, t)"
proof (induction s)
  case Nil
  then show ?case by (cases t) simp_all
qed simp

lemma dec_enc_list: "length ss < n \<Longrightarrow> dec_list n (enc_list ss) = ss"
proof (induction ss arbitrary: n)
  case Nil
  then show ?case by (cases n) simp_all
next
  case (Cons s ss)
  then show ?case by (cases n) (simp_all add: dec_enc_str)
qed

lemma length_enc_list: "length ss < length (enc_list ss)"
  by (induction ss) (simp_all add: less_Suc_eq_le le_Suc_eq trans_le_add2)

definition config_fields :: "idp_config \<Rightarrow> string list" where
  "config_fields c = [cf_issuer c, cf_client c, cf_secret c, cf_email_claim c, cf_username_claim c, cf_groups_claim c,
     cf_metadata c, cf_email_attr c, cf_username_attr c, cf_groups_attr c, cf_cert c, cf_key c,
     if cf_idp_initiated c then ''1'' else []] @ cf_scopes c"

definition fields_config :: "string list \<Rightarrow> idp_config option" where
  "fields_config fs =
     (case fs of
        i # cl # se # ec # uc # gc # md # ea # ua # ga # ct # ky # ini # scopes \<Rightarrow>
          Some \<lparr>cf_issuer = i, cf_client = cl, cf_secret = se, cf_scopes = scopes, cf_email_claim = ec,
            cf_username_claim = uc, cf_groups_claim = gc, cf_metadata = md, cf_email_attr = ea,
            cf_username_attr = ua, cf_groups_attr = ga, cf_cert = ct, cf_key = ky, cf_idp_initiated = (ini = ''1'')\<rparr>
      | _ \<Rightarrow> None)"

definition codec_ext :: sso_ext where
  "codec_ext = demo_ext\<lparr>x_marshal := (\<lambda>c. enc_list (config_fields c)),
     x_unmarshal := (\<lambda>s. fields_config (dec_list (length s) s))\<rparr>"

lemma codec_roundtrip: "x_unmarshal codec_ext (x_marshal codec_ext c) = Some c"
proof -
  have "fields_config (config_fields c) = Some c" by (simp add: fields_config_def config_fields_def)
  then show ?thesis using dec_enc_list [OF length_enc_list, of "config_fields c"] by (simp add: codec_ext_def)
qed

definition new_provider :: idp_input where
  "new_provider = \<lparr>ii_name = '' corp '', ii_protocol = ''OIDC'', ii_enabled = True, ii_jit = False,
     ii_config = oidc_config\<lparr>cf_issuer := '' https://idp/ '', cf_scopes := [''email''], cf_email_claim := []\<rparr>\<rparr>"

definition provider_saved_world :: world where
  "provider_saved_world = snd (saveIdentityProvider (site ''a-long-enough-public-'' 5) codec_ext demo_admin
     blank_request (Body new_provider) (world_of (sso_db\<lparr>d_idps := []\<rparr>)))"


end
