(* ===== verification/Inventory.thy ===== *)
theory Inventory
  imports Store
begin

text \<open>
  The inventory of an account (\<^verbatim>\<open>internal/app/collector.go\<close>): reconciling what a provider lists with the
  stored instances, the collection of one region, of a whole account, of every account of a workspace,
  and the lock an account's collection runs under.

  \<open>cloud_ext\<close> is what \<^verbatim>\<open>internal/cloud\<close> answers (\<^const>\<open>None\<close> for an error, also one caused by a
  deadline).  The goroutines of a collection touch disjoint rows, so the model runs them one after
  the other in a given order; \<open>InventoryProps\<close> shows that the order makes no difference.
\<close>

section \<open>Instances\<close>

record cloud_instance =
  ci_id :: string
  ci_region :: string
  ci_name :: string
  ci_state :: string
  ci_type :: string
  ci_public :: string
  ci_private :: string
  ci_details :: json

record cloud_ext =
  cx_regions :: "string \<Rightarrow> int \<Rightarrow> string list option"
  cx_region :: "string \<Rightarrow> int \<Rightarrow> string \<Rightarrow> cloud_instance list option"
  cx_global :: "string \<Rightarrow> int \<Rightarrow> cloud_instance list option"

section \<open>Reconciling\<close>

definition same_instance :: "int \<Rightarrow> cloud_instance \<Rightarrow> inst_row \<Rightarrow> bool" where
  "same_instance acc it r \<longleftrightarrow> in_account r = acc \<and> in_region r = ci_region it \<and> in_iid r = ci_id it"

definition refresh_row :: "time \<Rightarrow> cloud_instance \<Rightarrow> inst_row \<Rightarrow> inst_row" where
  "refresh_row now it r =
     r\<lparr>in_name := ci_name it, in_state := ci_state it, in_type := ci_type it, in_public := ci_public it,
       in_private := ci_private it, in_details := ci_details it, in_seen := now\<rparr>"

text \<open>\<^verbatim>\<open>INSERT ... ON CONFLICT(account_id,region,instance_id) DO UPDATE\<close> for one item.\<close>

definition upsert_instance :: "time \<Rightarrow> int \<Rightarrow> db \<Rightarrow> cloud_instance \<Rightarrow> db" where
  "upsert_instance now acc d it =
     (if list_ex (same_instance acc it) (d_insts d)
      then d\<lparr>d_insts := map (\<lambda>r. if same_instance acc it r then refresh_row now it r else r) (d_insts d)\<rparr>
      else (bump d ''instances'')\<lparr>d_insts := d_insts d @
        [\<lparr>in_account = acc, in_iid = ci_id it, in_region = ci_region it, in_name = ci_name it,
          in_state = ci_state it, in_type = ci_type it, in_public = ci_public it, in_private = ci_private it,
          in_details = ci_details it, in_id = next_id d ''instances'', in_seen = now\<rparr>]\<rparr>)"

text \<open>The statement for all items: two items with the same conflict key make PostgreSQL reject it, as
  does an account that is gone.\<close>

definition upsert_all :: "time \<Rightarrow> int \<Rightarrow> cloud_instance list \<Rightarrow> db \<Rightarrow> db option" where
  "upsert_all now acc items d =
     (if items = [] then Some d
      else if \<not> distinct (map (\<lambda>it. (ci_region it, ci_id it)) items) \<or>
              \<not> list_ex (\<lambda>a. ac_id a = acc) (d_accounts d) then None
      else Some (foldl (upsert_instance now acc) d items))"

definition prune :: "int \<Rightarrow> bool \<Rightarrow> string \<Rightarrow> string list \<Rightarrow> db \<Rightarrow> db" where
  "prune acc whole region ids d =
     d\<lparr>d_insts := filter (\<lambda>r. \<not> (in_account r = acc \<and> (whole \<or> in_region r = region) \<and> in_iid r \<notin> set ids))
                    (d_insts d)\<rparr>"

definition reconcileInventory ::
    "env \<Rightarrow> nat \<Rightarrow> int \<Rightarrow> cloud_instance list \<Rightarrow> bool \<Rightarrow> string \<Rightarrow> db \<Rightarrow> db option" where
  "reconcileInventory e i acc items whole region d =
     (if e_fault e i \<or> list_ex (\<lambda>it. ci_region it = []) items then None
      else case (if e_fault e (i + 1) \<and> items \<noteq> [] then None else upsert_all (e_now e) acc items d) of
        None \<Rightarrow> None
      | Some d1 \<Rightarrow>
          if e_fault e (i + 2) \<or> e_fault e (i + 3) then None
          else Some (prune acc whole region (map ci_id items) d1))"

section \<open>Collecting\<close>

text \<open>A region: every item is filed under the region asked for.\<close>

definition collectRegion ::
    "env \<Rightarrow> nat \<Rightarrow> cloud_ext \<Rightarrow> int \<Rightarrow> string \<Rightarrow> string \<Rightarrow> db \<Rightarrow> db option" where
  "collectRegion e i x acc provider region d =
     (if provider \<noteq> ''aws'' \<and> provider \<noteq> ''alibaba'' then None
      else case cx_region x provider acc region of
        None \<Rightarrow> None
      | Some items \<Rightarrow>
          reconcileInventory e i acc (map (\<lambda>it. it\<lparr>ci_region := region\<rparr>) items) False region d)"

text \<open>Azure and Google Cloud list the whole subscription or project at once.\<close>

definition collectGlobal ::
    "env \<Rightarrow> nat \<Rightarrow> cloud_ext \<Rightarrow> int \<Rightarrow> string \<Rightarrow> string list \<Rightarrow> db \<Rightarrow> db option" where
  "collectGlobal e i x acc provider regions d =
     (if provider \<noteq> ''azure'' \<and> provider \<noteq> ''gcp'' then None
      else case cx_global x provider acc of
        None \<Rightarrow> None
      | Some items \<Rightarrow>
          reconcileInventory e i acc
            (if regions = [] then items else filter (\<lambda>it. ci_region it \<in> set regions) items) True [] d)"

text \<open>The regions of an account, each with the number of its first call: the regions that failed, and
  the database.\<close>

fun collect_regions ::
    "env \<Rightarrow> cloud_ext \<Rightarrow> int \<Rightarrow> string \<Rightarrow> (nat \<times> string) list \<Rightarrow> db \<Rightarrow> string list \<times> db" where
  "collect_regions e x acc provider [] d = ([], d)"
| "collect_regions e x acc provider ((i, region) # rs) d =
     (case collectRegion e i x acc provider region d of
        None \<Rightarrow> (case collect_regions e x acc provider rs d of (fs, d') \<Rightarrow> (region # fs, d'))
      | Some d1 \<Rightarrow> collect_regions e x acc provider rs d1)"

definition number_regions :: "nat \<Rightarrow> string list \<Rightarrow> (nat \<times> string) list" where
  "number_regions i regions = zip (map (\<lambda>k. i + 4 * k) [0..<length regions]) regions"

definition providerErrorCode :: "string \<Rightarrow> string" where
  "providerErrorCode provider =
     (if provider = ''aws'' then ''NX-AWS-CONNECTION-001''
      else if provider = ''alibaba'' then ''NX-ALIBABA-CONNECTION-001''
      else if provider = ''azure'' then ''NX-AZURE-CONNECTION-001''
      else if provider = ''gcp'' then ''NX-GCP-CONNECTION-001'' else [])"

definition set_account :: "db \<Rightarrow> int \<Rightarrow> (account_row \<Rightarrow> account_row) \<Rightarrow> db" where
  "set_account d acc f = d\<lparr>d_accounts := map (\<lambda>a. if ac_id a = acc then f a else a) (d_accounts d)\<rparr>"

definition account_failed :: "env \<Rightarrow> nat \<Rightarrow> int \<Rightarrow> int \<Rightarrow> string \<Rightarrow> world \<Rightarrow> world" where
  "account_failed e i ws acc provider w =
     snd (rcd e (i + 1)
       (if e_fault e i then w
        else with_db w (set_account (w_db w) acc (\<lambda>a. a\<lparr>
          ac_err := ''Collection failed. Check credentials, permissions and selected regions.'',
          ac_errcode := providerErrorCode provider\<rparr>)))
       ws 0 ''system'' ''collector.account_failed'' (show_int acc) JNull)"

definition account_synced :: "env \<Rightarrow> int \<Rightarrow> db \<Rightarrow> db" where
  "account_synced e acc d =
     set_account d acc (\<lambda>a. a\<lparr>ac_sync := Some (e_now e), ac_err := [], ac_errcode := []\<rparr>)"

text \<open>What \<^verbatim>\<open>collectAccount\<close> stores before it reports: whether every part succeeded.  Calls 0 to 9 are
  numbered from \<open>i\<close>; the regions follow.\<close>

definition collect_parts ::
    "env \<Rightarrow> nat \<Rightarrow> cloud_ext \<Rightarrow> int \<Rightarrow> string \<Rightarrow> string list \<Rightarrow> db \<Rightarrow> bool \<times> db" where
  "collect_parts e i x acc provider regions d =
     (if provider = ''azure'' \<or> provider = ''gcp''
      then (case collectGlobal e (i + 10) x acc provider regions d of None \<Rightarrow> (False, d) | Some d1 \<Rightarrow> (True, d1))
      else case (if regions = [] then cx_regions x provider acc else Some regions) of
        None \<Rightarrow> (False, d)
      | Some rs \<Rightarrow>
          (case collect_regions e x acc provider (number_regions (i + 10) rs) d of
             (failed, d1) \<Rightarrow> (failed = [], d1)))"

definition collectAccount ::
    "env \<Rightarrow> nat \<Rightarrow> cloud_ext \<Rightarrow> int \<Rightarrow> int \<Rightarrow> string \<Rightarrow> string list \<Rightarrow> world \<Rightarrow> bool \<times> world" where
  "collectAccount e i x ws acc provider regions w =
     (case collect_parts e i x acc provider regions (w_db w) of
        (False, d1) \<Rightarrow> (False, account_failed e i ws acc provider (with_db w d1))
      | (True, d1) \<Rightarrow>
          if e_fault e (i + 2) then (False, with_db w d1)
          else (True, with_db w (account_synced e acc d1)))"

section \<open>The lock of an account\<close>

definition collector_key :: "int \<Rightarrow> string \<Rightarrow> int \<Rightarrow> string" where
  "collector_key ws service acc =
     ''collector:lock:'' @ show_int ws @ '':'' @ service @ '':'' @ show_int acc"

datatype lock_outcome = LockError | Refreshed | Locked

text \<open>\<^verbatim>\<open>withAccountCollectorLock\<close> up to the collection.  \<open>others n\<close> is what other processes do to the
  world, and \<open>clock n\<close> the time, at the \<open>n\<close>-th poll; the fuel is the number of polls until the context's
  deadline (30 minutes in steps of 250 milliseconds: 7,200).\<close>

fun lock_account ::
    "nat \<Rightarrow> env \<Rightarrow> (nat \<Rightarrow> time) \<Rightarrow> (nat \<Rightarrow> world \<Rightarrow> world) \<Rightarrow> string \<Rightarrow> int \<Rightarrow> int \<Rightarrow> nat \<Rightarrow> time option \<Rightarrow> world \<Rightarrow>
     lock_outcome \<times> world" where
  "lock_account 0 e clock others token ws acc n waiting w = (LockError, w)"
| "lock_account (Suc f) e clock others token ws acc n waiting w =
     (let w = others n w; key = collector_key ws ''compute'' acc
      in case waiting of
           None \<Rightarrow>
             if e_fault e n then (LockError, w)
             else (case rsetnx (clock n) 120 key (RText token) (w_redis w) of
                     (True, red) \<Rightarrow> (Locked, with_redis w red)
                   | (False, red) \<Rightarrow> lock_account f e clock others token ws acc (n + 1) (Some (clock n)) w)
         | Some since \<Rightarrow>
             if e_fault e n then (LockError, w)
             else if rget (clock n) key (w_redis w) \<noteq> None
             then lock_account f e clock others token ws acc (n + 1) (Some since) w
             else (case account_in_ws (w_db w) ws acc of
                     None \<Rightarrow> (LockError, w)
                   | Some a \<Rightarrow>
                       if (case ac_sync a of None \<Rightarrow> False | Some t \<Rightarrow> t > since) then (Refreshed, w)
                       else lock_account f e clock others token ws acc (n + 1) None w))"

definition unlock :: "env \<Rightarrow> nat \<Rightarrow> time \<Rightarrow> string \<Rightarrow> string \<Rightarrow> world \<Rightarrow> world" where
  "unlock e i now key token w =
     (if e_fault e i then w else with_redis w (rdel_if now key (RText token) (w_redis w)))"

text \<open>\<^verbatim>\<open>withAccountCollectorLock\<close>: the collection runs under the lock, or not at all where somebody else
  has just refreshed the account.\<close>

definition withAccountCollectorLock ::
    "nat \<Rightarrow> env \<Rightarrow> (nat \<Rightarrow> time) \<Rightarrow> (nat \<Rightarrow> world \<Rightarrow> world) \<Rightarrow> string \<Rightarrow> int \<Rightarrow> int \<Rightarrow>
     (world \<Rightarrow> bool \<times> world) \<Rightarrow> world \<Rightarrow> bool \<times> world" where
  "withAccountCollectorLock fuel e clock others token ws acc collect w =
     (case lock_account fuel e clock others token ws acc 0 None w of
        (LockError, w1) \<Rightarrow> (False, w1)
      | (Refreshed, w1) \<Rightarrow> (True, w1)
      | (Locked, w1) \<Rightarrow>
          (case collect w1 of
             (ok, w2) \<Rightarrow> (ok, unlock e (fuel + 1) (clock fuel) (collector_key ws ''compute'' acc) token w2)))"

section \<open>A workspace\<close>

text \<open>The accounts of the query; \<open>ids\<close> is \<^const>\<open>None\<close> for all of them.\<close>

definition collectable :: "db \<Rightarrow> int \<Rightarrow> int list option \<Rightarrow> account_row list" where
  "collectable d ws ids =
     sort_key ac_id (filter (\<lambda>a. ac_ws a = ws \<and> ac_provider a \<in> {''aws'', ''alibaba'', ''azure'', ''gcp''} \<and>
       (case ids of None \<Rightarrow> True | Some is \<Rightarrow> ac_id a \<in> set is)) (d_accounts d))"

fun collect_each :: "(account_row \<Rightarrow> world \<Rightarrow> bool \<times> world) \<Rightarrow> account_row list \<Rightarrow> world \<Rightarrow> nat \<times> world" where
  "collect_each run [] w = (0, w)"
| "collect_each run (a # as) w =
     (case run a w of (ok, w1) \<Rightarrow>
        (case collect_each run as w1 of (n, w2) \<Rightarrow> ((if ok then n else n + 1), w2)))"

definition expire_audit :: "time \<Rightarrow> int \<Rightarrow> db \<Rightarrow> db" where
  "expire_audit now ws d =
     (case find (\<lambda>s. se_ws s = ws) (d_settings d) of
        None \<Rightarrow> d
      | Some s \<Rightarrow> d\<lparr>d_audit := filter (\<lambda>a. \<not> (au_ws a = ws \<and> au_at a < now - 86400 * se_retention s)) (d_audit d)\<rparr>)"

text \<open>\<open>run\<close> is the collection of one account under its lock.\<close>

definition collectAccounts ::
    "env \<Rightarrow> (account_row \<Rightarrow> world \<Rightarrow> bool \<times> world) \<Rightarrow> int \<Rightarrow> int list option \<Rightarrow> world \<Rightarrow> bool \<times> world" where
  "collectAccounts e run ws ids w =
     (if e_fault e 0 then (False, w)
      else let accounts = collectable (w_db w) ws ids
      in case collect_each run accounts w of
        (failures, w1) \<Rightarrow>
          if e_fault e 1 \<or> e_fault e 2 then (False, w1)
          else let
            w2 = with_db w1 ((w_db w1)\<lparr>d_settings := map (\<lambda>s. if se_ws s = ws then s\<lparr>se_last_run := Some (e_now e)\<rparr> else s)
                   (d_settings (w_db w1))\<rparr>);
            w3 = snd (rcd e 3 w2 ws 0 ''system'' ''collector.completed'' []
                   (JObj [(''accounts'', JInt (int (length accounts))), (''failed_accounts'', JInt (int failures))]))
          in if e_fault e 4 then (False, w3) else (True, with_db w3 (expire_audit (e_now e) ws (w_db w3))))"

definition Collect :: "env \<Rightarrow> (account_row \<Rightarrow> world \<Rightarrow> bool \<times> world) \<Rightarrow> int \<Rightarrow> world \<Rightarrow> bool \<times> world" where
  "Collect e run ws w = collectAccounts e run ws None w"

end
