(* ===== verification/InventoryProps.thy ===== *)
theory InventoryProps
  imports Inventory AdminProps "HOL-Library.Multiset"
begin

text \<open>
  Properties of the inventory: reconciling refines the replacement of a map, the order in which the
  regions of an account finish makes no difference, failed regions keep their instances, and only one
  process at a time collects an account.
\<close>

section \<open>The abstract inventory\<close>

text \<open>An account's inventory is a map from region and instance ID to what the provider said.\<close>

type_synonym facts = "string \<times> string \<times> string \<times> string \<times> string \<times> json"
type_synonym stock = "(string \<times> string) \<Rightarrow> facts option"

definition row_facts :: "inst_row \<Rightarrow> facts" where
  "row_facts r = (in_name r, in_state r, in_type r, in_public r, in_private r, in_details r)"

definition item_facts :: "cloud_instance \<Rightarrow> facts" where
  "item_facts it = (ci_name it, ci_state it, ci_type it, ci_public it, ci_private it, ci_details it)"

definition row_key :: "inst_row \<Rightarrow> string \<times> string" where
  "row_key r = (in_region r, in_iid r)"

definition item_key :: "cloud_instance \<Rightarrow> string \<times> string" where
  "item_key it = (ci_region it, ci_id it)"

definition inventory :: "db \<Rightarrow> int \<Rightarrow> stock" where
  "inventory d acc = map_of (map (\<lambda>r. (row_key r, row_facts r)) (filter (\<lambda>r. in_account r = acc) (d_insts d)))"

text \<open>The specification: take over what was listed, and drop what was not.\<close>

definition take_over :: "cloud_instance list \<Rightarrow> stock \<Rightarrow> stock" where
  "take_over items m = m ++ map_of (map (\<lambda>it. (item_key it, item_facts it)) items)"

definition replace_stock :: "bool \<Rightarrow> string \<Rightarrow> cloud_instance list \<Rightarrow> stock \<Rightarrow> stock" where
  "replace_stock whole region items m =
     (\<lambda>(r, i). if (whole \<or> r = region) \<and> i \<notin> ci_id ` set items then None else take_over items m (r, i))"

lemma map_of_map_values:
  "(\<And>x. x \<in> set xs \<Longrightarrow> k (f x) = k x) \<Longrightarrow> (\<And>x. x \<in> set xs \<Longrightarrow> v (f x) = (if k x = key then val else v x)) \<Longrightarrow>
     key \<in> k ` set xs \<Longrightarrow> map_of (map (\<lambda>x. (k x, v x)) (map f xs)) = (map_of (map (\<lambda>x. (k x, v x)) xs))(key \<mapsto> val)"
proof (rule ext)
  fix y
  assume kf: "\<And>x. x \<in> set xs \<Longrightarrow> k (f x) = k x" and vf: "\<And>x. x \<in> set xs \<Longrightarrow> v (f x) = (if k x = key then val else v x)"
    and mem: "key \<in> k ` set xs"
  have "map_of (map (\<lambda>x. (k x, v x)) (map f ys)) y =
      (if y = key then if key \<in> k ` set ys then Some val else None else map_of (map (\<lambda>x. (k x, v x)) ys) y)"
    if "set ys \<subseteq> set xs" for ys
    using that
  proof (induction ys)
    case (Cons z ys)
    then have z: "z \<in> set xs" by simp
    from Cons show ?case using kf [OF z] vf [OF z] by auto
  qed simp
  from this [of xs] mem show "map_of (map (\<lambda>x. (k x, v x)) (map f xs)) y = ((map_of (map (\<lambda>x. (k x, v x)) xs))(key \<mapsto> val)) y"
    by simp
qed

lemma filter_map_key: "(\<And>x. P (f x) = P x) \<Longrightarrow> filter P (map f xs) = map f (filter P xs)"
  by (induction xs) auto

lemma upsert_inventory:
  "inventory (upsert_instance now acc d it) acc' =
     (if acc' = acc then (inventory d acc)(item_key it \<mapsto> item_facts it) else inventory d acc')"
proof (cases "list_ex (same_instance acc it) (d_insts d)")
  case True
  let ?f = "\<lambda>r. if same_instance acc it r then refresh_row now it r else r"
  have acc: "in_account (?f r) = in_account r" for r by (simp add: refresh_row_def)
  have rows: "filter (\<lambda>r. in_account r = acc') (map ?f (d_insts d)) = map ?f (filter (\<lambda>r. in_account r = acc') (d_insts d))"
    by (rule filter_map_key) (simp add: refresh_row_def)
  have res: "inventory (upsert_instance now acc d it) acc' =
      map_of (map (\<lambda>r. (row_key r, row_facts r)) (map ?f (filter (\<lambda>r. in_account r = acc') (d_insts d))))"
    using True by (simp add: inventory_def upsert_instance_def rows del: map_map)
  show ?thesis
  proof (cases "acc' = acc")
    case eq: True
    have "map_of (map (\<lambda>r. (row_key r, row_facts r)) (map ?f (filter (\<lambda>r. in_account r = acc') (d_insts d)))) =
        (map_of (map (\<lambda>r. (row_key r, row_facts r)) (filter (\<lambda>r. in_account r = acc') (d_insts d))))(item_key it \<mapsto> item_facts it)"
    proof (rule map_of_map_values)
      show "item_key it \<in> row_key ` set (filter (\<lambda>r. in_account r = acc') (d_insts d))"
        using True eq by (auto simp: list_ex_iff same_instance_def item_key_def row_key_def image_iff)
    qed (auto simp: same_instance_def refresh_row_def row_key_def item_key_def row_facts_def item_facts_def eq)
    with res eq show ?thesis by (simp add: inventory_def)
  next
    case False
    have "map ?f (filter (\<lambda>r. in_account r = acc') (d_insts d)) = filter (\<lambda>r. in_account r = acc') (d_insts d)"
      by (rule map_idI) (use False in \<open>auto simp: same_instance_def\<close>)
    with res False show ?thesis by (simp add: inventory_def)
  qed
next
  case False
  then have new: "item_key it \<notin> row_key ` set (filter (\<lambda>r. in_account r = acc) (d_insts d))"
    by (auto simp: list_ex_iff same_instance_def item_key_def row_key_def)
  have one: "map_of (xs @ [(k, v)]) = (map_of xs)(k \<mapsto> v)" if "k \<notin> fst ` set xs" for xs and k :: "string \<times> string" and v :: facts
  proof -
    have "map_of xs k = None" using that by (simp add: map_of_eq_None_iff)
    then show ?thesis by (auto simp: fun_eq_iff map_add_def split: option.split)
  qed
  show ?thesis
  proof (cases "acc' = acc")
    case True
    have "item_key it \<notin> fst ` set (map (\<lambda>r. (row_key r, row_facts r)) (filter (\<lambda>r. in_account r = acc) (d_insts d)))"
      using new by (auto simp: image_iff)
    from one [OF this, of "item_facts it"] True False show ?thesis
      by (simp add: inventory_def upsert_instance_def row_key_def row_facts_def item_key_def item_facts_def)
  next
    case neq: False
    with False show ?thesis by (simp add: inventory_def upsert_instance_def)
  qed
qed

lemma foldl_upsert_inventory:
  "inventory (foldl (upsert_instance now acc) d items) acc' =
     (if acc' = acc then inventory d acc ++ map_of (rev (map (\<lambda>it. (item_key it, item_facts it)) items)) else inventory d acc')"
  by (induction items arbitrary: d) (simp_all add: upsert_inventory)

lemma distinct_map_of_rev:
  assumes "distinct (map fst xs)"
  shows "map_of (rev xs) = map_of xs"
proof (rule ext)
  fix k
  have "distinct (map fst (rev xs))" using assms by (simp add: rev_map [symmetric])
  then have "map_of (rev xs) k = Some v \<longleftrightarrow> map_of xs k = Some v" for v
    using assms by (simp add: map_of_eq_Some_iff)
  then show "map_of (rev xs) k = map_of xs k" by (cases "map_of xs k"; cases "map_of (rev xs) k") auto
qed

lemma upsert_all_inventory:
  assumes "upsert_all now acc items d = Some d'"
  shows "inventory d' acc' = (if acc' = acc then take_over items (inventory d acc) else inventory d acc')"
proof -
  have "distinct (map fst (map (\<lambda>it. (item_key it, item_facts it)) items))"
    using assms by (auto simp: upsert_all_def item_key_def comp_def split: if_splits)
  from distinct_map_of_rev [OF this] assms show ?thesis
    by (auto simp: upsert_all_def take_over_def foldl_upsert_inventory split: if_splits)
qed

lemma map_of_filter_key:
  "map_of (map (\<lambda>r. (k r, v r)) (filter (\<lambda>r. P (k r)) xs)) = (\<lambda>y. if P y then map_of (map (\<lambda>r. (k r, v r)) xs) y else None)"
  by (induction xs) (auto simp: fun_eq_iff)

lemma prune_inventory:
  "inventory (prune acc whole region ids d) acc' =
     (if acc' = acc then (\<lambda>(r, i). if (whole \<or> r = region) \<and> i \<notin> set ids then None else inventory d acc (r, i))
      else inventory d acc')"
proof (cases "acc' = acc")
  case True
  let ?P = "\<lambda>(r, i). \<not> ((whole \<or> r = region) \<and> i \<notin> set ids)"
  have "filter (\<lambda>r. in_account r = acc) (d_insts (prune acc whole region ids d)) =
      filter (\<lambda>r. ?P (row_key r)) (filter (\<lambda>r. in_account r = acc) (d_insts d))"
    by (auto simp: prune_def row_key_def intro: filter_cong)
  then have "inventory (prune acc whole region ids d) acc = (\<lambda>y. if ?P y then inventory d acc y else None)"
    unfolding inventory_def by (simp only: map_of_filter_key)
  with True show ?thesis by (auto simp: fun_eq_iff)
next
  case False
  then have "filter (\<lambda>r. in_account r = acc') (d_insts (prune acc whole region ids d)) =
      filter (\<lambda>r. in_account r = acc') (d_insts d)"
    by (auto simp: prune_def intro: filter_cong)
  with False show ?thesis by (simp add: inventory_def)
qed

text \<open>C16: reconciling implements the replacement of a map: when it commits, the account's inventory is the
  old one overwritten with the listed items and without what is missing from the list, in the region
  (or, for a whole account, anywhere); every other account keeps its inventory.\<close>

theorem reconcile_refines:
  assumes "reconcileInventory e i acc items whole region d = Some d'"
  shows "inventory d' acc = replace_stock whole region items (inventory d acc) \<and>
    (\<forall>acc'. acc' \<noteq> acc \<longrightarrow> inventory d' acc' = inventory d acc')"
proof -
  from assms obtain d1 where "upsert_all (e_now e) acc items d = Some d1" and d': "d' = prune acc whole region (map ci_id items) d1"
    by (auto simp: reconcileInventory_def split: if_splits option.splits)
  from upsert_all_inventory [OF this(1)] show ?thesis
    by (auto simp: d' prune_inventory replace_stock_def)
qed

definition vm :: "string \<Rightarrow> string \<Rightarrow> string \<Rightarrow> cloud_instance" where
  "vm i region st = \<lparr>ci_id = i, ci_region = region, ci_name = i, ci_state = st, ci_type = ''t'', ci_public = [],
     ci_private = [], ci_details = JNull\<rparr>"

definition stocked :: db where
  "stocked = the (reconcileInventory good_env 0 5 [vm ''a'' ''r1'' ''running'', vm ''b'' ''r1'' ''running''] False ''r1'' (team_db\<lparr>d_next := (\<lambda>t. 100)\<rparr>))"

definition restocked :: db where
  "restocked = the (reconcileInventory good_env 0 5 [vm ''b'' ''r1'' ''stopped'', vm ''c'' ''r1'' ''running''] False ''r1'' stocked)"

lemma reconcile_refines_witness:
  "reconcileInventory good_env 0 5 [vm ''b'' ''r1'' ''stopped'', vm ''c'' ''r1'' ''running''] False ''r1'' stocked = Some restocked \<and>
   inventory restocked 5 (''r1'', ''a'') = None \<and>
   inventory restocked 5 (''r1'', ''b'') = Some (''b'', ''stopped'', ''t'', [], [], JNull)"
proof -
  let ?items = "[vm ''b'' ''r1'' ''stopped'', vm ''c'' ''r1'' ''running'']"
  have "reconcileInventory good_env 0 5 ?items False ''r1'' stocked \<noteq> None" by code_simp
  then have ok: "reconcileInventory good_env 0 5 ?items False ''r1'' stocked = Some restocked"
    by (simp add: restocked_def)
  from reconcile_refines [OF ok] have "inventory restocked 5 = replace_stock False ''r1'' ?items (inventory stocked 5)" by blast
  then have "inventory restocked 5 (''r1'', ''a'') = None \<and>
      inventory restocked 5 (''r1'', ''b'') = Some (''b'', ''stopped'', ''t'', [], [], JNull)"
    by (simp add: replace_stock_def take_over_def vm_def item_key_def item_facts_def map_add_def)
  with ok show ?thesis by blast
qed

text \<open>A whole-account collection does not follow a machine that moved: the instance stays listed in its
  old region for ever, because the pruning looks at the ID alone.\<close>

theorem moved_instance_stays:
  assumes "collectGlobal e i x acc provider [] d = Some d'" and "cx_global x provider acc = Some items"
    and "it \<in> set items" and "inventory d acc (old, ci_id it) = Some v" and "\<forall>jt \<in> set items. ci_region jt \<noteq> old"
  shows "inventory d' acc (old, ci_id it) = Some v \<and> inventory d' acc (item_key it) \<noteq> None"
proof -
  have "reconcileInventory e i acc items True [] d = Some d'"
    using assms(1,2) by (auto simp: collectGlobal_def split: if_splits)
  from reconcile_refines [OF this] have inv: "inventory d' acc = replace_stock True [] items (inventory d acc)" by blast
  have "map_of (map (\<lambda>it. (item_key it, item_facts it)) items) (old, ci_id it) = None"
    using assms(5) by (auto simp: map_of_eq_None_iff item_key_def)
  moreover have "map_of (map (\<lambda>it. (item_key it, item_facts it)) items) (item_key it) \<noteq> None"
    using assms(3) by (auto simp: map_of_eq_None_iff image_image)
  ultimately show ?thesis using assms(3,4)
    by (auto simp: inv replace_stock_def take_over_def item_key_def map_add_def split: option.split)
qed

definition moved_ext :: cloud_ext where
  "moved_ext = \<lparr>cx_regions = (\<lambda>p a. None), cx_region = (\<lambda>p a r. None),
     cx_global = (\<lambda>p a. Some [vm ''a'' ''r2'' ''running''])\<rparr>"

lemma moved_instance_stays_witness:
  "collectGlobal good_env 0 moved_ext 5 ''azure'' [] stocked \<noteq> None \<and>
   inventory (the (collectGlobal good_env 0 moved_ext 5 ''azure'' [] stocked)) 5 (''r1'', ''a'') =
     Some (''a'', ''running'', ''t'', [], [], JNull)"
proof -
  have ok: "collectGlobal good_env 0 moved_ext 5 ''azure'' [] stocked \<noteq> None" by code_simp
  then obtain d' where d': "collectGlobal good_env 0 moved_ext 5 ''azure'' [] stocked = Some d'" by blast
  have inv: "inventory stocked 5 (''r1'', ci_id (vm ''a'' ''r2'' ''running'')) = Some (''a'', ''running'', ''t'', [], [], JNull)"
    by code_simp
  have ext: "cx_global moved_ext ''azure'' 5 = Some [vm ''a'' ''r2'' ''running'']" by (simp add: moved_ext_def)
  from moved_instance_stays [OF d' ext _ inv] d' show ?thesis by (simp add: vm_def)
qed

section \<open>Regions\<close>

lemma collectRegion_inventory:
  assumes "collectRegion e i x acc provider region d = Some d'"
  shows "\<exists>items. cx_region x provider acc region = Some items \<and>
    inventory d' acc = (\<lambda>(r, k). if r = region then map_of (map (\<lambda>it. (ci_id it, item_facts it)) items) k
                                 else inventory d acc (r, k)) \<and>
    (\<forall>acc'. acc' \<noteq> acc \<longrightarrow> inventory d' acc' = inventory d acc')"
proof -
  from assms obtain items where items: "cx_region x provider acc region = Some items"
    and rec: "reconcileInventory e i acc (map (\<lambda>it. it\<lparr>ci_region := region\<rparr>) items) False region d = Some d'"
    by (auto simp: collectRegion_def split: if_splits option.splits)
  have keys: "map_of (map (\<lambda>it. (item_key it, item_facts it)) (map (\<lambda>it. it\<lparr>ci_region := region\<rparr>) xs)) (r, k) =
      (if r = region then map_of (map (\<lambda>it. (ci_id it, item_facts it)) xs) k else None)" for xs :: "cloud_instance list" and r k
    by (induction xs) (auto simp: item_key_def item_facts_def)
  have gone: "map_of (map (\<lambda>it. (ci_id it, item_facts it)) items) k = None \<longleftrightarrow> k \<notin> ci_id ` set items" for k
    by (auto simp: map_of_eq_None_iff image_image)
  have ids: "ci_id ` set (map (\<lambda>it. it\<lparr>ci_region := region\<rparr>) items) = ci_id ` set items" by (auto simp: image_image)
  from reconcile_refines [OF rec] have inv: "inventory d' acc =
      replace_stock False region (map (\<lambda>it. it\<lparr>ci_region := region\<rparr>) items) (inventory d acc)"
    and other: "\<forall>acc'. acc' \<noteq> acc \<longrightarrow> inventory d' acc' = inventory d acc'" by blast+
  have "inventory d' acc (r, k) = (if r = region then map_of (map (\<lambda>it. (ci_id it, item_facts it)) items) k
                                 else inventory d acc (r, k))" for r k
    unfolding inv replace_stock_def take_over_def ids prod.case map_add_def keys
    using gone [of k] by (auto split: option.split)
  then show ?thesis using items other by (intro exI [of _ items]) (auto simp: fun_eq_iff)
qed

definition region_ok :: "env \<Rightarrow> cloud_ext \<Rightarrow> int \<Rightarrow> string \<Rightarrow> db \<Rightarrow> nat \<times> string \<Rightarrow> bool" where
  "region_ok e x acc provider d = (\<lambda>(i, region). collectRegion e i x acc provider region d \<noteq> None)"

definition region_items :: "cloud_ext \<Rightarrow> int \<Rightarrow> string \<Rightarrow> string \<Rightarrow> string \<Rightarrow> facts option" where
  "region_items x acc provider region =
     (case cx_region x provider acc region of
        None \<Rightarrow> (\<lambda>k. None) | Some items \<Rightarrow> map_of (map (\<lambda>it. (ci_id it, item_facts it)) items))"

lemma upsert_accounts [simp]: "d_accounts (upsert_instance now acc d it) = d_accounts d"
  by (simp add: upsert_instance_def)

lemma foldl_upsert_accounts [simp]: "d_accounts (foldl (upsert_instance now acc) d items) = d_accounts d"
  by (induction items arbitrary: d) simp_all

lemma prune_accounts [simp]: "d_accounts (prune acc whole region ids d) = d_accounts d"
  by (simp add: prune_def)

lemma upsert_all_cong:
  "d_accounts d' = d_accounts d \<Longrightarrow> upsert_all now acc items d' = None \<longleftrightarrow> upsert_all now acc items d = None"
  by (simp add: upsert_all_def)

lemma region_ok_cong: "d_accounts d' = d_accounts d \<Longrightarrow> region_ok e x acc provider d' = region_ok e x acc provider d"
proof -
  assume same: "d_accounts d' = d_accounts d"
  have "reconcileInventory e i acc items whole region d' = None \<longleftrightarrow> reconcileInventory e i acc items whole region d = None"
    for i items whole region
    using upsert_all_cong [OF same, of "e_now e" acc items]
    by (auto simp: reconcileInventory_def split: option.split)
  then have "collectRegion e i x acc provider region d' = None \<longleftrightarrow> collectRegion e i x acc provider region d = None"
    for i region
    by (cases "provider \<noteq> ''aws'' \<and> provider \<noteq> ''alibaba''"; cases "cx_region x provider acc region") (auto simp: collectRegion_def simp del: not_None_eq)
  then show ?thesis unfolding region_ok_def by (simp only: case_prod_unfold)
qed

lemma collectRegion_accounts: "collectRegion e i x acc provider region d = Some d' \<Longrightarrow> d_accounts d' = d_accounts d"
  by (auto simp: collectRegion_def reconcileInventory_def upsert_all_def split: if_splits option.splits)

text \<open>The result of a collection, as a function of which regions succeeded.\<close>

lemma collect_regions_result:
  "fst (collect_regions e x acc provider rs d) = map snd (filter (\<lambda>p. \<not> region_ok e x acc provider d p) rs) \<and>
   d_accounts (snd (collect_regions e x acc provider rs d)) = d_accounts d \<and>
   inventory (snd (collect_regions e x acc provider rs d)) acc =
     (\<lambda>(r, k). if \<exists>p \<in> set rs. snd p = r \<and> region_ok e x acc provider d p then region_items x acc provider r k
               else inventory d acc (r, k)) \<and>
   (\<forall>acc'. acc' \<noteq> acc \<longrightarrow> inventory (snd (collect_regions e x acc provider rs d)) acc' = inventory d acc')"
proof (induction rs arbitrary: d)
  case (Cons p rs)
  obtain i region where p: "p = (i, region)" by (cases p)
  show ?case
  proof (cases "collectRegion e i x acc provider region d")
    case None
    then have "\<not> region_ok e x acc provider d (i, region)" by (simp add: region_ok_def)
    with Cons [of d] None show ?thesis by (auto simp: p case_prod_beta)
  next
    case (Some d1)
    then have ok: "region_ok e x acc provider d (i, region)" by (simp add: region_ok_def)
    note same = collectRegion_accounts [OF Some]
    note cong = region_ok_cong [OF same]
    from collectRegion_inventory [OF Some] have inv: "inventory d1 acc =
        (\<lambda>(r, k). if r = region then region_items x acc provider region k else inventory d acc (r, k))"
      and other: "\<forall>acc'. acc' \<noteq> acc \<longrightarrow> inventory d1 acc' = inventory d acc'"
      by (auto simp: region_items_def)
    from Cons [of d1] Some ok same other show ?thesis unfolding cong inv
      by (auto simp: p fun_eq_iff)
  qed
qed (simp add: case_prod_eta)

text \<open>C18: the regions of an account may finish in any order: the resulting inventory is the same, and so
  is the set of regions reported as failed.\<close>

theorem regions_any_order:
  assumes "mset rs' = mset rs"
  shows "inventory (snd (collect_regions e x acc provider rs' d)) = inventory (snd (collect_regions e x acc provider rs d)) \<and>
    mset (fst (collect_regions e x acc provider rs' d)) = mset (fst (collect_regions e x acc provider rs d))"
proof -
  note r = collect_regions_result [of e x acc provider rs d] and r' = collect_regions_result [of e x acc provider rs' d]
  have set: "set rs' = set rs" using assms by (metis set_mset_mset)
  have "inventory (snd (collect_regions e x acc provider rs' d)) a = inventory (snd (collect_regions e x acc provider rs d)) a" for a
    using r r' set by (cases "a = acc") auto
  moreover have "mset (fst (collect_regions e x acc provider rs' d)) = mset (fst (collect_regions e x acc provider rs d))"
    using assms by (simp add: r r')
  ultimately show ?thesis by blast
qed

definition region_ext :: cloud_ext where
  "region_ext = \<lparr>cx_regions = (\<lambda>p a. None),
     cx_region = (\<lambda>p a r. if r = ''r1'' then Some [vm ''c'' [] ''running''] else if r = ''r2'' then Some [vm ''d'' [] ''stopped''] else None),
     cx_global = (\<lambda>p a. None)\<rparr>"

lemma regions_any_order_witness:
  "inventory (snd (collect_regions good_env region_ext 5 ''aws'' [(1, ''r2''), (5, ''r3''), (9, ''r1'')] stocked)) 5 (''r1'', ''c'') =
     Some (''c'', ''running'', ''t'', [], [], JNull) \<and>
   fst (collect_regions good_env region_ext 5 ''aws'' [(9, ''r1''), (5, ''r3''), (1, ''r2'')] stocked) = [''r3'']"
proof -
  let ?rs = "[(9, ''r1''), (5, ''r3''), (1, ''r2'')] :: (nat \<times> string) list"
  have "mset [(1, ''r2''), (5, ''r3''), (9, ''r1'')] = mset ?rs" by simp
  from regions_any_order [OF this] have
    "inventory (snd (collect_regions good_env region_ext 5 ''aws'' [(1, ''r2''), (5, ''r3''), (9, ''r1'')] stocked)) =
     inventory (snd (collect_regions good_env region_ext 5 ''aws'' ?rs stocked))" by blast
  moreover have "inventory (snd (collect_regions good_env region_ext 5 ''aws'' ?rs stocked)) 5 (''r1'', ''c'') =
      Some (''c'', ''running'', ''t'', [], [], JNull)" by code_simp
  moreover have "fst (collect_regions good_env region_ext 5 ''aws'' ?rs stocked) = [''r3'']" by code_simp
  ultimately show ?thesis by simp
qed

section \<open>An account\<close>

lemma number_regions_snd: "snd ` set (number_regions i rs) = set rs"
  by (force simp: number_regions_def set_zip image_iff in_set_conv_nth)

lemma rcd_inventory [simp]:
  "inventory (w_db (snd (rcd e i w ws uid n a t j))) = inventory (w_db w)"
  "inventory (set_account d acc f) = inventory d"
  by (simp_all add: inventory_def set_account_def fun_eq_iff)

lemma account_failed_inventory [simp]: "inventory (w_db (account_failed e i ws acc provider w)) = inventory (w_db w)"
  by (simp add: account_failed_def)

lemma account_failed_accounts:
  "d_accounts (w_db (account_failed e i ws acc provider w)) =
     (if e_fault e i then d_accounts (w_db w) else d_accounts (set_account (w_db w) acc (\<lambda>a. a\<lparr>
          ac_err := ''Collection failed. Check credentials, permissions and selected regions.'',
          ac_errcode := providerErrorCode provider\<rparr>)))"
  by (simp add: account_failed_def)

lemma set_account_row:
  assumes "a \<in> set (d_accounts (set_account d acc f))" and "ac_id a = acc" and "\<And>b. ac_id (f b) = ac_id b"
  obtains b where "a = f b"
  using assms by (auto simp: set_account_def split: if_splits)

lemma failed_row:
  assumes "\<not> e_fault e i" and "a \<in> set (d_accounts (w_db (account_failed e i ws acc provider w)))" and "ac_id a = acc"
  shows "ac_err a \<noteq> [] \<and> ac_errcode a = providerErrorCode provider"
proof -
  note rows = assms(2) [unfolded account_failed_accounts if_not_P [OF assms(1)]]
  show ?thesis by (rule set_account_row [OF rows assms(3)]) simp_all
qed

lemma synced_row:
  assumes "a \<in> set (d_accounts (w_db (with_db w (account_synced e acc d))))" and "ac_id a = acc"
  shows "ac_err a = [] \<and> ac_sync a = Some (e_now e)"
proof -
  have rows: "a \<in> set (d_accounts (set_account d acc (\<lambda>a. a\<lparr>ac_sync := Some (e_now e), ac_err := [], ac_errcode := []\<rparr>)))"
    using assms(1) by (simp add: account_synced_def)
  show ?thesis by (rule set_account_row [OF rows assms(2)]) simp_all
qed

lemma collect_parts_result:
  assumes "provider = ''aws'' \<or> provider = ''alibaba''" and "regions \<noteq> []"
    and "collect_parts e i x acc provider regions d = (fine, d')"
  shows "cx_region x provider acc r = None \<Longrightarrow> inventory d' acc (r, k) = inventory d acc (r, k)"
    and "fine \<Longrightarrow> r \<in> set regions \<Longrightarrow> inventory d' acc (r, k) = region_items x acc provider r k"
proof -
  let ?rs = "number_regions (i + 10) regions"
  obtain failed d1 where col: "collect_regions e x acc provider ?rs d = (failed, d1)"
    by (cases "collect_regions e x acc provider ?rs d")
  have parts: "fine = (failed = [])" "d' = d1" using assms col by (auto simp: collect_parts_def)
  note res = collect_regions_result [of e x acc provider ?rs d, unfolded col fst_conv snd_conv]
  have bad: "\<not> region_ok e x acc provider d p" if "cx_region x provider acc (snd p) = None" for p
    using that by (cases p) (simp add: region_ok_def collectRegion_def)
  show "inventory d' acc (r, k) = inventory d acc (r, k)" if "cx_region x provider acc r = None"
    using res bad that parts by auto
  show "inventory d' acc (r, k) = region_items x acc provider r k" if "fine" "r \<in> set regions"
  proof -
    have "\<forall>p \<in> set ?rs. region_ok e x acc provider d p" using res that(1) parts by (auto simp: filter_empty_conv)
    moreover have "\<exists>p \<in> set ?rs. snd p = r" using number_regions_snd [of "i + 10" regions] that(2) by (metis imageE)
    ultimately show ?thesis using res parts by auto
  qed
qed

text \<open>C17: the collection of an account region by region: a region that could not be listed keeps its
  inventory, whatever happened elsewhere; when the collection succeeded every region holds exactly what the
  provider listed and the account shows no error; when it failed the account shows the error and its code.\<close>

theorem account_outcome:
  assumes "provider = ''aws'' \<or> provider = ''alibaba''" and "regions \<noteq> []"
    and "collectAccount e i x ws acc provider regions w = (ok, w')"
  shows "(\<forall>r k. cx_region x provider acc r = None \<longrightarrow> inventory (w_db w') acc (r, k) = inventory (w_db w) acc (r, k)) \<and>
    (if ok then (\<forall>r \<in> set regions. \<forall>k. inventory (w_db w') acc (r, k) = region_items x acc provider r k) \<and>
        (\<forall>a \<in> set (d_accounts (w_db w')). ac_id a = acc \<longrightarrow> ac_err a = [] \<and> ac_sync a = Some (e_now e))
     else e_fault e i \<or> e_fault e (i + 2) \<or>
        (\<forall>a \<in> set (d_accounts (w_db w')). ac_id a = acc \<longrightarrow> ac_err a \<noteq> [] \<and> ac_errcode a = providerErrorCode provider))"
proof -
  obtain fine d1 where parts: "collect_parts e i x acc provider regions (w_db w) = (fine, d1)"
    by (cases "collect_parts e i x acc provider regions (w_db w)")
  note [simp] = collect_parts_result [OF assms(1,2) parts]
  consider "\<not> fine" "ok = False" "w' = account_failed e i ws acc provider (with_db w d1)"
    | "ok = False" "w' = with_db w d1" "e_fault e (i + 2)"
    | "fine" "ok = True" "w' = with_db w (account_synced e acc d1)"
    using assms(3) parts by (auto simp: collectAccount_def split: if_splits bool.splits)
  then show ?thesis
  proof cases
    case 1
    have "ac_err a \<noteq> [] \<and> ac_errcode a = providerErrorCode provider"
      if "\<not> e_fault e i" "a \<in> set (d_accounts (w_db w'))" "ac_id a = acc" for a
      using that unfolding 1 by (rule failed_row)
    then show ?thesis by (auto simp: 1)
  next
    case 2
    then show ?thesis by simp
  next
    case 3
    have "ac_err a = [] \<and> ac_sync a = Some (e_now e)" if "a \<in> set (d_accounts (w_db w'))" "ac_id a = acc" for a
      using that unfolding 3 by (rule synced_row)
    then show ?thesis unfolding 3 by (simp add: account_synced_def 3)
  qed
qed

lemma account_outcome_witness:
  "fst (collectAccount good_env 0 region_ext 1 5 ''aws'' [''r1'', ''r3''] (world_of stocked)) = False \<and>
   inventory (w_db (snd (collectAccount good_env 0 region_ext 1 5 ''aws'' [''r1'', ''r3''] (world_of stocked)))) 5 (''r3'', ''z'') =
     inventory stocked 5 (''r3'', ''z'') \<and>
   fst (collectAccount good_env 0 region_ext 1 5 ''aws'' [''r1'', ''r2''] (world_of stocked)) = True"
proof -
  obtain ok w' where r: "collectAccount good_env 0 region_ext 1 5 ''aws'' [''r1'', ''r3''] (world_of stocked) = (ok, w')"
    by (cases "collectAccount good_env 0 region_ext 1 5 ''aws'' [''r1'', ''r3''] (world_of stocked)")
  have none: "cx_region region_ext ''aws'' 5 ''r3'' = None" by (simp add: region_ext_def)
  have "inventory (w_db w') 5 (''r3'', ''z'') = inventory (w_db (world_of stocked)) 5 (''r3'', ''z'')"
    using account_outcome [OF _ _ r] none by simp
  moreover have "fst (collectAccount good_env 0 region_ext 1 5 ''aws'' [''r1'', ''r3''] (world_of stocked)) = False"
    "fst (collectAccount good_env 0 region_ext 1 5 ''aws'' [''r1'', ''r2''] (world_of stocked)) = True" by code_simp+
  ultimately show ?thesis using r by (simp add: world_of_def)
qed

end
