(* ===== verification/Locks.thy ===== *)
theory Locks
  imports Inventory Access
begin

text \<open>
  The collector locks as a protocol of many processes: \<^verbatim>\<open>withAccountCollectorLock\<close> (collector.go) and
  \<^verbatim>\<open>withServiceCollectorLock\<close> (eds_refresh.go) take the key with \<^verbatim>\<open>SET NX\<close> for 120 seconds, renew it
  every 30 seconds while it still holds their token, and remove it when it does.  A process that finds the
  key taken polls; one whose renewal fails stops.
\<close>

section \<open>The service lock\<close>

text \<open>\<^verbatim>\<open>withServiceCollectorLock\<close> up to the collection: whether the lock was taken.  As in
  \<^const>\<open>lock_account\<close>, the fuel is the number of polls until the context's deadline (5 or 10 minutes in
  steps of 250 milliseconds: 2,400 at most).\<close>

fun lock_service ::
    "nat \<Rightarrow> env \<Rightarrow> (nat \<Rightarrow> time) \<Rightarrow> (nat \<Rightarrow> world \<Rightarrow> world) \<Rightarrow> string \<Rightarrow> string \<Rightarrow> nat \<Rightarrow> world \<Rightarrow> bool \<times> world" where
  "lock_service 0 e clock others token key n w = (False, w)"
| "lock_service (Suc f) e clock others token key n w =
     (let w = others n w
      in if e_fault e n then (False, w)
         else case rsetnx (clock n) 120 key (RText token) (w_redis w) of
           (True, red) \<Rightarrow> (True, with_redis w red)
         | (False, red) \<Rightarrow> lock_service f e clock others token key (n + 1) w)"

definition withServiceCollectorLock ::
    "nat \<Rightarrow> env \<Rightarrow> (nat \<Rightarrow> time) \<Rightarrow> (nat \<Rightarrow> world \<Rightarrow> world) \<Rightarrow> string \<Rightarrow> int \<Rightarrow> int \<Rightarrow> string \<Rightarrow>
     (world \<Rightarrow> bool \<times> world) \<Rightarrow> world \<Rightarrow> bool \<times> world" where
  "withServiceCollectorLock fuel e clock others token ws acc service collect w =
     (case lock_service fuel e clock others token (collector_key ws service acc) 0 w of
        (False, w1) \<Rightarrow> (False, w1)
      | (True, w1) \<Rightarrow>
          (case collect w1 of
             (ok, w2) \<Rightarrow> (ok, unlock e (fuel + 1) (clock fuel) (collector_key ws service acc) token w2)))"

lemma lock_service_taken:
  assumes "k < f" and "\<forall>j \<le> n + k. \<not> e_fault e j" and "rget (clock (n + k)) key (w_redis (others (n + k) w)) = None"
    and "\<forall>j w. w_redis (others j w) = w_redis w"
  shows "fst (lock_service f e clock others token key n w)"
  using assms(1-3)
proof (induction f arbitrary: n k w)
  case (Suc f)
  let ?w = "others n w"
  have ok: "\<not> e_fault e n" using Suc.prems(2) by simp
  show ?case
  proof (cases "rget (clock n) key (w_redis ?w)")
    case None
    then show ?thesis using ok by (simp add: Let_def redlock.acquire_eq)
  next
    case (Some v)
    then obtain k' where k: "k = Suc k'" using Suc.prems(3) assms(4) by (cases k) simp_all
    have "fst (lock_service f e clock others token key (n + 1) ?w)"
      by (rule Suc.IH [of k']) (use Suc.prems k assms(4) in simp_all)
    then show ?thesis using ok Some by (simp add: Let_def redlock.acquire_eq)
  qed
qed simp

lemma lock_service_result:
  "lock_service f e clock others token key n w = (True, w') \<Longrightarrow>
     \<exists>m \<ge> n. rget (clock m) key (w_redis w') = Some (RText token) \<and> m < n + f"
proof (induction f arbitrary: n w)
  case (Suc f)
  let ?w = "others n w"
  from Suc.prems have ok: "\<not> e_fault e n" by (auto simp: Let_def split: if_splits)
  show ?case
  proof (cases "rget (clock n) key (w_redis ?w)")
    case None
    then have "w' = with_redis ?w (rset (clock n) 120 key (RText token) (w_redis ?w))"
      using Suc.prems ok by (simp add: Let_def redlock.acquire_eq)
    then show ?thesis by (intro exI [of _ n]) (simp add: kv.get_put)
  next
    case (Some v)
    then have "lock_service f e clock others token key (n + 1) ?w = (True, w')"
      using Suc.prems ok by (simp add: Let_def redlock.acquire_eq)
    from Suc.IH [OF this] show ?thesis by (auto intro: Suc_leD simp: less_Suc_eq_le)
  qed
qed simp



section \<open>The protocol\<close>

text \<open>\<open>Working t\<close>: the lock was last confirmed at time \<open>t\<close>.\<close>

datatype phase = Outside | Polling | Working time

record locks =
  lk_redis :: redis
  lk_now :: time
  lk_phase :: "nat \<Rightarrow> phase"

definition enters :: "locks \<Rightarrow> nat \<Rightarrow> redis \<Rightarrow> phase \<Rightarrow> locks" where
  "enters s n red ph = s\<lparr>lk_redis := red, lk_phase := (lk_phase s)(n := ph)\<rparr>"

inductive lock_step :: "(nat \<Rightarrow> string) \<Rightarrow> string \<Rightarrow> locks \<Rightarrow> locks \<Rightarrow> bool" for tok :: "nat \<Rightarrow> string" and key :: string where
  take_lock: "lk_phase s n = Outside \<or> lk_phase s n = Polling \<Longrightarrow>
     rsetnx (lk_now s) 120 key (RText (tok n)) (lk_redis s) = (True, red) \<Longrightarrow>
     lock_step tok key s (enters s n red (Working (lk_now s)))"
| find_taken: "lk_phase s n = Outside \<or> lk_phase s n = Polling \<Longrightarrow>
     rsetnx (lk_now s) 120 key (RText (tok n)) (lk_redis s) = (False, red) \<Longrightarrow>
     lock_step tok key s (enters s n red Polling)"
| give_up: "lk_phase s n = Polling \<Longrightarrow> lock_step tok key s (enters s n (lk_redis s) Outside)"
| renew_lock: "lk_phase s n = Working t \<Longrightarrow>
     rexpire_if (lk_now s) 120 key (RText (tok n)) (lk_redis s) = (True, red) \<Longrightarrow>
     lock_step tok key s (enters s n red (Working (lk_now s)))"
| lose_lock: "lk_phase s n = Working t \<Longrightarrow>
     rexpire_if (lk_now s) 120 key (RText (tok n)) (lk_redis s) = (False, red) \<Longrightarrow>
     lock_step tok key s (enters s n red Outside)"
| release_lock: "lk_phase s n = Working t \<Longrightarrow>
     lock_step tok key s (enters s n (rdel_if (lk_now s) key (RText (tok n)) (lk_redis s)) Outside)"
| crash: "lock_step tok key s (enters s n (lk_redis s) Outside)"
| pass_time: "0 \<le> dt \<Longrightarrow> lock_step tok key s (s\<lparr>lk_now := lk_now s + dt\<rparr>)"
| other_keys: "red key = lk_redis s key \<Longrightarrow> lock_step tok key s (s\<lparr>lk_redis := red\<rparr>)"

inductive_cases lock_stepE: "lock_step tok key s s'"

text \<open>Nobody works yet.\<close>

definition unlocked :: "locks \<Rightarrow> bool" where
  "unlocked s \<longleftrightarrow> (\<forall>n t. lk_phase s n \<noteq> Working t)"

text \<open>A lock confirmed less than 120 seconds ago is in Redis until then.\<close>

definition lock_inv :: "(nat \<Rightarrow> string) \<Rightarrow> string \<Rightarrow> locks \<Rightarrow> bool" where
  "lock_inv tok key s \<longleftrightarrow>
     (\<forall>n t t'. lk_phase s n = Working t \<longrightarrow> lk_now s \<le> t' \<longrightarrow> t' < t + 120 \<longrightarrow>
        rget t' key (lk_redis s) = Some (RText (tok n)))"

lemma lock_inv_live:
  assumes "lock_inv tok key s" and "lk_phase s n = Working t" and "lk_now s < t + 120"
  shows "rget (lk_now s) key (lk_redis s) = Some (RText (tok n))"
  using assms by (simp add: lock_inv_def)

lemma enters_simps [simp]:
  "lk_redis (enters s n red ph) = red" "lk_now (enters s n red ph) = lk_now s"
  "lk_phase (enters s n red ph) = (lk_phase s)(n := ph)"
  by (simp_all add: enters_def)

lemma lock_inv_leave: "lock_inv tok key s \<Longrightarrow> ph = Outside \<or> ph = Polling \<Longrightarrow> lock_inv tok key (enters s n (lk_redis s) ph)"
  by (auto simp: lock_inv_def split: if_splits)

lemma lock_step_inv:
  assumes "lock_step tok key s s'" and "lock_inv tok key s" and "inj tok"
  shows "lock_inv tok key s'"
  using assms(1)
proof cases
  case (take_lock n red)
  then have free: "rget (lk_now s) key (lk_redis s) = None" and red: "red = rset (lk_now s) 120 key (RText (tok n)) (lk_redis s)"
    by (simp_all add: redlock.acquire_eq split: if_splits)
  have stale: "t + 120 \<le> lk_now s" if "lk_phase s m = Working t" for m t
    using lock_inv_live [OF assms(2) that] free by (cases "lk_now s < t + 120") simp_all
  show ?thesis
    using take_lock(1) by (auto simp: lock_inv_def red kv.get_put split: if_splits dest!: stale)
next
  case (find_taken n red)
  then have "red = lk_redis s" by (simp add: redlock.acquire_eq split: if_splits)
  with find_taken(1) show ?thesis using lock_inv_leave [OF assms(2)] by simp
next
  case (give_up n)
  then show ?thesis using lock_inv_leave [OF assms(2)] by simp
next
  case (renew_lock n t red)
  then have mine: "rget (lk_now s) key (lk_redis s) = Some (RText (tok n))"
    and red: "red = rset (lk_now s) 120 key (RText (tok n)) (lk_redis s)"
    by (simp_all add: redlock.renew_eq split: if_splits)
  have "m = n" if "lk_phase s m = Working t" "lk_now s < t + 120" for m t
    using lock_inv_live [OF assms(2) that] mine assms(3) by (simp add: inj_eq)
  then show ?thesis using renew_lock(1) by (auto simp: lock_inv_def red kv.get_put split: if_splits)
next
  case (lose_lock n t red)
  then have "red = lk_redis s" by (simp add: redlock.renew_eq split: if_splits)
  with lose_lock(1) show ?thesis using lock_inv_leave [OF assms(2)] by simp
next
  case (release_lock n t)
  have "rget t' key (rdel_if (lk_now s) key (RText (tok n)) (lk_redis s)) = Some (RText (tok m))"
    if m: "lk_phase s m = Working tm" "lk_now s \<le> t'" "t' < tm + 120" "m \<noteq> n" for m tm t'
  proof -
    have "rget (lk_now s) key (lk_redis s) = Some (RText (tok m))" using lock_inv_live [OF assms(2) m(1)] m(2,3) by simp
    moreover have "tok m \<noteq> tok n" using m(4) assms(3) by (simp add: inj_eq)
    ultimately have "rget t' key (rdel_if (lk_now s) key (RText (tok n)) (lk_redis s)) = rget t' key (lk_redis s)"
      by (simp add: redlock.release_eq)
    then show ?thesis using assms(2) m by (simp add: lock_inv_def)
  qed
  then show ?thesis using release_lock(1) by (auto simp: lock_inv_def split: if_splits)
next
  case (crash n)
  then show ?thesis using lock_inv_leave [OF assms(2)] by simp
next
  case (pass_time dt)
  then show ?thesis using assms(2) by (auto simp: lock_inv_def)
next
  case (other_keys red)
  then show ?thesis using assms(2) by (auto simp: lock_inv_def rget_def)
qed

text \<open>C19: however many processes take, renew, lose and release the lock of an account, crash and poll, in
  whatever order, two of them never work at the same time under confirmations less than 120 seconds old.\<close>

theorem collectors_exclude:
  assumes "(lock_step tok key)\<^sup>*\<^sup>* s s'" and "unlocked s" and "inj tok"
    and "lk_phase s' n = Working t" and "lk_now s' < t + 120"
    and "lk_phase s' m = Working t'" and "lk_now s' < t' + 120"
  shows "n = m"
proof -
  have "lock_inv tok key s'"
    using assms(1)
  proof (induction rule: rtranclp_induct)
    case base
    show ?case using assms(2) by (simp add: unlocked_def lock_inv_def)
  next
    case (step y z)
    then show ?case using lock_step_inv assms(3) by blast
  qed
  from lock_inv_live [OF this assms(4,5)] lock_inv_live [OF this assms(6,7)] show ?thesis
    using assms(3) by (simp add: inj_eq)
qed

lemma inj_show_nat: "inj show_nat"
  by (rule inj_on_inverseI) (rule read_show_nat)

lemma collectors_exclude_witness:
  "\<exists>s' t. (lock_step (\<lambda>n. show_nat n) ''k'')\<^sup>*\<^sup>* \<lparr>lk_redis = (\<lambda>_. None), lk_now = 0, lk_phase = (\<lambda>_. Outside)\<rparr> s' \<and>
     lk_phase s' 1 = Working t \<and> lk_now s' < t + 120 \<and> lk_phase s' 2 = Polling \<and>
     (\<forall>m t'. lk_phase s' m = Working t' \<and> lk_now s' < t' + 120 \<longrightarrow> m = 1)"
proof -
  let ?tok = "\<lambda>n. show_nat n"
  define s0 where "s0 = \<lparr>lk_redis = (\<lambda>_. None), lk_now = 0, lk_phase = (\<lambda>_. Outside)\<rparr>"
  define red where "red = rset 0 120 ''k'' (RText (?tok 1)) (\<lambda>_. None)"
  define s1 where "s1 = enters s0 1 red (Working 0)"
  define s2 where "s2 = enters s1 2 red Polling"
  have set: "rsetnx 0 120 ''k'' (RText (?tok 1)) (\<lambda>_. None) = (True, red)"
    by (simp add: redlock.acquire_eq red_def rget_def)
  have busy: "rsetnx 0 120 ''k'' (RText (?tok 2)) red = (False, red)"
    by (simp add: redlock.acquire_eq red_def kv.get_put)
  have "lock_step ?tok ''k'' s0 s1"
    using lock_step.take_lock [of s0 1 "''k''" ?tok red] set by (simp add: s0_def s1_def)
  moreover have "lock_step ?tok ''k'' s1 s2"
    using lock_step.find_taken [of s1 2 "''k''" ?tok red] busy by (simp add: s0_def s1_def s2_def)
  ultimately have run: "(lock_step ?tok ''k'')\<^sup>*\<^sup>* s0 s2" by simp
  have ph: "lk_phase s2 1 = Working 0" "lk_now s2 < 0 + 120" "lk_phase s2 2 = Polling"
    by (simp_all add: s0_def s1_def s2_def)
  have none: "unlocked s0" by (simp add: unlocked_def s0_def)
  have "\<forall>m t'. lk_phase s2 m = Working t' \<and> lk_now s2 < t' + 120 \<longrightarrow> m = 1"
    using collectors_exclude [OF run none inj_show_nat _ _ ph(1,2)] by blast
  with run ph show ?thesis unfolding s0_def by auto
qed

end
