(* ===== verification/Refresh.thy ===== *)
theory Refresh
  imports Inventory Auth Policy Patterns
begin

text \<open>
  The background refresh jobs: the inventory of the accounts of a request (\<^verbatim>\<open>refresh_jobs.go\<close>) and
  the Alibaba services of one account (the job half of \<^verbatim>\<open>eds_refresh.go\<close>, \<^verbatim>\<open>oss.go\<close> and
  \<^verbatim>\<open>security_groups.go\<close>).  A job lives in Redis under its own key; the scope key of what it refreshes
  names the job that holds it.  A request either joins the job that holds the scope or claims it
  and starts its own, which ends in a terminal status and gives the scope back.

  A handler that queues returns a third component: the job, with its scope key, that the new
  goroutine runs (\<^const>\<open>None\<close>: nothing is started).
\<close>

section \<open>Keys\<close>

definition refreshJobKey :: "int \<Rightarrow> string \<Rightarrow> string" where
  "refreshJobKey ws jid = ''inventory:job:'' @ show_int ws @ '':'' @ jid"

definition refreshScopeKey :: "int \<Rightarrow> int list \<Rightarrow> string" where
  "refreshScopeKey ws ids =
     ''inventory:scope:'' @ show_int ws @ '':'' @ join_with CHR '','' (map show_int (sort ids))"

definition edsRefreshJobKey :: "int \<Rightarrow> string \<Rightarrow> string" where
  "edsRefreshJobKey ws jid = ''eds:refresh:job:'' @ show_int ws @ '':'' @ jid"

definition edsRefreshScopeKey :: "int \<Rightarrow> int \<Rightarrow> string \<Rightarrow> string \<Rightarrow> string" where
  "edsRefreshScopeKey ws acc service region =
     ''eds:refresh:scope:'' @ show_int ws @ '':'' @ show_int acc @ '':'' @ service @ '':'' @ region"

definition ossRefreshJobKey :: "int \<Rightarrow> string \<Rightarrow> string" where
  "ossRefreshJobKey ws jid = ''oss:refresh:job:'' @ show_int ws @ '':'' @ jid"

definition ossRefreshScopeKey :: "int \<Rightarrow> int \<Rightarrow> string" where
  "ossRefreshScopeKey ws acc = ''oss:refresh:scope:'' @ show_int ws @ '':'' @ show_int acc"

definition securityGroupRefreshJobKey :: "int \<Rightarrow> string \<Rightarrow> string" where
  "securityGroupRefreshJobKey ws jid = ''ecs:security-groups:refresh:job:'' @ show_int ws @ '':'' @ jid"

definition securityGroupRefreshScopeKey :: "int \<Rightarrow> int \<Rightarrow> string" where
  "securityGroupRefreshScopeKey ws acc =
     ''ecs:security-groups:refresh:scope:'' @ show_int ws @ '':'' @ show_int acc"

definition validRefreshJobID :: "env \<Rightarrow> string \<Rightarrow> bool" where
  "validRefreshJobID e value \<longleftrightarrow>
     20 \<le> length value \<and> length value \<le> 100 \<and>
     list_all (\<lambda>r. rune_is e (\<lambda>c. has_prefix ''L'' c) r \<or> rune_is e (\<lambda>c. c = ''Nd'') r \<or>
                   r = Some 45 \<or> r = Some 95) (runes value)"

section \<open>Storing and reading a job\<close>

text \<open>\<^verbatim>\<open>json.Marshal\<close> and \<^verbatim>\<open>SET key raw EX 3600\<close>; \<^verbatim>\<open>GET\<close> and \<^verbatim>\<open>json.Unmarshal\<close>.\<close>

definition store_job :: "env \<Rightarrow> nat \<Rightarrow> time \<Rightarrow> string \<Rightarrow> job \<Rightarrow> world \<Rightarrow> world" where
  "store_job e i now key j w =
     (if e_fault e i then w else with_redis w (rset now 3600 key (RJob (exported_job j)) (w_redis w)))"

definition fetch_job :: "env \<Rightarrow> nat \<Rightarrow> string \<Rightarrow> redis \<Rightarrow> job option" where
  "fetch_job e i key red =
     (if e_fault e i then None
      else case rget (e_now e) key red of Some (RJob j) \<Rightarrow> Some j | _ \<Rightarrow> None)"

definition saveRefreshJob :: "env \<Rightarrow> nat \<Rightarrow> time \<Rightarrow> job \<Rightarrow> world \<Rightarrow> world" where
  "saveRefreshJob e i now j w = store_job e i now (refreshJobKey (jb_ws j) (jb_id j)) j w"

definition loadRefreshJob :: "env \<Rightarrow> nat \<Rightarrow> int \<Rightarrow> string \<Rightarrow> redis \<Rightarrow> job option" where
  "loadRefreshJob e i ws jid red = fetch_job e i (refreshJobKey ws jid) red"

definition saveEDSRefreshJob :: "env \<Rightarrow> nat \<Rightarrow> time \<Rightarrow> job \<Rightarrow> world \<Rightarrow> world" where
  "saveEDSRefreshJob e i now j w = store_job e i now (edsRefreshJobKey (jb_ws j) (jb_id j)) j w"

definition loadEDSRefreshJob :: "env \<Rightarrow> nat \<Rightarrow> int \<Rightarrow> string \<Rightarrow> redis \<Rightarrow> job option" where
  "loadEDSRefreshJob e i ws jid red = fetch_job e i (edsRefreshJobKey ws jid) red"

definition saveOSSRefreshJob :: "env \<Rightarrow> nat \<Rightarrow> time \<Rightarrow> job \<Rightarrow> world \<Rightarrow> world" where
  "saveOSSRefreshJob e i now j w = store_job e i now (ossRefreshJobKey (jb_ws j) (jb_id j)) j w"

definition loadOSSRefreshJob :: "env \<Rightarrow> nat \<Rightarrow> int \<Rightarrow> string \<Rightarrow> redis \<Rightarrow> job option" where
  "loadOSSRefreshJob e i ws jid red = fetch_job e i (ossRefreshJobKey ws jid) red"

definition saveSecurityGroupRefreshJob :: "env \<Rightarrow> nat \<Rightarrow> time \<Rightarrow> job \<Rightarrow> world \<Rightarrow> world" where
  "saveSecurityGroupRefreshJob e i now j w =
     store_job e i now (securityGroupRefreshJobKey (jb_ws j) (jb_id j)) j w"

definition loadSecurityGroupRefreshJob :: "env \<Rightarrow> nat \<Rightarrow> int \<Rightarrow> string \<Rightarrow> redis \<Rightarrow> job option" where
  "loadSecurityGroupRefreshJob e i ws jid red = fetch_job e i (securityGroupRefreshJobKey ws jid) red"

section \<open>A job as JSON\<close>

definition opt_time :: "string \<Rightarrow> time option \<Rightarrow> (string \<times> json) list" where
  "opt_time key t = (case t of None \<Rightarrow> [] | Some x \<Rightarrow> [(key, JInt x)])"

definition run_fields :: "job \<Rightarrow> (string \<times> json) list" where
  "run_fields j =
     opt_time ''started_at'' (jb_started j) @ opt_time ''completed_at'' (jb_completed j) @
     (if jb_duration j = 0 then [] else [(''duration_ms'', JInt (jb_duration j))])"

definition error_field :: "job \<Rightarrow> (string \<times> json) list" where
  "error_field j = (if jb_error j = [] then [] else [(''error'', JStr (jb_error j))])"

definition failure_json :: "int \<times> string \<times> string \<Rightarrow> json" where
  "failure_json f =
     (case f of (i, msg, code) \<Rightarrow> JObj [(''id'', JInt i), (''message'', JStr msg), (''code'', JStr code)])"

definition inventory_job_json :: "job \<Rightarrow> json" where
  "inventory_job_json j = JObj (
     [(''id'', JStr (jb_id j)), (''account_ids'', JList (map JInt (jb_accounts j))),
      (''status'', JStr (jb_status j)), (''created_at'', JInt (jb_created j))] @ run_fields j @
     [(''failed_accounts'', case jb_failed j of None \<Rightarrow> JNull | Some fs \<Rightarrow> JList (map failure_json fs))] @
     error_field j)"

definition job_account :: "job \<Rightarrow> int" where
  "job_account j = (case jb_accounts j of [] \<Rightarrow> 0 | a # _ \<Rightarrow> a)"

definition eds_job_json :: "job \<Rightarrow> json" where
  "eds_job_json j = JObj (
     [(''id'', JStr (jb_id j)), (''account_id'', JInt (job_account j)), (''service'', JStr (jb_service j)),
      (''region'', JStr (jb_region j)), (''status'', JStr (jb_status j)), (''created_at'', JInt (jb_created j))] @
     run_fields j @ error_field j)"

definition service_job_json :: "job \<Rightarrow> json" where
  "service_job_json j = JObj (
     [(''id'', JStr (jb_id j)), (''account_id'', JInt (job_account j)), (''status'', JStr (jb_status j)),
      (''created_at'', JInt (jb_created j))] @ run_fields j @ error_field j)"

section \<open>Inventory\<close>

definition failedRefreshAccounts :: "env \<Rightarrow> nat \<Rightarrow> db \<Rightarrow> int \<Rightarrow> int list \<Rightarrow> (int \<times> string \<times> string) list option" where
  "failedRefreshAccounts e i d ws ids =
     (if e_fault e i then None
      else Some (map (\<lambda>a. (ac_id a, ac_err a, ac_errcode a))
        (sort_key ac_id (filter (\<lambda>a. ac_ws a = ws \<and> ac_id a \<in> set ids \<and> ac_err a \<noteq> []) (d_accounts d)))))"

definition new_job :: "env \<Rightarrow> user \<Rightarrow> int list \<Rightarrow> job" where
  "new_job e u ids =
     \<lparr>jb_id = e_token e 0, jb_ws = u_ws u, jb_by = u_id u, jb_byname = u_name u, jb_accounts = ids,
      jb_service = [], jb_region = [], jb_status = ''queued'', jb_created = e_now e, jb_started = None,
      jb_completed = None, jb_duration = 0, jb_failed = Some [], jb_error = []\<rparr>"

text \<open>Go's zero \<^verbatim>\<open>time.Time\<close>, January 1 of year 1, in Unix seconds.\<close>

definition zero_time :: time where
  "zero_time = - 62135596800"

definition active :: "job \<Rightarrow> bool" where
  "active j \<longleftrightarrow> jb_status j = ''queued'' \<or> jb_status j = ''running''"

text \<open>Who holds a scope (\<^verbatim>\<open>GET\<close>).  Scope keys only ever hold job ids.\<close>

definition scope_holder :: "env \<Rightarrow> nat \<Rightarrow> string \<Rightarrow> redis \<Rightarrow> string option" where
  "scope_holder e i scope red =
     (if e_fault e i then None
      else case rget (e_now e) scope red of Some (RText jid) \<Rightarrow> Some jid | _ \<Rightarrow> None)"

definition claim_scope :: "env \<Rightarrow> nat \<Rightarrow> string \<Rightarrow> string \<Rightarrow> job \<Rightarrow> redis \<Rightarrow> (string \<times> redis) option" where
  "claim_scope e i scope key j red =
     (if e_fault e i then None
      else case rclaim (e_now e) scope key (jb_id j) (RJob (exported_job j)) red of
             (RText cid, red') \<Rightarrow> Some (cid, red')
           | _ \<Rightarrow> None)"

text \<open>The second half of \<^verbatim>\<open>refreshInventory\<close>: claim the scope or join the job that has.\<close>

definition claim_inventory ::
    "env \<Rightarrow> user \<Rightarrow> int list \<Rightarrow> string \<Rightarrow> world \<Rightarrow> resp \<times> world \<times> (job \<times> string) option" where
  "claim_inventory e u ids scope w =
     (let j = new_job e u ids
      in case claim_scope e 5 scope (refreshJobKey (u_ws u) (jb_id j)) j (w_redis w) of
           None \<Rightarrow> (problem 503 ''Could not queue live refresh'', w, None)
         | Some (cid, red) \<Rightarrow>
             if cid \<noteq> jb_id j
             then (case loadRefreshJob e 6 (u_ws u) cid red of
                     None \<Rightarrow> (problem 409 ''A live refresh is already being queued'', with_redis w red, None)
                   | Some other \<Rightarrow> (reply 202 (inventory_job_json other), with_redis w red, None))
             else (reply 202 (inventory_job_json j),
                   audit e 7 u (with_redis w red) ''inventory.refresh_queued'' (jb_id j)
                     (JObj [(''account_ids'', JList (map JInt ids))]),
                   Some (j, scope)))"

definition refreshInventory :: "env \<Rightarrow> user \<Rightarrow> request \<Rightarrow> world \<Rightarrow> resp \<times> world \<times> (job \<times> string) option" where
  "refreshInventory e u r w =
     (case accessibleAccountIDs e 0 (w_db w) u ''account.view'' of
        None \<Rightarrow> (dbError DbFailed, w, None)
      | Some allowed \<Rightarrow>
          (case requestedAccountIDs e 1 (w_db w) u r allowed of
             Inl p \<Rightarrow> (p, w, None)
           | Inr ids \<Rightarrow>
               if ids = []
               then (reply 200 (inventory_job_json ((new_job e u [])\<lparr>jb_id := [], jb_status := ''current'', jb_created := zero_time\<rparr>)), w, None)
               else let scope = refreshScopeKey (u_ws u) ids
               in case scope_holder e 2 scope (w_redis w) of
                    None \<Rightarrow> claim_inventory e u ids scope w
                  | Some jid \<Rightarrow>
                      let freed = (if e_fault e 4 then w
                                   else with_redis w (rdel_if (e_now e) scope (RText jid) (w_redis w)))
                      in case loadRefreshJob e 3 (u_ws u) jid (w_redis w) of
                           Some old \<Rightarrow> if active old then (reply 202 (inventory_job_json old), w, None)
                                       else claim_inventory e u ids scope freed
                         | None \<Rightarrow> claim_inventory e u ids scope freed))"

text \<open>The goroutine.  It starts at \<open>started\<close> and ends at \<open>e_now e\<close>; \<open>run\<close> is \<^verbatim>\<open>refreshRunner\<close>, with the
  text of its error.\<close>

definition run_started :: "time \<Rightarrow> job \<Rightarrow> job" where
  "run_started started j = j\<lparr>jb_status := ''running'', jb_started := Some started\<rparr>"

definition run_ended :: "time \<Rightarrow> time \<Rightarrow> job \<Rightarrow> job" where
  "run_ended started ended j = j\<lparr>jb_completed := Some ended, jb_duration := 1000 * (ended - started)\<rparr>"

definition inventory_outcome :: "string option \<Rightarrow> (int \<times> string \<times> string) list option \<Rightarrow> job \<Rightarrow> job" where
  "inventory_outcome err failed j =
     (case err of
        Some msg \<Rightarrow> j\<lparr>jb_status := ''failed'', jb_error := msg\<rparr>
      | None \<Rightarrow>
          (case failed of
             None \<Rightarrow> j\<lparr>jb_failed := None, jb_status := ''failed'', jb_error := ''Could not read refresh results''\<rparr>
           | Some [] \<Rightarrow> j\<lparr>jb_failed := Some [], jb_status := ''completed''\<rparr>
           | Some fs \<Rightarrow> j\<lparr>jb_failed := Some fs, jb_status := ''partial''\<rparr>))"

definition free_scope :: "env \<Rightarrow> nat \<Rightarrow> string \<Rightarrow> job \<Rightarrow> world \<Rightarrow> world" where
  "free_scope e i scope j w =
     (if e_fault e i then w else with_redis w (rdel_if (e_now e) scope (RText (jb_id j)) (w_redis w)))"

definition runInventoryRefresh ::
    "env \<Rightarrow> time \<Rightarrow> (world \<Rightarrow> string option \<times> world) \<Rightarrow> job \<Rightarrow> string \<Rightarrow> world \<Rightarrow> world" where
  "runInventoryRefresh e started run j scope w =
     (let j1 = run_started started j
      in case run (saveRefreshJob e 0 started j1 w) of
           (err, w2) \<Rightarrow>
             let j3 = inventory_outcome err (failedRefreshAccounts e 1 (w_db w2) (jb_ws j) (jb_accounts j))
                        (run_ended started (e_now e) j1);
                 w4 = free_scope e 3 scope j3 (saveRefreshJob e 2 (e_now e) j3 w2)
             in snd (rcd e 4 w4 (jb_ws j) (jb_by j) (jb_byname j) ''inventory.refresh_completed'' (jb_id j)
                  (JObj [(''status'', JStr (jb_status j3)), (''duration_ms'', JInt (jb_duration j3)),
                         (''account_ids'', JList (map JInt (jb_accounts j)))])))"

text \<open>The runner of the application: \<^verbatim>\<open>collectAccounts\<close> for the job's accounts.\<close>

definition inventory_runner ::
    "env \<Rightarrow> (account_row \<Rightarrow> world \<Rightarrow> bool \<times> world) \<Rightarrow> string \<Rightarrow> int \<Rightarrow> int list \<Rightarrow> world \<Rightarrow> string option \<times> world" where
  "inventory_runner e collect msg ws ids w =
     (case collectAccounts e collect ws (Some ids) w of (ok, w') \<Rightarrow> (if ok then None else Some msg, w'))"

definition inventoryRefreshStatus :: "env \<Rightarrow> user \<Rightarrow> request \<Rightarrow> world \<Rightarrow> resp" where
  "inventoryRefreshStatus e u r w =
     (let jid = rq_path r ''jobID''
      in if \<not> validRefreshJobID e jid then problem 400 ''Invalid refresh job ID''
         else case loadRefreshJob e 0 (u_ws u) jid (w_redis w) of
           None \<Rightarrow> problem 404 ''Refresh job not found''
         | Some j \<Rightarrow>
             (case accessibleAccountIDs e 1 (w_db w) u ''account.view'' of
                None \<Rightarrow> dbError DbFailed
              | Some allowed \<Rightarrow>
                  if list_all (\<lambda>i. i \<in> set allowed) (jb_accounts j) then reply 200 (inventory_job_json j)
                  else problem 403 ''Cloud account access required''))"

section \<open>The account of a service request\<close>

definition alibaba_provider :: "env \<Rightarrow> nat \<Rightarrow> db \<Rightarrow> user \<Rightarrow> int \<Rightarrow> resp + unit" where
  "alibaba_provider e i d u acc =
     (if e_fault e i then Inl (dbError DbFailed)
      else case account_in_ws d (u_ws u) acc of
        None \<Rightarrow> Inl (dbError NoRows)
      | Some a \<Rightarrow>
          if ac_provider a \<noteq> ''alibaba''
          then Inl (problem 400 ''The selected account is not an Alibaba Cloud connection'')
          else Inr ())"

definition edsSnapshotAccount :: "env \<Rightarrow> db \<Rightarrow> user \<Rightarrow> request \<Rightarrow> bool \<Rightarrow> bool \<Rightarrow> resp + int \<times> string" where
  "edsSnapshotAccount e d u r allowAll requireRegion =
     (case pathID r ''id'' of
        Inl p \<Rightarrow> Inl p
      | Inr acc \<Rightarrow>
          if \<not> accountAccess e 0 d u acc ''view'' then Inl (problem 403 ''Cloud account access required'')
          else let region = trim_space (rq_query r ''region'')
          in if requireRegion \<and> (region = [] \<or> region = ''all'' \<and> \<not> allowAll \<or>
                  region \<noteq> ''all'' \<and> \<not> regionPattern region)
             then Inl (problem 400 ''A valid Alibaba Cloud region is required'')
             else (case alibaba_provider e 1 d u acc of Inl p \<Rightarrow> Inl p | Inr _ \<Rightarrow> Inr (acc, region)))"

definition ossAccount :: "env \<Rightarrow> db \<Rightarrow> user \<Rightarrow> request \<Rightarrow> string \<Rightarrow> resp + int" where
  "ossAccount e d u r mode =
     (case pathID r ''id'' of
        Inl p \<Rightarrow> Inl p
      | Inr acc \<Rightarrow>
          if \<not> accountAccess e 0 d u acc mode then Inl (problem 403 ''Cloud account access required'')
          else (case alibaba_provider e 1 d u acc of Inl p \<Rightarrow> Inl p | Inr _ \<Rightarrow> Inr acc))"

definition securityGroupAccount :: "env \<Rightarrow> db \<Rightarrow> user \<Rightarrow> request \<Rightarrow> string \<Rightarrow> resp + int" where
  "securityGroupAccount e d u r mode =
     (case pathID r ''id'' of
        Inl p \<Rightarrow> Inl p
      | Inr acc \<Rightarrow>
          if \<not> accountAccess e 0 d u acc mode then Inl (problem 403 ''Cloud account access required'')
          else (case alibaba_provider e 1 d u acc of Inl p \<Rightarrow> Inl p | Inr _ \<Rightarrow> Inr acc))"

section \<open>Queuing a service refresh\<close>

text \<open>The part the three service handlers have in common, word for word but for the keys, the form of
  the reply, the texts and the audit entry.\<close>

record service =
  sv_job_key :: "int \<Rightarrow> string \<Rightarrow> string"
  sv_json :: "job \<Rightarrow> json"
  sv_cannot :: string
  sv_queueing :: string
  sv_queued :: string
  sv_completed :: string
  sv_details :: "job \<Rightarrow> (string \<times> json) list"
  sv_failed :: string

definition queue_service ::
    "env \<Rightarrow> service \<Rightarrow> user \<Rightarrow> job \<Rightarrow> string \<Rightarrow> world \<Rightarrow> resp \<times> world \<times> (job \<times> string) option" where
  "queue_service e s u j scope w =
     (case (case scope_holder e 2 scope (w_redis w) of
              None \<Rightarrow> None
            | Some jid \<Rightarrow>
                (case fetch_job e 3 (sv_job_key s (u_ws u) jid) (w_redis w) of
                   None \<Rightarrow> None
                 | Some old \<Rightarrow> if active old then Some old else None)) of
        Some old \<Rightarrow> (reply 202 (sv_json s old), w, None)
      | None \<Rightarrow>
          (case claim_scope e 4 scope (sv_job_key s (u_ws u) (jb_id j)) j (w_redis w) of
             None \<Rightarrow> (problem 503 (sv_cannot s), w, None)
           | Some (cid, red) \<Rightarrow>
               if cid \<noteq> jb_id j
               then (case fetch_job e 5 (sv_job_key s (u_ws u) cid) red of
                       None \<Rightarrow> (problem 409 (sv_queueing s), with_redis w red, None)
                     | Some other \<Rightarrow> (reply 202 (sv_json s other), with_redis w red, None))
               else (reply 202 (sv_json s j),
                     audit e 6 u (with_redis w red) (sv_queued s) (jb_id j) (JObj (sv_details s j)),
                     Some (j, scope))))"

definition service_outcome :: "string option \<Rightarrow> job \<Rightarrow> job" where
  "service_outcome err j =
     (case err of Some msg \<Rightarrow> j\<lparr>jb_status := ''failed'', jb_error := msg\<rparr>
      | None \<Rightarrow> j\<lparr>jb_status := ''completed''\<rparr>)"

definition run_service ::
    "env \<Rightarrow> service \<Rightarrow> time \<Rightarrow> (world \<Rightarrow> string option \<times> world) \<Rightarrow> job \<Rightarrow> string \<Rightarrow> world \<Rightarrow> world" where
  "run_service e s started run j scope w =
     (let key = sv_job_key s (jb_ws j) (jb_id j); j1 = run_started started j
      in case run (store_job e 0 started key j1 w) of
           (err, w2) \<Rightarrow>
             let j3 = service_outcome err (run_ended started (e_now e) j1);
                 w4 = free_scope e 2 scope j3 (store_job e 1 (e_now e) key j3 w2)
             in snd (rcd e 3 w4 (jb_ws j) (jb_by j) (jb_byname j) (sv_completed s) (jb_id j)
                  (JObj ([(''status'', JStr (jb_status j3)), (''duration_ms'', JInt (jb_duration j3))] @
                         sv_details s j))))"

definition account_detail :: "job \<Rightarrow> (string \<times> json) list" where
  "account_detail j = [(''account_id'', JInt (job_account j))]"

definition eds_service :: service where
  "eds_service = \<lparr>sv_job_key = edsRefreshJobKey, sv_json = eds_job_json,
     sv_cannot = ''Could not queue EDS refresh'', sv_queueing = ''An EDS refresh is already being queued'',
     sv_queued = ''eds.refresh_queued'', sv_completed = ''eds.refresh_completed'',
     sv_details = (\<lambda>j. account_detail j @ [(''service'', JStr (jb_service j)), (''region'', JStr (jb_region j))]),
     sv_failed = []\<rparr>"

definition oss_service :: service where
  "oss_service = \<lparr>sv_job_key = ossRefreshJobKey, sv_json = service_job_json,
     sv_cannot = ''Could not queue OSS refresh'', sv_queueing = ''An OSS refresh is already being queued'',
     sv_queued = ''oss.refresh_queued'', sv_completed = ''oss.refresh_completed'', sv_details = account_detail,
     sv_failed = ''Alibaba OSS refresh failed; check RAM permissions and account access''\<rparr>"

definition security_group_service :: service where
  "security_group_service = \<lparr>sv_job_key = securityGroupRefreshJobKey, sv_json = service_job_json,
     sv_cannot = ''Could not queue security group refresh'',
     sv_queueing = ''A security group refresh is already being queued'',
     sv_queued = ''ecs.security_groups.refresh_queued'',
     sv_completed = ''ecs.security_groups.refresh_completed'', sv_details = account_detail,
     sv_failed = ''Alibaba ECS security group refresh failed; check RAM permissions and selected regions''\<rparr>"

section \<open>Elastic desktops\<close>

definition refreshEDS :: "env \<Rightarrow> user \<Rightarrow> request \<Rightarrow> world \<Rightarrow> resp \<times> world \<times> (job \<times> string) option" where
  "refreshEDS e u r w =
     (case edsSnapshotAccount e (w_db w) u r True True of
        Inl p \<Rightarrow> (p, w, None)
      | Inr (acc, region) \<Rightarrow>
          let service = trim_space (rq_query r ''service'')
          in if service \<noteq> ''desktops'' \<and> service \<noteq> ''users''
             then (problem 400 ''EDS refresh service must be desktops or users'', w, None)
             else if service = ''users'' \<and> region = ''all''
             then (problem 400 ''EDS users require a directory region'', w, None)
             else queue_service e eds_service u
               ((new_job e u [acc])\<lparr>jb_service := service, jb_region := region\<rparr>)
               (edsRefreshScopeKey (u_ws u) acc service region) w)"

text \<open>\<open>run\<close> is \<^verbatim>\<open>edsRefreshRunner\<close> with the text of its error.\<close>

definition runEDSRefresh ::
    "env \<Rightarrow> time \<Rightarrow> (world \<Rightarrow> string option \<times> world) \<Rightarrow> job \<Rightarrow> string \<Rightarrow> world \<Rightarrow> world" where
  "runEDSRefresh e started run j scope w = run_service e eds_service started run j scope w"

text \<open>The three status handlers share everything after the account check.\<close>

definition service_status :: "env \<Rightarrow> service \<Rightarrow> user \<Rightarrow> request \<Rightarrow> int \<Rightarrow> world \<Rightarrow> resp" where
  "service_status e s u r acc w =
     (let jid = rq_path r ''jobID''
      in if \<not> validRefreshJobID e jid then problem 400 ''Invalid refresh job ID''
         else case fetch_job e 2 (sv_job_key s (u_ws u) jid) (w_redis w) of
           None \<Rightarrow> problem 404 ''Refresh job not found''
         | Some j \<Rightarrow> if job_account j \<noteq> acc then problem 404 ''Refresh job not found''
                     else reply 200 (sv_json s j))"

definition edsRefreshStatus :: "env \<Rightarrow> user \<Rightarrow> request \<Rightarrow> world \<Rightarrow> resp" where
  "edsRefreshStatus e u r w =
     (case edsSnapshotAccount e (w_db w) u r False False of
        Inl p \<Rightarrow> p
      | Inr (acc, _) \<Rightarrow> service_status e eds_service u r acc w)"

section \<open>Object storage\<close>

definition refreshOSS :: "env \<Rightarrow> user \<Rightarrow> request \<Rightarrow> world \<Rightarrow> resp \<times> world \<times> (job \<times> string) option" where
  "refreshOSS e u r w =
     (case ossAccount e (w_db w) u r ''view'' of
        Inl p \<Rightarrow> (p, w, None)
      | Inr acc \<Rightarrow> queue_service e oss_service u (new_job e u [acc]) (ossRefreshScopeKey (u_ws u) acc) w)"

text \<open>\<open>run\<close> is the collection under its lock; whatever its error, the job shows a fixed text.\<close>

definition fixed_error :: "string \<Rightarrow> (world \<Rightarrow> bool \<times> world) \<Rightarrow> world \<Rightarrow> string option \<times> world" where
  "fixed_error msg run w = (case run w of (ok, w') \<Rightarrow> (if ok then None else Some msg, w'))"

definition runOSSRefresh :: "env \<Rightarrow> time \<Rightarrow> (world \<Rightarrow> bool \<times> world) \<Rightarrow> job \<Rightarrow> string \<Rightarrow> world \<Rightarrow> world" where
  "runOSSRefresh e started run j scope w =
     run_service e oss_service started (fixed_error (sv_failed oss_service) run) j scope w"

definition ossRefreshStatus :: "env \<Rightarrow> user \<Rightarrow> request \<Rightarrow> world \<Rightarrow> resp" where
  "ossRefreshStatus e u r w =
     (case ossAccount e (w_db w) u r ''view'' of
        Inl p \<Rightarrow> p
      | Inr acc \<Rightarrow> service_status e oss_service u r acc w)"

section \<open>Security groups\<close>

definition refreshSecurityGroups :: "env \<Rightarrow> user \<Rightarrow> request \<Rightarrow> world \<Rightarrow> resp \<times> world \<times> (job \<times> string) option" where
  "refreshSecurityGroups e u r w =
     (case securityGroupAccount e (w_db w) u r ''view'' of
        Inl p \<Rightarrow> (p, w, None)
      | Inr acc \<Rightarrow> queue_service e security_group_service u (new_job e u [acc])
                     (securityGroupRefreshScopeKey (u_ws u) acc) w)"

definition runSecurityGroupRefresh ::
    "env \<Rightarrow> time \<Rightarrow> (world \<Rightarrow> bool \<times> world) \<Rightarrow> job \<Rightarrow> string \<Rightarrow> world \<Rightarrow> world" where
  "runSecurityGroupRefresh e started run j scope w =
     run_service e security_group_service started (fixed_error (sv_failed security_group_service) run) j scope w"

definition securityGroupRefreshStatus :: "env \<Rightarrow> user \<Rightarrow> request \<Rightarrow> world \<Rightarrow> resp" where
  "securityGroupRefreshStatus e u r w =
     (case securityGroupAccount e (w_db w) u r ''view'' of
        Inl p \<Rightarrow> p
      | Inr acc \<Rightarrow> service_status e security_group_service u r acc w)"

end
