(* ===== verification/RefreshProps.thy ===== *)
theory RefreshProps
  imports Refresh AuthProps "HOL-Library.Multiset"
begin

text \<open>
  The refresh jobs: the job keys of a service are an injective image of workspace and id (the locale
  \<open>job_keys\<close>, interpreted for the four services), a job reads back as it was saved, a request joins
  the active job of its scope, a job that ran shows a terminal status and has given its scope back,
  and the one place where the services differ: a stale scope.
\<close>

section \<open>Keys\<close>

locale job_keys = kv_store get put del
  for get :: "time \<Rightarrow> 'k \<Rightarrow> 'r \<Rightarrow> 'v option"
    and put :: "time \<Rightarrow> time \<Rightarrow> 'k \<Rightarrow> 'v \<Rightarrow> 'r \<Rightarrow> 'r"
    and del :: "'k \<Rightarrow> 'r \<Rightarrow> 'r" +
  fixes key :: "'ws \<Rightarrow> 'i \<Rightarrow> 'k"
    and scope :: "'k \<Rightarrow> bool"
  assumes key_eq: "key ws i = key ws' i' \<longleftrightarrow> ws = ws' \<and> i = i'"
    and key_no_scope: "\<not> scope (key ws i)"
begin

lemma saved_job: "t < now + ttl \<Longrightarrow> get t (key ws i) (put now ttl (key ws i) v r) = Some v"
  by (simp add: get_put)

lemma other_workspace: "ws \<noteq> ws' \<Longrightarrow> get t (key ws i) (put now ttl (key ws' i') v r) = get t (key ws i) r"
  by (simp add: get_put key_eq)

lemma scope_untouched: "scope k \<Longrightarrow> get t k (put now ttl (key ws i) v r) = get t k r"
  using key_no_scope [of ws i] by (auto simp: get_put)

lemma job_untouched: "scope k \<Longrightarrow> get t (key ws i) (put now ttl k v r) = get t (key ws i) r"
  using key_no_scope [of ws i] by (auto simp: get_put)

lemma job_undeleted: "scope k \<Longrightarrow> get t (key ws i) (del k r) = get t (key ws i) r"
  using key_no_scope [of ws i] by (auto simp: get_del)

end

lemma numbered_key: "show_int i @ CHR '':'' # a = show_int j @ CHR '':'' # b \<longleftrightarrow> i = j \<and> a = b"
proof
  have no: "CHR '':'' \<notin> set (show_int k)" for k using show_int_chars [of "CHR '':''" k] by auto
  assume "show_int i @ CHR '':'' # a = show_int j @ CHR '':'' # b"
  from cut_eq [OF no no this] show "i = j \<and> a = b" using show_int_inj by blast
qed simp

definition scope_key :: "string \<Rightarrow> bool" where
  "scope_key k \<longleftrightarrow> has_prefix ''inventory:scope:'' k \<or> has_prefix ''eds:refresh:scope:'' k \<or>
     has_prefix ''oss:refresh:scope:'' k \<or> has_prefix ''ecs:security-groups:refresh:scope:'' k"

interpretation inventory_jobs: job_keys rget rset rdel refreshJobKey scope_key
  by unfold_locales (simp_all add: refreshJobKey_def numbered_key scope_key_def)

interpretation eds_jobs: job_keys rget rset rdel edsRefreshJobKey scope_key
  by unfold_locales (simp_all add: edsRefreshJobKey_def numbered_key scope_key_def)

interpretation oss_jobs: job_keys rget rset rdel ossRefreshJobKey scope_key
  by unfold_locales (simp_all add: ossRefreshJobKey_def numbered_key scope_key_def)

interpretation sg_jobs: job_keys rget rset rdel securityGroupRefreshJobKey scope_key
  by unfold_locales (simp_all add: securityGroupRefreshJobKey_def numbered_key scope_key_def)

lemma scope_keys [simp]:
  "scope_key (refreshScopeKey ws ids)" "scope_key (edsRefreshScopeKey ws acc s r)"
  "scope_key (ossRefreshScopeKey ws acc)" "scope_key (securityGroupRefreshScopeKey ws acc)"
  by (simp_all add: scope_key_def refreshScopeKey_def edsRefreshScopeKey_def ossRefreshScopeKey_def
      securityGroupRefreshScopeKey_def)

lemma scope_any_order:
  assumes "mset ids = mset ids'"
  shows "refreshScopeKey ws ids = refreshScopeKey ws ids'"
proof -
  have "sort ids = sort ids'" by (rule properties_for_sort) (simp_all add: assms)
  then show ?thesis by (simp only: refreshScopeKey_def)
qed

section \<open>Storing and reading\<close>

lemma fetch_stored:
  assumes "\<not> e_fault e i" and "\<not> e_fault e' i'" and "e_now e' < now + 3600"
  shows "fetch_job e' i' key (w_redis (store_job e i now key j w)) = Some (exported_job j)"
  using assms by (simp add: fetch_job_def store_job_def kv.get_put)

lemma exported_fields [simp]:
  "jb_id (exported_job j) = jb_id j" "jb_accounts (exported_job j) = jb_accounts j"
  "jb_status (exported_job j) = jb_status j" "active (exported_job j) = active j"
  "job_account (exported_job j) = job_account j"
  by (simp_all add: exported_job_def active_def job_account_def)

lemma rcd_redis [simp]: "w_redis (snd (rcd e i w ws uid n a t j)) = w_redis w"
  unfolding rcd_def by simp

lemma free_scope_other:
  assumes "k \<noteq> scope"
  shows "rget t k (w_redis (free_scope e i scope j w)) = rget t k (w_redis w)"
  using assms by (simp add: free_scope_def redlock.lease_frame)

lemma scope_freed:
  assumes "\<not> e_fault e i" and "e_now e \<le> t"
  shows "rget t scope (w_redis (free_scope e i scope j w)) \<noteq> Some (RText (jb_id j))"
proof
  assume "rget t scope (w_redis (free_scope e i scope j w)) = Some (RText (jb_id j))"
  then have "rget (e_now e) scope (w_redis w) = Some (RText (jb_id j)) \<Longrightarrow> False"
    and "rget t scope (w_redis w) = Some (RText (jb_id j)) \<or> rget (e_now e) scope (w_redis w) = Some (RText (jb_id j))"
    using assms(1) by (auto simp: free_scope_def redlock.release_eq kv.get_del split: if_splits)
  then show False using kv.get_anti [OF assms(2)] by blast
qed

lemma refreshInventory_started:
  assumes "refreshInventory e u r w = (rp, w1, Some (j, scope))"
  shows "\<exists>ids. j = new_job e u ids \<and> scope = refreshScopeKey (u_ws u) ids \<and> rp = reply 202 (inventory_job_json j) \<and>
    (\<exists>red. claim_scope e 5 scope (refreshJobKey (u_ws u) (jb_id j)) j red = Some (jb_id j, w_redis w1))"
proof -
  have claim: "j = new_job e u ids \<and> scope = sc \<and> rp = reply 202 (inventory_job_json j) \<and>
      (\<exists>red. claim_scope e 5 scope (refreshJobKey (u_ws u) (jb_id j)) j red = Some (jb_id j, w_redis w1))"
    if "claim_inventory e u ids sc w' = (rp, w1, Some (j, scope))" for ids sc w'
    using that by (auto simp: claim_inventory_def Let_def split: option.splits if_splits prod.splits)
  from assms obtain ids w' where "claim_inventory e u ids (refreshScopeKey (u_ws u) ids) w' = (rp, w1, Some (j, scope))"
    unfolding refreshInventory_def Let_def by (auto split: option.splits sum.splits if_splits)
  from claim [OF this] show ?thesis by blast
qed

section \<open>A job that ran\<close>

lemma inventory_outcome_facts:
  "jb_id (inventory_outcome err failed j) = jb_id j" "jb_ws (inventory_outcome err failed j) = jb_ws j"
  "jb_accounts (inventory_outcome err failed j) = jb_accounts j"
  "jb_status (inventory_outcome err failed j) \<in> {''failed'', ''partial'', ''completed''}"
  "jb_status (inventory_outcome err failed j) = ''completed'' \<longleftrightarrow> err = None \<and> failed = Some []"
  by (auto simp: inventory_outcome_def split: option.splits list.splits)

lemma run_fields_simps [simp]:
  "jb_id (run_started t j) = jb_id j" "jb_ws (run_started t j) = jb_ws j" "jb_accounts (run_started t j) = jb_accounts j"
  "jb_id (run_ended t t' j) = jb_id j" "jb_ws (run_ended t t' j) = jb_ws j" "jb_accounts (run_ended t t' j) = jb_accounts j"
  by (simp_all add: run_started_def run_ended_def)

lemma inventory_job_exported [simp]: "inventory_job_json (exported_job j) = inventory_job_json j"
  by (simp add: inventory_job_json_def run_fields_def error_field_def exported_job_def)

text \<open>The world the runner of a job starts in, and the job it leaves.\<close>

definition ran_job :: "env \<Rightarrow> time \<Rightarrow> (world \<Rightarrow> string option \<times> world) \<Rightarrow> job \<Rightarrow> world \<Rightarrow> job" where
  "ran_job e started run j w =
     (case run (saveRefreshJob e 0 started (run_started started j) w) of
        (err, w2) \<Rightarrow> inventory_outcome err (failedRefreshAccounts e 1 (w_db w2) (jb_ws j) (jb_accounts j))
                       (run_ended started (e_now e) (run_started started j)))"

lemma ran_job_facts:
  "jb_id (ran_job e started run j w) = jb_id j" "jb_ws (ran_job e started run j w) = jb_ws j"
  "jb_accounts (ran_job e started run j w) = jb_accounts j"
  by (simp_all add: ran_job_def split_beta inventory_outcome_facts)

lemma run_redis:
  "w_redis (runInventoryRefresh e started run j scope w) =
     w_redis (free_scope e 3 scope (ran_job e started run j w)
       (saveRefreshJob e 2 (e_now e) (ran_job e started run j w)
         (snd (run (saveRefreshJob e 0 started (run_started started j) w)))))"
  by (simp add: runInventoryRefresh_def ran_job_def Let_def split_beta)

lemma run_leaves_job:
  assumes "scope_key scope" and "\<not> e_fault e 2" and "\<not> e_fault e 3" and "\<not> e_fault e' i" and "e_now e' < e_now e + 3600"
  shows "loadRefreshJob e' i (jb_ws j) (jb_id j) (w_redis (runInventoryRefresh e started run j scope w)) =
      Some (exported_job (ran_job e started run j w))"
proof -
  have "refreshJobKey (jb_ws j) (jb_id j) \<noteq> scope" using inventory_jobs.key_no_scope assms(1) by metis
  then show ?thesis
    using assms fetch_stored [OF assms(2,4,5)]
    by (simp add: loadRefreshJob_def run_redis fetch_job_def free_scope_other saveRefreshJob_def ran_job_facts)
qed

lemma run_frees_scope:
  assumes "\<not> e_fault e 3" and "e_now e \<le> t"
  shows "rget t scope (w_redis (runInventoryRefresh e started run j scope w)) \<noteq> Some (RText (jb_id j))"
  using scope_freed [OF assms, of scope "ran_job e started run j w"] by (simp add: run_redis ran_job_facts)

text \<open>C21: a refresh that was queued comes to an end: once its goroutine has run (whatever the collection
  did, in whatever world, and if only its last two Redis calls succeed), its scope is given back, and for
  an hour anyone of the workspace who may view its accounts is shown a terminal status, which is
  \<^verbatim>\<open>completed\<close> exactly when the collection succeeded and left none of the accounts with an error.\<close>

theorem refresh_completes:
  assumes "refreshInventory e u r w = (rp, w1, Some (j, scope))"
    and "\<not> e_fault er 2" and "\<not> e_fault er 3" and "\<not> e_fault es 0" and "\<not> e_fault es 1"
    and "u_ws v = u_ws u" and "rq_path r' ''jobID'' = jb_id j" and "validRefreshJobID es (jb_id j)"
    and "e_now es < e_now er + 3600" and "w_redis wt = w_redis (runInventoryRefresh er started run j scope wr)"
    and "\<forall>a \<in> set (jb_accounts j). canAccount es 1 (w_db wt) v a ''account.view''"
  shows "(\<forall>t \<ge> e_now er. rget t scope (w_redis wt) \<noteq> Some (RText (jb_id j))) \<and>
    (\<exists>done. inventoryRefreshStatus es v r' wt = reply 200 (inventory_job_json done) \<and>
       jb_id done = jb_id j \<and> jb_accounts done = jb_accounts j \<and>
       jb_status done \<in> {''failed'', ''partial'', ''completed''} \<and>
       (jb_status done = ''completed'' \<longleftrightarrow>
          (\<exists>wo. run (saveRefreshJob er 0 started (run_started started j) wr) = (None, wo) \<and>
             failedRefreshAccounts er 1 (w_db wo) (u_ws u) (jb_accounts j) = Some [])))"
proof -
  from refreshInventory_started [OF assms(1)] obtain ids where j: "j = new_job e u ids" "scope = refreshScopeKey (u_ws u) ids"
    by blast
  then have ws: "jb_ws j = u_ws u" and sc: "scope_key scope" by (simp_all add: new_job_def)
  let ?done = "ran_job er started run j wr"
  have "loadRefreshJob es 0 (u_ws v) (jb_id j) (w_redis wt) = Some (exported_job ?done)"
    using run_leaves_job [OF sc assms(2,3,4,9), of j started run wr] ws assms(6,10) by simp
  moreover have "accessibleAccountIDs es 1 (w_db wt) v ''account.view'' = Some (listing_op (w_db wt) v ''account.view'')"
    using assms(5) by (simp add: accessible_listing_op)
  moreover have "list_all (\<lambda>i. i \<in> set (listing_op (w_db wt) v ''account.view'')) (jb_accounts j)"
    using assms(11) by (auto simp: list_all_iff canAccount_can_op policy.listing_iff)
  ultimately have "inventoryRefreshStatus es v r' wt = reply 200 (inventory_job_json ?done)"
    using assms(7,8) by (simp add: inventoryRefreshStatus_def ran_job_facts)
  moreover have "jb_status ?done \<in> {''failed'', ''partial'', ''completed''}"
    unfolding ran_job_def split_beta by (rule inventory_outcome_facts(4))
  moreover have "jb_status ?done = ''completed'' \<longleftrightarrow>
      (\<exists>wo. run (saveRefreshJob er 0 started (run_started started j) wr) = (None, wo) \<and>
         failedRefreshAccounts er 1 (w_db wo) (u_ws u) (jb_accounts j) = Some [])"
    unfolding ran_job_def split_beta inventory_outcome_facts(5) ws [symmetric] by (metis fst_conv prod.collapse snd_conv)
  moreover have "\<forall>t \<ge> e_now er. rget t scope (w_redis wt) \<noteq> Some (RText (jb_id j))"
    using run_frees_scope [OF assms(3)] assms(10) by simp
  ultimately show ?thesis using ran_job_facts by blast
qed

definition refresh_site :: "time \<Rightarrow> env" where
  "refresh_site now = site ''abcdefghijklmnopqrstuvwxyz'' now"

definition queued :: "resp \<times> world \<times> (job \<times> string) option" where
  "queued = refreshInventory (refresh_site 100) demo_user blank_request (world_of demo_db)"

definition queued_job :: job where
  "queued_job = new_job (refresh_site 100) demo_user [4, 5]"

definition status_request :: request where
  "status_request = blank_request\<lparr>rq_path := (\<lambda>k. if k = ''jobID'' then ''abcdefghijklmnopqrstuvwxyz0'' else [])\<rparr>"

lemma refresh_site_fault [simp]: "e_fault (refresh_site t) i = False" "e_now (refresh_site t) = t"
  by (simp_all add: refresh_site_def site_def)

lemma queued_started:
  "refreshInventory (refresh_site 100) demo_user blank_request (world_of demo_db) =
     (fst queued, fst (snd queued), Some (queued_job, refreshScopeKey 1 [4, 5]))"
proof -
  have "snd (snd queued) = Some (queued_job, refreshScopeKey 1 [4, 5])" by code_simp
  then show ?thesis unfolding queued_def by (metis prod.collapse)
qed

lemma refresh_completes_witness:
  "\<exists>done. inventoryRefreshStatus (refresh_site 400) demo_user status_request
      (runInventoryRefresh (refresh_site 300) 101 (\<lambda>w. (None, w)) queued_job (refreshScopeKey 1 [4, 5]) (fst (snd queued))) =
        reply 200 (inventory_job_json done) \<and> jb_status done \<in> {''failed'', ''partial'', ''completed''}"
proof -
  let ?run = "\<lambda>w :: world. (None, w)"
  let ?w = "runInventoryRefresh (refresh_site 300) 101 ?run queued_job (refreshScopeKey 1 [4, 5]) (fst (snd queued))"
  have "u_ws demo_user = u_ws demo_user" "rq_path status_request ''jobID'' = jb_id queued_job"
    "validRefreshJobID (refresh_site 400) (jb_id queued_job)" by code_simp+
  moreover have "canAccount (refresh_site 400) 1 (w_db ?w) demo_user a ''account.view''" if "a \<in> set (jb_accounts queued_job)" for a
  proof -
    have "a = 4 \<or> a = 5" using that by (auto simp: queued_job_def new_job_def)
    moreover have "canAccount (refresh_site 400) 1 (w_db ?w) demo_user 4 ''account.view''"
      "canAccount (refresh_site 400) 1 (w_db ?w) demo_user 5 ''account.view''" by code_simp+
    ultimately show ?thesis by blast
  qed
  ultimately show ?thesis
    using refresh_completes [OF queued_started, where er = "refresh_site 300" and es = "refresh_site 400" and
        v = demo_user and r' = status_request and wt = ?w and run = ?run and started = 101 and wr = "fst (snd queued)"]
    by auto
qed

section \<open>Joining a job\<close>

lemma claimed:
  assumes "claim_scope e i scope key j red = Some (jb_id j, red')" and "rget (e_now e) scope red \<noteq> Some (RText (jb_id j))"
    and "key \<noteq> scope"
  shows "t < e_now e + 600 \<Longrightarrow> rget t scope red' = Some (RText (jb_id j))"
    and "t < e_now e + 3600 \<Longrightarrow> rget t key red' = Some (RJob (exported_job j))"
proof -
  have red': "red' = rset (e_now e) 3600 key (RJob (exported_job j)) (rset (e_now e) 600 scope (RText (jb_id j)) red)"
    using assms(1,2) by (auto simp: claim_scope_def rclaim_def split: if_splits option.splits prod.splits rval.splits)
  show "t < e_now e + 600 \<Longrightarrow> rget t scope red' = Some (RText (jb_id j))"
    using assms(3) by (simp add: red' kv.get_put)
  show "t < e_now e + 3600 \<Longrightarrow> rget t key red' = Some (RJob (exported_job j))"
    by (simp add: red' kv.get_put)
qed

lemma refreshInventory_claimed:
  assumes "refreshInventory e u r w = (rp, w1, Some (j, scope))"
    and "rget (e_now e) scope (w_redis w) \<noteq> Some (RText (e_token e 0))"
  shows "\<exists>red. claim_scope e 5 scope (refreshJobKey (u_ws u) (jb_id j)) j red = Some (jb_id j, w_redis w1) \<and>
    rget (e_now e) scope red \<noteq> Some (RText (jb_id j))"
proof -
  have claim: "sc = scope \<and> j = new_job e u ids \<and>
      claim_scope e 5 scope (refreshJobKey (u_ws u) (jb_id j)) j (w_redis w') = Some (jb_id j, w_redis w1)"
    if "claim_inventory e u ids sc w' = (rp, w1, Some (j, scope))" for ids sc w'
    using that by (auto simp: claim_inventory_def Let_def split: option.splits if_splits prod.splits)
  have jid: "jb_id (new_job e u ids) = e_token e 0" for ids by (simp add: new_job_def)
  have "\<exists>ids w'. claim_inventory e u ids (refreshScopeKey (u_ws u) ids) w' = (rp, w1, Some (j, scope)) \<and>
      (w' = w \<or> (\<exists>jid. w_redis w' = rdel_if (e_now e) (refreshScopeKey (u_ws u) ids) (RText jid) (w_redis w)))"
  proof -
    from assms(1) obtain allowed ids where acc: "accessibleAccountIDs e 0 (w_db w) u ''account.view'' = Some allowed"
      "requestedAccountIDs e 1 (w_db w) u r allowed = Inr ids" "ids \<noteq> []"
      by (auto simp: refreshInventory_def split: option.splits sum.splits if_splits)
    let ?sc = "refreshScopeKey (u_ws u) ids"
    show ?thesis
    proof (cases "scope_holder e 2 ?sc (w_redis w)")
      case None
      then have "claim_inventory e u ids ?sc w = (rp, w1, Some (j, scope))"
        using assms(1) acc by (simp add: refreshInventory_def)
      then show ?thesis by blast
    next
      case (Some jid)
      let ?freed = "if e_fault e 4 then w else with_redis w (rdel_if (e_now e) ?sc (RText jid) (w_redis w))"
      have "claim_inventory e u ids ?sc ?freed = (rp, w1, Some (j, scope))"
        using assms(1) acc Some by (simp add: refreshInventory_def Let_def split: option.splits if_splits)
      moreover have "?freed = w \<or> w_redis ?freed = rdel_if (e_now e) ?sc (RText jid) (w_redis w)" by simp
      ultimately show ?thesis by blast
    qed
  qed
  then obtain ids w' where c: "claim_inventory e u ids (refreshScopeKey (u_ws u) ids) w' = (rp, w1, Some (j, scope))"
    and w': "w' = w \<or> (\<exists>jid. w_redis w' = rdel_if (e_now e) (refreshScopeKey (u_ws u) ids) (RText jid) (w_redis w))"
    by blast
  have "rget (e_now e) scope (w_redis w') \<noteq> Some (RText (jb_id j))"
    using w' assms(2) claim [OF c] jid by (auto simp: redlock.release_eq kv.get_del split: if_splits)
  with claim [OF c] show ?thesis by blast
qed

lemma joins_active:
  assumes "accessibleAccountIDs e 0 (w_db w) v ''account.view'' = Some allowed"
    and "requestedAccountIDs e 1 (w_db w) v r allowed = Inr ids" and "ids \<noteq> []"
    and "\<not> e_fault e 2" and "\<not> e_fault e 3"
    and "rget (e_now e) (refreshScopeKey (u_ws v) ids) (w_redis w) = Some (RText jid)"
    and "rget (e_now e) (refreshJobKey (u_ws v) jid) (w_redis w) = Some (RJob old)" and "active old"
  shows "refreshInventory e v r w = (reply 202 (inventory_job_json old), w, None)"
  using assms by (simp add: refreshInventory_def scope_holder_def loadRefreshJob_def fetch_job_def)

text \<open>C22: one refresh at a time: for ten minutes after a request has queued a refresh, and as long as the
  refresh is queued or has only started, every request of the workspace for the same accounts, by
  whomever and in whatever order it names them, is answered 202 with that very job and starts nothing.\<close>

theorem refresh_joined:
  assumes "refreshInventory e u r w = (rp, w1, Some (j, scope))"
    and "rget (e_now e) scope (w_redis w) \<noteq> Some (RText (e_token e 0))"
    and "w_redis wj = w_redis w1 \<or>
         w_redis wj = w_redis (saveRefreshJob e' 0 started (run_started started j) w1) \<and> e_now ej < started + 3600"
    and "u_ws v = u_ws u" and "e_now ej < e_now e + 600"
    and "accessibleAccountIDs ej 0 (w_db wj) v ''account.view'' = Some allowed"
    and "requestedAccountIDs ej 1 (w_db wj) v rj allowed = Inr ids" and "mset ids = mset (jb_accounts j)" and "ids \<noteq> []"
    and "\<not> e_fault ej 2" and "\<not> e_fault ej 3"
  shows "\<exists>same. refreshInventory ej v rj wj = (reply 202 (inventory_job_json same), wj, None) \<and>
    jb_id same = jb_id j \<and> jb_accounts same = jb_accounts j"
proof -
  from refreshInventory_started [OF assms(1)] obtain ids0 where
    j: "j = new_job e u ids0" "scope = refreshScopeKey (u_ws u) ids0" by blast
  then have ws: "jb_ws j = u_ws u" and accs: "jb_accounts j = ids0" and act: "active j" and sc: "scope_key scope"
    by (simp_all add: new_job_def active_def)
  have scope: "refreshScopeKey (u_ws v) ids = scope"
    unfolding j(2) assms(4) using assms(8) accs by (intro scope_any_order) simp
  from refreshInventory_claimed [OF assms(1,2)] obtain red where
    c: "claim_scope e 5 scope (refreshJobKey (u_ws u) (jb_id j)) j red = Some (jb_id j, w_redis w1)"
       "rget (e_now e) scope red \<noteq> Some (RText (jb_id j))" by blast
  have ne: "refreshJobKey (u_ws u) (jb_id j) \<noteq> scope" using inventory_jobs.key_no_scope sc by metis
  note held = claimed [OF c ne, of "e_now ej"]
  let ?key = "refreshJobKey (u_ws v) (jb_id j)"
  obtain same where stored: "rget (e_now ej) ?key (w_redis wj) = Some (RJob same)" and still: "active same"
    and same: "jb_id same = jb_id j" "jb_accounts same = jb_accounts j"
  proof (cases "w_redis wj = w_redis w1 \<or> e_fault e' 0")
    case True
    then have "w_redis wj = w_redis w1" using assms(3) by (auto simp: saveRefreshJob_def store_job_def)
    then show ?thesis using that [of "exported_job j"] held(2) assms(4,5) act by simp
  next
    case False
    then have "w_redis wj = rset started 3600 ?key (RJob (exported_job (run_started started j))) (w_redis w1)"
      and "e_now ej < started + 3600"
      using assms(3,4) ws by (simp_all add: saveRefreshJob_def store_job_def)
    then show ?thesis using that [of "exported_job (run_started started j)"]
      by (simp add: kv.get_put) (simp add: run_started_def active_def)
  qed
  have "rget (e_now ej) scope (w_redis wj) = Some (RText (jb_id j))"
    using assms(3) held(1) [OF assms(5)] inventory_jobs.scope_untouched [OF sc]
    by (auto simp: saveRefreshJob_def store_job_def)
  with joins_active [OF assms(6,7,9,10,11), unfolded scope, OF _ stored still] same show ?thesis by blast
qed

lemma refresh_joined_witness:
  "\<exists>same. refreshInventory (site ''another'' 500) demo_user select_request (fst (snd queued)) =
      (reply 202 (inventory_job_json same), fst (snd queued), None) \<and> jb_id same = jb_id queued_job"
proof -
  let ?ej = "site ''another'' 500"
  have "rget (e_now (refresh_site 100)) (refreshScopeKey 1 [4, 5]) (w_redis (world_of demo_db)) \<noteq> Some (RText (e_token (refresh_site 100) 0))"
    by (simp add: world_of_def rget_def)
  note joined = refresh_joined [OF queued_started this disjI1 [OF refl], of demo_user ?ej "[4, 5]" select_request "[5, 4]"]
  have "accessibleAccountIDs ?ej 0 (w_db (fst (snd queued))) demo_user ''account.view'' = Some [4, 5]"
    "requestedAccountIDs ?ej 1 (w_db (fst (snd queued))) demo_user select_request [4, 5] = Inr [5, 4]" by code_simp+
  moreover have "e_now ?ej < e_now (refresh_site 100) + 600" by (simp add: site_def)
  moreover have "mset [5, 4] = mset (jb_accounts queued_job)" by (simp add: queued_job_def new_job_def add_mset_commute)
  ultimately show ?thesis using joined by simp blast
qed

section \<open>A stale scope\<close>

text \<open>A scope whose job has ended: its last two Redis calls did not both succeed.\<close>

definition stale :: "time \<Rightarrow> string \<Rightarrow> string \<Rightarrow> string \<Rightarrow> job \<Rightarrow> redis \<Rightarrow> bool" where
  "stale now scope key jid old red \<longleftrightarrow>
     rget now scope red = Some (RText jid) \<and> rget now key red = Some (RJob old) \<and> \<not> active old"

lemma queue_service_stale:
  assumes "stale (e_now e) scope (sv_job_key s (u_ws u) jid) jid old (w_redis w)" and "jid \<noteq> jb_id j"
    and "\<not> e_fault e 4" and "\<not> e_fault e 5"
  shows "queue_service e s u j scope w = (reply 202 (sv_json s old), w, None)"
  using assms
  by (simp add: queue_service_def stale_def scope_holder_def fetch_job_def claim_scope_def rclaim_def)

lemma inventory_retakes_stale:
  assumes "stale (e_now e) (refreshScopeKey (u_ws u) ids) (refreshJobKey (u_ws u) jid) jid old (w_redis w)"
    and "accessibleAccountIDs e 0 (w_db w) u ''account.view'' = Some allowed"
    and "requestedAccountIDs e 1 (w_db w) u r allowed = Inr ids" and "ids \<noteq> []"
    and "\<forall>i \<in> {2..5}. \<not> e_fault e i"
  shows "\<exists>j w'. refreshInventory e u r w = (reply 202 (inventory_job_json j), w', Some (j, refreshScopeKey (u_ws u) ids))"
proof -
  have ok: "\<not> e_fault e 2" "\<not> e_fault e 3" "\<not> e_fault e 4" "\<not> e_fault e 5" using assms(5) by simp_all
  let ?freed = "with_redis w (rdel_if (e_now e) (refreshScopeKey (u_ws u) ids) (RText jid) (w_redis w))"
  have "refreshInventory e u r w = claim_inventory e u ids (refreshScopeKey (u_ws u) ids) ?freed"
    using assms(1-4) ok by (simp add: refreshInventory_def Let_def stale_def scope_holder_def loadRefreshJob_def fetch_job_def)
  moreover have "rget (e_now e) (refreshScopeKey (u_ws u) ids) (w_redis ?freed) = None"
    using assms(1) by (simp add: stale_def redlock.release_eq kv.get_del)
  ultimately show ?thesis using ok by (simp add: claim_inventory_def claim_scope_def rclaim_def Let_def)
qed

text \<open>A scope that outlives its job blocks the refresh of object storage, of security groups and of
  desktops until it expires: the request is answered 202 with the job that has already ended and starts
  nothing, where the refresh of the inventory removes the stale scope and starts a new job.\<close>

theorem stale_scope_blocks:
  assumes "\<forall>i \<in> {2..5}. \<not> e_fault e i" and "jid \<noteq> e_token e 0"
  shows "(ossAccount e (w_db w) u r ''view'' = Inr acc \<longrightarrow>
      stale (e_now e) (ossRefreshScopeKey (u_ws u) acc) (ossRefreshJobKey (u_ws u) jid) jid old (w_redis w) \<longrightarrow>
      refreshOSS e u r w = (reply 202 (service_job_json old), w, None)) \<and>
    (securityGroupAccount e (w_db w) u r ''view'' = Inr acc \<longrightarrow>
      stale (e_now e) (securityGroupRefreshScopeKey (u_ws u) acc) (securityGroupRefreshJobKey (u_ws u) jid) jid old (w_redis w) \<longrightarrow>
      refreshSecurityGroups e u r w = (reply 202 (service_job_json old), w, None)) \<and>
    (accessibleAccountIDs e 0 (w_db w) u ''account.view'' = Some allowed \<longrightarrow>
      requestedAccountIDs e 1 (w_db w) u r allowed = Inr ids \<longrightarrow> ids \<noteq> [] \<longrightarrow>
      stale (e_now e) (refreshScopeKey (u_ws u) ids) (refreshJobKey (u_ws u) jid) jid old (w_redis w) \<longrightarrow>
      (\<exists>j w'. refreshInventory e u r w = (reply 202 (inventory_job_json j), w', Some (j, refreshScopeKey (u_ws u) ids))))"
proof -
  have ok: "\<not> e_fault e 4" "\<not> e_fault e 5" using assms(1) by simp_all
  have id: "jid \<noteq> jb_id (new_job e u [acc])" using assms(2) by (simp add: new_job_def)
  show ?thesis
    using queue_service_stale [of e _ oss_service u jid old w, OF _ id ok]
      queue_service_stale [of e _ security_group_service u jid old w, OF _ id ok]
      inventory_retakes_stale [OF _ _ _ _ assms(1)]
    by (auto simp: refreshOSS_def refreshSecurityGroups_def oss_service_def security_group_service_def)
qed

definition ended_job :: job where
  "ended_job = (new_job good_env demo_user [5])\<lparr>jb_status := ''completed''\<rparr>"

definition stale_world :: world where
  "stale_world = with_redis (world_of (demo_db\<lparr>d_accounts := [demo_account 5 ''alibaba'' (Some 3)]\<rparr>))
     ((\<lambda>_. None)(ossRefreshScopeKey 1 5 := Some (RText ''old'', None),
                 ossRefreshJobKey 1 ''old'' := Some (RJob ended_job, None)))"

definition account_request :: request where
  "account_request = blank_request\<lparr>rq_path := (\<lambda>k. if k = ''id'' then ''5'' else [])\<rparr>"

lemma stale_scope_blocks_witness:
  "refreshOSS (site ''new'' 7) demo_user account_request stale_world = (reply 202 (service_job_json ended_job), stale_world, None) \<and>
   jb_status ended_job = ''completed''"
proof -
  let ?e = "site ''new'' 7"
  have acc: "ossAccount ?e (w_db stale_world) demo_user account_request ''view'' = Inr 5" by code_simp
  have tok: "''old'' \<noteq> e_token ?e 0" by code_simp
  have st: "stale (e_now ?e) (ossRefreshScopeKey (u_ws demo_user) 5) (ossRefreshJobKey (u_ws demo_user) ''old'') ''old'' ended_job (w_redis stale_world)"
    unfolding stale_def by (intro conjI) code_simp+
  have "refreshOSS ?e demo_user account_request stale_world = (reply 202 (service_job_json ended_job), stale_world, None)"
    using stale_scope_blocks [of ?e "''old''" stale_world demo_user account_request 5 ended_job] tok acc st by simp
  then show ?thesis by (simp add: ended_job_def)
qed

end
