(* ===== verification/Accounts.thy ===== *)
theory Accounts
  imports Admin Patterns Inventory
begin

text \<open>
  Cloud accounts (\<^verbatim>\<open>internal/app/accounts.go\<close>), the connection test and its proof
  (\<^verbatim>\<open>cloud_connection.go\<close>) and the dashboard summary (\<^verbatim>\<open>summary.go\<close>).  New credentials are stored only with a
  proof: a Redis key, derived from the person, the account and the credentials, that a successful
  test leaves for ten minutes and that saving consumes.

  \<open>account_ext\<close> is what lies outside: the JSON text of credentials and its parser, the vault, the
  service-account key of Google Cloud and its private key, and the provider's answer to the test.
\<close>

section \<open>Data\<close>

record credentials =
  cr_access :: string
  cr_secret :: string
  cr_token :: string
  cr_tenant :: string
  cr_client :: string
  cr_client_secret :: string
  cr_subscription :: string
  cr_project :: string
  cr_service_json :: string

record account_input =
  ai_name :: string
  ai_provider :: string
  ai_owner :: string
  ai_group :: "int option"
  ai_regions :: "string list option"
  ai_creds :: "credentials option"

record test_input =
  ti_provider :: string
  ti_creds :: "credentials option"

record gcp_key =
  gk_type :: string
  gk_email :: string
  gk_private :: string
  gk_uri :: string

record account_ext =
  ae_marshal :: "credentials \<Rightarrow> string"
  ae_unmarshal :: "string \<Rightarrow> credentials option"
  ae_seal :: "string \<Rightarrow> string"
  ae_open :: "string \<Rightarrow> string option"
  ae_gcp_key :: "string \<Rightarrow> gcp_key option"
  ae_pkcs8 :: "string \<Rightarrow> bool"
  ae_probe :: "string \<Rightarrow> credentials \<Rightarrow> bool"

definition no_credentials :: credentials where
  "no_credentials = \<lparr>cr_access = [], cr_secret = [], cr_token = [], cr_tenant = [], cr_client = [],
     cr_client_secret = [], cr_subscription = [], cr_project = [], cr_service_json = []\<rparr>"

section \<open>Credentials\<close>

definition trim_keys :: "credentials \<Rightarrow> credentials" where
  "trim_keys c = c\<lparr>cr_access := trim_space (cr_access c), cr_secret := trim_space (cr_secret c),
     cr_token := trim_space (cr_token c)\<rparr>"

definition trim_azure :: "credentials \<Rightarrow> credentials" where
  "trim_azure c = c\<lparr>cr_tenant := trim_space (cr_tenant c), cr_client := trim_space (cr_client c),
     cr_subscription := trim_space (cr_subscription c), cr_client_secret := trim_space (cr_client_secret c)\<rparr>"

definition trim_gcp :: "credentials \<Rightarrow> credentials" where
  "trim_gcp c = c\<lparr>cr_project := trim_space (cr_project c), cr_service_json := trim_space (cr_service_json c)\<rparr>"

definition gcp_message :: string where
  "gcp_message = ''A valid GCP project ID and Google service-account JSON key are required''"

definition gcp_key_ok :: "account_ext \<Rightarrow> credentials \<Rightarrow> bool" where
  "gcp_key_ok x c \<longleftrightarrow>
     (case ae_gcp_key x (cr_service_json c) of
        None \<Rightarrow> False
      | Some k \<Rightarrow> gcpProjectPattern (cr_project c) \<and> gk_type k = ''service_account'' \<and> gk_email k \<noteq> [] \<and>
          gk_uri k = ''https://oauth2.googleapis.com/token'' \<and> ae_pkcs8 x (gk_private k))"

text \<open>The credentials as the code leaves them, or the message of the first check they fail.\<close>

definition validateCredentials :: "account_ext \<Rightarrow> string \<Rightarrow> credentials \<Rightarrow> string + credentials" where
  "validateCredentials x provider c =
     (if provider = ''aws'' \<or> provider = ''alibaba''
      then let c = trim_keys c
           in if cr_access c = [] \<or> cr_secret c = [] then Inl ''AccessKey ID and secret are required'' else Inr c
      else if provider = ''azure''
      then let c = trim_azure c
           in if \<not> uuidPattern (cr_tenant c) \<or> \<not> uuidPattern (cr_client c) \<or> \<not> uuidPattern (cr_subscription c) \<or>
                 cr_client_secret c = [] \<or> length (cr_client_secret c) > 1024
              then Inl ''Azure tenant, client and subscription IDs must be UUIDs, and the client secret is required''
              else Inr c
      else if provider = ''gcp''
      then let c = trim_gcp c in if gcp_key_ok x c then Inr c else Inl gcp_message
      else Inl ''Unsupported cloud provider'')"

definition optionalIDsEqual :: "int option \<Rightarrow> int option \<Rightarrow> bool" where
  "optionalIDsEqual a b \<longleftrightarrow>
     a = None \<and> b = None \<or> (case (a, b) of (Some i, Some j) \<Rightarrow> i = j | _ \<Rightarrow> False)"

section \<open>The proof of a connection test\<close>

definition connectionProofKey :: "env \<Rightarrow> account_ext \<Rightarrow> user \<Rightarrow> string \<Rightarrow> int \<Rightarrow> credentials \<Rightarrow> string" where
  "connectionProofKey e x u provider acc c =
     ''connection-test-proof:'' @ e_digest e (join_with (char_of (0 :: nat))
       [show_int (u_ws u), show_int (u_id u), provider, show_int acc, ae_marshal x c])"

definition requireConnectionProof ::
    "env \<Rightarrow> nat \<Rightarrow> account_ext \<Rightarrow> user \<Rightarrow> string \<Rightarrow> int \<Rightarrow> credentials \<Rightarrow> world \<Rightarrow> bool \<times> world" where
  "requireConnectionProof e i x u provider acc c w =
     (if e_fault e i then (False, w)
      else case rtake (e_now e) (connectionProofKey e x u provider acc c) (w_redis w) of
             (ok, red) \<Rightarrow> (ok, with_redis w red))"

definition providerFixes :: "string \<Rightarrow> string list" where
  "providerFixes provider =
     (if provider = ''aws''
      then [''Check the AccessKey ID and secret'', ''Allow ec2:DescribeRegions and ec2:DescribeInstances'',
            ''Check any region restrictions on the IAM policy'']
      else if provider = ''alibaba''
      then [''Check the RAM AccessKey ID and secret'', ''Allow ecs:DescribeRegions and ecs:DescribeInstances'',
            ''Confirm that the RAM user is enabled'']
      else if provider = ''azure''
      then [''Check tenant, client and subscription IDs'', ''Create a new client secret if it expired'',
            ''Assign Reader or Virtual Machine Contributor on the subscription'']
      else if provider = ''gcp''
      then [''Check the project ID and service-account JSON key'', ''Enable the Compute Engine API'',
            ''Grant Compute Viewer or Compute Instance Admin (v1)'']
      else [''Check the provider credentials and permissions''])"

definition canTestNewAccount :: "env \<Rightarrow> nat \<Rightarrow> db \<Rightarrow> user \<Rightarrow> bool" where
  "canTestNewAccount e i d u \<longleftrightarrow>
     admin u \<or>
     \<not> e_fault e i \<and>
     list_ex (\<lambda>ug. mb_user ug = u_id u \<and> mb_role ug = ''manager'' \<and>
       list_ex (\<lambda>g. gr_id g = mb_group ug \<and> gr_ws g = u_ws u \<and> gr_accounts g) (d_groups d))
     (effective_user_groups d)"

text \<open>What is to be tested: provider, account (0 for a new one) and credentials.\<close>

definition test_subject ::
    "env \<Rightarrow> account_ext \<Rightarrow> user \<Rightarrow> request \<Rightarrow> test_input \<Rightarrow> db \<Rightarrow> resp + string \<times> int \<times> credentials" where
  "test_subject e x u r inp d =
     (let provider = to_lower (trim_space (ti_provider inp))
      in if rq_path r ''id'' \<noteq> []
         then (case pathID r ''id'' of
                 Inl p \<Rightarrow> Inl p
               | Inr acc \<Rightarrow>
                   if \<not> accountAccess e 1 d u acc ''manage'' then Inl (problem 403 ''Account management access required'')
                   else if e_fault e 2 then Inl (dbError DbFailed)
                   else case account_in_ws d (u_ws u) acc of
                     None \<Rightarrow> Inl (dbError NoRows)
                   | Some a \<Rightarrow>
                       let provider = (if provider = [] then ac_provider a else provider)
                       in case ti_creds inp of
                            Some c \<Rightarrow> Inr (provider, acc, c)
                          | None \<Rightarrow>
                              if provider \<noteq> ac_provider a
                              then Inl (problem 400 ''New credentials are required when testing another provider'')
                              else (case Option.bind (ae_open x (ac_cred a)) (ae_unmarshal x) of
                                      None \<Rightarrow> Inl (codedProblem 502 (providerErrorCode provider)
                                        ''Stored cloud credentials could not be read'' (providerFixes provider))
                                    | Some c \<Rightarrow> Inr (provider, acc, c)))
         else if \<not> canTestNewAccount e 3 d u
         then Inl (problem 403 ''Cloud account management access required'')
         else case ti_creds inp of
                None \<Rightarrow> Inl (problem 400 ''Cloud credentials are required'')
              | Some c \<Rightarrow> Inr (provider, 0, c))"

definition valid_subject ::
    "env \<Rightarrow> account_ext \<Rightarrow> user \<Rightarrow> request \<Rightarrow> test_input \<Rightarrow> db \<Rightarrow> resp + string \<times> int \<times> credentials" where
  "valid_subject e x u r inp d =
     (case test_subject e x u r inp d of
        Inl p \<Rightarrow> Inl p
      | Inr (provider, acc, c) \<Rightarrow>
          (case validateCredentials x provider c of Inl msg \<Rightarrow> Inl (problem 400 msg) | Inr c' \<Rightarrow> Inr (provider, acc, c')))"

definition test_kind :: "user \<Rightarrow> string" where
  "test_kind u = ''account-test:'' @ show_int (u_id u)"

definition testCloudAccount ::
    "env \<Rightarrow> network list \<Rightarrow> account_ext \<Rightarrow> user \<Rightarrow> request \<Rightarrow> test_input body \<Rightarrow> world \<Rightarrow> resp \<times> world" where
  "testCloudAccount e nets x u r b w =
     (case allowAttempt e 0 nets r (test_kind u) 20 w of
        (False, w1) \<Rightarrow> (too_many ''Too many connection tests; try again in five minutes'', w1)
      | (True, w1) \<Rightarrow>
          (case decode r b of
             Inl p \<Rightarrow> (p, w1)
           | Inr inp \<Rightarrow>
               (case valid_subject e x u r inp (w_db w1) of
                  Inl p \<Rightarrow> (p, w1)
                | Inr (provider, acc, c) \<Rightarrow>
                    if \<not> ae_probe x provider c
                    then (codedProblem 502 (providerErrorCode provider) ''Cloud connection test failed'' (providerFixes provider), w1)
                    else if e_fault e 4
                    then (problem 503 ''Connection was verified but the verification proof could not be stored; try again'', w1)
                    else (reply 200 (JObj [(''status'', JStr ''connected''), (''provider'', JStr provider),
                            (''message'', JStr ''Credentials and required read access are working'')]),
                          snd (rcd e 5 (with_redis w1 (rset (e_now e) 600 (connectionProofKey e x u provider acc c)
                                   (RText ''1'') (w_redis w1)))
                                 (u_ws u) (u_id u) (u_name u) ''account.connection_tested'' (rq_path r ''id'')
                                 (JObj [(''provider'', JStr provider)]))))))"

section \<open>Statements on accounts\<close>

text \<open>The constraints of \<^verbatim>\<open>cloud_accounts\<close>: a name of 1 to 100 characters, unique in the workspace, and a
  team that exists (in whatever workspace: the foreign key is \<^verbatim>\<open>access_groups(id)\<close> alone).\<close>

definition account_constraints :: "db \<Rightarrow> int \<Rightarrow> int \<Rightarrow> string \<Rightarrow> int option \<Rightarrow> bool" where
  "account_constraints d ws i name g \<longleftrightarrow>
     1 \<le> rune_count name \<and> rune_count name \<le> 100 \<and> ws_by_id d ws \<noteq> None \<and>
     \<not> list_ex (\<lambda>a. ac_ws a = ws \<and> ac_name a = name \<and> ac_id a \<noteq> i) (d_accounts d) \<and>
     (case g of None \<Rightarrow> True | Some gid \<Rightarrow> list_ex (\<lambda>x. gr_id x = gid) (d_groups d))"

definition insert_account ::
    "db \<Rightarrow> int \<Rightarrow> string \<Rightarrow> string \<Rightarrow> string \<Rightarrow> int option \<Rightarrow> string \<Rightarrow> string list \<Rightarrow> (int \<times> db) option" where
  "insert_account d ws name provider owner g cipher regions =
     (let i = next_id d ''cloud_accounts''
      in if \<not> account_constraints d ws 0 name g then None
         else Some (i, (bump d ''cloud_accounts'')\<lparr>d_accounts := d_accounts d @
           [\<lparr>ac_id = i, ac_ws = ws, ac_name = name, ac_provider = provider, ac_owner = owner, ac_group = g,
             ac_cred = cipher, ac_regions = regions, ac_sync = None, ac_err = [], ac_errcode = []\<rparr>]\<rparr>))"

definition update_account ::
    "db \<Rightarrow> int \<Rightarrow> int \<Rightarrow> string \<Rightarrow> string \<Rightarrow> string \<Rightarrow> int option \<Rightarrow> string \<Rightarrow> string list \<Rightarrow> bool \<Rightarrow> db option" where
  "update_account d ws i name provider owner g cipher regions changed =
     (if list_ex (\<lambda>a. ac_id a = i \<and> ac_ws a = ws) (d_accounts d) \<and> \<not> account_constraints d ws i name g then None
      else Some (d\<lparr>d_accounts := map (\<lambda>a. if ac_id a = i \<and> ac_ws a = ws
        then a\<lparr>ac_name := name, ac_provider := provider, ac_owner := owner, ac_group := g, ac_cred := cipher,
               ac_regions := regions, ac_sync := (if changed then None else ac_sync a),
               ac_err := (if changed then [] else ac_err a), ac_errcode := (if changed then [] else ac_errcode a)\<rparr>
        else a) (d_accounts d)\<rparr>))"

definition drop_instances :: "db \<Rightarrow> int \<Rightarrow> db" where
  "drop_instances d i = d\<lparr>d_insts := filter (\<lambda>r. in_account r \<noteq> i) (d_insts d)\<rparr>"

text \<open>\<^verbatim>\<open>ON DELETE CASCADE\<close> to instances, assignments and snapshots.\<close>

definition remove_account :: "db \<Rightarrow> int \<Rightarrow> db" where
  "remove_account d i =
     (drop_instances d i)\<lparr>d_accounts := filter (\<lambda>a. ac_id a \<noteq> i) (d_accounts d),
       d_assigns := filter (\<lambda>a. as_account a \<noteq> i) (d_assigns d),
       d_snaps := filter (\<lambda>s. sn_account s \<noteq> i) (d_snaps d)\<rparr>"

section \<open>Saving\<close>

definition in_provider :: "account_input \<Rightarrow> string" where
  "in_provider inp = to_lower (trim_space (ai_provider inp))"

definition input_problem :: "account_input \<Rightarrow> resp option" where
  "input_problem inp =
     (if in_provider inp \<noteq> [] \<and> in_provider inp \<notin> {''aws'', ''alibaba'', ''azure'', ''gcp''}
      then Some (problem 400 ''Provider must be aws, alibaba, azure or gcp'')
      else if length (trim_space (ai_name inp)) < 1 \<or> length (trim_space (ai_name inp)) > 100 \<or>
              (case ai_regions inp of None \<Rightarrow> False | Some rs \<Rightarrow> length rs > 40)
      then Some (problem 400 ''Provide a name and at most 40 regions'')
      else if (case ai_regions inp of None \<Rightarrow> False | Some rs \<Rightarrow> \<not> list_all regionPattern rs)
      then Some (problem 400 ''Invalid cloud region'')
      else None)"

text \<open>The account to save: id, cipher, provider and team of the stored one (0 and empty for a new one).\<close>

definition stored_account :: "env \<Rightarrow> user \<Rightarrow> request \<Rightarrow> db \<Rightarrow> resp + int \<times> string \<times> string \<times> int option" where
  "stored_account e u r d =
     (if rq_method r \<noteq> ''PUT'' then Inr (0, [], [], None)
      else case pathID r ''id'' of
        Inl p \<Rightarrow> Inl p
      | Inr i \<Rightarrow>
          if \<not> accountAccess e 0 d u i ''manage'' then Inl (problem 403 ''Account management access required'')
          else if e_fault e 1 then Inl (dbError DbFailed)
          else case account_in_ws d (u_ws u) i of
            None \<Rightarrow> Inl (dbError NoRows)
          | Some a \<Rightarrow> Inr (i, ac_cred a, ac_provider a, ac_group a))"

definition group_refused :: "env \<Rightarrow> user \<Rightarrow> request \<Rightarrow> db \<Rightarrow> int option \<Rightarrow> int option \<Rightarrow> bool" where
  "group_refused e u r d old new \<longleftrightarrow>
     \<not> admin u \<and> (rq_method r = ''POST'' \<or> \<not> optionalIDsEqual old new) \<and>
     (case new of None \<Rightarrow> True | Some g \<Rightarrow> \<not> groupAccess e 2 d u g ''accounts'')"

text \<open>Everything up to the proof: the account's id, whether its credentials change, its provider before
  and after, the cipher to store and the credentials to prove.\<close>

record plan =
  pl_id :: int
  pl_changed :: bool
  pl_before :: string
  pl_provider :: string
  pl_cipher :: string
  pl_creds :: credentials

definition save_plan :: "env \<Rightarrow> account_ext \<Rightarrow> user \<Rightarrow> request \<Rightarrow> account_input \<Rightarrow> db \<Rightarrow> resp + plan" where
  "save_plan e x u r inp d =
     (case input_problem inp of
        Some p \<Rightarrow> Inl p
      | None \<Rightarrow>
          (case stored_account e u r d of
             Inl p \<Rightarrow> Inl p
           | Inr (i, cipher, before, old) \<Rightarrow>
               let provider = (if in_provider inp \<noteq> [] then in_provider inp
                               else if before \<noteq> [] then before else ''aws'')
               in if group_refused e u r d old (ai_group inp)
                  then Inl (problem 403 ''Permission required for destination group'')
                  else (case (case ai_creds inp of
                                None \<Rightarrow> Inr (cipher, no_credentials)
                              | Some c \<Rightarrow>
                                  (case validateCredentials x provider c of
                                     Inl msg \<Rightarrow> Inl (problem 400 msg)
                                   | Inr c' \<Rightarrow> Inr (ae_seal x (ae_marshal x c'), c'))) of
                          Inl p \<Rightarrow> Inl p
                        | Inr (cipher, verified) \<Rightarrow>
                            if before \<noteq> [] \<and> before \<noteq> provider \<and> ai_creds inp = None
                            then Inl (problem 400 ''New credentials are required when changing provider'')
                            else if cipher = [] then Inl (problem 400 ''Cloud credentials are required'')
                            else Inr \<lparr>pl_id = i, pl_changed = (i = 0 \<or> ai_creds inp \<noteq> None \<or> before \<noteq> provider),
                                      pl_before = before, pl_provider = provider, pl_cipher = cipher,
                                      pl_creds = verified\<rparr>)))"

definition proof_required :: resp where
  "proof_required = codedProblem 409 ''NX-CONNECTION-TEST-REQUIRED''
     ''Test this cloud connection successfully before saving''
     [''Run Test connection with the current provider and credentials'',
      ''Save within ten minutes of a successful test'']"

definition store_account :: "env \<Rightarrow> user \<Rightarrow> account_input \<Rightarrow> plan \<Rightarrow> db \<Rightarrow> (int \<times> db) option" where
  "store_account e u inp pl d =
     (let name = trim_space (ai_name inp);
          regions = (case ai_regions inp of None \<Rightarrow> [] | Some rs \<Rightarrow> rs)
      in if pl_id pl = 0
         then if e_fault e 4 then None
              else insert_account d (u_ws u) name (pl_provider pl) (ai_owner inp) (ai_group inp) (pl_cipher pl) regions
         else if e_fault e 4 \<or> e_fault e 5 then None
         else case update_account d (u_ws u) (pl_id pl) name (pl_provider pl) (ai_owner inp) (ai_group inp)
                     (pl_cipher pl) regions (pl_changed pl) of
                None \<Rightarrow> None
              | Some d1 \<Rightarrow>
                  if pl_before pl \<noteq> pl_provider pl \<and> e_fault e 6 \<or> e_fault e 7 then None
                  else Some (pl_id pl, if pl_before pl \<noteq> pl_provider pl then drop_instances d1 (pl_id pl) else d1))"

definition saveAccount ::
    "env \<Rightarrow> account_ext \<Rightarrow> user \<Rightarrow> request \<Rightarrow> account_input body \<Rightarrow> world \<Rightarrow> resp \<times> world" where
  "saveAccount e x u r b w =
     (case decode r b of
        Inl p \<Rightarrow> (p, w)
      | Inr inp \<Rightarrow>
          (case save_plan e x u r inp (w_db w) of
             Inl p \<Rightarrow> (p, w)
           | Inr pl \<Rightarrow>
               (case (if pl_changed pl then requireConnectionProof e 3 x u (pl_provider pl) (pl_id pl) (pl_creds pl) w
                      else (True, w)) of
                  (False, w1) \<Rightarrow> (proof_required, w1)
                | (True, w1) \<Rightarrow>
                    (case store_account e u inp pl (w_db w1) of
                       None \<Rightarrow> (dbError DbFailed, w1)
                     | Some (i, d) \<Rightarrow>
                         (reply_id i, audit e 8 u (with_db w1 d) ''account.saved'' (show_int i)
                            (JObj [(''name'', JStr (trim_space (ai_name inp))), (''provider'', JStr (pl_provider pl))]))))))"

definition deleteAccount :: "env \<Rightarrow> user \<Rightarrow> request \<Rightarrow> world \<Rightarrow> resp \<times> world" where
  "deleteAccount e u r w =
     (case pathID r ''id'' of
        Inl p \<Rightarrow> (p, w)
      | Inr i \<Rightarrow>
          if \<not> accountAccess e 0 (w_db w) u i ''manage'' then (problem 403 ''Account management access required'', w)
          else if e_fault e 1 then (dbError DbFailed, w)
          else if account_in_ws (w_db w) (u_ws u) i = None then (problem 404 ''Account not found'', w)
          else (reply_ok, audit e 2 u (with_db w (remove_account (w_db w) i)) ''account.deleted'' (rq_path r ''id'') JNull))"

section \<open>Listing\<close>

definition opt_json :: "('a \<Rightarrow> json) \<Rightarrow> 'a option \<Rightarrow> json" where
  "opt_json f v = (case v of None \<Rightarrow> JNull | Some y \<Rightarrow> f y)"

text \<open>The row of the listing (without its creation time).  The team's name comes from a join on the
  team's id alone.\<close>

definition account_json :: "db \<Rightarrow> int list \<Rightarrow> account_row \<Rightarrow> json" where
  "account_json d manage a = JObj [
     (''id'', JInt (ac_id a)), (''name'', JStr (ac_name a)), (''provider'', JStr (ac_provider a)),
     (''owner'', JStr (ac_owner a)), (''group_id'', opt_json JInt (ac_group a)),
     (''group_name'', opt_json (\<lambda>g. JStr (gr_name g))
        (Option.bind (ac_group a) (\<lambda>gid. find (\<lambda>g. gr_id g = gid) (d_groups d)))),
     (''regions'', JList (map JStr (ac_regions a))),
     (''discovered_regions'', JList (map JStr (sort (remdups
        (map in_region (filter (\<lambda>i. in_account i = ac_id a) (d_insts d))))))),
     (''last_sync_at'', opt_json JInt (ac_sync a)), (''sync_error'', JStr (ac_err a)),
     (''sync_error_code'', JStr (ac_errcode a)),
     (''instance_count'', JInt (int (length (filter (\<lambda>i. in_account i = ac_id a) (d_insts d))))),
     (''can_manage'', JBool (ac_id a \<in> set manage))]"

definition accounts :: "env \<Rightarrow> user \<Rightarrow> db \<Rightarrow> resp" where
  "accounts e u d =
     (case accessibleAccountIDs e 0 d u ''account.view'' of
        None \<Rightarrow> dbError DbFailed
      | Some viewIDs \<Rightarrow>
          (case accessibleAccountIDs e 1 d u ''account.manage'' of
             None \<Rightarrow> dbError DbFailed
           | Some manageIDs \<Rightarrow>
               let ids = mergeAccountIDs [viewIDs, manageIDs]
               in list_reply e 2 (map (account_json d manageIDs)
                    (sort_key ac_name (filter (\<lambda>a. ac_ws a = u_ws u \<and> ac_id a \<in> set ids) (d_accounts d))))))"

definition summary :: "env \<Rightarrow> user \<Rightarrow> request \<Rightarrow> db \<Rightarrow> resp" where
  "summary e u r d =
     (case accessibleAccountIDs e 0 d u ''account.view'' of
        None \<Rightarrow> dbError DbFailed
      | Some allowed \<Rightarrow>
          (case requestedAccountIDs e 1 d u r allowed of
             Inl p \<Rightarrow> p
           | Inr ids \<Rightarrow>
               if e_fault e 2 then dbError DbFailed
               else let accs = filter (\<lambda>a. ac_ws a = u_ws u \<and> ac_id a \<in> set ids) (d_accounts d);
                        rows = filter (\<lambda>i. in_account i \<in> set (map ac_id accs)) (d_insts d)
               in reply 200 (JObj [
                 (''instances'', JInt (int (length rows))),
                 (''running'', JInt (int (length (filter (\<lambda>i. in_state i = ''running'') rows)))),
                 (''accounts'', JInt (int (length (remdups (map ac_id accs))))),
                 (''regions'', JInt (int (length (remdups (map in_region rows)))))])))"

end
