(* ===== verification/Providers.thy ===== *)
theory Providers
  imports Inventory Auth
begin

text \<open>
  What \<^verbatim>\<open>internal/cloud\<close> makes of the answers of the providers: the listings page by page and the
  conversion of their items to instances (\<^verbatim>\<open>aws.go\<close>, \<^verbatim>\<open>alibaba.go\<close>, \<^verbatim>\<open>azure.go\<close>, \<^verbatim>\<open>gcp.go\<close>), security groups
  (\<^verbatim>\<open>security_groups.go\<close>) and desktops (\<^verbatim>\<open>eds.go\<close>), and the requests built for an action on an instance.

  A value of an SDK type is a JSON value, field by field under its name; a nil pointer is \<^const>\<open>JNull\<close> or a
  missing field.  A client answers the \<open>n\<close>-th request of a listing: \<^const>\<open>None\<close> is an error, an empty body,
  or a context that is over.
\<close>

type_synonym client = "nat \<Rightarrow> string \<Rightarrow> (string \<times> json) list \<Rightarrow> json option"

section \<open>Values that may be missing\<close>

definition field :: "json \<Rightarrow> string \<Rightarrow> json" where
  "field j k = (case j of JObj fs \<Rightarrow> (case map_of fs k of Some v \<Rightarrow> v | None \<Rightarrow> JNull) | _ \<Rightarrow> JNull)"

text \<open>\<^verbatim>\<open>value\<close>, \<^verbatim>\<open>aws.ToString\<close>, \<^verbatim>\<open>oss.ToString\<close>.\<close>

definition text_of :: "json \<Rightarrow> string" where
  "text_of j = (case j of JStr s \<Rightarrow> s | _ \<Rightarrow> [])"

definition elements :: "json \<Rightarrow> json list" where
  "elements j = (case j of JList js \<Rightarrow> js | _ \<Rightarrow> [])"

definition first_value :: "json list \<Rightarrow> string" where
  "first_value js = (case find (\<lambda>j. text_of j \<noteq> []) js of None \<Rightarrow> [] | Some j \<Rightarrow> text_of j)"

definition values_of :: "json list \<Rightarrow> string list" where
  "values_of js = map text_of (filter (\<lambda>j. j \<noteq> JNull) js)"

definition int32Value :: "json \<Rightarrow> int" where
  "int32Value j = (case j of JInt i \<Rightarrow> i | _ \<Rightarrow> 0)"

definition boolValue :: "json \<Rightarrow> bool" where
  "boolValue j \<longleftrightarrow> j = JBool True"

definition firstNonEmpty :: "string list \<Rightarrow> string" where
  "firstNonEmpty ss = (case find (\<lambda>s. s \<noteq> []) ss of None \<Rightarrow> [] | Some s \<Rightarrow> s)"

text \<open>A map filled by assignments, the later ones winning, as it is printed: by key.\<close>

definition filled :: "(string \<times> string) list \<Rightarrow> (string \<times> json) list" where
  "filled kvs = map (\<lambda>k. (k, JStr (the (map_of (rev kvs) k)))) (sort (remdups (map fst kvs)))"

section \<open>Paging\<close>

text \<open>The loop of every listing: ask for the page a token names, add its items, go on with the next token
  until there is none.  \<open>step n t\<close> is the \<open>n\<close>-th page: its items and the token it names.  The loop returns
  \<^term>\<open>Some None\<close> for an error; \<^const>\<open>None\<close> is a loop that does not return.\<close>

partial_function (option) read_pages ::
    "(nat \<Rightarrow> string \<Rightarrow> ('a list \<times> string) option) \<Rightarrow> nat \<Rightarrow> string \<Rightarrow> 'a list \<Rightarrow> 'a list option option" where
  "read_pages step n next acc =
     (case step n next of
        None \<Rightarrow> Some None
      | Some (items, t) \<Rightarrow> if t = [] then Some (Some (acc @ items)) else read_pages step (Suc n) t (acc @ items))"

text \<open>Alibaba Cloud: the token is a parameter of the request and a field of the answer.\<close>

definition token_step ::
    "client \<Rightarrow> string \<Rightarrow> (string \<times> json) list \<Rightarrow> (json \<Rightarrow> 'a list) \<Rightarrow> nat \<Rightarrow> string \<Rightarrow> ('a list \<times> string) option" where
  "token_step ask op args items n next =
     map_option (\<lambda>body. (items body, text_of (field body ''NextToken'')))
       (ask n op (args @ (if next = [] then [] else [(''NextToken'', JStr next)])))"

section \<open>Alibaba Cloud\<close>

definition AlibabaRegions :: "client \<Rightarrow> string list option" where
  "AlibabaRegions ask =
     map_option (\<lambda>body. filter (\<lambda>s. s \<noteq> []) (map (\<lambda>r. text_of (field r ''RegionId''))
         (elements (field (field body ''Regions'') ''Region''))))
       (ask 0 ''DescribeRegions'' [(''AcceptLanguage'', JStr ''en-US''), (''ResourceType'', JStr ''instance'')])"

definition ecs_public :: "json \<Rightarrow> string" where
  "ecs_public it =
     (let s = first_value (elements (field (field it ''PublicIpAddress'') ''IpAddress''))
      in if s = [] then text_of (field (field it ''EipAddress'') ''IpAddress'') else s)"

definition ecs_private :: "json \<Rightarrow> string" where
  "ecs_private it =
     (let s = first_value (elements (field (field (field it ''VpcAttributes'') ''PrivateIpAddress'') ''IpAddress''))
      in if s = [] then first_value (elements (field (field it ''InnerIpAddress'') ''IpAddress'')) else s)"

definition ecs_instance :: "json \<Rightarrow> cloud_instance" where
  "ecs_instance it = \<lparr>ci_id = text_of (field it ''InstanceId''), ci_region = [],
     ci_name = text_of (field it ''InstanceName''), ci_state = to_lower (text_of (field it ''Status'')),
     ci_type = text_of (field it ''InstanceType''), ci_public = ecs_public it, ci_private = ecs_private it,
     ci_details = JObj [(''provider'', JStr ''alibaba''),
       (''tags'', JObj (filled (map (\<lambda>t. (text_of (field t ''TagKey''), text_of (field t ''TagValue'')))
          (filter (\<lambda>t. t \<noteq> JNull) (elements (field (field it ''Tags'') ''Tag'')))))),
       (''security_group_ids'', JList (map JStr (values_of (elements (field (field it ''SecurityGroupIds'') ''SecurityGroupId''))))),
       (''launch_time'', JStr (text_of (field it ''CreationTime''))),
       (''vpc_id'', JStr (text_of (field (field it ''VpcAttributes'') ''VpcId''))),
       (''subnet_id'', JStr (text_of (field (field it ''VpcAttributes'') ''VSwitchId''))),
       (''zone_id'', JStr (text_of (field it ''ZoneId''))), (''image_id'', JStr (text_of (field it ''ImageId''))),
       (''os_name'', JStr (text_of (field it ''OSNameEn''))), (''charge_type'', JStr (text_of (field it ''InstanceChargeType'')))]\<rparr>"

definition AlibabaInventory :: "client \<Rightarrow> string \<Rightarrow> cloud_instance list option option" where
  "AlibabaInventory ask region = read_pages
     (token_step ask ''DescribeInstances'' [(''RegionId'', JStr region), (''MaxResults'', JInt 100)]
       (\<lambda>body. map ecs_instance (filter (\<lambda>it. field it ''InstanceId'' \<noteq> JNull)
                 (elements (field (field body ''Instances'') ''Instance''))))) 0 [] []"

definition AlibabaDetails :: "client \<Rightarrow> string \<Rightarrow> string \<Rightarrow> json option" where
  "AlibabaDetails ask region iid =
     Option.bind (ask 0 ''DescribeInstances''
         [(''RegionId'', JStr region), (''InstanceIds'', JList [JStr iid]), (''MaxResults'', JInt 1)])
       (\<lambda>body. case elements (field (field body ''Instances'') ''Instance'') of [] \<Rightarrow> None | it # _ \<Rightarrow> Some it)"

section \<open>Security groups\<close>

record sec_rule =
  sr_id :: string
  sr_direction :: string
  sr_protocol :: string
  sr_ports :: string
  sr_source :: string
  sr_destination :: string
  sr_policy :: string
  sr_priority :: string
  sr_desc :: string
  sr_created :: string

record sec_group =
  sg_id :: string
  sg_name :: string
  sg_desc :: string
  sg_region :: string
  sg_vpc :: string
  sg_type :: string
  sg_instances :: int
  sg_rule_count :: int
  sg_group_rules :: int
  sg_available :: int
  sg_resource_group :: string
  sg_managed :: bool
  sg_created :: string
  sg_rules :: "sec_rule list"
  sg_rules_available :: bool

definition to_group :: "string \<Rightarrow> json \<Rightarrow> sec_group" where
  "to_group region it = \<lparr>sg_id = text_of (field it ''SecurityGroupId''), sg_name = text_of (field it ''SecurityGroupName''),
     sg_desc = text_of (field it ''Description''), sg_region = region, sg_vpc = text_of (field it ''VpcId''),
     sg_type = text_of (field it ''SecurityGroupType''), sg_instances = int32Value (field it ''EcsCount''),
     sg_rule_count = int32Value (field it ''RuleCount''), sg_group_rules = int32Value (field it ''GroupToGroupRuleCount''),
     sg_available = int32Value (field it ''AvailableInstanceAmount''), sg_resource_group = text_of (field it ''ResourceGroupId''),
     sg_managed = boolValue (field it ''ServiceManaged''), sg_created = text_of (field it ''CreationTime''),
     sg_rules = [], sg_rules_available = False\<rparr>"

definition AlibabaSecurityGroups :: "client \<Rightarrow> string \<Rightarrow> sec_group list option option" where
  "AlibabaSecurityGroups ask region = read_pages
     (token_step ask ''DescribeSecurityGroups''
       [(''RegionId'', JStr region), (''MaxResults'', JInt 100), (''IsQueryEcsCount'', JBool True)]
       (\<lambda>body. map (to_group region) (filter (\<lambda>it. field it ''SecurityGroupId'' \<noteq> JNull)
                 (elements (field (field body ''SecurityGroups'') ''SecurityGroup''))))) 0 [] []"

definition to_rule :: "json \<Rightarrow> sec_rule" where
  "to_rule it = \<lparr>sr_id = text_of (field it ''SecurityGroupRuleId''), sr_direction = text_of (field it ''Direction''),
     sr_protocol = text_of (field it ''IpProtocol''), sr_ports = text_of (field it ''PortRange''),
     sr_source = firstNonEmpty (map (\<lambda>k. text_of (field it k)) [''SourceCidrIp'', ''Ipv6SourceCidrIp'', ''SourceGroupId'', ''SourcePrefixListId'']),
     sr_destination = firstNonEmpty (map (\<lambda>k. text_of (field it k)) [''DestCidrIp'', ''Ipv6DestCidrIp'', ''DestGroupId'', ''DestPrefixListId'']),
     sr_policy = text_of (field it ''Policy''), sr_priority = text_of (field it ''Priority''),
     sr_desc = text_of (field it ''Description''), sr_created = text_of (field it ''CreateTime'')\<rparr>"

definition AlibabaSecurityGroupRules :: "client \<Rightarrow> string \<Rightarrow> string \<Rightarrow> sec_rule list option option" where
  "AlibabaSecurityGroupRules ask region gid = read_pages
     (token_step ask ''DescribeSecurityGroupAttribute''
       [(''RegionId'', JStr region), (''SecurityGroupId'', JStr gid), (''Direction'', JStr ''all''), (''MaxResults'', JInt 1000)]
       (\<lambda>body. map to_rule (filter (\<lambda>it. it \<noteq> JNull) (elements (field (field body ''Permissions'') ''Permission''))))) 0 [] []"

section \<open>Elastic desktops\<close>

record eds_region =
  er_id :: string
  er_name :: string

text \<open>\<^verbatim>\<open>EDSDesktop\<close>: the provider's item with the region it was listed in.\<close>

definition with_region :: "string \<Rightarrow> json \<Rightarrow> json" where
  "with_region region it =
     (case it of JObj fs \<Rightarrow> JObj (filter (\<lambda>(k, v). k \<noteq> ''RegionId'') fs @ [(''RegionId'', JStr region)]) | _ \<Rightarrow> it)"

definition EDSDesktops :: "client \<Rightarrow> string \<Rightarrow> json list option option" where
  "EDSDesktops ask region = read_pages
     (token_step ask ''DescribeDesktops'' [(''RegionId'', JStr region), (''MaxResults'', JInt 100)]
       (\<lambda>body. map (with_region region) (filter (\<lambda>it. it \<noteq> JNull) (elements (field body ''Desktops''))))) 0 [] []"

definition EDSDesktopCount :: "client \<Rightarrow> string \<Rightarrow> int option" where
  "EDSDesktopCount ask region =
     map_option (\<lambda>body. case field body ''TotalCount'' of JInt n \<Rightarrow> n | _ \<Rightarrow> int (length (elements (field body ''Desktops''))))
       (ask 0 ''DescribeDesktops'' [(''RegionId'', JStr region), (''MaxResults'', JInt 1)])"

definition EDSRegions :: "client \<Rightarrow> eds_region list option" where
  "EDSRegions ask =
     map_option (\<lambda>body. map (\<lambda>it. \<lparr>er_id = text_of (field it ''RegionId''), er_name = text_of (field it ''LocalName'')\<rparr>)
         (filter (\<lambda>it. text_of (field it ''RegionId'') \<noteq> []) (elements (field body ''Regions''))))
       (ask 0 ''DescribeRegions'' [(''AcceptLanguage'', JStr ''en-US'')])"

definition EDSUsers :: "client \<Rightarrow> json list option option" where
  "EDSUsers ask = read_pages (token_step ask ''DescribeUsers'' [(''MaxResults'', JInt 100)] (\<lambda>body. elements (field body ''Users''))) 0 [] []"

text \<open>The user directory is global in each partition.\<close>

definition user_region :: "string \<Rightarrow> string" where
  "user_region region =
     (if has_prefix ''cn-'' region \<and> region \<noteq> ''cn-hongkong'' then ''cn-shanghai'' else ''ap-southeast-1'')"

definition catalog_pages :: "client \<Rightarrow> string \<Rightarrow> string \<Rightarrow> string \<Rightarrow> json list option option" where
  "catalog_pages ask op region list =
     read_pages (token_step ask op [(''RegionId'', JStr region), (''MaxResults'', JInt 100)] (\<lambda>body. elements (field body list))) 0 [] []"

record eds_catalog =
  ec_sites :: "json list"
  ec_bundles :: "json list"
  ec_policies :: "json list"
  ec_types :: "json list"
  ec_images :: "json list"

text \<open>One listing after the other; an error of one ends the rest.\<close>

definition also_read :: "'a option option \<Rightarrow> ('a \<Rightarrow> 'b option option) \<Rightarrow> 'b option option" where
  "also_read r f = (case r of None \<Rightarrow> None | Some None \<Rightarrow> Some None | Some (Some x) \<Rightarrow> f x)"

definition EDSCatalogForRegion :: "client \<Rightarrow> string \<Rightarrow> eds_catalog option option" where
  "EDSCatalogForRegion ask region =
     also_read (catalog_pages ask ''DescribeOfficeSites'' region ''OfficeSites'') (\<lambda>sites.
     also_read (catalog_pages ask ''DescribeBundles'' region ''Bundles'') (\<lambda>bundles.
     also_read (catalog_pages ask ''DescribePolicyGroups'' region ''DescribePolicyGroups'') (\<lambda>policies.
       Some (Some \<lparr>ec_sites = sites, ec_bundles = bundles, ec_policies = policies, ec_types = [], ec_images = []\<rparr>))))"

definition EDSCustomCatalogForRegion :: "client \<Rightarrow> string \<Rightarrow> (json list \<times> json list) option option" where
  "EDSCustomCatalogForRegion ask region =
     (case ask 0 ''DescribeDesktopTypes'' [(''RegionId'', JStr region)] of
        None \<Rightarrow> Some None
      | Some body \<Rightarrow> also_read (catalog_pages ask ''DescribeImages'' region ''Images'')
          (\<lambda>images. Some (Some (elements (field body ''DesktopTypes''), images))))"

section \<open>AWS\<close>

definition aws_regions :: "client \<Rightarrow> string list option" where
  "aws_regions ask = map_option (\<lambda>body. map (\<lambda>r. text_of (field r ''RegionName'')) (elements (field body ''Regions'')))
     (ask 0 ''DescribeRegions'' [])"

definition aws_tags :: "json \<Rightarrow> (string \<times> json) list" where
  "aws_tags it = filled (map (\<lambda>t. (text_of (field t ''Key''), text_of (field t ''Value''))) (elements (field it ''Tags'')))"

definition aws_groups :: "json \<Rightarrow> string list" where
  "aws_groups it = map (\<lambda>g. text_of (field g ''GroupId'')) (elements (field it ''SecurityGroups''))"

text \<open>The launch time is the text of the SDK's time in RFC 3339, in UTC.\<close>

definition aws_instance :: "json \<Rightarrow> cloud_instance" where
  "aws_instance it = \<lparr>ci_id = text_of (field it ''InstanceId''), ci_region = [],
     ci_name = (case map_of (aws_tags it) ''Name'' of None \<Rightarrow> [] | Some n \<Rightarrow> text_of n),
     ci_state = (if field it ''State'' = JNull then ''unknown'' else text_of (field (field it ''State'') ''Name'')),
     ci_type = text_of (field it ''InstanceType''), ci_public = text_of (field it ''PublicIpAddress''),
     ci_private = text_of (field it ''PrivateIpAddress''),
     ci_details = JObj [(''tags'', JObj (aws_tags it)), (''security_group_ids'', JList (map JStr (aws_groups it))),
       (''launch_time'', field it ''LaunchTime''), (''vpc_id'', JStr (text_of (field it ''VpcId''))),
       (''subnet_id'', JStr (text_of (field it ''SubnetId''))),
       (''iam_instance_profile'', JStr (text_of (field (field it ''IamInstanceProfile'') ''Arn'')))]\<rparr>"

definition aws_items :: "json \<Rightarrow> json list" where
  "aws_items body = concat (map (\<lambda>r. elements (field r ''Instances'')) (elements (field body ''Reservations'')))"

definition aws_inventory :: "client \<Rightarrow> cloud_instance list option option" where
  "aws_inventory ask = read_pages (token_step ask ''DescribeInstances'' [] (\<lambda>body. map aws_instance (aws_items body))) 0 [] []"

definition aws_attached :: "client \<Rightarrow> string \<Rightarrow> string \<Rightarrow> string \<Rightarrow> json list option option" where
  "aws_attached ask op list iid = read_pages
     (token_step ask op [(''Filters'', JList [JObj [(''Name'', JStr ''attachment.instance-id''), (''Values'', JList [JStr iid])]])]
       (\<lambda>body. elements (field body list))) 0 [] []"

definition aws_details :: "client \<Rightarrow> string \<Rightarrow> json option option" where
  "aws_details ask iid =
     (case ask 0 ''DescribeInstances'' [(''InstanceIds'', JList [JStr iid])] of
        None \<Rightarrow> Some None
      | Some body \<Rightarrow>
          let ids = concat (map aws_groups (aws_items body))
          in case (if ids = [] then Some [] else map_option (\<lambda>b. elements (field b ''SecurityGroups''))
                     (ask 0 ''DescribeSecurityGroups'' [(''GroupIds'', JList (map JStr ids))])) of
               None \<Rightarrow> Some None
             | Some groups \<Rightarrow>
                 also_read (aws_attached ask ''DescribeVolumes'' ''Volumes'' iid) (\<lambda>volumes.
                 also_read (aws_attached ask ''DescribeNetworkInterfaces'' ''NetworkInterfaces'' iid) (\<lambda>nics.
                   Some (Some (JObj [(''security_groups'', JList groups), (''volumes'', JList volumes), (''network_interfaces'', JList nics)])))))"

section \<open>Azure and Google Cloud: requests\<close>

text \<open>\<^verbatim>\<open>url.PathEscape\<close>.\<close>

definition path_escape :: "string \<Rightarrow> string" where
  "path_escape s = concat (map (\<lambda>c.
     if is_lower c \<or> is_upper c \<or> is_digit c \<or> c \<in> set ''-_.~$&+=:@'' then [c]
     else [CHR ''%'', hex_upper (of_char c div 16), hex_upper (of_char c mod 16)]) s)"

text \<open>What \<^verbatim>\<open>request\<close> asks: an absolute target as it is, any other one below the base, and only where scheme
  and host are those of the base.  \<open>parse\<close> is \<^verbatim>\<open>url.Parse\<close>: scheme and host.\<close>

definition request_target :: "(string \<Rightarrow> (string \<times> string) option) \<Rightarrow> string \<Rightarrow> string \<Rightarrow> string option" where
  "request_target parse base target =
     (let url = (if has_prefix ''http'' target then target else trim_right (\<lambda>c. c = CHR ''/'') base @ target)
      in case (parse base, parse url) of
           (Some (scheme, host), Some (scheme', host')) \<Rightarrow>
             if equal_fold host host' \<and> scheme' = scheme then Some url else None
         | _ \<Rightarrow> None)"

text \<open>\<open>we_get n method url\<close> is the body of the \<open>n\<close>-th answer, \<^const>\<open>None\<close> for an error, a status outside 200 to
  299 or a body that does not decode; \<open>we_token\<close> whether the access token could be got.\<close>

record 'p web =
  we_parse :: "string \<Rightarrow> (string \<times> string) option"
  we_token :: bool
  we_get :: "nat \<Rightarrow> string \<Rightarrow> string \<Rightarrow> 'p option"

definition web_request :: "'p web \<Rightarrow> string \<Rightarrow> nat \<Rightarrow> string \<Rightarrow> string \<Rightarrow> 'p option" where
  "web_request web base n verb target =
     (if \<not> we_token web then None
      else Option.bind (request_target (we_parse web) base target) (we_get web n verb))"

section \<open>Azure\<close>

record azure_vm =
  vm_id :: string
  vm_name :: string
  vm_location :: string
  vm_tags :: json
  vm_zones :: json
  vm_provisioning :: string
  vm_size :: string
  vm_nics :: "string list"

record azure_view =
  av_computer :: string
  av_os :: string
  av_version :: string
  av_codes :: "string list"

datatype azure_body = VmPage "azure_vm list" string | View azure_view | Model json

definition azure_base :: string where
  "azure_base = ''https://management.azure.com''"

definition api_version :: string where
  "api_version = ''?api-version=2024-07-01''"

fun azurePowerState :: "string list \<Rightarrow> string" where
  "azurePowerState [] = ''unknown''"
| "azurePowerState (code # codes) =
     (if has_prefix ''powerstate/'' (to_lower code)
      then let state = trim_prefix ''powerstate/'' (to_lower code)
           in if state = ''deallocated'' \<or> state = ''stopped'' then ''stopped''
              else if state = ''deallocating'' \<or> state = ''stopping'' then ''stopping''
              else if state = ''starting'' then ''pending'' else state
      else azurePowerState codes)"

fun after_groups :: "string list \<Rightarrow> string" where
  "after_groups (p # q # ps) = (if equal_fold p ''resourceGroups'' then q else after_groups (q # ps))"
| "after_groups ps = []"

definition azureResourceGroup :: "string \<Rightarrow> string" where
  "azureResourceGroup i = after_groups (split_on CHR ''/'' (trim (\<lambda>c. c = CHR ''/'') i))"

definition azure_instance :: "azure_vm \<Rightarrow> azure_view \<Rightarrow> cloud_instance" where
  "azure_instance vm view = \<lparr>ci_id = vm_id vm, ci_region = to_lower (vm_location vm), ci_name = vm_name vm,
     ci_state = azurePowerState (av_codes view), ci_type = vm_size vm, ci_public = [], ci_private = [],
     ci_details = JObj [(''provider'', JStr ''azure''), (''tags'', vm_tags vm), (''zones'', vm_zones vm),
       (''resource_group'', JStr (azureResourceGroup (vm_id vm))), (''network_interface_ids'', JList (map JStr (vm_nics vm))),
       (''provisioning_state'', JStr (vm_provisioning vm)), (''computer_name'', JStr (av_computer view)),
       (''os_name'', JStr (av_os view)), (''os_version'', JStr (av_version view))]\<rparr>"

definition azure_viewed :: "azure_body web \<Rightarrow> nat \<Rightarrow> azure_vm \<Rightarrow> cloud_instance option" where
  "azure_viewed web n vm =
     (case web_request web azure_base n ''GET'' (vm_id vm @ ''/instanceView'' @ api_version) of
        Some (View view) \<Rightarrow> Some (azure_instance vm view)
      | _ \<Rightarrow> None)"

definition azure_step :: "azure_body web \<Rightarrow> nat \<Rightarrow> string \<Rightarrow> (cloud_instance list \<times> string) option" where
  "azure_step web n target =
     (case web_request web azure_base n ''GET'' target of
        Some (VmPage vms next) \<Rightarrow>
          map_option (\<lambda>items. (items, next))
            (those (map (azure_viewed web n) (filter (\<lambda>vm. vm_id vm \<noteq> [] \<and> vm_name vm \<noteq> [] \<and> vm_location vm \<noteq> []) vms)))
      | _ \<Rightarrow> None)"

definition azure_target :: "string \<Rightarrow> string" where
  "azure_target subscription =
     ''/subscriptions/'' @ path_escape subscription @ ''/providers/Microsoft.Compute/virtualMachines'' @ api_version"

definition AzureInventory :: "azure_body web \<Rightarrow> string \<Rightarrow> cloud_instance list option option" where
  "AzureInventory web subscription = read_pages (azure_step web) 0 (azure_target subscription) []"

definition AzureDetails :: "azure_body web \<Rightarrow> string \<Rightarrow> json option" where
  "AzureDetails web iid =
     (case web_request web azure_base 0 ''GET'' (iid @ api_version) of
        Some (Model model) \<Rightarrow>
          (case web_request web azure_base 1 ''GET'' (iid @ ''/instanceView'' @ api_version) of
             Some (Model view) \<Rightarrow> Some (JObj [(''model'', model), (''instance_view'', view)])
           | _ \<Rightarrow> None)
      | _ \<Rightarrow> None)"

section \<open>Google Cloud\<close>

record gcp_nic =
  gn_network :: string
  gn_subnet :: string
  gn_ip :: string
  gn_nat :: "string list"

record gcp_vm =
  gv_id :: string
  gv_name :: string
  gv_zone :: string
  gv_status :: string
  gv_machine :: string
  gv_created :: string
  gv_labels :: json
  gv_tags :: json
  gv_nics :: "gcp_nic list"

text \<open>A page: the instances of every scope it names, in the order the map is read, and the next token.
  Google also names the scopes it could not reach; the source does not read them.\<close>

datatype gcp_body = GcpPage "(string \<times> gcp_vm list) list" "string list" string | Resource json

definition gcp_base :: string where
  "gcp_base = ''https://compute.googleapis.com/compute/v1''"

definition gcpState :: "string \<Rightarrow> string" where
  "gcpState status =
     (let s = to_upper status
      in if s = ''RUNNING'' then ''running''
         else if s = ''TERMINATED'' \<or> s = ''SUSPENDED'' then ''stopped''
         else if s = ''STOPPING'' \<or> s = ''SUSPENDING'' then ''stopping''
         else if s = ''PROVISIONING'' \<or> s = ''STAGING'' \<or> s = ''REPAIRING'' then ''pending''
         else to_lower status)"

definition gcpTarget :: "string \<Rightarrow> (string \<times> string) option" where
  "gcpTarget i =
     (case cut_at CHR ''/'' i of
        None \<Rightarrow> None
      | Some (zone, name) \<Rightarrow> if zone = [] \<or> name = [] \<or> CHR ''/'' \<in> set name then None else Some (zone, name))"

definition lastResourcePart :: "string \<Rightarrow> string" where
  "lastResourcePart s = rev (takeWhile (\<lambda>c. c \<noteq> CHR ''/'') (rev (trim_right (\<lambda>c. c = CHR ''/'') s)))"

text \<open>The text before the last dash, where there is one after the first character.\<close>

definition GCPRegion :: "string \<Rightarrow> string" where
  "GCPRegion zone =
     (let before = rev (drop 1 (dropWhile (\<lambda>c. c \<noteq> CHR ''-'') (rev zone)))
      in if CHR ''-'' \<in> set zone \<and> before \<noteq> [] then before else zone)"

definition gcp_instance :: "gcp_vm \<Rightarrow> cloud_instance" where
  "gcp_instance vm =
     (let zone = lastResourcePart (gv_zone vm);
          nic = (case gv_nics vm of [] \<Rightarrow> \<lparr>gn_network = [], gn_subnet = [], gn_ip = [], gn_nat = []\<rparr> | x # _ \<Rightarrow> x)
      in \<lparr>ci_id = zone @ ''/'' @ gv_name vm, ci_region = GCPRegion zone, ci_name = gv_name vm, ci_state = gcpState (gv_status vm),
          ci_type = lastResourcePart (gv_machine vm),
          ci_public = (case gn_nat nic of [] \<Rightarrow> [] | ip # _ \<Rightarrow> ip), ci_private = gn_ip nic,
          ci_details = JObj [(''provider'', JStr ''gcp''), (''provider_id'', JStr (gv_id vm)), (''tags'', gv_labels vm),
            (''network_tags'', gv_tags vm), (''launch_time'', JStr (gv_created vm)), (''zone'', JStr zone),
            (''network'', JStr (lastResourcePart (gn_network nic))), (''subnet_id'', JStr (lastResourcePart (gn_subnet nic)))]\<rparr>)"

definition gcp_listed :: "gcp_vm \<Rightarrow> bool" where
  "gcp_listed vm \<longleftrightarrow> gv_name vm \<noteq> [] \<and> lastResourcePart (gv_zone vm) \<noteq> []"

definition gcp_list_target :: "string \<Rightarrow> string" where
  "gcp_list_target project =
     ''/projects/'' @ path_escape project @ ''/aggregated/instances?returnPartialSuccess=true&maxResults=500''"

text \<open>The loop runs on the target of the next page; the token of the answer makes it.\<close>

definition gcp_step :: "gcp_body web \<Rightarrow> string \<Rightarrow> nat \<Rightarrow> string \<Rightarrow> (cloud_instance list \<times> string) option" where
  "gcp_step web project n target =
     (case web_request web gcp_base n ''GET'' target of
        Some (GcpPage scopes unreached next) \<Rightarrow>
          Some (concat (map (\<lambda>(scope, vms). map gcp_instance (filter gcp_listed vms)) scopes),
                if next = [] then [] else gcp_list_target project @ ''&pageToken='' @ query_escape next)
      | _ \<Rightarrow> None)"

definition GCPInventory :: "gcp_body web \<Rightarrow> string \<Rightarrow> cloud_instance list option option" where
  "GCPInventory web project = read_pages (gcp_step web project) 0 (gcp_list_target project) []"

definition gcp_instance_target :: "string \<Rightarrow> string \<Rightarrow> string \<Rightarrow> string" where
  "gcp_instance_target project zone name =
     ''/projects/'' @ path_escape project @ ''/zones/'' @ path_escape zone @ ''/instances/'' @ path_escape name"

definition GCPDetails :: "gcp_body web \<Rightarrow> string \<Rightarrow> string \<Rightarrow> json option" where
  "GCPDetails web project iid =
     (case gcpTarget iid of
        None \<Rightarrow> None
      | Some (zone, name) \<Rightarrow>
          (case web_request web gcp_base 0 ''GET'' (gcp_instance_target project zone name) of
             Some (Resource j) \<Rightarrow> Some j
           | _ \<Rightarrow> None))"

section \<open>Actions\<close>

text \<open>The operation of \<^verbatim>\<open>Action\<close>, \<^verbatim>\<open>AlibabaAction\<close>, \<^verbatim>\<open>AzureAction\<close> and \<^verbatim>\<open>GCPAction\<close> with what it names; \<^const>\<open>None\<close>
  where the source gives up before it asks the provider.\<close>

definition aws_action :: "string \<Rightarrow> string option" where
  "aws_action action =
     (if action = ''start'' then Some ''StartInstances'' else if action = ''stop'' then Some ''StopInstances''
      else if action = ''reboot'' then Some ''RebootInstances'' else None)"

definition alibaba_action :: "string \<Rightarrow> string option" where
  "alibaba_action action =
     (if action = ''start'' then Some ''StartInstance'' else if action = ''stop'' then Some ''StopInstance''
      else if action = ''reboot'' then Some ''RebootInstance'' else None)"

definition azure_action :: "string \<Rightarrow> string \<Rightarrow> string option" where
  "azure_action iid action =
     map_option (\<lambda>op. iid @ ''/'' @ op @ api_version)
       (map_of [(''start'', ''start''), (''stop'', ''deallocate''), (''reboot'', ''restart'')] action)"

definition gcp_action :: "string \<Rightarrow> string \<Rightarrow> string \<Rightarrow> string option" where
  "gcp_action project iid action =
     (case gcpTarget iid of
        None \<Rightarrow> None
      | Some (zone, name) \<Rightarrow>
          map_option (\<lambda>op. gcp_instance_target project zone name @ ''/'' @ op)
            (map_of [(''start'', ''start''), (''stop'', ''stop''), (''reboot'', ''reset'')] action))"

section \<open>The collector's view\<close>

text \<open>The clients of an account, \<^const>\<open>None\<close> where its credentials cannot be read; an Azure client comes with
  its subscription and a Google Cloud client with its project.\<close>

record clients =
  cl_aws :: "int \<Rightarrow> string \<Rightarrow> client option"
  cl_alibaba :: "int \<Rightarrow> string \<Rightarrow> client option"
  cl_azure :: "int \<Rightarrow> (azure_body web \<times> string) option"
  cl_gcp :: "int \<Rightarrow> (gcp_body web \<times> string) option"

definition finished :: "'a option option \<Rightarrow> 'a option" where
  "finished r = (case r of Some v \<Rightarrow> v | None \<Rightarrow> None)"

text \<open>What \<^verbatim>\<open>collectAccount\<close>, \<^verbatim>\<open>collectRegion\<close> and \<^verbatim>\<open>collectGlobal\<close> get from \<^verbatim>\<open>internal/cloud\<close>.\<close>

definition provider_answers :: "clients \<Rightarrow> cloud_ext" where
  "provider_answers c = \<lparr>
     cx_regions = (\<lambda>provider acc.
       if provider = ''aws'' then Option.bind (cl_aws c acc ''us-east-1'') aws_regions
       else Option.bind (cl_alibaba c acc ''cn-hangzhou'') AlibabaRegions),
     cx_region = (\<lambda>provider acc region.
       if provider = ''aws'' then Option.bind (cl_aws c acc region) (\<lambda>ask. finished (aws_inventory ask))
       else if provider = ''alibaba''
       then Option.bind (cl_alibaba c acc region) (\<lambda>ask. finished (AlibabaInventory ask region))
       else None),
     cx_global = (\<lambda>provider acc.
       if provider = ''azure''
       then Option.bind (cl_azure c acc) (\<lambda>(web, subscription). finished (AzureInventory web subscription))
       else if provider = ''gcp'' then Option.bind (cl_gcp c acc) (\<lambda>(web, project). finished (GCPInventory web project))
       else None)\<rparr>"

end
