(* ===== verification/CloudOps.thy ===== *)
theory CloudOps
  imports Accounts Refresh Providers
begin

text \<open>
  Operations on a provider's resources: the instance handlers (\<^verbatim>\<open>instances.go\<close>), the rules of security groups
  (\<^verbatim>\<open>security_groups.go\<close>, \<^verbatim>\<open>cloud/security_groups.go\<close>) and the creation of buckets (\<^verbatim>\<open>oss.go\<close>).  Every
  operation that changes something at the provider goes through \<open>submit\<close>: the intent is recorded first,
  and without the record the provider is not called.

  \<open>provider_ext\<close> is what the SDKs answer: whether a client can be built from credentials, the answer to a
  call (\<^const>\<open>None\<close> for an error), and the answer to a query.  A call that changes something is appended to
  \<^const>\<open>w_calls\<close>.
\<close>

record provider_ext =
  px_parse :: "string \<Rightarrow> (string \<times> string) option"
  px_client :: "string \<Rightarrow> string \<Rightarrow> credentials \<Rightarrow> bool"
  px_call :: "pcall \<Rightarrow> json option"
  px_query :: "pcall \<Rightarrow> json option"

section \<open>Credentials and submission\<close>

definition account_credentials :: "env \<Rightarrow> nat \<Rightarrow> account_ext \<Rightarrow> db \<Rightarrow> int \<Rightarrow> int \<Rightarrow> string \<Rightarrow> credentials option" where
  "account_credentials e i x d ws acc provider =
     (if e_fault e i then None
      else case find (\<lambda>a. ac_id a = acc \<and> ac_ws a = ws \<and> ac_provider a = provider) (d_accounts d) of
        None \<Rightarrow> None
      | Some a \<Rightarrow> Option.bind (ae_open x (ac_cred a)) (ae_unmarshal x))"

text \<open>\<^verbatim>\<open>awsClient\<close>, \<^verbatim>\<open>alibabaClient\<close>, \<^verbatim>\<open>azureClient\<close>, \<^verbatim>\<open>gcpClient\<close>: whether a client could be built.\<close>

definition provider_client ::
    "env \<Rightarrow> nat \<Rightarrow> account_ext \<Rightarrow> provider_ext \<Rightarrow> db \<Rightarrow> int \<Rightarrow> int \<Rightarrow> string \<Rightarrow> string \<Rightarrow> bool" where
  "provider_client e i x p d ws acc provider region \<longleftrightarrow>
     (case account_credentials e i x d ws acc provider of None \<Rightarrow> False | Some c \<Rightarrow> px_client p provider region c)"

text \<open>Record the intent, call the provider when \<open>ready\<close>, and go on with its answer; without the record the
  answer is \<open>refused\<close>.\<close>

definition submit ::
    "env \<Rightarrow> nat \<Rightarrow> provider_ext \<Rightarrow> user \<Rightarrow> string \<times> string \<times> json \<Rightarrow> resp \<Rightarrow> bool \<Rightarrow> pcall \<Rightarrow>
     (json option \<Rightarrow> world \<Rightarrow> resp \<times> world) \<Rightarrow> world \<Rightarrow> resp \<times> world" where
  "submit e i p u entry refused ready call rest w =
     (case entry of (action, target, details) \<Rightarrow>
        (case rcd e i w (u_ws u) (u_id u) (u_name u) action target details of
           (False, w1) \<Rightarrow> (refused, w1)
         | (True, w1) \<Rightarrow>
             if \<not> ready then rest None w1
             else rest (px_call p call) (w1\<lparr>w_calls := w_calls w1 @ [call]\<rparr>)))"

section \<open>Instances\<close>

definition instance_fields :: "inst_row \<Rightarrow> (string \<times> json) list" where
  "instance_fields i = [
     (''id'', JInt (in_id i)), (''account_id'', JInt (in_account i)), (''instance_id'', JStr (in_iid i)),
     (''region'', JStr (in_region i)), (''name'', JStr (in_name i)), (''state'', JStr (in_state i)),
     (''instance_type'', JStr (in_type i)), (''public_ip'', JStr (in_public i)),
     (''private_ip'', JStr (in_private i)), (''details'', in_details i), (''seen_at'', JInt (in_seen i))]"

definition instance_json :: "inst_row \<Rightarrow> account_row \<Rightarrow> json" where
  "instance_json i a = JObj (instance_fields i @
     [(''account_name'', JStr (ac_name a)), (''provider'', JStr (ac_provider a)), (''group_id'', opt_json JInt (ac_group a))])"

definition instance_matches :: "request \<Rightarrow> inst_row \<Rightarrow> account_row \<Rightarrow> bool" where
  "instance_matches r i a \<longleftrightarrow>
     (let q = rq_query r ''q''
      in q = [] \<or> ilike (in_name i) q \<or> ilike (in_iid i) q \<or> ilike (in_public i) q \<or> ilike (ac_name a) q) \<and>
     (rq_query r ''state'' = [] \<or> in_state i = rq_query r ''state'') \<and>
     (rq_query r ''region'' = [] \<or> in_region i = rq_query r ''region'')"

definition instance_rows :: "db \<Rightarrow> int \<Rightarrow> int list \<Rightarrow> request \<Rightarrow> (inst_row \<times> account_row) list" where
  "instance_rows d ws ids r =
     sort_key (\<lambda>(i, a). (in_name i)) (sort_key (\<lambda>(i, a). in_id i)
       [(i, a). i \<leftarrow> d_insts d, a \<leftarrow> d_accounts d,
                ac_id a = in_account i \<and> ac_ws a = ws \<and> ac_id a \<in> set ids \<and> instance_matches r i a])"

definition instances :: "env \<Rightarrow> user \<Rightarrow> request \<Rightarrow> db \<Rightarrow> resp" where
  "instances e u r d =
     (case pagination r of (limit, offset) \<Rightarrow>
        (case accessibleAccountIDs e 0 d u ''account.view'' of
           None \<Rightarrow> dbError DbFailed
         | Some allowed \<Rightarrow>
             (case requestedAccountIDs e 1 d u r allowed of
                Inl p \<Rightarrow> p
              | Inr ids \<Rightarrow>
                  list_reply e 2 (map (\<lambda>(i, a). instance_json i a)
                    (take (nat limit) (drop (nat offset) (instance_rows d (u_ws u) ids r)))))))"

datatype target_error = NoTarget db_err | Forbidden

record target =
  tg_account :: int
  tg_iid :: string
  tg_region :: string
  tg_provider :: string

definition instanceTarget :: "env \<Rightarrow> nat \<Rightarrow> db \<Rightarrow> user \<Rightarrow> int \<Rightarrow> string \<Rightarrow> target_error + target" where
  "instanceTarget e i d u iid mode =
     (if e_fault e i then Inl (NoTarget DbFailed)
      else case find (\<lambda>(r, a). in_id r = iid \<and> ac_id a = in_account r \<and> ac_ws a = u_ws u)
                  (List.product (d_insts d) (d_accounts d)) of
        None \<Rightarrow> Inl (NoTarget NoRows)
      | Some (r, a) \<Rightarrow>
          if \<not> accountAccess e (i + 1) d u (in_account r) mode then Inl Forbidden
          else Inr \<lparr>tg_account = in_account r, tg_iid = in_iid r, tg_region = in_region r, tg_provider = ac_provider a\<rparr>)"

definition target_problem :: "string \<Rightarrow> target_error \<Rightarrow> resp" where
  "target_problem msg err = (case err of Forbidden \<Rightarrow> problem 403 msg | NoTarget f \<Rightarrow> dbError f)"

definition known_cloud :: "string \<Rightarrow> bool" where
  "known_cloud provider \<longleftrightarrow> provider \<in> {''aws'', ''alibaba'', ''azure'', ''gcp''}"

text \<open>The state the handler writes ahead of the next collection.\<close>

definition expected_state :: "string \<Rightarrow> string \<Rightarrow> string" where
  "expected_state provider action =
     (if action = ''start'' then if provider = ''alibaba'' then ''starting'' else ''pending''
      else if action = ''stop'' then ''stopping'' else [])"

definition set_state :: "db \<Rightarrow> int \<Rightarrow> string \<Rightarrow> db" where
  "set_state d iid st = d\<lparr>d_insts := map (\<lambda>r. if in_id r = iid then r\<lparr>in_state := st\<rparr> else r) (d_insts d)\<rparr>"

definition action_done :: "env \<Rightarrow> user \<Rightarrow> string \<Rightarrow> int \<Rightarrow> target \<Rightarrow> json option \<Rightarrow> world \<Rightarrow> resp \<times> world" where
  "action_done e u action iid t answer w =
     (case answer of
        None \<Rightarrow> (problem 502 ''Cloud provider rejected the action; check instance state and permissions'',
                 audit e 4 u w (''instance.'' @ action @ ''.failed'') (tg_iid t) JNull)
      | Some _ \<Rightarrow>
          let st = expected_state (tg_provider t) action;
              w1 = (if st = [] \<or> e_fault e 5 then w else with_db w (set_state (w_db w) iid st))
          in (reply 202 (JObj [(''status'', JStr ''accepted''), (''action'', JStr action), (''instance_id'', JStr (tg_iid t))]),
              audit e 6 u w1 (''instance.'' @ action @ ''.accepted'') (tg_iid t) JNull))"

text \<open>The call of \<^verbatim>\<open>cloud.Action\<close>, \<^verbatim>\<open>AlibabaAction\<close>, \<^verbatim>\<open>AzureAction\<close> or \<^verbatim>\<open>GCPAction\<close>, \<^const>\<open>None\<close> where it gives up.\<close>

definition instance_call :: "provider_ext \<Rightarrow> credentials \<Rightarrow> target \<Rightarrow> string \<Rightarrow> pcall option" where
  "instance_call p c t action =
     map_option (\<lambda>(op, arg). \<lparr>pc_provider = tg_provider t, pc_account = tg_account t, pc_op = op, pc_arg = JObj arg\<rparr>)
       (if tg_provider t = ''aws''
        then map_option (\<lambda>op. (op, [(''Region'', JStr (tg_region t)), (''InstanceIds'', JList [JStr (tg_iid t)])])) (aws_action action)
        else if tg_provider t = ''alibaba''
        then map_option (\<lambda>op. (op, [(''RegionId'', JStr (tg_region t)), (''InstanceId'', JStr (tg_iid t))])) (alibaba_action action)
        else if tg_provider t = ''azure''
        then map_option (\<lambda>url. (''POST'', [(''url'', JStr url)]))
               (Option.bind (azure_action (tg_iid t) action) (request_target (px_parse p) azure_base))
        else if tg_provider t = ''gcp''
        then map_option (\<lambda>url. (''POST'', [(''url'', JStr url)]))
               (Option.bind (gcp_action (cr_project c) (tg_iid t) action) (request_target (px_parse p) gcp_base))
        else None)"

definition instance_request ::
    "env \<Rightarrow> nat \<Rightarrow> account_ext \<Rightarrow> provider_ext \<Rightarrow> db \<Rightarrow> int \<Rightarrow> target \<Rightarrow> string \<Rightarrow> pcall option" where
  "instance_request e i x p d ws t action =
     (if \<not> known_cloud (tg_provider t) then None
      else case account_credentials e i x d ws (tg_account t) (tg_provider t) of
        None \<Rightarrow> None
      | Some c \<Rightarrow> if px_client p (tg_provider t) (tg_region t) c then instance_call p c t action else None)"

definition instance_action ::
    "env \<Rightarrow> account_ext \<Rightarrow> provider_ext \<Rightarrow> user \<Rightarrow> request \<Rightarrow> string body \<Rightarrow> world \<Rightarrow> resp \<times> world" where
  "instance_action e x p u r b w =
     (case pathID r ''id'' of
        Inl q \<Rightarrow> (q, w)
      | Inr iid \<Rightarrow>
          (case decode r b of
             Inl q \<Rightarrow> (q, w)
           | Inr action \<Rightarrow>
               if action \<notin> {''start'', ''stop'', ''reboot''} then (problem 400 ''Action must be start, stop or reboot'', w)
               else (case instanceTarget e 0 (w_db w) u iid ''operate'' of
                       Inl err \<Rightarrow> (target_problem ''Operator or manager access required'' err, w)
                     | Inr t \<Rightarrow>
                         submit e 2 p u (''instance.'' @ action @ ''.requested'', tg_iid t, JNull)
                           (problem 503 ''Action was not submitted because audit storage is unavailable'')
                           (instance_request e 3 x p (w_db w) (u_ws u) t action \<noteq> None)
                           (the (instance_request e 3 x p (w_db w) (u_ws u) t action)) (action_done e u action iid t) w)))"

section \<open>Security group rules\<close>

record rule_request =
  rr_region :: string
  rr_direction :: string
  rr_protocol :: string
  rr_from :: int
  rr_to :: int
  rr_cidr :: string
  rr_policy :: string
  rr_priority :: int
  rr_desc :: string

record rule_input =
  ri_direction :: string
  ri_protocol :: string
  ri_ports :: string
  ri_cidr :: string
  ri_policy :: string
  ri_priority :: string
  ri_desc :: string
  ri_token :: string

definition clean_rule :: "rule_request \<Rightarrow> rule_request" where
  "clean_rule q = q\<lparr>rr_region := trim_space (rr_region q), rr_direction := to_lower (trim_space (rr_direction q)),
     rr_protocol := to_lower (trim_space (rr_protocol q)), rr_cidr := trim_space (rr_cidr q),
     rr_policy := to_lower (trim_space (rr_policy q)), rr_desc := trim_space (rr_desc q)\<rparr>"

text \<open>The request as the code leaves it with the rule to submit, or the message of the check it fails.\<close>

definition validateSecurityGroupRule :: "env \<Rightarrow> rule_request \<Rightarrow> string + rule_request \<times> rule_input" where
  "validateSecurityGroupRule e q =
     (let q = clean_rule q
      in if \<not> regionPattern (rr_region q) then Inl ''Select a valid Alibaba Cloud region''
         else if rr_direction q \<noteq> ''ingress'' \<and> rr_direction q \<noteq> ''egress''
         then Inl ''Direction must be ingress or egress''
         else if rr_protocol q \<notin> {''tcp'', ''udp'', ''icmp'', ''all''} then Inl ''Protocol must be tcp, udp, icmp or all''
         else if parseCIDR (rr_cidr q) = None then Inl ''Enter a valid IPv4 or IPv6 CIDR block''
         else if rr_policy q \<noteq> ''accept'' \<and> rr_policy q \<noteq> ''drop'' then Inl ''Policy must be accept or drop''
         else if rr_priority q < 1 \<or> rr_priority q > 100 then Inl ''Priority must be between 1 and 100''
         else if rune_count (rr_desc q) > 512 then Inl ''Description cannot exceed 512 characters''
         else if (rr_protocol q = ''tcp'' \<or> rr_protocol q = ''udp'') \<and>
                 (rr_from q < 1 \<or> rr_from q > 65535 \<or> rr_to q < rr_from q \<or> rr_to q > 65535)
         then Inl ''Use a valid port range between 1 and 65535''
         else Inr (q, \<lparr>ri_direction = rr_direction q, ri_protocol = rr_protocol q,
           ri_ports = (if rr_protocol q = ''tcp'' \<or> rr_protocol q = ''udp''
                       then show_int (rr_from q) @ ''/'' @ show_int (rr_to q) else ''-1/-1''),
           ri_cidr = rr_cidr q, ri_policy = rr_policy q, ri_priority = show_int (rr_priority q),
           ri_desc = rr_desc q, ri_token = e_token e 0\<rparr>))"

text \<open>\<^verbatim>\<open>AlibabaAuthorizeSecurityGroupRule\<close> and \<^verbatim>\<open>AlibabaRevokeSecurityGroupRule\<close>: the SDK call and its
  parameters.\<close>

definition authorize_call :: "int \<Rightarrow> string \<Rightarrow> string \<Rightarrow> rule_input \<Rightarrow> pcall" where
  "authorize_call acc region gid rule =
     (let out = ri_direction rule = ''egress''; v6 = CHR '':'' \<in> set (ri_cidr rule)
      in \<lparr>pc_provider = ''alibaba'', pc_account = acc,
          pc_op = (if out then ''AuthorizeSecurityGroupEgress'' else ''AuthorizeSecurityGroup''),
          pc_arg = JObj ([(''RegionId'', JStr region), (''SecurityGroupId'', JStr gid),
             (''IpProtocol'', JStr (ri_protocol rule)), (''PortRange'', JStr (ri_ports rule)),
             (''Policy'', JStr (ri_policy rule)), (''Priority'', JStr (ri_priority rule))] @
            (if ri_desc rule = [] then [] else [(''Description'', JStr (ri_desc rule))]) @
            [(if out then if v6 then ''Ipv6DestCidrIp'' else ''DestCidrIp''
              else if v6 then ''Ipv6SourceCidrIp'' else ''SourceCidrIp'', JStr (ri_cidr rule)),
             (''ClientToken'', JStr (ri_token rule))])\<rparr>)"

definition revoke_call :: "int \<Rightarrow> string \<Rightarrow> string \<Rightarrow> string \<Rightarrow> string \<Rightarrow> string \<Rightarrow> pcall" where
  "revoke_call acc region gid rid direction token =
     \<lparr>pc_provider = ''alibaba'', pc_account = acc,
      pc_op = (if direction = ''egress'' then ''RevokeSecurityGroupEgress'' else ''RevokeSecurityGroup''),
      pc_arg = JObj [(''RegionId'', JStr region), (''SecurityGroupId'', JStr gid),
         (''SecurityGroupRuleId'', JList [JStr rid]), (''ClientToken'', JStr token)]\<rparr>"

definition createSecurityGroupRule ::
    "env \<Rightarrow> account_ext \<Rightarrow> provider_ext \<Rightarrow> user \<Rightarrow> request \<Rightarrow> rule_request body \<Rightarrow> world \<Rightarrow> resp \<times> world" where
  "createSecurityGroupRule e x p u r b w =
     (case securityGroupAccount e (w_db w) u r ''manage'' of
        Inl q \<Rightarrow> (q, w)
      | Inr acc \<Rightarrow>
          let gid = rq_path r ''groupID''
          in if \<not> securityGroupIDPattern gid then (problem 400 ''Invalid security group ID'', w)
             else (case decode r b of
               Inl q \<Rightarrow> (q, w)
             | Inr inp \<Rightarrow>
                 (case validateSecurityGroupRule e inp of
                    Inl msg \<Rightarrow> (problem 400 msg, w)
                  | Inr (q, rule) \<Rightarrow>
                      let short = JObj [(''account_id'', JInt acc), (''region'', JStr (rr_region q))]
                      in submit e 2 p u (''ecs.security_group_rule.create_requested'', gid,
                           JObj [(''account_id'', JInt acc), (''region'', JStr (rr_region q)),
                             (''direction'', JStr (rr_direction q)), (''protocol'', JStr (rr_protocol q)),
                             (''port_range'', JStr (ri_ports rule)), (''cidr'', JStr (rr_cidr q)),
                             (''policy'', JStr (rr_policy q)), (''priority'', JInt (rr_priority q))])
                         (problem 503 ''Rule was not submitted because audit storage is unavailable'')
                         (provider_client e 3 x p (w_db w) (u_ws u) acc ''alibaba'' (rr_region q))
                         (authorize_call acc (rr_region q) gid rule)
                         (\<lambda>answer w1. case answer of
                            None \<Rightarrow> (problem 502 ''Alibaba ECS rejected the rule; check RAM permissions, CIDR, ports, and security group state'',
                                     audit e 4 u w1 ''ecs.security_group_rule.create_failed'' gid short)
                          | Some _ \<Rightarrow> (reply 201 (JObj [(''status'', JStr ''created'')]),
                                     audit e 5 u w1 ''ecs.security_group_rule.created'' gid short)) w)))"

definition deleteSecurityGroupRule ::
    "env \<Rightarrow> account_ext \<Rightarrow> provider_ext \<Rightarrow> user \<Rightarrow> request \<Rightarrow> world \<Rightarrow> resp \<times> world" where
  "deleteSecurityGroupRule e x p u r w =
     (case securityGroupAccount e (w_db w) u r ''manage'' of
        Inl q \<Rightarrow> (q, w)
      | Inr acc \<Rightarrow>
          let gid = rq_path r ''groupID''; rid = rq_path r ''ruleID'';
              region = trim_space (rq_query r ''region''); direction = to_lower (trim_space (rq_query r ''direction''))
          in if \<not> securityGroupIDPattern gid \<or> \<not> securityGroupRuleIDPattern rid
             then (problem 400 ''Invalid security group or rule ID'', w)
             else if \<not> regionPattern region \<or> direction \<noteq> ''ingress'' \<and> direction \<noteq> ''egress''
             then (problem 400 ''A valid region and rule direction are required'', w)
             else let short = [(''account_id'', JInt acc), (''security_group_id'', JStr gid), (''region'', JStr region)]
             in submit e 2 p u (''ecs.security_group_rule.delete_requested'', rid,
                  JObj (short @ [(''direction'', JStr direction)]))
                (problem 503 ''Rule was not deleted because audit storage is unavailable'')
                (provider_client e 3 x p (w_db w) (u_ws u) acc ''alibaba'' region)
                (revoke_call acc region gid rid direction (e_token e 0))
                (\<lambda>answer w1. case answer of
                   None \<Rightarrow> (problem 502 ''Alibaba ECS rejected the deletion; check RAM permissions and rule state'',
                            audit e 4 u w1 ''ecs.security_group_rule.delete_failed'' rid (JObj short))
                 | Some _ \<Rightarrow> (reply 204 JNull, audit e 5 u w1 ''ecs.security_group_rule.deleted'' rid (JObj short))) w)"

section \<open>Buckets\<close>

record bucket_input =
  bi_name :: string
  bi_region :: string
  bi_class :: string
  bi_redundancy :: string
  bi_confirm :: bool

definition bucket_problem :: "bucket_input \<Rightarrow> string option" where
  "bucket_problem b =
     (if \<not> ossBucketNamePattern (bi_name b)
      then Some ''Bucket name must be 3-63 lowercase letters, numbers, or hyphens and must start and end with a letter or number''
      else if \<not> regionPattern (bi_region b) then Some ''A valid Alibaba Cloud region is required''
      else if bi_class b \<notin> {''Standard'', ''IA'', ''Archive'', ''ColdArchive''} then Some ''Unsupported OSS storage class''
      else if bi_redundancy b \<noteq> ''LRS'' \<and> bi_redundancy b \<noteq> ''ZRS'' then Some ''OSS redundancy must be LRS or ZRS''
      else if \<not> bi_confirm b then Some ''Explicit cost confirmation is required''
      else None)"

definition bucket_call :: "int \<Rightarrow> bucket_input \<Rightarrow> pcall" where
  "bucket_call acc b = \<lparr>pc_provider = ''alibaba'', pc_account = acc, pc_op = ''PutBucket'',
     pc_arg = JObj [(''Bucket'', JStr (bi_name b)), (''Region'', JStr (bi_region b)), (''Acl'', JStr ''private''),
       (''StorageClass'', JStr (bi_class b)), (''DataRedundancyType'', JStr (bi_redundancy b))]\<rparr>"

text \<open>The credentials are read after the record; where they cannot be read the provider is not called.\<close>

definition createOSSBucket ::
    "env \<Rightarrow> account_ext \<Rightarrow> provider_ext \<Rightarrow> user \<Rightarrow> request \<Rightarrow> bucket_input body \<Rightarrow> world \<Rightarrow> resp \<times> world" where
  "createOSSBucket e x p u r b w =
     (case ossAccount e (w_db w) u r ''manage'' of
        Inl q \<Rightarrow> (q, w)
      | Inr acc \<Rightarrow>
          (case decode r b of
             Inl q \<Rightarrow> (q, w)
           | Inr inp \<Rightarrow>
               let inp = inp\<lparr>bi_name := trim_space (bi_name inp), bi_region := trim_space (bi_region inp)\<rparr>;
                   creds = account_credentials e 3 x (w_db w) (u_ws u) acc ''alibaba''
               in case bucket_problem inp of
                    Some msg \<Rightarrow> (problem 400 msg, w)
                  | None \<Rightarrow>
                      submit e 2 p u (''oss.bucket.create.requested'', bi_name inp,
                          JObj [(''account_id'', JInt acc), (''region'', JStr (bi_region inp)),
                            (''storage_class'', JStr (bi_class inp)), (''redundancy_type'', JStr (bi_redundancy inp)),
                            (''acl'', JStr ''private'')])
                        (problem 503 ''Bucket was not submitted because audit storage is unavailable'')
                        (creds \<noteq> None) (bucket_call acc inp)
                        (\<lambda>answer w1.
                           if creds = None then (problem 400 ''The selected account is not an Alibaba Cloud connection'', w1)
                           else case answer of
                             None \<Rightarrow> (problem 502 ''Alibaba OSS rejected bucket creation; check global name availability, region support, RAM permissions, and account activation'',
                                      audit e 4 u w1 ''oss.bucket.create.failed'' (bi_name inp) JNull)
                           | Some _ \<Rightarrow> (reply 202 (JObj [(''status'', JStr ''created''), (''name'', JStr (bi_name inp)),
                                        (''region'', JStr (bi_region inp))]),
                                      audit e 5 u w1 ''oss.bucket.create.accepted'' (bi_name inp) JNull)) w))"

end
