(* ===== verification/EdsOps.thy ===== *)
theory EdsOps
  imports CloudOps
begin

text \<open>
  The handlers of elastic desktops that change something at the provider (\<^verbatim>\<open>internal/app/eds.go\<close>), with the
  requests \<^verbatim>\<open>internal/cloud/eds.go\<close> builds for them.  Each one checks the account, its request, and then
  goes through \<^const>\<open>submit\<close>.
\<close>

section \<open>The account\<close>

definition edsAccount ::
    "env \<Rightarrow> account_ext \<Rightarrow> provider_ext \<Rightarrow> db \<Rightarrow> user \<Rightarrow> request \<Rightarrow> string \<Rightarrow> resp + int \<times> string" where
  "edsAccount e x p d u r mode =
     (case pathID r ''id'' of
        Inl q \<Rightarrow> Inl q
      | Inr acc \<Rightarrow>
          if \<not> accountAccess e 0 d u acc mode then Inl (problem 403 ''Cloud account access required'')
          else let region = trim_space (rq_query r ''region'')
          in if region = [] \<or> \<not> regionPattern region
             then Inl (problem 400 ''A valid Alibaba Cloud region is required'')
             else (case account_credentials e 1 x d (u_ws u) acc ''alibaba'' of
                     None \<Rightarrow> Inl (problem 400 ''The selected account is not an Alibaba Cloud connection'')
                   | Some c \<Rightarrow>
                       if \<not> px_client p ''alibaba'' region c then Inl (problem 502 ''Could not initialize Alibaba EDS'')
                       else Inr (acc, region)))"

definition eds_rejected :: resp where
  "eds_rejected = problem 502 ''Alibaba EDS rejected the request; check the region, RAM permissions, resource state, and request values''"

definition eds_call :: "int \<Rightarrow> string \<Rightarrow> string \<Rightarrow> (string \<times> json) list \<Rightarrow> pcall" where
  "eds_call acc op region args =
     \<lparr>pc_provider = ''alibaba'', pc_account = acc, pc_op = op, pc_arg = JObj ((''RegionId'', JStr region) # args)\<rparr>"

text \<open>The requests of \<^verbatim>\<open>internal/cloud/eds.go\<close>; they go to the desktop service, the creation of a user to the directory.\<close>

definition EDSRenew :: "int \<Rightarrow> string \<Rightarrow> string \<Rightarrow> string \<Rightarrow> int \<Rightarrow> bool \<Rightarrow> pcall" where
  "EDSRenew acc region did unit n autopay =
     eds_call acc ''RenewDesktops'' region [(''DesktopId'', JList [JStr did]), (''Period'', JInt n),
       (''PeriodUnit'', JStr unit), (''AutoPay'', JBool autopay)]"

definition EDSEntitlement :: "int \<Rightarrow> string \<Rightarrow> string \<Rightarrow> string list \<Rightarrow> bool \<Rightarrow> pcall" where
  "EDSEntitlement acc region did ids bind =
     eds_call acc ''ModifyUserEntitlement'' region [(''EndUserId'', JList (map JStr ids)),
       (if bind then ''AuthorizeDesktopId'' else ''RevokeDesktopId'', JList [JStr did])]"

definition EDSDesktopAction :: "int \<Rightarrow> string \<Rightarrow> string \<Rightarrow> string \<Rightarrow> pcall option" where
  "EDSDesktopAction acc region did action =
     (if action = ''start'' then Some (eds_call acc ''StartDesktops'' region [(''DesktopId'', JList [JStr did])])
      else if action = ''stop'' then Some (eds_call acc ''StopDesktops'' region [(''DesktopId'', JList [JStr did])])
      else if action = ''reboot'' then Some (eds_call acc ''RebootDesktops'' region [(''DesktopId'', JList [JStr did])])
      else None)"

definition EDSChangePolicy :: "int \<Rightarrow> string \<Rightarrow> string \<Rightarrow> string \<Rightarrow> pcall" where
  "EDSChangePolicy acc region did policy =
     eds_call acc ''ModifyDesktopsPolicyGroup'' region [(''DesktopId'', JList [JStr did]), (''PolicyGroupId'', JStr policy)]"

definition EDSMaintenance :: "int \<Rightarrow> string \<Rightarrow> string \<Rightarrow> string \<Rightarrow> pcall" where
  "EDSMaintenance acc region did mode =
     eds_call acc ''SetDesktopMaintenance'' region [(''DesktopIds'', JList [JStr did]), (''Mode'', JStr mode)]"

definition EDSRunCommand :: "int \<Rightarrow> string \<Rightarrow> string \<Rightarrow> string \<Rightarrow> string \<Rightarrow> int \<Rightarrow> pcall" where
  "EDSRunCommand acc region did command kind timeout =
     eds_call acc ''RunCommand'' region [(''DesktopId'', JList [JStr did]), (''CommandContent'', JStr command),
       (''ContentEncoding'', JStr ''PlainText''), (''Type'', JStr kind), (''Timeout'', JInt timeout)]"

definition EDSChangeBilling :: "int \<Rightarrow> string \<Rightarrow> string \<Rightarrow> string \<Rightarrow> string \<Rightarrow> int \<Rightarrow> bool \<Rightarrow> pcall" where
  "EDSChangeBilling acc region did charge unit n autopay =
     eds_call acc ''ModifyDesktopChargeType'' region ([(''DesktopId'', JList [JStr did]),
         (''ChargeType'', JStr charge), (''AutoPay'', JBool autopay)] @
       (if charge = ''PrePaid'' then [(''Period'', JInt n), (''PeriodUnit'', JStr unit)] else []))"

definition EDSCreateUser :: "int \<Rightarrow> string \<Rightarrow> string \<Rightarrow> string \<Rightarrow> string \<Rightarrow> bool \<Rightarrow> pcall" where
  "EDSCreateUser acc name email display password local_admin =
     \<lparr>pc_provider = ''alibaba'', pc_account = acc, pc_op = ''CreateUsers'',
      pc_arg = JObj ([(''EndUserId'', JStr name), (''Email'', JStr email)] @
        (if display = [] then [] else [(''RealNickName'', JStr display)]) @
        (if password = [] then [] else [(''Password'', JStr password)]) @
        [(''IsLocalAdmin'', JBool local_admin)])\<rparr>"

text \<open>After the call: \<^verbatim>\<open>\<dots>.failed\<close> and 502, or \<^verbatim>\<open>\<dots>.accepted\<close> and 202.\<close>

definition eds_finish ::
    "env \<Rightarrow> user \<Rightarrow> string \<times> json \<Rightarrow> string \<times> json \<Rightarrow> string \<Rightarrow> (json \<Rightarrow> json) \<Rightarrow> json option \<Rightarrow> world \<Rightarrow> resp \<times> world" where
  "eds_finish e u failed accepted target body answer w =
     (case answer of
        None \<Rightarrow> (eds_rejected, audit e 4 u w (fst failed) target (snd failed))
      | Some j \<Rightarrow> (reply 202 (body j), audit e 5 u w (fst accepted) target (snd accepted)))"

definition with_eds_account ::
    "env \<Rightarrow> account_ext \<Rightarrow> provider_ext \<Rightarrow> user \<Rightarrow> request \<Rightarrow> string \<Rightarrow> 'a body \<Rightarrow>
     (int \<Rightarrow> string \<Rightarrow> 'a \<Rightarrow> resp \<times> world) \<Rightarrow> world \<Rightarrow> resp \<times> world" where
  "with_eds_account e x p u r mode b k w =
     (case edsAccount e x p (w_db w) u r mode of
        Inl q \<Rightarrow> (q, w)
      | Inr (acc, region) \<Rightarrow> (case decode r b of Inl q \<Rightarrow> (q, w) | Inr inp \<Rightarrow> k acc region inp))"

section \<open>Creating desktops\<close>

record desktop_input =
  di_office :: string
  di_bundle :: string
  di_type :: string
  di_image :: string
  di_language :: string
  di_system :: int
  di_data :: int
  di_policy :: string
  di_hostname :: string
  di_name :: string
  di_amount :: int
  di_period :: int
  di_charge :: string
  di_unit :: string
  di_users :: "string list"
  di_autopay :: bool
  di_autorenew :: bool
  di_confirm :: bool

definition hostname_ok :: "string \<Rightarrow> bool" where
  "hostname_ok h \<longleftrightarrow> edsHostnamePattern h \<and> \<not> contains_str h ''--'' \<and> trim is_digit h \<noteq> []"

definition custom_ok :: "desktop_input \<Rightarrow> bool" where
  "custom_ok i \<longleftrightarrow> cloudResourcePattern (di_type i) \<and> cloudResourcePattern (di_image i) \<and>
     60 \<le> di_system i \<and> di_system i \<le> 500 \<and> di_system i mod 10 = 0 \<and>
     (di_data i = 0 \<or> 40 \<le> di_data i \<and> di_data i \<le> 2040 \<and> di_data i mod 10 = 0)"

definition desktop_problem :: "desktop_input \<Rightarrow> string option" where
  "desktop_problem i =
     (if \<not> di_confirm i then Some ''Explicit cost confirmation is required''
      else if \<not> cloudResourcePattern (di_office i) \<or> length (di_name i) < 1 \<or> length (di_name i) > 64 \<or>
              di_amount i < 1 \<or> di_amount i > 10
      then Some ''Provide a valid office site, name, and an amount from 1 to 10''
      else if di_policy i \<noteq> [] \<and> \<not> cloudResourcePattern (di_policy i) then Some ''Invalid optional security policy''
      else if di_hostname i \<noteq> [] \<and> (\<not> hostname_ok (di_hostname i) \<or> di_amount i \<noteq> 1)
      then Some ''Hostname must be 2-15 letters, digits, or hyphens, cannot be only digits, and is supported here for one desktop at a time''
      else if di_bundle i \<noteq> [] \<and> \<not> cloudResourcePattern (di_bundle i) then Some ''Invalid desktop bundle''
      else if di_bundle i = [] \<and> \<not> custom_ok i
      then Some ''Custom desktops require a valid CPU/RAM specification, image, 60-500 GiB system disk, and optional 40-2040 GiB data disk in 10 GiB steps''
      else if di_language i \<notin> {[], ''en-US'', ''zh-CN'', ''zh-HK'', ''ja-JP''} then Some ''Invalid desktop language''
      else if di_charge i \<noteq> ''PostPaid'' \<and> di_charge i \<noteq> ''PrePaid'' then Some ''Charge type must be PostPaid or PrePaid''
      else if di_charge i = ''PrePaid'' \<and>
              (di_period i < 1 \<or> di_period i > 60 \<or> di_unit i \<noteq> ''Month'' \<and> di_unit i \<noteq> ''Year'')
      then Some ''A valid subscription period is required''
      else if \<not> list_all edsUsernamePattern (di_users i) then Some ''Invalid EDS user ID''
      else None)"

definition desktop_call :: "int \<Rightarrow> string \<Rightarrow> desktop_input \<Rightarrow> pcall" where
  "desktop_call acc region i = eds_call acc ''CreateDesktops'' region (
     [(''OfficeSiteId'', JStr (di_office i)), (''DesktopName'', JStr (di_name i)), (''Amount'', JInt (di_amount i)),
      (''ChargeType'', JStr (di_charge i)), (''AutoPay'', JBool (di_autopay i)), (''AutoRenew'', JBool (di_autorenew i))] @
     (if di_bundle i \<noteq> [] then [(''BundleId'', JStr (di_bundle i))]
      else [(''DesktopAttachment'', JObj (
        [(''DesktopType'', JStr (di_type i)), (''ImageId'', JStr (di_image i)),
         (''SystemDiskCategory'', JStr ''cloud_auto''), (''SystemDiskSize'', JInt (di_system i))] @
        (if di_language i = [] then [] else [(''DefaultLanguage'', JStr (di_language i))]) @
        (if di_data i > 0 then [(''DataDiskCategory'', JStr ''cloud_auto''), (''DataDiskSize'', JInt (di_data i))] else [])))]) @
     (if di_policy i = [] then [] else [(''PolicyGroupId'', JStr (di_policy i))]) @
     (if di_hostname i = [] then [] else [(''Hostname'', JStr (di_hostname i))]) @
     (if di_period i > 0 then [(''Period'', JInt (di_period i)), (''PeriodUnit'', JStr (di_unit i))] else []) @
     (if di_users i = [] then []
      else [(''EndUserId'', JList (map JStr (di_users i))), (''UserAssignMode'', JStr ''ALL'')]))"

definition edsRegionsCacheKey :: "int \<Rightarrow> int \<Rightarrow> string" where
  "edsRegionsCacheKey ws acc = ''eds:regions:v2:'' @ show_int ws @ '':'' @ show_int acc"

definition createEDSDesktop ::
    "env \<Rightarrow> account_ext \<Rightarrow> provider_ext \<Rightarrow> user \<Rightarrow> request \<Rightarrow> desktop_input body \<Rightarrow> world \<Rightarrow> resp \<times> world" where
  "createEDSDesktop e x p u r b w =
     with_eds_account e x p u r ''manage'' b (\<lambda>acc region inp.
       let inp = inp\<lparr>di_name := trim_space (di_name inp), di_hostname := trim_space (di_hostname inp)\<rparr>
       in case desktop_problem inp of
            Some msg \<Rightarrow> (problem 400 msg, w)
          | None \<Rightarrow>
              submit e 2 p u (''eds.desktop.create.requested'', di_name inp,
                  JObj [(''account_id'', JInt acc), (''region'', JStr region), (''amount'', JInt (di_amount inp)),
                        (''charge_type'', JStr (di_charge inp)), (''auto_pay'', JBool (di_autopay inp))])
                (problem 503 ''Desktop was not submitted because audit storage is unavailable'')
                True (desktop_call acc region inp)
                (\<lambda>answer w1. case answer of
                   None \<Rightarrow> (eds_rejected, audit e 4 u w1 ''eds.desktop.create.failed'' (di_name inp) JNull)
                 | Some j \<Rightarrow>
                     let w2 = audit e 5 u w1 ''eds.desktop.create.accepted'' (di_name inp) JNull
                     in (reply 202 j,
                         if e_fault e 6 then w2
                         else with_redis w2 (rdel (edsRegionsCacheKey (u_ws u) acc) (w_redis w2)))) w) w"

section \<open>Operating desktops\<close>

definition edsDesktopAction ::
    "env \<Rightarrow> account_ext \<Rightarrow> provider_ext \<Rightarrow> user \<Rightarrow> request \<Rightarrow> string body \<Rightarrow> world \<Rightarrow> resp \<times> world" where
  "edsDesktopAction e x p u r b w =
     (let did = rq_path r ''desktopID''
      in case edsAccount e x p (w_db w) u r ''operate'' of
           Inl q \<Rightarrow> (q, w)
         | Inr (acc, region) \<Rightarrow>
             if \<not> cloudResourcePattern did then (problem 400 ''Invalid desktop ID'', w)
             else (case decode r b of
               Inl q \<Rightarrow> (q, w)
             | Inr action \<Rightarrow>
                 if action \<notin> {''start'', ''stop'', ''reboot''} then (problem 400 ''Action must be start, stop or reboot'', w)
                 else submit e 2 p u (''eds.desktop.'' @ action @ ''.requested'', did, JObj [(''region'', JStr region)])
                   (problem 503 ''Action was not submitted because audit storage is unavailable'')
                   (EDSDesktopAction acc region did action \<noteq> None) (the (EDSDesktopAction acc region did action))
                   (eds_finish e u (''eds.desktop.'' @ action @ ''.failed'', JNull)
                      (''eds.desktop.'' @ action @ ''.accepted'', JNull) did
                      (\<lambda>_. JObj [(''status'', JStr ''accepted''), (''action'', JStr action), (''desktop_id'', JStr did)])) w))"

record renew_input =
  rn_period :: int
  rn_unit :: string
  rn_autopay :: bool
  rn_confirm :: bool

definition renewEDSDesktop ::
    "env \<Rightarrow> account_ext \<Rightarrow> provider_ext \<Rightarrow> user \<Rightarrow> request \<Rightarrow> renew_input body \<Rightarrow> world \<Rightarrow> resp \<times> world" where
  "renewEDSDesktop e x p u r b w =
     (let did = rq_path r ''desktopID''
      in case edsAccount e x p (w_db w) u r ''manage'' of
           Inl q \<Rightarrow> (q, w)
         | Inr (acc, region) \<Rightarrow>
             if \<not> cloudResourcePattern did then (problem 400 ''Invalid desktop ID'', w)
             else (case decode r b of
               Inl q \<Rightarrow> (q, w)
             | Inr inp \<Rightarrow>
                 if \<not> rn_confirm inp then (problem 400 ''Explicit cost confirmation is required'', w)
                 else if rn_period inp < 1 \<or> rn_period inp > 60 \<or> rn_unit inp \<noteq> ''Month'' \<and> rn_unit inp \<noteq> ''Year''
                 then (problem 400 ''Provide a valid renewal period'', w)
                 else submit e 2 p u (''eds.desktop.renew.requested'', did,
                     JObj [(''region'', JStr region), (''period'', JInt (rn_period inp)),
                           (''period_unit'', JStr (rn_unit inp)), (''auto_pay'', JBool (rn_autopay inp))])
                   (problem 503 ''Renewal was not submitted because audit storage is unavailable'')
                   True (EDSRenew acc region did (rn_unit inp) (rn_period inp) (rn_autopay inp))
                   (eds_finish e u (''eds.desktop.renew.failed'', JNull) (''eds.desktop.renew.accepted'', JNull) did id) w))"

record entitlement_input =
  en_op :: string
  en_users :: "string list"

definition changeEDSEntitlement ::
    "env \<Rightarrow> account_ext \<Rightarrow> provider_ext \<Rightarrow> user \<Rightarrow> request \<Rightarrow> entitlement_input body \<Rightarrow> world \<Rightarrow> resp \<times> world" where
  "changeEDSEntitlement e x p u r b w =
     (let did = rq_path r ''desktopID''
      in case edsAccount e x p (w_db w) u r ''operate'' of
           Inl q \<Rightarrow> (q, w)
         | Inr (acc, region) \<Rightarrow>
             if \<not> cloudResourcePattern did then (problem 400 ''Invalid desktop ID'', w)
             else (case decode r b of
               Inl q \<Rightarrow> (q, w)
             | Inr inp \<Rightarrow>
                 if en_op inp \<notin> {''bind'', ''revoke''} \<or> length (en_users inp) < 1 \<or> length (en_users inp) > 100
                 then (problem 400 ''Choose bind or revoke and at least one EDS user'', w)
                 else if \<not> list_all edsUsernamePattern (en_users inp) then (problem 400 ''Invalid EDS user ID'', w)
                 else submit e 2 p u (''eds.desktop.users.'' @ en_op inp @ ''.requested'', did,
                     JObj [(''region'', JStr region), (''end_user_ids'', JList (map JStr (en_users inp)))])
                   (problem 503 ''Assignment was not submitted because audit storage is unavailable'')
                   True (EDSEntitlement acc region did (en_users inp) (en_op inp = ''bind''))
                   (eds_finish e u (''eds.desktop.users.'' @ en_op inp @ ''.failed'', JNull)
                      (''eds.desktop.users.'' @ en_op inp @ ''.accepted'', JNull) did
                      (\<lambda>_. JObj [(''status'', JStr ''accepted''), (''operation'', JStr (en_op inp))])) w))"

section \<open>Users\<close>

record eds_user_input =
  eu_name :: string
  eu_email :: string
  eu_display :: string
  eu_password :: string
  eu_admin :: bool

definition eds_user_ok :: "eds_user_input \<Rightarrow> bool" where
  "eds_user_ok i \<longleftrightarrow> edsUsernamePattern (eu_name i) \<and> 3 \<le> length (eu_email i) \<and> length (eu_email i) \<le> 254 \<and>
     CHR ''@'' \<in> set (eu_email i) \<and> length (eu_display i) \<le> 64 \<and>
     (eu_password i = [] \<or> 8 \<le> length (eu_password i) \<and> length (eu_password i) \<le> 30)"

text \<open>The answer carries \<^verbatim>\<open>AllSucceed\<close>; \<open>refused\<close> reads it.\<close>

definition eds_user_refused :: "json \<Rightarrow> bool" where
  "eds_user_refused j \<longleftrightarrow> (case j of JObj fs \<Rightarrow> map_of fs ''AllSucceed'' = Some (JBool False) | _ \<Rightarrow> False)"

definition createEDSUser ::
    "env \<Rightarrow> account_ext \<Rightarrow> provider_ext \<Rightarrow> user \<Rightarrow> request \<Rightarrow> eds_user_input body \<Rightarrow> world \<Rightarrow> resp \<times> world" where
  "createEDSUser e x p u r b w =
     with_eds_account e x p u r ''manage'' b (\<lambda>acc region inp.
       let inp = inp\<lparr>eu_name := trim_space (eu_name inp), eu_email := trim_space (eu_email inp),
                     eu_display := trim_space (eu_display inp)\<rparr>
       in if \<not> eds_user_ok inp
          then (problem 400 ''Provide a valid lowercase user ID, email, display name, and optional 8-30 character password'', w)
          else submit e 2 p u (''eds.user.create.requested'', eu_name inp,
              JObj [(''email'', JStr (eu_email inp)), (''local_admin'', JBool (eu_admin inp))])
            (problem 503 ''User was not submitted because audit storage is unavailable'')
            True (EDSCreateUser acc (eu_name inp) (eu_email inp) (eu_display inp) (eu_password inp) (eu_admin inp))
            (\<lambda>answer w1. case answer of
               None \<Rightarrow> (eds_rejected, audit e 4 u w1 ''eds.user.create.failed'' (eu_name inp) JNull)
             | Some j \<Rightarrow>
                 if eds_user_refused j
                 then (problem 502 ''Alibaba EDS did not create the user'', audit e 5 u w1 ''eds.user.create.failed'' (eu_name inp) JNull)
                 else (reply 202 j, audit e 6 u w1 ''eds.user.create.accepted'' (eu_name inp) JNull)) w) w"

section \<open>Policies and maintenance\<close>

definition changeEDSPolicy ::
    "env \<Rightarrow> account_ext \<Rightarrow> provider_ext \<Rightarrow> user \<Rightarrow> request \<Rightarrow> string body \<Rightarrow> world \<Rightarrow> resp \<times> world" where
  "changeEDSPolicy e x p u r b w =
     with_eds_account e x p u r ''manage'' b (\<lambda>acc region policy.
       let did = rq_path r ''desktopID''
       in if \<not> cloudResourcePattern did \<or> \<not> cloudResourcePattern policy
          then (problem 400 ''Invalid desktop or policy ID'', w)
          else submit e 2 p u (''eds.desktop.policy.requested'', did,
              JObj [(''region'', JStr region), (''policy_group_id'', JStr policy)])
            (problem 503 ''Policy change was not submitted because audit storage is unavailable'')
            True (EDSChangePolicy acc region did policy)
            (eds_finish e u (''eds.desktop.policy.failed'', JNull) (''eds.desktop.policy.accepted'', JNull) did id) w) w"

definition setEDSMaintenance ::
    "env \<Rightarrow> account_ext \<Rightarrow> provider_ext \<Rightarrow> user \<Rightarrow> request \<Rightarrow> string body \<Rightarrow> world \<Rightarrow> resp \<times> world" where
  "setEDSMaintenance e x p u r b w =
     with_eds_account e x p u r ''operate'' b (\<lambda>acc region raw.
       let did = rq_path r ''desktopID''; mode = to_upper raw
       in if \<not> cloudResourcePattern did \<or> mode \<noteq> ''ENTER'' \<and> mode \<noteq> ''EXIT''
          then (problem 400 ''Mode must be ENTER or EXIT'', w)
          else submit e 2 p u (''eds.desktop.maintenance.'' @ to_lower mode @ ''.requested'', did, JObj [(''region'', JStr region)])
            (problem 503 ''Maintenance change was not submitted because audit storage is unavailable'')
            True (EDSMaintenance acc region did mode)
            (eds_finish e u (''eds.desktop.maintenance.failed'', JNull)
               (''eds.desktop.maintenance.accepted'', JObj [(''mode'', JStr mode)]) did
               (\<lambda>_. JObj [(''status'', JStr ''accepted''), (''mode'', JStr mode)])) w) w"

section \<open>Commands\<close>

record command_input =
  cm_command :: string
  cm_type :: string
  cm_timeout :: int
  cm_confirm :: bool

definition command_ok :: "command_input \<Rightarrow> bool" where
  "command_ok i \<longleftrightarrow> 1 \<le> length (cm_command i) \<and> int (length (cm_command i)) \<le> 16 * 1024 \<and>
     (cm_type i = ''RunPowerShellScript'' \<or> cm_type i = ''RunBatScript'') \<and>
     10 \<le> cm_timeout i \<and> cm_timeout i \<le> 86400 \<and> cm_confirm i"

text \<open>\<^verbatim>\<open>EDSDesktopStatus\<close>: the status of the desktop, \<^const>\<open>None\<close> for an error or a desktop not found.\<close>

definition desktop_status :: "provider_ext \<Rightarrow> int \<Rightarrow> string \<Rightarrow> string \<Rightarrow> string option" where
  "desktop_status p acc region did =
     (case px_query p (eds_call acc ''DescribeDesktops'' region [(''DesktopId'', JList [JStr did]), (''MaxResults'', JInt 1)]) of
        Some (JStr st) \<Rightarrow> Some st
      | _ \<Rightarrow> None)"

text \<open>The intent is recorded before the state of the desktop is asked for; only a running desktop gets the
  command.\<close>

definition runEDSCommand ::
    "env \<Rightarrow> account_ext \<Rightarrow> provider_ext \<Rightarrow> user \<Rightarrow> request \<Rightarrow> command_input body \<Rightarrow> world \<Rightarrow> resp \<times> world" where
  "runEDSCommand e x p u r b w =
     with_eds_account e x p u r ''operate'' b (\<lambda>acc region inp.
       let did = rq_path r ''desktopID'';
           details = JObj [(''region'', JStr region), (''command_type'', JStr (cm_type inp)),
                           (''timeout'', JInt (cm_timeout inp)), (''command_digest'', JStr (e_digest e (cm_command inp)))];
           status = desktop_status p acc region did;
           running = (case status of None \<Rightarrow> False | Some st \<Rightarrow> equal_fold st ''Running'')
       in if \<not> cloudResourcePattern did \<or> \<not> command_ok inp
          then (problem 400 ''Provide a confirmed PowerShell or Bat command up to 16 KB and a timeout from 10 to 86400 seconds'', w)
          else submit e 2 p u (''eds.desktop.command.requested'', did, details)
            (problem 503 ''Command was not submitted because audit storage is unavailable'')
            running (EDSRunCommand acc region did (cm_command inp) (cm_type inp) (cm_timeout inp))
            (\<lambda>answer w1.
               if status = None then (eds_rejected, w1)
               else if \<not> running then (problem 409 ''Remote commands require a running EDS desktop'', w1)
               else eds_finish e u (''eds.desktop.command.failed'', details) (''eds.desktop.command.accepted'', details)
                      did id answer w1) w) w"

section \<open>Billing of a desktop\<close>

record charge_input =
  cg_charge :: string
  cg_period :: int
  cg_unit :: string
  cg_autopay :: bool
  cg_confirm :: bool

definition valid_period :: "string \<Rightarrow> int \<Rightarrow> bool" where
  "valid_period unit n \<longleftrightarrow> unit = ''Week'' \<and> n = 1 \<or> unit = ''Month'' \<and> n \<in> {1, 2, 3, 6} \<or>
     unit = ''Year'' \<and> 1 \<le> n \<and> n \<le> 5"

definition changeEDSBilling ::
    "env \<Rightarrow> account_ext \<Rightarrow> provider_ext \<Rightarrow> user \<Rightarrow> request \<Rightarrow> charge_input body \<Rightarrow> world \<Rightarrow> resp \<times> world" where
  "changeEDSBilling e x p u r b w =
     with_eds_account e x p u r ''manage'' b (\<lambda>acc region inp.
       let did = rq_path r ''desktopID'';
           details = JObj [(''region'', JStr region), (''charge_type'', JStr (cg_charge inp)), (''period'', JInt (cg_period inp)),
                           (''period_unit'', JStr (cg_unit inp)), (''auto_pay'', JBool (cg_autopay inp))]
       in if \<not> cloudResourcePattern did \<or> cg_charge inp \<notin> {''PrePaid'', ''PostPaid''} \<or> \<not> cg_confirm inp
          then (problem 400 ''Provide a billing method and explicit cost confirmation'', w)
          else if cg_charge inp = ''PrePaid'' \<and> \<not> valid_period (cg_unit inp) (cg_period inp)
          then (problem 400 ''PrePaid periods are Week: 1; Month: 1, 2, 3, 6; or Year: 1-5'', w)
          else submit e 2 p u (''eds.desktop.billing.requested'', did, details)
            (problem 503 ''Billing change was not submitted because audit storage is unavailable'')
            True (EDSChangeBilling acc region did (cg_charge inp) (cg_unit inp) (cg_period inp) (cg_autopay inp))
            (eds_finish e u (''eds.desktop.billing.failed'', details) (''eds.desktop.billing.accepted'', details) did id) w) w"

section \<open>The result of a command\<close>

definition invoke_json :: "string \<Rightarrow> string \<Rightarrow> bool \<Rightarrow> json \<Rightarrow> json" where
  "invoke_json iv status completed own = JObj (
     [(''invoke_id'', JStr iv), (''status'', JStr status), (''completed'', JBool completed),
      (''output'', JStr (text_of (field own ''Output'')))] @
     (if field own ''ExitCode'' = JNull then [] else [(''exit_code'', field own ''ExitCode'')]) @
     (if text_of (field own ''ErrorCode'') = [] then [] else [(''error_code'', field own ''ErrorCode'')]) @
     (if text_of (field own ''ErrorInfo'') = [] then [] else [(''error_info'', field own ''ErrorInfo'')]) @
     (if field own ''Dropped'' \<in> {JNull, JInt 0} then [] else [(''dropped'', field own ''Dropped'')]))"

definition invocation_done :: "string \<Rightarrow> bool" where
  "invocation_done status \<longleftrightarrow> to_lower status \<notin> {''pending'', ''running'', ''stopping'', []}"

text \<open>\<^verbatim>\<open>EDSInvocation\<close> on the body the provider answered.\<close>

definition eds_invocation :: "string \<Rightarrow> string \<Rightarrow> json \<Rightarrow> json" where
  "eds_invocation did iv body =
     (case elements (field body ''Invocations'') of
        [] \<Rightarrow> invoke_json iv ''Pending'' False JNull
      | i # _ \<Rightarrow>
          if i = JNull then invoke_json iv ''Pending'' False JNull
          else (case find (\<lambda>d. d \<noteq> JNull \<and> text_of (field d ''DesktopId'') = did) (elements (field i ''InvokeDesktops'')) of
                  None \<Rightarrow> (let st = text_of (field i ''InvocationStatus'') in invoke_json iv st (invocation_done st) JNull)
                | Some d \<Rightarrow> (let st = text_of (field d ''InvocationStatus'') in invoke_json iv st (invocation_done st) d)))"

definition edsCommandResult :: "env \<Rightarrow> account_ext \<Rightarrow> provider_ext \<Rightarrow> user \<Rightarrow> request \<Rightarrow> db \<Rightarrow> resp" where
  "edsCommandResult e x p u r d =
     (case edsAccount e x p d u r ''operate'' of
        Inl q \<Rightarrow> q
      | Inr (acc, region) \<Rightarrow>
          let did = rq_path r ''desktopID''; iv = rq_path r ''invokeID''
          in if \<not> cloudResourcePattern did \<or> \<not> cloudResourcePattern iv
             then problem 400 ''Invalid desktop or command invocation ID''
             else (case px_query p (eds_call acc ''DescribeInvocations'' region
                      [(''InvokeId'', JStr iv), (''DesktopIds'', JList [JStr did]), (''IncludeInvokeDesktops'', JBool True),
                       (''IncludeOutput'', JBool True), (''ContentEncoding'', JStr ''PlainText''), (''MaxResults'', JInt 1)]) of
                     None \<Rightarrow> eds_rejected
                   | Some j \<Rightarrow> reply 200 (eds_invocation did iv j)))"

end
