(* ===== verification/AccountProps.thy ===== *)
theory AccountProps
  imports Accounts AuthProps
begin

text \<open>
  Cloud accounts: new credentials are stored only after a successful test of the same credentials by the
  same person within ten minutes, as an invariant of the Redis database along any sequence of tests,
  saves and unrelated operations; and a team of another workspace, which the schema lets an account
  refer to.
\<close>

section \<open>The key of a proof\<close>

definition proof_text :: "account_ext \<Rightarrow> user \<Rightarrow> string \<Rightarrow> int \<Rightarrow> credentials \<Rightarrow> string" where
  "proof_text x u provider acc c = join_with (char_of (0 :: nat))
     [show_int (u_ws u), show_int (u_id u), provider, show_int acc, ae_marshal x c]"

lemma proof_key_text: "connectionProofKey e x u provider acc c = ''connection-test-proof:'' @ e_digest e (proof_text x u provider acc c)"
  by (simp add: connectionProofKey_def proof_text_def)

lemma show_int_no_nul: "char_of (0 :: nat) \<notin> set (show_int i)"
proof -
  have "\<not> is_digit (char_of (0 :: nat))" "char_of (0 :: nat) \<noteq> CHR ''-''" by code_simp+
  then show ?thesis using show_nat_digits [of "nat i"] show_nat_digits [of "nat (- i)"]
    by (auto simp: show_int_def list_all_iff)
qed

definition known_provider :: "string \<Rightarrow> bool" where
  "known_provider p \<longleftrightarrow> p \<in> {''aws'', ''alibaba'', ''azure'', ''gcp''}"

lemma provider_no_nul: "known_provider p \<Longrightarrow> char_of (0 :: nat) \<notin> set p"
proof -
  assume "known_provider p"
  then consider "p = ''aws''" | "p = ''alibaba''" | "p = ''azure''" | "p = ''gcp''" by (auto simp: known_provider_def)
  then show ?thesis by cases (simp; code_simp)+
qed

lemma proof_text_inj:
  assumes "proof_text x u p acc c = proof_text x v q acc' c'" and "known_provider p" and "known_provider q" and "inj (ae_marshal x)"
  shows "u_ws u = u_ws v \<and> u_id u = u_id v \<and> p = q \<and> acc = acc' \<and> c = c'"
proof -
  let ?n = "char_of (0 :: nat) :: char"
  have no: "?n \<notin> set (show_int i)" for i by (rule show_int_no_nul)
  from assms(1) have eq: "show_int (u_ws u) @ ?n # show_int (u_id u) @ ?n # p @ ?n # show_int acc @ ?n # ae_marshal x c =
      show_int (u_ws v) @ ?n # show_int (u_id v) @ ?n # q @ ?n # show_int acc' @ ?n # ae_marshal x c'"
    unfolding proof_text_def join_with.simps .
  note one = cut_eq [OF no no eq]
  note two = cut_eq [OF no no conjunct2 [OF one]]
  note three = cut_eq [OF provider_no_nul [OF assms(2)] provider_no_nul [OF assms(3)] conjunct2 [OF two]]
  note four = cut_eq [OF no no conjunct2 [OF three]]
  show ?thesis
    using one two three four assms(4) show_int_inj by (metis injD)
qed

lemma validate_known: "validateCredentials x p c = Inr c' \<Longrightarrow> known_provider p"
  by (auto simp: validateCredentials_def known_provider_def split: if_splits)

section \<open>Tests and saves\<close>

text \<open>What a successful test has proved: who tested which credentials of which account, and when.\<close>

type_synonym test_log = "(user \<times> string \<times> int \<times> credentials \<times> time) list"

definition tested ::
    "env \<Rightarrow> network list \<Rightarrow> account_ext \<Rightarrow> user \<Rightarrow> request \<Rightarrow> test_input body \<Rightarrow> world \<Rightarrow> test_log" where
  "tested e nets x u r b w =
     (case allowAttempt e 0 nets r (test_kind u) 20 w of
        (False, _) \<Rightarrow> []
      | (True, w1) \<Rightarrow>
          (case decode r b of
             Inl _ \<Rightarrow> []
           | Inr inp \<Rightarrow>
               (case valid_subject e x u r inp (w_db w1) of
                  Inl _ \<Rightarrow> []
                | Inr (provider, acc, c) \<Rightarrow>
                    if ae_probe x provider c then [(u, provider, acc, c, e_now e)] else [])))"

definition proof_key :: "string \<Rightarrow> bool" where
  "proof_key k \<longleftrightarrow> has_prefix ''connection-test-proof:'' k"

inductive proof_step ::
    "(string \<Rightarrow> string) \<Rightarrow> account_ext \<Rightarrow> world \<times> test_log \<Rightarrow> world \<times> test_log \<Rightarrow> bool" for dg x where
  test_account: "e_digest e = dg \<Longrightarrow>
     proof_step dg x (w, log) (snd (testCloudAccount e nets x u r b w), tested e nets x u r b w @ log)"
| save_account: "e_digest e = dg \<Longrightarrow> proof_step dg x (w, log) (snd (saveAccount e x u r b w), log)"
| elsewhere: "\<forall>k. proof_key k \<longrightarrow> w_redis w' k = w_redis w k \<Longrightarrow> proof_step dg x (w, log) (w', log)"

definition entry_key :: "(string \<Rightarrow> string) \<Rightarrow> account_ext \<Rightarrow> user \<times> string \<times> int \<times> credentials \<times> time \<Rightarrow> string" where
  "entry_key dg x en = (case en of (u, provider, acc, c, t0) \<Rightarrow>
     ''connection-test-proof:'' @ dg (proof_text x u provider acc c))"

text \<open>Every proof in Redis comes from a test of the log that is less than ten minutes old.\<close>

definition proofs_ok :: "(string \<Rightarrow> string) \<Rightarrow> account_ext \<Rightarrow> world \<times> test_log \<Rightarrow> bool" where
  "proofs_ok dg x s \<longleftrightarrow>
     (\<forall>k t. proof_key k \<longrightarrow> rget t k (w_redis (fst s)) \<noteq> None \<longrightarrow>
        (\<exists>u p acc c t0. (u, p, acc, c, t0) \<in> set (snd s) \<and> k = entry_key dg x (u, p, acc, c, t0) \<and> t < t0 + 600)) \<and>
     (\<forall>(u, p, acc, c, t0) \<in> set (snd s). known_provider p \<and> ae_probe x p c)"

lemma proofs_okD:
  "proofs_ok dg x s \<Longrightarrow> proof_key k \<Longrightarrow> rget t k (w_redis (fst s)) \<noteq> None \<Longrightarrow>
     \<exists>u p acc c t0. (u, p, acc, c, t0) \<in> set (snd s) \<and> k = entry_key dg x (u, p, acc, c, t0) \<and> t < t0 + 600"
  "proofs_ok dg x s \<Longrightarrow> (u, p, acc, c, t0) \<in> set (snd s) \<Longrightarrow> known_provider p \<and> ae_probe x p c"
  by (auto simp: proofs_ok_def)

lemma proofs_ok_frame:
  assumes "proofs_ok dg x (w, log)" and "\<And>k t. proof_key k \<Longrightarrow> rget t k (w_redis w') \<noteq> None \<Longrightarrow> rget t k (w_redis w) \<noteq> None"
  shows "proofs_ok dg x (w', log)"
  using assms unfolding proofs_ok_def by simp

lemma allowAttempt_other:
  assumes "allowAttempt e i nets r kind limit w = (ok, w')" and "k \<noteq> attempt_key e nets kind r"
  shows "rget t k (w_redis w') = rget t k (w_redis w) \<and> w_db w' = w_db w"
  using assms by (auto simp: allowAttempt_def rincr_window_def rget_def split: option.splits if_splits rval.splits prod.splits)

lemma test_attempt_key: "proof_key k \<Longrightarrow> k \<noteq> attempt_key e nets (test_kind u) r"
  by (auto simp: proof_key_def attempt_key_def test_kind_def)

lemma rtake_less: "rtake now k' r = (ok, r') \<Longrightarrow> rget t k r' = Some v \<Longrightarrow> rget t k r = Some v"
  by (auto simp: rtake_def rget_rdel split: option.splits if_splits)

lemma save_redis:
  "rget t k (w_redis (snd (saveAccount e x u r b w))) = Some v \<Longrightarrow> rget t k (w_redis w) = Some v"
  by (auto simp: saveAccount_def requireConnectionProof_def intro: rtake_less
      split: sum.splits option.splits prod.splits bool.splits if_splits)

lemma test_redis:
  assumes "e_digest e = dg" and "proof_key k" and "rget t k (w_redis (snd (testCloudAccount e nets x u r b w))) \<noteq> None"
  shows "rget t k (w_redis w) \<noteq> None \<or>
    (\<exists>p acc c. tested e nets x u r b w = [(u, p, acc, c, e_now e)] \<and> k = entry_key dg x (u, p, acc, c, e_now e) \<and>
       t < e_now e + 600)"
proof -
  obtain ok w1 where a: "allowAttempt e 0 nets r (test_kind u) 20 w = (ok, w1)"
    by (cases "allowAttempt e 0 nets r (test_kind u) 20 w")
  have frame: "rget t k (w_redis w1) = rget t k (w_redis w)"
    using allowAttempt_other [OF a test_attempt_key [OF assms(2)]] by blast
  have outcome: "w_redis (snd (testCloudAccount e nets x u r b w)) = w_redis w1 \<or>
      (\<exists>p acc c. tested e nets x u r b w = [(u, p, acc, c, e_now e)] \<and>
        w_redis (snd (testCloudAccount e nets x u r b w)) =
           rset (e_now e) 600 (connectionProofKey e x u p acc c) (RText ''1'') (w_redis w1))"
    unfolding testCloudAccount_def tested_def a prod.case
    by (cases ok; cases "decode r b"; simp) (auto split: sum.splits)
  then consider "rget t k (w_redis (snd (testCloudAccount e nets x u r b w))) = rget t k (w_redis w1)"
    | p acc c where "tested e nets x u r b w = [(u, p, acc, c, e_now e)]"
        "w_redis (snd (testCloudAccount e nets x u r b w)) =
           rset (e_now e) 600 (connectionProofKey e x u p acc c) (RText ''1'') (w_redis w1)"
    by auto
  then show ?thesis
  proof cases
    case 1
    then show ?thesis using assms(3) frame by simp
  next
    case 2
    then show ?thesis
      using assms frame by (cases "k = connectionProofKey e x u p acc c")
        (auto simp: kv.get_put proof_key_text entry_key_def split: if_splits)
  qed
qed

lemma valid_subject_known: "valid_subject e x u r inp d = Inr (p, acc, c) \<Longrightarrow> known_provider p"
  by (auto simp: valid_subject_def dest: validate_known split: sum.splits prod.splits)

lemma tested_valid:
  assumes "(v, p, acc, c, t0) \<in> set (tested e nets x u r b w)"
  shows "known_provider p \<and> ae_probe x p c"
proof -
  obtain ok w1 where a: "allowAttempt e 0 nets r (test_kind u) 20 w = (ok, w1)"
    by (cases "allowAttempt e 0 nets r (test_kind u) 20 w")
  with assms obtain inp where "valid_subject e x u r inp (w_db w1) = Inr (p, acc, c)" "ae_probe x p c"
    unfolding tested_def a prod.case
    by (cases ok; cases "decode r b"; simp split: sum.splits prod.splits if_splits)
  then show ?thesis using valid_subject_known by blast
qed

lemma proof_step_ok:
  assumes "proof_step dg x s s'" and "proofs_ok dg x s"
  shows "proofs_ok dg x s'"
  using assms(1)
proof cases
  case (test_account e w log nets u r b)
  show ?thesis
    unfolding proofs_ok_def
  proof (intro conjI allI impI)
    fix k t
    assume k: "proof_key k" "rget t k (w_redis (fst s')) \<noteq> None"
    let ?goal = "\<exists>u p acc c t0. (u, p, acc, c, t0) \<in> set (snd s') \<and> k = entry_key dg x (u, p, acc, c, t0) \<and> t < t0 + 600"
    have "rget t k (w_redis (snd (testCloudAccount e nets x u r b w))) \<noteq> None" using k(2) test_account(2) by simp
    from test_redis [OF test_account(3) k(1) this] show ?goal
    proof (rule disjE)
      assume "rget t k (w_redis w) \<noteq> None"
      then obtain v p acc c t0 where "(v, p, acc, c, t0) \<in> set log" "k = entry_key dg x (v, p, acc, c, t0)" "t < t0 + 600"
        using proofs_okD(1) [OF assms(2) k(1), of t] test_account(1) by auto
      moreover have "set log \<subseteq> set (snd s')" using test_account(2) by simp
      ultimately show ?goal by blast
    next
      assume "\<exists>p acc c. tested e nets x u r b w = [(u, p, acc, c, e_now e)] \<and> k = entry_key dg x (u, p, acc, c, e_now e) \<and>
          t < e_now e + 600"
      then obtain p acc c where new: "tested e nets x u r b w = [(u, p, acc, c, e_now e)]"
        "k = entry_key dg x (u, p, acc, c, e_now e)" "t < e_now e + 600" by blast
      then have "(u, p, acc, c, e_now e) \<in> set (snd s')" using test_account(2) by simp
      with new(2,3) show ?goal by blast
    qed
  next
    show "\<forall>(u, p, acc, c, t0) \<in> set (snd s'). known_provider p \<and> ae_probe x p c"
      using assms(2) test_account(1,2) tested_valid [of _ _ _ _ _ e nets x u r b w] proofs_okD(2) [OF assms(2)] by auto
  qed
next
  case (save_account e w log u r b)
  have "rget t k (w_redis w) \<noteq> None" if "rget t k (w_redis (snd (saveAccount e x u r b w))) \<noteq> None" for k t
    using that save_redis [of t k e x u r b w] by auto
  then show ?thesis using proofs_ok_frame assms(2) save_account(1,2) by blast
next
  case (elsewhere w' w log)
  then have "rget t k (w_redis w') = rget t k (w_redis w)" if "proof_key k" for k t
    using that by (simp add: rget_def)
  then show ?thesis using proofs_ok_frame [of dg x w log w'] assms(2) elsewhere(1,2) by simp
qed

lemma save_plan_new_credentials:
  assumes "save_plan e x u r inp d = Inr pl" and "ai_creds inp = Some c0"
  shows "pl_changed pl \<and> validateCredentials x (pl_provider pl) c0 = Inr (pl_creds pl) \<and>
    pl_cipher pl = ae_seal x (ae_marshal x (pl_creds pl)) \<and>
    (pl_id pl = 0 \<or> (\<exists>a \<in> set (d_accounts d). ac_id a = pl_id pl \<and> ac_ws a = u_ws u))"
proof -
  have "pl_id pl = 0 \<or> account_in_ws d (u_ws u) (pl_id pl) \<noteq> None"
    using assms unfolding save_plan_def stored_account_def Let_def
    by (auto split: option.splits sum.splits if_splits prod.splits)
  moreover have "pl_changed pl \<and> validateCredentials x (pl_provider pl) c0 = Inr (pl_creds pl) \<and>
      pl_cipher pl = ae_seal x (ae_marshal x (pl_creds pl))"
    using assms unfolding save_plan_def Let_def
    by (auto split: option.splits sum.splits if_splits prod.splits)
  ultimately show ?thesis by (auto simp: account_in_ws_def dest: find_Some_iff_in)
qed

lemma input_problem_status: "input_problem inp = Some p \<Longrightarrow> rs_status p = 400"
  by (auto simp: input_problem_def split: if_splits)

lemma stored_account_status: "stored_account e u r d = Inl p \<Longrightarrow> rs_status p \<noteq> 200"
  by (auto simp: stored_account_def dest: pathID_Inl_status split: option.splits sum.splits if_splits)

lemma save_plan_status: "save_plan e x u r inp d = Inl p \<Longrightarrow> rs_status p \<noteq> 200"
  unfolding save_plan_def Let_def
  by (auto dest: input_problem_status stored_account_status split: option.splits sum.splits if_splits prod.splits)

lemma map_hit: "x \<in> set xs \<Longrightarrow> P x \<Longrightarrow> f x \<in> set (map (\<lambda>y. if P y then f y else y) xs)"
  by force

lemma update_account_row:
  assumes "update_account d ws i name provider owner g cipher regions changed = Some d1"
    and "a \<in> set (d_accounts d)" and "ac_id a = i" and "ac_ws a = ws"
  shows "\<exists>b \<in> set (d_accounts d1). ac_ws b = ws \<and> ac_id b = i \<and> ac_provider b = provider \<and> ac_cred b = cipher"
proof -
  let ?f = "\<lambda>a. a\<lparr>ac_name := name, ac_provider := provider, ac_owner := owner, ac_group := g, ac_cred := cipher,
    ac_regions := regions, ac_sync := (if changed then None else ac_sync a),
    ac_err := (if changed then [] else ac_err a), ac_errcode := (if changed then [] else ac_errcode a)\<rparr>"
  have "d_accounts d1 = map (\<lambda>a. if ac_id a = i \<and> ac_ws a = ws then ?f a else a) (d_accounts d)"
    using assms(1) by (auto simp: update_account_def split: if_splits)
  then have "?f a \<in> set (d_accounts d1)" using map_hit [OF assms(2), of "\<lambda>a. ac_id a = i \<and> ac_ws a = ws" ?f] assms(3,4) by simp
  then show ?thesis using assms(3,4) by (intro bexI [of _ "?f a"]) simp_all
qed

lemma store_account_row:
  assumes "store_account e u inp pl d = Some (i, d')"
    and "pl_id pl = 0 \<or> (\<exists>a \<in> set (d_accounts d). ac_id a = pl_id pl \<and> ac_ws a = u_ws u)"
  shows "\<exists>a \<in> set (d_accounts d'). ac_ws a = u_ws u \<and> (pl_id pl = 0 \<or> ac_id a = pl_id pl) \<and>
    ac_provider a = pl_provider pl \<and> ac_cred a = pl_cipher pl"
proof (cases "pl_id pl = 0")
  case True
  then show ?thesis using assms(1)
    by (auto simp: store_account_def insert_account_def Let_def split: if_splits)
next
  case False
  then obtain a where "a \<in> set (d_accounts d)" "ac_id a = pl_id pl" "ac_ws a = u_ws u" using assms(2) by blast
  moreover obtain d1 where "update_account d (u_ws u) (pl_id pl) (trim_space (ai_name inp)) (pl_provider pl) (ai_owner inp)
      (ai_group inp) (pl_cipher pl) (case ai_regions inp of None \<Rightarrow> [] | Some rs \<Rightarrow> rs) (pl_changed pl) = Some d1"
    "d_accounts d' = d_accounts d1"
    using assms(1) False by (auto simp: store_account_def drop_instances_def split: if_splits option.splits)
  ultimately show ?thesis using update_account_row [of d "u_ws u" "pl_id pl"] False by metis
qed

lemma saveAccount_200:
  assumes "rs_status (fst (saveAccount e x u r (Body inp) w)) = 200"
  shows "\<exists>pl i d. save_plan e x u r inp (w_db w) = Inr pl \<and> store_account e u inp pl (w_db w) = Some (i, d) \<and>
    d_accounts (w_db (snd (saveAccount e x u r (Body inp) w))) = d_accounts d \<and>
    d_groups (w_db (snd (saveAccount e x u r (Body inp) w))) = d_groups d"
proof -
  have dec: "decode r (Body inp) = Inr inp"
    using assms(1) decode_Inl_status [of r "Body inp"] decode_Body [of r inp]
    by (cases "decode r (Body inp)") (auto simp: saveAccount_def)
  obtain pl where pl: "save_plan e x u r inp (w_db w) = Inr pl"
    using assms(1) dec save_plan_status by (cases "save_plan e x u r inp (w_db w)") (auto simp: saveAccount_def)
  let ?p = "if pl_changed pl then requireConnectionProof e 3 x u (pl_provider pl) (pl_id pl) (pl_creds pl) w else (True, w)"
  have db: "w_db (snd ?p) = w_db w" by (simp add: requireConnectionProof_def split_beta)
  obtain w1 where p: "?p = (True, w1)"
    using assms by (cases ?p) (auto simp: saveAccount_def dec pl proof_required_def split: bool.splits)
  obtain i d where st: "store_account e u inp pl (w_db w1) = Some (i, d)"
    using assms by (auto simp: saveAccount_def dec pl p split: option.splits)
  have "w_db w1 = w_db w" using db unfolding p by simp
  then show ?thesis using st by (intro exI [of _ pl] exI [of _ i] exI [of _ d]) (simp add: saveAccount_def dec pl p)
qed

lemma save_plan_post: "save_plan e x u r inp d = Inr pl \<Longrightarrow> rq_method r \<noteq> ''PUT'' \<Longrightarrow> pl_id pl = 0"
  unfolding save_plan_def Let_def by (auto simp: stored_account_def split: option.splits sum.splits if_splits prod.splits)

lemma saved_with_proof:
  assumes "rs_status (fst (saveAccount e x u r (Body inp) w)) = 200" and "ai_creds inp = Some c0"
  shows "\<exists>pl a. save_plan e x u r inp (w_db w) = Inr pl \<and> known_provider (pl_provider pl) \<and>
    rget (e_now e) (connectionProofKey e x u (pl_provider pl) (pl_id pl) (pl_creds pl)) (w_redis w) \<noteq> None \<and>
    w_redis (snd (saveAccount e x u r (Body inp) w)) =
      rdel (connectionProofKey e x u (pl_provider pl) (pl_id pl) (pl_creds pl)) (w_redis w) \<and>
    a \<in> set (d_accounts (w_db (snd (saveAccount e x u r (Body inp) w)))) \<and> ac_ws a = u_ws u \<and>
    (pl_id pl = 0 \<or> ac_id a = pl_id pl) \<and> ac_provider a = pl_provider pl \<and>
    ac_cred a = ae_seal x (ae_marshal x (pl_creds pl))"
proof -
  have dec: "decode r (Body inp) = Inr inp"
    using assms(1) decode_Inl_status [of r "Body inp"] decode_Body [of r inp]
    by (cases "decode r (Body inp)") (auto simp: saveAccount_def)
  obtain pl where pl: "save_plan e x u r inp (w_db w) = Inr pl"
    using assms(1) dec save_plan_status by (cases "save_plan e x u r inp (w_db w)") (auto simp: saveAccount_def)
  note new = save_plan_new_credentials [OF pl assms(2)]
  let ?key = "connectionProofKey e x u (pl_provider pl) (pl_id pl) (pl_creds pl)"
  have "fst (requireConnectionProof e 3 x u (pl_provider pl) (pl_id pl) (pl_creds pl) w)"
    using assms(1) new by (simp add: saveAccount_def dec pl proof_required_def split_beta split: bool.splits if_splits)
  then have ok: "\<not> e_fault e 3" "rget (e_now e) ?key (w_redis w) \<noteq> None"
    by (simp_all add: requireConnectionProof_def rtake_def split_beta split: if_splits option.splits)
  then have took: "requireConnectionProof e 3 x u (pl_provider pl) (pl_id pl) (pl_creds pl) w = (True, with_redis w (rdel ?key (w_redis w)))"
    by (auto simp: requireConnectionProof_def rtake_def split: option.splits)
  obtain i d where st: "store_account e u inp pl (w_db w) = Some (i, d)"
    using assms(1) new by (auto simp: saveAccount_def dec pl took split: option.splits)
  from store_account_row [OF st] new obtain a where
    "a \<in> set (d_accounts d)" "ac_ws a = u_ws u" "pl_id pl = 0 \<or> ac_id a = pl_id pl" "ac_provider a = pl_provider pl"
    "ac_cred a = pl_cipher pl" by blast
  then show ?thesis using new pl ok(2) validate_known
    by (intro exI [of _ pl] exI [of _ a]) (auto simp: saveAccount_def dec took st)
qed

text \<open>C23: nobody stores credentials that were not tried: along any sequence of connection tests, saves and
  operations that leave the proofs alone, a save that answers 200 with new credentials was preceded, less
  than ten minutes before, by a successful test of exactly the credentials it stored, by the same person,
  for the same account and provider; and the proof is gone afterwards, so the next save needs a new test.\<close>

theorem saved_credentials_tested:
  assumes "(proof_step dg x)\<^sup>*\<^sup>* (w0, []) (w, log)" and "\<forall>k t. proof_key k \<longrightarrow> rget t k (w_redis w0) = None"
    and "e_digest e = dg" and "inj dg" and "inj (ae_marshal x)"
    and "rs_status (fst (saveAccount e x u r (Body inp) w)) = 200" and "ai_creds inp = Some c0"
  shows "\<exists>v p acc c t0 a. (v, p, acc, c, t0) \<in> set log \<and> ae_probe x p c \<and> e_now e < t0 + 600 \<and>
    u_id v = u_id u \<and> u_ws v = u_ws u \<and>
    a \<in> set (d_accounts (w_db (snd (saveAccount e x u r (Body inp) w)))) \<and> ac_ws a = u_ws u \<and> ac_provider a = p \<and>
    (acc = 0 \<or> ac_id a = acc) \<and> ac_cred a = ae_seal x (ae_marshal x c) \<and>
    (\<forall>t. rget t (connectionProofKey e x u p acc c) (w_redis (snd (saveAccount e x u r (Body inp) w))) = None)"
proof -
  have "proofs_ok dg x (w, log)"
    using assms(1)
  proof (induction rule: rtranclp_induct)
    case base
    show ?case using assms(2) by (simp add: proofs_ok_def)
  next
    case (step y z)
    then show ?case using proof_step_ok by blast
  qed
  note ok = this
  from saved_with_proof [OF assms(6,7)] obtain pl :: plan and a :: account_row where
    pl: "known_provider (pl_provider pl)"
      "rget (e_now e) (connectionProofKey e x u (pl_provider pl) (pl_id pl) (pl_creds pl)) (w_redis w) \<noteq> None"
      "w_redis (snd (saveAccount e x u r (Body inp) w)) =
         rdel (connectionProofKey e x u (pl_provider pl) (pl_id pl) (pl_creds pl)) (w_redis w)"
    and a: "a \<in> set (d_accounts (w_db (snd (saveAccount e x u r (Body inp) w))))" "ac_ws a = u_ws u"
      "pl_id pl = 0 \<or> ac_id a = pl_id pl" "ac_provider a = pl_provider pl"
      "ac_cred a = ae_seal x (ae_marshal x (pl_creds pl))" by blast
  let ?key = "connectionProofKey e x u (pl_provider pl) (pl_id pl) (pl_creds pl)"
  have "proof_key ?key" by (simp add: proof_key_def connectionProofKey_def)
  from proofs_okD(1) [OF ok this, of "e_now e"] pl(2) obtain v p acc c t0 where
    en: "(v, p, acc, c, t0) \<in> set log" "?key = entry_key dg x (v, p, acc, c, t0)" "e_now e < t0 + 600" by auto
  have probe: "known_provider p \<and> ae_probe x p c" using proofs_okD(2) [OF ok] en(1) by simp
  have "proof_text x u (pl_provider pl) (pl_id pl) (pl_creds pl) = proof_text x v p acc c"
    using en(2) assms(3,4) by (simp add: proof_key_text entry_key_def inj_eq)
  from proof_text_inj [OF this pl(1) _ assms(5)] probe have
    "u_ws u = u_ws v \<and> u_id u = u_id v \<and> pl_provider pl = p \<and> pl_id pl = acc \<and> pl_creds pl = c" by blast
  then show ?thesis using en(1,3) probe a pl(3)
    by (intro exI [of _ v] exI [of _ p] exI [of _ acc] exI [of _ c] exI [of _ t0] exI [of _ a]) (auto simp: rget_rdel)
qed

text \<open>A console with one tested connection: the vault and the marshaller are stand-ins that keep
  different credentials apart.\<close>

definition demo_marshal :: "credentials \<Rightarrow> string" where
  "demo_marshal c = concat (map (\<lambda>s. concat (map (\<lambda>ch. [CHR ''1'', ch]) s) @ ''0'')
     [cr_access c, cr_secret c, cr_token c, cr_tenant c, cr_client c, cr_client_secret c, cr_subscription c,
      cr_project c, cr_service_json c])"

definition demo_accounts :: account_ext where
  "demo_accounts = \<lparr>ae_marshal = demo_marshal, ae_unmarshal = (\<lambda>s. None), ae_seal = (\<lambda>s. ''sealed'' @ s),
     ae_open = (\<lambda>s. None), ae_gcp_key = (\<lambda>s. None), ae_pkcs8 = (\<lambda>s. False),
     ae_probe = (\<lambda>p c. cr_secret c = ''s3cret'')\<rparr>"

definition demo_keys :: credentials where
  "demo_keys = no_credentials\<lparr>cr_access := ''AK'', cr_secret := '' s3cret''\<rparr>"

definition tested_world :: world where
  "tested_world = snd (testCloudAccount (site ''a'' 10) [] demo_accounts demo_admin blank_request
     (Body \<lparr>ti_provider = ''AWS'', ti_creds = Some demo_keys\<rparr>) (world_of team_db))"

definition new_account :: account_input where
  "new_account = \<lparr>ai_name = ''prod'', ai_provider = '' aws'', ai_owner = [], ai_group = None, ai_regions = None,
     ai_creds = Some demo_keys\<rparr>"

lemma parts_inj:
  "concat (map (\<lambda>ch. [CHR ''1'', ch]) s) @ CHR ''0'' # r = concat (map (\<lambda>ch. [CHR ''1'', ch]) s') @ CHR ''0'' # r' \<Longrightarrow> s = s' \<and> r = r'"
proof (induction s arbitrary: s')
  case Nil
  then show ?case by (cases s') simp_all
next
  case (Cons c s)
  then show ?case by (cases s') auto
qed

lemma demo_marshal_inj: "inj demo_marshal"
proof (rule injI)
  fix c c' :: credentials
  assume "demo_marshal c = demo_marshal c'"
  then show "c = c'" unfolding demo_marshal_def list.map concat.simps append_assoc append.simps
    by (auto dest!: parts_inj parts_inj [of _ "[]" _ "[]", simplified] intro: credentials.equality)
qed

lemma saved_credentials_tested_witness:
  "rs_status (fst (saveAccount (site ''a'' 500) demo_accounts demo_admin blank_request (Body new_account) tested_world)) = 200 \<and>
   (\<exists>a. a \<in> set (d_accounts (w_db (snd (saveAccount (site ''a'' 500) demo_accounts demo_admin blank_request (Body new_account) tested_world)))) \<and>
      ac_provider a = ''aws'' \<and> ac_cred a = ae_seal demo_accounts (demo_marshal (trim_keys demo_keys)))"
proof -
  let ?e = "site ''a'' 10" and ?b = "Body \<lparr>ti_provider = ''AWS'', ti_creds = Some demo_keys\<rparr> :: test_input body"
  let ?log = "tested ?e [] demo_accounts demo_admin blank_request ?b (world_of team_db) @ []"
  have step: "(proof_step (e_digest ?e) demo_accounts)\<^sup>*\<^sup>* (world_of team_db, []) (tested_world, ?log)"
    unfolding tested_world_def by (intro r_into_rtranclp test_account) simp
  have none: "\<forall>k t. proof_key k \<longrightarrow> rget t k (w_redis (world_of team_db)) = None" by (simp add: world_of_def rget_def)
  have same: "e_digest (site ''a'' 500) = e_digest ?e" by (simp add: site_def)
  have dig: "inj (e_digest ?e)" by (simp add: site_def good_env_def)
  have marshal: "inj (ae_marshal demo_accounts)" by (simp add: demo_accounts_def demo_marshal_inj)
  have ok: "rs_status (fst (saveAccount (site ''a'' 500) demo_accounts demo_admin blank_request (Body new_account) tested_world)) = 200"
    by code_simp
  have creds: "ai_creds new_account = Some demo_keys" by (simp add: new_account_def)
  have log: "?log = [(demo_admin, ''aws'', 0, trim_keys demo_keys, 10)]" by code_simp
  from saved_credentials_tested [OF step none same dig marshal ok creds] ok show ?thesis
    unfolding log by (auto simp: demo_accounts_def)
qed

section \<open>A team of another workspace\<close>

lemma account_json_fields:
  "\<exists>fields. account_json d m a = JObj fields \<and> (''name'', JStr (ac_name a)) \<in> set fields \<and>
     (''group_id'', opt_json JInt (ac_group a)) \<in> set fields \<and>
     (''group_name'', opt_json (\<lambda>g. JStr (gr_name g))
        (Option.bind (ac_group a) (\<lambda>gid. find (\<lambda>g. gr_id g = gid) (d_groups d)))) \<in> set fields"
  unfolding account_json_def by (intro exI conjI, rule refl) simp_all

text \<open>The schema and the code let an administrator file an account under a team of another workspace, and
  the listing then shows that team's name: whatever team of whatever workspace the request names, a save
  that answers 200 stores it, and the listing of the administrator's own workspace carries its name.\<close>

theorem foreign_team_shown:
  assumes "admin u" and "rq_method r = ''POST''" and "rs_status (fst (saveAccount e x u r (Body inp) w)) = 200"
    and "ai_group inp = Some gid" and "find (\<lambda>g. gr_id g = gid) (d_groups (w_db w)) = Some g"
    and "\<not> e_fault e' 0" and "\<not> e_fault e' 1" and "d' = w_db (snd (saveAccount e x u r (Body inp) w))"
  shows "\<exists>rows fields. accounts e' u d' = list_reply e' 2 rows \<and> JObj fields \<in> set rows \<and>
    (''name'', JStr (trim_space (ai_name inp))) \<in> set fields \<and>
    (''group_id'', JInt gid) \<in> set fields \<and> (''group_name'', JStr (gr_name g)) \<in> set fields"
proof -
  from saveAccount_200 [OF assms(3)] obtain pl :: plan and i d where
    pl: "save_plan e x u r inp (w_db w) = Inr pl" and st: "store_account e u inp pl (w_db w) = Some (i, d)"
    and res: "d_accounts d' = d_accounts d" "d_groups d' = d_groups d" unfolding assms(8) by blast
  have "pl_id pl = 0" using save_plan_post [OF pl] assms(2) by simp
  with st have new: "last (d_accounts d') \<in> set (d_accounts d') \<and> ac_ws (last (d_accounts d')) = u_ws u \<and>
      ac_group (last (d_accounts d')) = Some gid \<and> ac_name (last (d_accounts d')) = trim_space (ai_name inp)"
    and groups: "d_groups d' = d_groups (w_db w)"
    using assms(4) res by (auto simp: store_account_def insert_account_def Let_def split: if_splits)
  then obtain a :: account_row where a: "a \<in> set (d_accounts d')" "ac_ws a = u_ws u" "ac_group a = Some gid"
    "ac_name a = trim_space (ai_name inp)" by blast
  have "admits d' u a cap" for cap using a(2) assms(1) by (simp add: admits_def admin_def)
  then have seen: "ac_id a \<in> set (listing_op d' u cap)" for cap
    using a(1) by (auto simp: policy.listing_iff can_op_def canAccount_admits good_env_def)
  let ?ids = "mergeAccountIDs [listing_op d' u ''account.view'', listing_op d' u ''account.manage'']"
  let ?rows = "map (account_json d' (listing_op d' u ''account.manage''))
    (sort_key ac_name (filter (\<lambda>a. ac_ws a = u_ws u \<and> ac_id a \<in> set ?ids) (d_accounts d')))"
  have "accounts e' u d' = list_reply e' 2 ?rows"
    using assms(6,7) by (simp add: accounts_def accessible_listing_op Let_def)
  moreover have "account_json d' (listing_op d' u ''account.manage'') a \<in> set ?rows"
    using a(1,2) seen by (auto simp: mergeAccountIDs_def)
  moreover have "find (\<lambda>g. gr_id g = gid) (d_groups d') = Some g" using assms(5) groups by simp
  moreover obtain fields where "account_json d' (listing_op d' u ''account.manage'') a = JObj fields"
    "(''name'', JStr (ac_name a)) \<in> set fields" "(''group_id'', opt_json JInt (ac_group a)) \<in> set fields"
    "(''group_name'', opt_json (\<lambda>g. JStr (gr_name g)) (Option.bind (ac_group a) (\<lambda>gid. find (\<lambda>g. gr_id g = gid) (d_groups d')))) \<in> set fields"
    using account_json_fields by blast
  ultimately show ?thesis using a(3,4) assms(5) groups by (intro exI [of _ ?rows] exI [of _ fields]) (simp add: opt_json_def)
qed

definition rival_world :: world where
  "rival_world = with_db tested_world ((w_db tested_world)\<lparr>d_groups := [\<lparr>gr_id = 40, gr_ws = 2, gr_name = ''rival'', gr_desc = [],
     gr_view = True, gr_accounts = True, gr_members = True\<rparr>]\<rparr>)"

lemma foreign_team_shown_witness:
  "\<exists>rows fields. accounts (site ''a'' 501) demo_admin (w_db (snd (saveAccount (site ''a'' 500) demo_accounts demo_admin blank_request
      (Body (new_account\<lparr>ai_group := Some 40\<rparr>)) rival_world))) = list_reply (site ''a'' 501) 2 rows \<and>
    JObj fields \<in> set rows \<and> (''group_name'', JStr ''rival'') \<in> set fields \<and> u_ws demo_admin = 1"
proof -
  let ?b = "new_account\<lparr>ai_group := Some 40\<rparr>" and ?g = "hd (d_groups (w_db rival_world))"
  have "rs_status (fst (saveAccount (site ''a'' 500) demo_accounts demo_admin blank_request (Body ?b) rival_world)) = 200" by code_simp
  moreover have "admin demo_admin" "rq_method blank_request = ''POST''" by code_simp+
  moreover have "find (\<lambda>g. gr_id g = 40) (d_groups (w_db rival_world)) = Some ?g" "gr_name ?g = ''rival''"
    by (simp_all add: rival_world_def)
  moreover have "ai_group ?b = Some 40" by simp
  ultimately have "\<exists>rows fields. accounts (site ''a'' 501) demo_admin (w_db (snd (saveAccount (site ''a'' 500) demo_accounts demo_admin
      blank_request (Body ?b) rival_world))) = list_reply (site ''a'' 501) 2 rows \<and> JObj fields \<in> set rows \<and>
      (''name'', JStr (trim_space (ai_name ?b))) \<in> set fields \<and>
      (''group_id'', JInt 40) \<in> set fields \<and> (''group_name'', JStr (gr_name ?g)) \<in> set fields"
    using foreign_team_shown [of demo_admin blank_request "site ''a'' 500" demo_accounts ?b rival_world 40 ?g "site ''a'' 501"] by simp
  moreover have "u_ws demo_admin = 1" by code_simp
  ultimately show ?thesis using \<open>gr_name ?g = ''rival''\<close> by metis
qed

end
