(* ===== verification/CloudProps.thy ===== *)
theory CloudProps
  imports EdsOps AccountProps
begin

text \<open>
  Every operation that reaches a provider: it is permitted, it goes to an account of the workspace at that
  account's provider, and its intent was stored in the audit trail before the call.  The second part
  bounds what a security group rule may ask for.
\<close>

section \<open>Operations\<close>

datatype cloud_op =
    OpAction "string body"
  | OpCreateRule "rule_request body"
  | OpDeleteRule
  | OpBucket "bucket_input body"
  | OpDesktop "desktop_input body"
  | OpDesktopAction "string body"
  | OpRenew "renew_input body"
  | OpEntitlement "entitlement_input body"
  | OpUser "eds_user_input body"
  | OpPolicy "string body"
  | OpMaintenance "string body"
  | OpCommand "command_input body"
  | OpCharge "charge_input body"

fun run_cloud_op ::
    "env \<Rightarrow> account_ext \<Rightarrow> provider_ext \<Rightarrow> user \<Rightarrow> request \<Rightarrow> cloud_op \<Rightarrow> world \<Rightarrow> resp \<times> world" where
  "run_cloud_op e x p u r (OpAction b) w = instance_action e x p u r b w"
| "run_cloud_op e x p u r (OpCreateRule b) w = createSecurityGroupRule e x p u r b w"
| "run_cloud_op e x p u r OpDeleteRule w = deleteSecurityGroupRule e x p u r w"
| "run_cloud_op e x p u r (OpBucket b) w = createOSSBucket e x p u r b w"
| "run_cloud_op e x p u r (OpDesktop b) w = createEDSDesktop e x p u r b w"
| "run_cloud_op e x p u r (OpDesktopAction b) w = edsDesktopAction e x p u r b w"
| "run_cloud_op e x p u r (OpRenew b) w = renewEDSDesktop e x p u r b w"
| "run_cloud_op e x p u r (OpEntitlement b) w = changeEDSEntitlement e x p u r b w"
| "run_cloud_op e x p u r (OpUser b) w = createEDSUser e x p u r b w"
| "run_cloud_op e x p u r (OpPolicy b) w = changeEDSPolicy e x p u r b w"
| "run_cloud_op e x p u r (OpMaintenance b) w = setEDSMaintenance e x p u r b w"
| "run_cloud_op e x p u r (OpCommand b) w = runEDSCommand e x p u r b w"
| "run_cloud_op e x p u r (OpCharge b) w = changeEDSBilling e x p u r b w"

fun needs :: "cloud_op \<Rightarrow> string" where
  "needs (OpAction b) = ''compute.operate''"
| "needs (OpDesktopAction b) = ''compute.operate''"
| "needs (OpEntitlement b) = ''compute.operate''"
| "needs (OpMaintenance b) = ''compute.operate''"
| "needs (OpCommand b) = ''compute.operate''"
| "needs op = ''account.manage''"

section \<open>Submission\<close>

text \<open>The rest of a handler: it calls no provider and only adds to the audit trail.\<close>

definition quiet :: "world \<Rightarrow> world \<Rightarrow> bool" where
  "quiet w w' \<longleftrightarrow> w_calls w' = w_calls w \<and> (\<exists>rows. d_audit (w_db w') = d_audit (w_db w) @ rows)"

lemma quiet_refl [simp]: "quiet w w"
  by (simp add: quiet_def)

lemma quiet_trans: "quiet w w1 \<Longrightarrow> quiet w1 w2 \<Longrightarrow> quiet w w2"
  by (auto simp: quiet_def)

lemma quiet_audit [simp]: "quiet w (audit e i u w a t j)"
  using rcd_audit_prefix [of e i w "u_ws u" "u_id u" "u_name u" a t j] by (auto simp: quiet_def audit_def)

lemma quiet_redis: "quiet w w1 \<Longrightarrow> quiet w (with_redis w1 red)"
  by (simp add: quiet_def)

definition quiet_rest :: "(json option \<Rightarrow> world \<Rightarrow> resp \<times> world) \<Rightarrow> bool" where
  "quiet_rest f \<longleftrightarrow> (\<forall>answer w. quiet w (snd (f answer w)))"

lemma quiet_eds_finish [simp]: "quiet_rest (eds_finish e u f a t body)"
  by (simp add: quiet_rest_def eds_finish_def split: option.splits)

text \<open>What a provider call was preceded by.\<close>

definition justified :: "env \<Rightarrow> user \<Rightarrow> string \<Rightarrow> world \<Rightarrow> world \<Rightarrow> bool" where
  "justified e u cap w w' \<longleftrightarrow>
     (\<exists>c row rows a. w_calls w' = w_calls w @ [c] \<and> d_audit (w_db w') = d_audit (w_db w) @ row # rows \<and>
        au_ws row = u_ws u \<and> au_name row = u_name u \<and> has_suffix ''requested'' (au_action row) \<and>
        can_op (w_db w) u (pc_account c) cap \<and>
        a \<in> set (d_accounts (w_db w)) \<and> ac_id a = pc_account c \<and> ac_ws a = u_ws u \<and> ac_provider a = pc_provider c)"

lemma submit_justified:
  assumes "quiet_rest rest" and "has_suffix ''requested'' action"
    and "ready \<Longrightarrow> can_op (w_db w) u (pc_account c) cap \<and>
      (\<exists>a \<in> set (d_accounts (w_db w)). ac_id a = pc_account c \<and> ac_ws a = u_ws u \<and> ac_provider a = pc_provider c)"
  shows "quiet w (snd (submit e i p u (action, target, details) refused ready c rest w)) \<or>
    \<not> e_fault e i \<and> justified e u cap w (snd (submit e i p u (action, target, details) refused ready c rest w))"
proof -
  obtain ok w1 where r: "rcd e i w (u_ws u) (u_id u) (u_name u) action target details = (ok, w1)"
    by (cases "rcd e i w (u_ws u) (u_id u) (u_name u) action target details")
  show ?thesis
  proof (cases ok)
    case False
    then show ?thesis using r rcd_not_stored [of e i w "u_ws u" "u_id u" "u_name u" action target details] by (simp add: submit_def)
  next
    case True
    have nf: "\<not> e_fault e i" using r True by (auto simp: rcd_def split: if_splits)
    from rcd_stored [of e i w "u_ws u" "u_id u" "u_name u" action target details] r True obtain row where
      row: "d_audit (w_db w1) = d_audit (w_db w) @ [row]" "au_ws row = u_ws u" "au_action row = action" "au_name row = u_name u"
      by auto
    have "w_calls (snd (rcd e i w (u_ws u) (u_id u) (u_name u) action target details)) = w_calls w" by simp
    then have calls: "w_calls w1 = w_calls w" by (simp add: r)
    show ?thesis
    proof (cases ready)
      case False
      have "quiet w1 (snd (rest None w1))" using assms(1) by (simp add: quiet_rest_def)
      moreover have "quiet w w1" using row calls by (simp add: quiet_def)
      ultimately show ?thesis using r True False quiet_trans by (simp add: submit_def)
    next
      case ready: True
      let ?w2 = "w1\<lparr>w_calls := w_calls w1 @ [c]\<rparr>"
      have "quiet ?w2 (snd (rest (px_call p c) ?w2))" using assms(1) by (simp add: quiet_rest_def)
      then obtain rows where "w_calls (snd (rest (px_call p c) ?w2)) = w_calls w @ [c]"
        "d_audit (w_db (snd (rest (px_call p c) ?w2))) = d_audit (w_db w) @ row # rows"
        using row(1) calls by (auto simp: quiet_def)
      then show ?thesis using r True ready nf row(2-4) assms(2) assms(3) [OF ready]
        by (auto simp: submit_def justified_def)
    qed
  qed
qed

section \<open>Accounts\<close>

definition target_ok :: "db \<Rightarrow> user \<Rightarrow> int \<Rightarrow> string \<Rightarrow> string \<Rightarrow> bool" where
  "target_ok d u acc provider cap \<longleftrightarrow> can_op d u acc cap \<and>
     (\<exists>a \<in> set (d_accounts d). ac_id a = acc \<and> ac_ws a = u_ws u \<and> ac_provider a = provider)"

lemma access_modes:
  "accountAccess e i d u acc ''operate'' \<Longrightarrow> can_op d u acc ''compute.operate''"
  "accountAccess e i d u acc ''manage'' \<Longrightarrow> can_op d u acc ''account.manage''"
  by (simp_all add: accountAccess_def capabilityForMode_def canAccount_can_op)

lemma credentials_account:
  "account_credentials e i x d ws acc provider = Some c \<Longrightarrow>
     \<exists>a \<in> set (d_accounts d). ac_id a = acc \<and> ac_ws a = ws \<and> ac_provider a = provider"
  by (auto simp: account_credentials_def dest: find_Some_iff_in split: if_splits option.splits)

lemma client_account:
  "provider_client e i x p d ws acc provider region \<Longrightarrow>
     \<exists>a \<in> set (d_accounts d). ac_id a = acc \<and> ac_ws a = ws \<and> ac_provider a = provider"
  by (auto simp: provider_client_def dest: credentials_account split: option.splits)

lemma alibaba_account:
  "alibaba_provider e i d u acc = Inr () \<Longrightarrow>
     \<exists>a \<in> set (d_accounts d). ac_id a = acc \<and> ac_ws a = u_ws u \<and> ac_provider a = ''alibaba''"
  by (auto simp: alibaba_provider_def account_in_ws_def dest: find_Some_iff_in split: if_splits option.splits)

lemma edsAccount_ok:
  "edsAccount e x p d u r ''operate'' = Inr (acc, region) \<Longrightarrow> target_ok d u acc ''alibaba'' ''compute.operate''"
  "edsAccount e x p d u r ''manage'' = Inr (acc, region) \<Longrightarrow> target_ok d u acc ''alibaba'' ''account.manage''"
  by (auto simp: edsAccount_def target_ok_def Let_def dest: access_modes credentials_account
      split: sum.splits if_splits option.splits)

lemma securityGroupAccount_ok:
  "securityGroupAccount e d u r ''manage'' = Inr acc \<Longrightarrow> target_ok d u acc ''alibaba'' ''account.manage''"
  by (auto simp: securityGroupAccount_def target_ok_def dest: access_modes alibaba_account split: sum.splits if_splits)

lemma ossAccount_ok:
  "ossAccount e d u r ''manage'' = Inr acc \<Longrightarrow> target_ok d u acc ''alibaba'' ''account.manage''"
  by (auto simp: ossAccount_def target_ok_def dest: access_modes alibaba_account split: sum.splits if_splits)

lemma instanceTarget_ok:
  assumes "instanceTarget e i d u iid ''operate'' = Inr t"
  shows "target_ok d u (tg_account t) (tg_provider t) ''compute.operate''"
  using assms
  by (fastforce simp: instanceTarget_def target_ok_def dest!: access_modes find_Some_iff_in split: if_splits option.splits)

section \<open>The handlers\<close>

text \<open>Either nothing reached a provider, or the call was justified.\<close>

definition cautious :: "env \<Rightarrow> user \<Rightarrow> string \<Rightarrow> world \<Rightarrow> resp \<times> world \<Rightarrow> bool" where
  "cautious e u cap w res \<longleftrightarrow> quiet w (snd res) \<or> \<not> e_fault e 2 \<and> justified e u cap w (snd res)"

lemma cautious_early [simp]: "cautious e u cap w (q, w)"
  by (simp add: cautious_def)

lemma cautious_submit:
  assumes "quiet_rest rest" and "has_suffix ''requested'' action"
    and "ready \<Longrightarrow> target_ok (w_db w) u (pc_account c) (pc_provider c) cap"
  shows "cautious e u cap w (submit e 2 p u (action, target, details) refused ready c rest w)"
  using submit_justified [OF assms(1,2), of ready w u c cap e 2 p target details refused] assms(3)
  by (simp add: cautious_def target_ok_def)

lemma cautious_if:
  "(b \<Longrightarrow> cautious e u cap w s) \<Longrightarrow> (\<not> b \<Longrightarrow> cautious e u cap w t) \<Longrightarrow> cautious e u cap w (if b then s else t)"
  by simp

lemma cautious_sum:
  assumes "\<And>q. s = Inl q \<Longrightarrow> cautious e u cap w (f q)" and "\<And>v. s = Inr v \<Longrightarrow> cautious e u cap w (g v)"
  shows "cautious e u cap w (case s of Inl q \<Rightarrow> f q | Inr v \<Rightarrow> g v)"
  using assms by (cases s) simp_all

lemma cautious_pair:
  assumes "\<And>a b. s = (a, b) \<Longrightarrow> cautious e u cap w (f a b)"
  shows "cautious e u cap w (case s of (a, b) \<Rightarrow> f a b)"
  using assms by (cases s) simp

lemma cautious_option:
  assumes "s = None \<Longrightarrow> cautious e u cap w f" and "\<And>v. s = Some v \<Longrightarrow> cautious e u cap w (g v)"
  shows "cautious e u cap w (case s of None \<Rightarrow> f | Some v \<Rightarrow> g v)"
  using assms by (cases s) simp_all

lemmas cautious_intros = cautious_early cautious_if cautious_sum cautious_pair cautious_option cautious_submit

lemma requested_suffix [simp]: "has_suffix ''requested'' (s @ ''.requested'')"
  by (simp add: has_suffix_def)

lemma with_eds_cautious:
  assumes "\<And>acc region inp. edsAccount e x p (w_db w) u r mode = Inr (acc, region) \<Longrightarrow> cautious e u cap w (k acc region inp)"
  shows "cautious e u cap w (with_eds_account e x p u r mode b k w)"
  using assms by (auto simp: with_eds_account_def split: sum.splits)

lemma instance_request_target:
  "instance_request e i x p d ws t action \<noteq> None \<Longrightarrow>
     pc_account (the (instance_request e i x p d ws t action)) = tg_account t \<and>
     pc_provider (the (instance_request e i x p d ws t action)) = tg_provider t"
  by (auto simp: instance_request_def instance_call_def split: if_splits option.splits)

lemma eds_call_simps [simp]:
  "pc_account (eds_call acc op region args) = acc" "pc_provider (eds_call acc op region args) = ''alibaba''"
  by (simp_all add: eds_call_def)

lemma eds_requests [simp]:
  "pc_account (EDSRenew acc g did un n ap) = acc" "pc_provider (EDSRenew acc g did un n ap) = ''alibaba''"
  "pc_account (EDSEntitlement acc g did ids bd) = acc" "pc_provider (EDSEntitlement acc g did ids bd) = ''alibaba''"
  "pc_account (EDSChangePolicy acc g did pol) = acc" "pc_provider (EDSChangePolicy acc g did pol) = ''alibaba''"
  "pc_account (EDSMaintenance acc g did mode) = acc" "pc_provider (EDSMaintenance acc g did mode) = ''alibaba''"
  "pc_account (EDSRunCommand acc g did cmd kd tmo) = acc" "pc_provider (EDSRunCommand acc g did cmd kd tmo) = ''alibaba''"
  "pc_account (EDSChangeBilling acc g did ch un n ap) = acc" "pc_provider (EDSChangeBilling acc g did ch un n ap) = ''alibaba''"
  "pc_account (EDSCreateUser acc nm em ds pw la) = acc" "pc_provider (EDSCreateUser acc nm em ds pw la) = ''alibaba''"
  by (simp_all add: EDSRenew_def EDSEntitlement_def EDSChangePolicy_def EDSMaintenance_def EDSRunCommand_def EDSChangeBilling_def EDSCreateUser_def)

lemma desktop_action_target [simp]:
  assumes "EDSDesktopAction acc g did action = Some c"
  shows "pc_account c = acc" "pc_provider c = ''alibaba''"
  using assms by (auto simp: EDSDesktopAction_def split: if_splits)

lemma action_cautious: "cautious e u ''compute.operate'' w (instance_action e x p u r b w)"
proof -
  have quiet_state: "quiet w (with_db w (set_state (w_db w) iid st))" for w iid st by (simp add: quiet_def set_state_def)
  have "quiet_rest (action_done e u action iid t)" for action iid t
    unfolding quiet_rest_def action_done_def Let_def
    by (auto intro: quiet_trans [OF quiet_state quiet_audit] split: option.splits)
  then show ?thesis
    unfolding instance_action_def
    by (intro cautious_intros) (auto dest: instanceTarget_ok simp: instance_request_target has_suffix_def)
qed

lemma quiet_answers:
  "quiet_rest (\<lambda>answer w. case answer of None \<Rightarrow> (q, audit e i u w a t j) | Some v \<Rightarrow> (f v, audit e i' u w a' t' j'))"
  by (simp add: quiet_rest_def split: option.splits)

lemma create_rule_cautious: "cautious e u ''account.manage'' w (createSecurityGroupRule e x p u r b w)"
  unfolding createSecurityGroupRule_def Let_def
  by (intro cautious_intros quiet_answers) (auto dest: securityGroupAccount_ok simp: authorize_call_def Let_def has_suffix_def)

lemma delete_rule_cautious: "cautious e u ''account.manage'' w (deleteSecurityGroupRule e x p u r w)"
  unfolding deleteSecurityGroupRule_def Let_def
  by (intro cautious_intros quiet_answers) (auto dest: securityGroupAccount_ok simp: revoke_call_def has_suffix_def)


lemma bucket_cautious: "cautious e u ''account.manage'' w (createOSSBucket e x p u r b w)"
proof -
  have "quiet_rest (\<lambda>answer w. if c then (q, w) else case answer of None \<Rightarrow> (q', audit e i u w a t j) | Some v \<Rightarrow> (f v, audit e i' u w a' t' j'))"
    for c q q' i a t j f i' a' t' j'
    by (simp add: quiet_rest_def split: option.splits)
  then show ?thesis
    unfolding createOSSBucket_def Let_def
    by (intro cautious_intros) (auto dest: ossAccount_ok simp: bucket_call_def has_suffix_def)
qed

lemma desktop_cautious: "cautious e u ''account.manage'' w (createEDSDesktop e x p u r b w)"
proof -
  have "quiet_rest (\<lambda>answer w. case answer of None \<Rightarrow> (q, audit e i u w a t j)
      | Some v \<Rightarrow> (f v, if c then audit e i' u w a' t' j' else with_redis (audit e i' u w a' t' j') (g (audit e i' u w a' t' j'))))"
    for q i a t j f c i' a' t' j' g
    by (simp add: quiet_rest_def quiet_redis split: option.splits)
  then show ?thesis
    unfolding createEDSDesktop_def Let_def desktop_call_def
    by (intro with_eds_cautious cautious_intros) (auto dest: edsAccount_ok simp: has_suffix_def)
qed

lemma eds_user_cautious: "cautious e u ''account.manage'' w (createEDSUser e x p u r b w)"
proof -
  have "quiet_rest (\<lambda>answer w. case answer of None \<Rightarrow> (q, audit e i u w a t j)
      | Some v \<Rightarrow> if c v then (q', audit e i' u w a' t' j') else (f v, audit e k u w a'' t'' j''))"
    for q i a t j f c i' a' t' j' q' k a'' t'' j''
    by (simp add: quiet_rest_def split: option.splits)
  then show ?thesis
    unfolding createEDSUser_def Let_def
    by (intro with_eds_cautious cautious_intros) (auto dest: edsAccount_ok simp: has_suffix_def)
qed

lemma command_cautious: "cautious e u ''compute.operate'' w (runEDSCommand e x p u r b w)"
proof -
  have "quiet_rest (\<lambda>answer w. if c then (q, w) else if c' then (q', w) else eds_finish e u fl ac t body answer w)"
    for c q c' q' fl ac t body
    using quiet_eds_finish by (simp add: quiet_rest_def)
  then show ?thesis
    unfolding runEDSCommand_def Let_def
    by (intro with_eds_cautious cautious_intros) (auto dest: edsAccount_ok simp: has_suffix_def)
qed

lemma desktop_action_cautious: "cautious e u ''compute.operate'' w (edsDesktopAction e x p u r b w)"
  unfolding edsDesktopAction_def Let_def
  by (intro cautious_intros quiet_eds_finish) (auto dest: edsAccount_ok desktop_action_target simp: has_suffix_def)

lemma renew_cautious: "cautious e u ''account.manage'' w (renewEDSDesktop e x p u r b w)"
  unfolding renewEDSDesktop_def Let_def
  by (intro cautious_intros quiet_eds_finish) (auto dest: edsAccount_ok simp: has_suffix_def)

lemma entitlement_cautious: "cautious e u ''compute.operate'' w (changeEDSEntitlement e x p u r b w)"
  unfolding changeEDSEntitlement_def Let_def
  by (intro cautious_intros quiet_eds_finish) (auto dest: edsAccount_ok simp: has_suffix_def)

lemma policy_cautious: "cautious e u ''account.manage'' w (changeEDSPolicy e x p u r b w)"
  unfolding changeEDSPolicy_def Let_def
  by (intro with_eds_cautious cautious_intros quiet_eds_finish) (auto dest: edsAccount_ok simp: has_suffix_def)

lemma maintenance_cautious: "cautious e u ''compute.operate'' w (setEDSMaintenance e x p u r b w)"
  unfolding setEDSMaintenance_def Let_def
  by (intro with_eds_cautious cautious_intros quiet_eds_finish)
     (auto dest: edsAccount_ok simp: has_suffix_def)

lemma charge_cautious: "cautious e u ''account.manage'' w (changeEDSBilling e x p u r b w)"
  unfolding changeEDSBilling_def Let_def
  by (intro with_eds_cautious cautious_intros quiet_eds_finish) (auto dest: edsAccount_ok simp: has_suffix_def)

lemmas handlers_cautious = action_cautious create_rule_cautious delete_rule_cautious bucket_cautious
  desktop_cautious desktop_action_cautious renew_cautious entitlement_cautious eds_user_cautious
  policy_cautious maintenance_cautious command_cautious charge_cautious

section \<open>Properties\<close>

text \<open>C24: an operation that reaches a provider was permitted, reached an account of the workspace at that
  account's own provider, made exactly one call, and left in the audit trail, ahead of everything else it
  recorded, the intent under the caller's name: a trail that cannot be written stops the call.\<close>

theorem provider_calls_justified:
  assumes "run_cloud_op e x p u r op w = (rp, w')" and "w_calls w' \<noteq> w_calls w"
  shows "\<not> e_fault e 2 \<and> justified e u (needs op) w w'"
proof -
  have "cautious e u (needs op) w (run_cloud_op e x p u r op w)"
    by (cases op) (simp_all add: handlers_cautious)
  then show ?thesis using assms by (auto simp: cautious_def quiet_def)
qed


definition eds_accounts :: account_ext where
  "eds_accounts = demo_accounts\<lparr>ae_unmarshal := (\<lambda>s. Some demo_keys), ae_open := Some\<rparr>"

definition eds_provider :: provider_ext where
  "eds_provider = \<lparr>px_parse = (\<lambda>u. None), px_client = (\<lambda>pr rg c. True), px_call = (\<lambda>c. Some (JObj [])), px_query = (\<lambda>c. Some (JStr ''Running''))\<rparr>"

definition eds_world :: world where
  "eds_world = world_of (team_db\<lparr>d_accounts := [demo_account 5 ''alibaba'' (Some 3)]\<rparr>)"

definition desktop_request :: request where
  "desktop_request = blank_request\<lparr>rq_path := (\<lambda>k. if k = ''id'' then ''5'' else ''ecd-1''),
     rq_query := (\<lambda>k. if k = ''region'' then ''eu-central-1'' else [])\<rparr>"

lemma provider_calls_justified_witness:
  "justified (site ''a'' 5) demo_user ''compute.operate'' eds_world
     (snd (edsDesktopAction (site ''a'' 5) eds_accounts eds_provider demo_user desktop_request (Body ''stop'') eds_world))"
proof -
  let ?res = "edsDesktopAction (site ''a'' 5) eds_accounts eds_provider demo_user desktop_request (Body ''stop'') eds_world"
  have "length (w_calls (snd ?res)) = 1" "w_calls eds_world = []" by code_simp+
  then have "w_calls (snd ?res) \<noteq> w_calls eds_world" by auto
  then show ?thesis
    using provider_calls_justified [of "site ''a'' 5" eds_accounts eds_provider demo_user desktop_request
        "OpDesktopAction (Body ''stop'')" eds_world "fst ?res" "snd ?res"] by simp
qed

section \<open>What may be asked of a provider\<close>

text \<open>The orders that cost money or run code, and what they must carry.\<close>

fun ordered :: "cloud_op \<Rightarrow> bool" where
  "ordered (OpBucket b) = (\<exists>i. b = Body i \<and> bi_confirm i)"
| "ordered (OpDesktop b) = (\<exists>i. b = Body i \<and> di_confirm i \<and> 1 \<le> di_amount i \<and> di_amount i \<le> 10 \<and>
     (di_charge i = ''PrePaid'' \<longrightarrow> 1 \<le> di_period i \<and> di_period i \<le> 60))"
| "ordered (OpRenew b) = (\<exists>i. b = Body i \<and> rn_confirm i \<and> 1 \<le> rn_period i \<and> rn_period i \<le> 60)"
| "ordered (OpCharge b) = (\<exists>i. b = Body i \<and> cg_confirm i \<and> (cg_charge i = ''PrePaid'' \<longrightarrow> valid_period (cg_unit i) (cg_period i)))"
| "ordered (OpCommand b) = (\<exists>i. b = Body i \<and> cm_confirm i \<and> 10 \<le> cm_timeout i \<and> cm_timeout i \<le> 86400 \<and>
     0 < length (cm_command i) \<and> length (cm_command i) \<le> 16384)"
| "ordered (OpEntitlement b) = (\<exists>i. b = Body i \<and> en_users i \<noteq> [] \<and> length (en_users i) \<le> 100)"
| "ordered op = True"

definition guarded :: "bool \<Rightarrow> world \<Rightarrow> resp \<times> world \<Rightarrow> bool" where
  "guarded ok w res \<longleftrightarrow> w_calls (snd res) = w_calls w \<or> ok"

lemma guarded_early [simp]: "guarded ok w (q, w)"
  by (simp add: guarded_def)

lemma guarded_ok: "ok \<Longrightarrow> guarded ok w res"
  by (simp add: guarded_def)

lemma guarded_if: "(c \<Longrightarrow> guarded ok w s) \<Longrightarrow> (\<not> c \<Longrightarrow> guarded ok w t) \<Longrightarrow> guarded ok w (if c then s else t)"
  by simp

lemma guarded_sum:
  assumes "\<And>q. s = Inl q \<Longrightarrow> guarded ok w (f q)" and "\<And>v. s = Inr v \<Longrightarrow> guarded ok w (g v)"
  shows "guarded ok w (case s of Inl q \<Rightarrow> f q | Inr v \<Rightarrow> g v)"
  using assms by (cases s) simp_all

lemma guarded_pair:
  assumes "\<And>a b. s = (a, b) \<Longrightarrow> guarded ok w (f a b)"
  shows "guarded ok w (case s of (a, b) \<Rightarrow> f a b)"
  using assms by (cases s) simp

lemma guarded_option:
  assumes "s = None \<Longrightarrow> guarded ok w f" and "\<And>v. s = Some v \<Longrightarrow> guarded ok w (g v)"
  shows "guarded ok w (case s of None \<Rightarrow> f | Some v \<Rightarrow> g v)"
  using assms by (cases s) simp_all

lemma guarded_eds:
  assumes "\<And>acc region inp. decode r b = Inr inp \<Longrightarrow> guarded ok w (k acc region inp)"
  shows "guarded ok w (with_eds_account e x p u r mode b k w)"
  using assms by (auto simp: with_eds_account_def split: sum.splits)

lemmas guarded_intros = guarded_early guarded_if guarded_sum guarded_pair guarded_option guarded_eds

lemma decode_body: "decode r b = Inr i \<Longrightarrow> b = Body i"
  by (cases b) (simp_all add: decode_def split: if_splits)

lemma orders_guarded: "guarded (ordered op) w (run_cloud_op e x p u r op w)"
proof (cases op)
  case (OpBucket b)
  then show ?thesis unfolding OpBucket run_cloud_op.simps createOSSBucket_def Let_def
    by (intro guarded_intros) (auto intro!: guarded_ok dest!: decode_body simp: bucket_problem_def split: if_splits)
next
  case (OpDesktop b)
  then show ?thesis unfolding OpDesktop run_cloud_op.simps createEDSDesktop_def Let_def
    by (intro guarded_intros) (auto intro!: guarded_ok dest!: decode_body simp: desktop_problem_def split: if_splits)
next
  case (OpRenew b)
  then show ?thesis unfolding OpRenew run_cloud_op.simps renewEDSDesktop_def Let_def
    by (intro guarded_intros) (auto intro!: guarded_ok dest!: decode_body)
next
  case (OpEntitlement b)
  then show ?thesis unfolding OpEntitlement run_cloud_op.simps changeEDSEntitlement_def Let_def
    by (intro guarded_intros) (auto intro!: guarded_ok dest!: decode_body)
next
  case (OpCommand b)
  then show ?thesis unfolding OpCommand run_cloud_op.simps runEDSCommand_def Let_def
    by (intro guarded_intros) (auto intro!: guarded_ok dest!: decode_body simp: command_ok_def)
next
  case (OpCharge b)
  then show ?thesis unfolding OpCharge run_cloud_op.simps changeEDSBilling_def Let_def
    by (intro guarded_intros) (auto intro!: guarded_ok dest!: decode_body)
qed (simp_all add: guarded_def)

text \<open>No order that costs money or runs code reaches a provider without its explicit confirmation and
  within its limits: one to ten desktops, one to sixty periods, one of the periods a desktop can be charged
  for, a command of at most 16 KB that stops within a day, one to a hundred people.\<close>

theorem orders_confirmed:
  assumes "run_cloud_op e x p u r op w = (rp, w')" and "w_calls w' \<noteq> w_calls w"
  shows "ordered op"
  using orders_guarded [of op w e x p u r] assms by (simp add: guarded_def)

definition stop_script :: command_input where
  "stop_script = \<lparr>cm_command = ''Stop-Service x'', cm_type = ''RunPowerShellScript'', cm_timeout = 60, cm_confirm = True\<rparr>"

lemma orders_confirmed_witness:
  "w_calls (snd (runEDSCommand (site ''a'' 5) eds_accounts eds_provider demo_user desktop_request (Body stop_script) eds_world)) \<noteq> [] \<and>
   ordered (OpCommand (Body stop_script))"
proof -
  let ?res = "runEDSCommand (site ''a'' 5) eds_accounts eds_provider demo_user desktop_request (Body stop_script) eds_world"
  have "length (w_calls (snd ?res)) = 1" "w_calls eds_world = []" by code_simp+
  then have "w_calls (snd ?res) \<noteq> w_calls eds_world" "w_calls (snd ?res) \<noteq> []" by auto
  then show ?thesis
    using orders_confirmed [of "site ''a'' 5" eds_accounts eds_provider demo_user desktop_request
        "OpCommand (Body stop_script)" eds_world "fst ?res" "snd ?res"] by simp
qed

text \<open>The rule a request asks for, as it must read at the provider.\<close>

definition rule_in_bounds :: "rule_request \<Rightarrow> bool" where
  "rule_in_bounds q \<longleftrightarrow> rr_direction q \<in> {''ingress'', ''egress''} \<and> rr_protocol q \<in> {''tcp'', ''udp'', ''icmp'', ''all''} \<and>
     rr_policy q \<in> {''accept'', ''drop''} \<and> 1 \<le> rr_priority q \<and> rr_priority q \<le> 100 \<and> parseCIDR (rr_cidr q) \<noteq> None \<and>
     rune_count (rr_desc q) \<le> 512 \<and>
     (rr_protocol q \<in> {''tcp'', ''udp''} \<longrightarrow> 1 \<le> rr_from q \<and> rr_from q \<le> rr_to q \<and> rr_to q \<le> 65535)"

definition rule_ports :: "rule_request \<Rightarrow> string" where
  "rule_ports q = (if rr_protocol q \<in> {''tcp'', ''udp''} then show_int (rr_from q) @ ''/'' @ show_int (rr_to q) else ''-1/-1'')"

lemma inl_chain: "(if c then Inl m else s) = Inr v \<longleftrightarrow> \<not> c \<and> s = Inr v"
  by simp

lemma validate_bounds:
  assumes "validateSecurityGroupRule e inp = Inr (q, rule)"
  shows "q = clean_rule inp" "rule_in_bounds q" "ri_ports rule = rule_ports q" "ri_direction rule = rr_direction q"
    "ri_protocol rule = rr_protocol q" "ri_cidr rule = rr_cidr q" "ri_policy rule = rr_policy q" "ri_priority rule = show_int (rr_priority q)"
proof -
  note v = assms [unfolded validateSecurityGroupRule_def Let_def inl_chain sum.inject prod.inject]
  show q: "q = clean_rule inp" using v by (elim conjE) (rule sym)
  show "rule_in_bounds q" unfolding rule_in_bounds_def insert_iff empty_iff using v unfolding q insert_iff empty_iff
    by (elim conjE) (simp only: not_less de_Morgan_disj de_Morgan_conj, linarith?, argo?)
  show "ri_ports rule = rule_ports q" "ri_direction rule = rr_direction q"
    "ri_protocol rule = rr_protocol q" "ri_cidr rule = rr_cidr q" "ri_policy rule = rr_policy q" "ri_priority rule = show_int (rr_priority q)"
    using v by (auto simp only: rule_ports_def insert_iff empty_iff simp_thms rule_input.simps)
qed

lemma submit_calls:
  assumes "submit e i p u entry refused ready c rest w = (rp, w')" and "w_calls w' \<noteq> w_calls w" and "quiet_rest rest"
  shows "w_calls w' = w_calls w @ [c]"
proof -
  have "w_calls (snd (rest answer w1)) = w_calls w1" for answer w1
    using assms(3) by (simp add: quiet_rest_def quiet_def)
  then have "w_calls (snd (submit e i p u entry refused ready c rest w)) \<in> {w_calls w, w_calls w @ [c]}"
    by (auto simp: submit_def rcd_def split: prod.splits if_splits)
  then show ?thesis using assms(1,2) by simp
qed

text \<open>C25: a rule reaches the provider only in its bounds (ports from 1 to 65535 in order, priority from 1 to
  100, a CIDR block, a known direction, protocol and policy), and it is the rule the request asked for.\<close>

theorem submitted_rule_bounded:
  assumes "createSecurityGroupRule e x p u r b w = (rp, w')" and "w_calls w' \<noteq> w_calls w"
  shows "\<exists>acc inp q desc token. b = Body inp \<and> q = clean_rule inp \<and> rule_in_bounds q \<and>
    w_calls w' = w_calls w @ [authorize_call acc (rr_region q) (rq_path r ''groupID'')
      \<lparr>ri_direction = rr_direction q, ri_protocol = rr_protocol q, ri_ports = rule_ports q, ri_cidr = rr_cidr q,
       ri_policy = rr_policy q, ri_priority = show_int (rr_priority q), ri_desc = desc, ri_token = token\<rparr>]"
proof -
  from assms obtain acc inp q rule where
    s: "b = Body inp" "validateSecurityGroupRule e inp = Inr (q, rule)"
      "w_calls w' = w_calls w @ [authorize_call acc (rr_region q) (rq_path r ''groupID'') rule]"
    unfolding createSecurityGroupRule_def Let_def
    by (auto split: sum.splits prod.splits if_splits dest!: decode_body dest!: submit_calls [OF _ _ quiet_answers])
  show ?thesis using s validate_bounds [OF s(2)] by (cases rule) auto
qed

definition web_rule :: rule_request where
  "web_rule = \<lparr>rr_region = '' eu-central-1'', rr_direction = ''Ingress'', rr_protocol = ''TCP'', rr_from = 80, rr_to = 443,
     rr_cidr = ''10.0.0.0/8'', rr_policy = ''accept'', rr_priority = 1, rr_desc = []\<rparr>"

definition group_request :: request where
  "group_request = blank_request\<lparr>rq_path := (\<lambda>k. if k = ''id'' then ''5'' else ''sg-1'')\<rparr>"

lemma submitted_rule_bounded_witness:
  "\<exists>acc desc token. w_calls (snd (createSecurityGroupRule (site ''a'' 5) eds_accounts eds_provider demo_admin group_request (Body web_rule) eds_world)) =
     [authorize_call acc ''eu-central-1'' ''sg-1'' \<lparr>ri_direction = ''ingress'', ri_protocol = ''tcp'', ri_ports = ''80/443'',
        ri_cidr = ''10.0.0.0/8'', ri_policy = ''accept'', ri_priority = ''1'', ri_desc = desc, ri_token = token\<rparr>]"
proof -
  let ?res = "createSecurityGroupRule (site ''a'' 5) eds_accounts eds_provider demo_admin group_request (Body web_rule) eds_world"
  have "length (w_calls (snd ?res)) = 1" and none: "w_calls eds_world = []" by code_simp+
  then have "w_calls (snd ?res) \<noteq> w_calls eds_world" by auto
  from submitted_rule_bounded [OF prod.collapse [symmetric] this] none
  have "\<exists>acc desc token. w_calls (snd ?res) = [authorize_call acc (rr_region (clean_rule web_rule)) (rq_path group_request ''groupID'')
      \<lparr>ri_direction = rr_direction (clean_rule web_rule), ri_protocol = rr_protocol (clean_rule web_rule),
       ri_ports = rule_ports (clean_rule web_rule), ri_cidr = rr_cidr (clean_rule web_rule),
       ri_policy = rr_policy (clean_rule web_rule), ri_priority = show_int (rr_priority (clean_rule web_rule)),
       ri_desc = desc, ri_token = token\<rparr>]"
    by auto
  moreover have "rr_region (clean_rule web_rule) = ''eu-central-1''" "rq_path group_request ''groupID'' = ''sg-1''"
    "rr_direction (clean_rule web_rule) = ''ingress''" "rr_protocol (clean_rule web_rule) = ''tcp''"
    "rule_ports (clean_rule web_rule) = ''80/443''" "rr_cidr (clean_rule web_rule) = ''10.0.0.0/8''"
    "rr_policy (clean_rule web_rule) = ''accept''" "show_int (rr_priority (clean_rule web_rule)) = ''1''"
    by code_simp+
  ultimately show ?thesis by (simp only:)
qed

end
