(* ===== verification/ProviderProps.thy ===== *)
theory ProviderProps
  imports Providers InventoryProps
begin

text \<open>
  Properties of the listings: the loop over pages returns within the deadline of its context and then has
  every page, the ID of a Google Cloud instance leads back to it, and a zone Google could not reach is
  taken for an empty one.
\<close>

section \<open>Pages\<close>

text \<open>The pages of a listing from a token on.\<close>

inductive pages :: "(nat \<Rightarrow> string \<Rightarrow> ('a list \<times> string) option) \<Rightarrow> nat \<Rightarrow> string \<Rightarrow> 'a list list \<Rightarrow> bool"
  for step where
  last: "step n next = Some (items, []) \<Longrightarrow> pages step n next [items]"
| more: "step n next = Some (items, t) \<Longrightarrow> t \<noteq> [] \<Longrightarrow> pages step (Suc n) t rest \<Longrightarrow> pages step n next (items # rest)"

lemma read_pages_complete: "pages step n next ps \<Longrightarrow> read_pages step n next acc = Some (Some (acc @ concat ps))"
  by (induction arbitrary: acc rule: pages.induct) (simp_all add: read_pages.simps)

lemma read_pages_sound:
  assumes "read_pages step n next acc = Some (Some xs)"
  shows "\<exists>ps. pages step n next ps \<and> xs = acc @ concat ps"
proof -
  have "\<forall>xs. r = Some xs \<longrightarrow> (\<exists>ps. pages step n tk ps \<and> xs = acc @ concat ps)"
    if "read_pages step n tk acc = Some r" for step :: "nat \<Rightarrow> string \<Rightarrow> ('a list \<times> string) option" and n tk acc r
  proof (rule read_pages.raw_induct
      [where P = "\<lambda>step n next acc r. \<forall>xs. r = Some xs \<longrightarrow> (\<exists>ps. pages step n next ps \<and> xs = acc @ concat ps)", OF _ that])
    fix f and step :: "nat \<Rightarrow> string \<Rightarrow> ('a list \<times> string) option" and n tk and acc :: "'a list" and r
    assume IH: "\<And>step n next acc r. f step n next acc = Some r \<Longrightarrow>
        \<forall>xs. r = Some xs \<longrightarrow> (\<exists>ps. pages step n next ps \<and> xs = acc @ concat ps)"
      and eq: "(case step n tk of None \<Rightarrow> Some None
        | Some (items, t) \<Rightarrow> if t = [] then Some (Some (acc @ items)) else f step (Suc n) t (acc @ items)) = Some r"
    show "\<forall>xs. r = Some xs \<longrightarrow> (\<exists>ps. pages step n tk ps \<and> xs = acc @ concat ps)"
    proof (cases "step n tk")
      case None
      then show ?thesis using eq by auto
    next
      case (Some p)
      obtain items t where p: "step n tk = Some (items, t)" using Some by (cases p) auto
      show ?thesis
      proof (cases "t = []")
        case True
        then show ?thesis using eq p pages.last [of step n tk items] by force
      next
        case False
        with eq p IH [of step "Suc n" t "acc @ items" r]
        have "\<forall>xs. r = Some xs \<longrightarrow> (\<exists>ps. pages step (Suc n) t ps \<and> xs = acc @ items @ concat ps)" by simp
        then show ?thesis using pages.more [of step n tk items t] p False by (metis append_assoc concat.simps(2))
      qed
    qed
  qed
  then show ?thesis using assms by blast
qed

text \<open>A deadline: after \<open>b\<close> requests none is answered.\<close>

lemma read_pages_returns:
  assumes "\<forall>n \<ge> b. \<forall>t. step n t = None"
  shows "read_pages step n next acc \<noteq> None"
proof (induction "b - n" arbitrary: n "next" acc)
  case 0
  then show ?case using assms by (simp add: read_pages.simps)
next
  case (Suc k)
  then show ?case by (auto simp: read_pages.simps [of step n "next"] split: option.splits)
qed

text \<open>Without a deadline a provider that goes on naming pages is asked for ever.\<close>

lemma read_pages_endless:
  assumes "\<forall>n t. \<exists>items t'. step n t = Some (items, t') \<and> t' \<noteq> []"
  shows "read_pages step n next acc = None"
proof (rule ccontr)
  assume "read_pages step n next acc \<noteq> None"
  then obtain r where r: "read_pages step n next acc = Some r" by blast
  have "\<exists>n t. \<not> (\<exists>items t'. step n t = Some (items, t') \<and> t' \<noteq> [])"
  proof (rule read_pages.raw_induct
      [where P = "\<lambda>step n next acc r. \<exists>n t. \<not> (\<exists>items t'. step n t = Some (items, t') \<and> t' \<noteq> [])", OF _ r])
    fix f and step :: "nat \<Rightarrow> string \<Rightarrow> ('a list \<times> string) option" and n tk and acc :: "'a list" and r
    assume IH: "\<And>step n next acc r. f step n next acc = Some r \<Longrightarrow> \<exists>n t. \<not> (\<exists>items t'. step n t = Some (items, t') \<and> t' \<noteq> [])"
      and eq: "(case step n tk of None \<Rightarrow> Some None
        | Some (items, t) \<Rightarrow> if t = [] then Some (Some (acc @ items)) else f step (Suc n) t (acc @ items)) = Some r"
    show "\<exists>n t. \<not> (\<exists>items t'. step n t = Some (items, t') \<and> t' \<noteq> [])"
    proof (cases "\<exists>items t'. step n tk = Some (items, t') \<and> t' \<noteq> []")
      case True
      then obtain items t' where "step n tk = Some (items, t')" "t' \<noteq> []" by blast
      with eq have "f step (Suc n) t' (acc @ items) = Some r" by simp
      then show ?thesis by (rule IH)
    qed blast
  qed
  with assms show False by blast
qed

lemma token_step_deadline: "\<forall>n \<ge> b. \<forall>op args. ask n op args = None \<Longrightarrow> \<forall>n \<ge> b. \<forall>t. token_step ask op args items n t = None"
  by (simp add: token_step_def)

lemma web_deadline:
  "\<forall>n \<ge> b. \<forall>verb url. we_get web n verb url = None \<Longrightarrow> n \<ge> b \<Longrightarrow> web_request web base n verb target = None"
  by (auto simp: web_request_def bind_eq_None_conv)

lemma azure_step_deadline: "\<forall>n \<ge> b. \<forall>verb url. we_get web n verb url = None \<Longrightarrow> \<forall>n \<ge> b. \<forall>t. azure_step web n t = None"
  by (simp add: azure_step_def web_deadline)

lemma gcp_step_deadline: "\<forall>n \<ge> b. \<forall>verb url. we_get web n verb url = None \<Longrightarrow> \<forall>n \<ge> b. \<forall>t. gcp_step web project n t = None"
  by (simp add: gcp_step_def web_deadline)

lemma also_read_returns: "r \<noteq> None \<Longrightarrow> (\<And>x. f x \<noteq> None) \<Longrightarrow> also_read r f \<noteq> None"
  by (auto simp: also_read_def split: option.splits)

section \<open>Listings end\<close>


text \<open>A provider that names a next page for ever, and a context that is over after three requests.\<close>

definition restless :: client where
  "restless n op args = (if n < 3 then Some (JObj [(''NextToken'', JStr ''t''),
     (''Instances'', JObj [(''Instance'', JList [JObj [(''InstanceId'', JStr (show_nat n))]])])]) else None)"

definition demo_machine :: "string \<Rightarrow> string \<Rightarrow> gcp_vm" where
  "demo_machine zone name = \<lparr>gv_id = ''1'', gv_name = name, gv_zone = ''projects/p/zones/'' @ zone, gv_status = ''RUNNING'',
     gv_machine = ''zones/z/machineTypes/e2'', gv_created = [], gv_labels = JNull, gv_tags = JNull, gv_nics = []\<rparr>"

definition demo_gcp :: "gcp_body web" where
  "demo_gcp = \<lparr>we_parse = (\<lambda>u. Some (''https'', ''compute.googleapis.com'')), we_token = True,
     we_get = (\<lambda>n verb url. if n = 0 then Some (GcpPage [(''zones/eu-a'', [demo_machine ''eu-a'' ''db''])] [] ''t2'')
        else if n = 1 then Some (GcpPage [(''zones/eu-b'', [demo_machine ''eu-b'' ''web''])] [''zones/us-a''] []) else None)\<rparr>"

definition no_azure :: "azure_body web" where
  "no_azure = \<lparr>we_parse = (\<lambda>u. None), we_token = False, we_get = (\<lambda>n verb url. None)\<rparr>"


section \<open>Identifiers of Google Cloud\<close>

lemma lastResourcePart_no_slash: "CHR ''/'' \<notin> set (lastResourcePart s)"
  by (auto simp: lastResourcePart_def dest: set_takeWhileD)

lemma gcp_instance_id: "ci_id (gcp_instance m) = lastResourcePart (gv_zone m) @ ''/'' @ gv_name m"
  "ci_region (gcp_instance m) = GCPRegion (lastResourcePart (gv_zone m))" "ci_name (gcp_instance m) = gv_name m"
  by (simp_all add: gcp_instance_def Let_def)

lemma gcpTarget_id:
  assumes "gcp_listed m" and "CHR ''/'' \<notin> set (gv_name m)"
  shows "gcpTarget (ci_id (gcp_instance m)) = Some (lastResourcePart (gv_zone m), gv_name m)"
  using assms cut_at_append [OF lastResourcePart_no_slash, of "gv_zone m" "gv_name m"]
  by (simp add: gcpTarget_def gcp_instance_id gcp_listed_def)

lemma pages_elem: "pages step n next ps \<Longrightarrow> i \<in> set (concat ps) \<Longrightarrow> \<exists>m t items t'. step m t = Some (items, t') \<and> i \<in> set items"
proof (induction rule: pages.induct)
  case (more n "next" items t rest)
  show ?case
  proof (cases "i \<in> set items")
    case True
    with more.hyps(1) show ?thesis by blast
  next
    case False
    with more show ?thesis by simp
  qed
qed auto

lemma gcp_listed_instance:
  assumes "GCPInventory web project = Some (Some items)" and "i \<in> set items"
  shows "\<exists>n url scopes unreached t scope vms m. we_get web n ''GET'' url = Some (GcpPage scopes unreached t) \<and>
    (scope, vms) \<in> set scopes \<and> m \<in> set vms \<and> gcp_listed m \<and> i = gcp_instance m"
proof -
  from assms(1) have "read_pages (gcp_step web project) 0 (gcp_list_target project) [] = Some (Some items)"
    by (simp add: GCPInventory_def)
  from read_pages_sound [OF this] assms(2) obtain ps where
    "pages (gcp_step web project) 0 (gcp_list_target project) ps" "i \<in> set (concat ps)" by auto
  from pages_elem [OF this] obtain k t its t' where "gcp_step web project k t = Some (its, t')" "i \<in> set its" by blast
  then show ?thesis
    by (fastforce simp: gcp_step_def web_request_def bind_eq_Some_conv split: option.splits gcp_body.splits if_splits)
qed



section \<open>Zones out of reach\<close>

lemma listed_id:
  "k \<in> ci_id ` set (concat (map (\<lambda>(scope, vms). map gcp_instance (filter gcp_listed vms)) scopes)) \<Longrightarrow>
     \<exists>scope vms m. (scope, vms) \<in> set scopes \<and> m \<in> set vms \<and> k = ci_id (gcp_instance m)"
  by auto

lemma id_zone:
  assumes "zone @ ''/'' @ name = ci_id (gcp_instance m)" and "CHR ''/'' \<notin> set zone"
  shows "lastResourcePart (gv_zone m) = zone"
proof -
  have "zone @ CHR ''/'' # name = lastResourcePart (gv_zone m) @ CHR ''/'' # gv_name m"
    using assms(1) unfolding gcp_instance_id append_Cons append_Nil .
  from cut_eq [OF assms(2) lastResourcePart_no_slash this] show ?thesis by blast
qed

lemma synced_no_error: "\<forall>a \<in> set (d_accounts (account_synced e acc d)). ac_id a = acc \<longrightarrow> ac_err a = []"
  using synced_row by (metis with_db_simps(1))

lemma replace_stock_gone: "k \<notin> ci_id ` set items \<Longrightarrow> replace_stock True r items m (region, k) = None"
  by (simp add: replace_stock_def)

text \<open>A zone that Google could not reach is taken for an empty one.  The listing asks for partial success
  and does not read the scopes the answer names as out of reach: where a page, the only one, lists nothing of
  a zone, a collection that succeeds removes every instance of that zone from the inventory and leaves the
  account without an error, whether or not the zone is named as out of reach.\<close>

theorem unreachable_zone_lost:
  assumes "collectAccount e i (provider_answers c) ws acc ''gcp'' [] w = (True, w')"
    and "cl_gcp c acc = Some (web, project)"
    and "web_request web gcp_base 0 ''GET'' (gcp_list_target project) = Some (GcpPage scopes unreached [])"
    and "\<forall>(scope, vms) \<in> set scopes. \<forall>m \<in> set vms. lastResourcePart (gv_zone m) \<noteq> zone" and "CHR ''/'' \<notin> set zone"
  shows "inventory (w_db w') acc (region, zone @ ''/'' @ name) = None \<and>
    (\<forall>a \<in> set (d_accounts (w_db w')). ac_id a = acc \<longrightarrow> ac_err a = [])"
proof -
  let ?items = "concat (map (\<lambda>(scope, vms). map gcp_instance (filter gcp_listed vms)) scopes)"
  have "GCPInventory web project = Some (Some ?items)"
    unfolding GCPInventory_def by (subst read_pages.simps) (simp add: gcp_step_def assms(3))
  then have listed: "cx_global (provider_answers c) ''gcp'' acc = Some ?items"
    by (simp add: provider_answers_def finished_def assms(2))
  from assms(1) obtain d1 where d1: "collectGlobal e (i + 10) (provider_answers c) acc ''gcp'' [] (w_db w) = Some d1"
    and w': "w_db w' = account_synced e acc d1"
    by (auto simp: collectAccount_def collect_parts_def split: option.splits if_splits)
  have "reconcileInventory e (i + 10) acc ?items True [] (w_db w) = Some d1"
    using d1 listed by (simp add: collectGlobal_def)
  from reconcile_refines [OF this] have inv: "inventory d1 acc = replace_stock True [] ?items (inventory (w_db w) acc)" by blast
  have "zone @ ''/'' @ name \<notin> ci_id ` set ?items"
  proof
    assume "zone @ ''/'' @ name \<in> ci_id ` set ?items"
    from listed_id [OF this] obtain scope vms m where m: "(scope, vms) \<in> set scopes" "m \<in> set vms"
      "zone @ ''/'' @ name = ci_id (gcp_instance m)" by blast
    from id_zone [OF m(3) assms(5)] assms(4) m(1,2) show False by blast
  qed
  then have "inventory d1 acc (region, zone @ ''/'' @ name) = None" unfolding inv by (rule replace_stock_gone)
  then have "inventory (w_db w') acc (region, zone @ ''/'' @ name) = None"
    unfolding w' account_synced_def rcd_inventory(2) .
  moreover have "\<forall>a \<in> set (d_accounts (w_db w')). ac_id a = acc \<longrightarrow> ac_err a = []"
    unfolding w' by (rule synced_no_error)
  ultimately show ?thesis ..
qed

definition half_reached :: "gcp_body web" where
  "half_reached = \<lparr>we_parse = (\<lambda>u. Some (''https'', ''compute.googleapis.com'')), we_token = True,
     we_get = (\<lambda>n verb url. Some (GcpPage [(''zones/eu-a'', [demo_machine ''eu-a'' ''db''])] [''zones/us-a''] []))\<rparr>"

definition gcp_clients :: clients where
  "gcp_clients = \<lparr>cl_aws = (\<lambda>a r. None), cl_alibaba = (\<lambda>a r. None), cl_azure = (\<lambda>a. None),
     cl_gcp = (\<lambda>a. Some (half_reached, ''p''))\<rparr>"

definition gcp_world :: world where
  "gcp_world = world_of (demo_db\<lparr>d_accounts := [demo_account 5 ''gcp'' (Some 3)], d_insts :=
     [\<lparr>in_account = 5, in_iid = ''us-a/app'', in_region = ''us'', in_name = ''app'', in_state = ''running'', in_type = ''e2'',
       in_public = [], in_private = [], in_details = JNull, in_id = 1, in_seen = 0\<rparr>]\<rparr>)"

lemma unreachable_zone_lost_witness:
  "inventory (w_db gcp_world) 5 (''us'', ''us-a/app'') \<noteq> None \<and>
   (let res = collectAccount good_env 0 (provider_answers gcp_clients) 1 5 ''gcp'' [] gcp_world
    in fst res \<and> inventory (w_db (snd res)) 5 (''us'', ''us-a/app'') = None)"
proof -
  let ?res = "collectAccount good_env 0 (provider_answers gcp_clients) 1 5 ''gcp'' [] gcp_world"
  have items: "GCPInventory half_reached ''p'' = Some (Some [gcp_instance (demo_machine ''eu-a'' ''db'')])"
    unfolding GCPInventory_def by (subst read_pages.simps) code_simp
  have ans: "cx_global (provider_answers gcp_clients) ''gcp'' 5 = Some [gcp_instance (demo_machine ''eu-a'' ''db'')]"
    by (simp add: provider_answers_def gcp_clients_def finished_def items)
  have "reconcileInventory good_env (0 + 10) 5 [gcp_instance (demo_machine ''eu-a'' ''db'')] True [] (w_db gcp_world) \<noteq> None" by code_simp
  then have ok: "fst ?res" by (auto simp: collectAccount_def collect_parts_def collectGlobal_def ans split: option.splits)
  have web: "cl_gcp gcp_clients 5 = Some (half_reached, ''p'')" by (simp add: gcp_clients_def)
  have page: "web_request half_reached gcp_base 0 ''GET'' (gcp_list_target ''p'') =
      Some (GcpPage [(''zones/eu-a'', [demo_machine ''eu-a'' ''db''])] [''zones/us-a''] [])"
    by (simp add: web_request_def request_target_def half_reached_def equal_fold_def)
  have zone: "\<forall>(scope, vms) \<in> set [(''zones/eu-a'', [demo_machine ''eu-a'' ''db''])]. \<forall>m \<in> set vms. lastResourcePart (gv_zone m) \<noteq> ''us-a''"
    by code_simp
  have res: "?res = (True, snd ?res)" using ok by (metis prod.collapse)
  have "inventory (w_db (snd ?res)) 5 (''us'', ''us-a'' @ ''/'' @ ''app'') = None"
    using unreachable_zone_lost [OF res web page zone] by simp
  moreover have "inventory (w_db gcp_world) 5 (''us'', ''us-a/app'') \<noteq> None" by code_simp
  ultimately show ?thesis using ok by (simp add: Let_def)
qed

end
