(* ===== verification/Snapshots.thy ===== *)
theory Snapshots
  imports CloudOps EdsOps
begin

text \<open>
  The snapshots of the Alibaba services (\<^verbatim>\<open>snapshots.go\<close>): storing and reading them, what a refresh collects
  into them (\<^verbatim>\<open>eds_refresh.go\<close>, \<^verbatim>\<open>oss.go\<close>, \<^verbatim>\<open>security_groups.go\<close>) and the handlers that show them.

  The goroutines of a collection write disjoint slots, so the model runs them in the order of the
  regions.  A context that is over shows as clients that do not answer and, where the source asks for it
  at the end, as \<open>sx_over\<close>.
\<close>

section \<open>Storing and reading\<close>

definition set_key :: "string \<Rightarrow> json \<Rightarrow> (string \<times> json) list \<Rightarrow> (string \<times> json) list" where
  "set_key k v fs = filter (\<lambda>(k', v'). k' \<noteq> k) fs @ [(k, v)]"

definition same_snapshot :: "int \<Rightarrow> string \<Rightarrow> string \<Rightarrow> snap_row \<Rightarrow> bool" where
  "same_snapshot acc service region s \<longleftrightarrow> sn_account s = acc \<and> sn_service s = service \<and> sn_region s = region"

text \<open>\<^verbatim>\<open>INSERT ... ON CONFLICT(account_id,service_key,region) DO UPDATE\<close>; the foreign key is on account and
  workspace.\<close>

definition saveServiceSnapshot :: "env \<Rightarrow> nat \<Rightarrow> int \<Rightarrow> int \<Rightarrow> string \<Rightarrow> string \<Rightarrow> json \<Rightarrow> db \<Rightarrow> db option" where
  "saveServiceSnapshot e i ws acc service region payload d =
     (if e_fault e i then None
      else if list_ex (same_snapshot acc service region) (d_snaps d)
      then Some (d\<lparr>d_snaps := map (\<lambda>s. if same_snapshot acc service region s
                     then s\<lparr>sn_payload := payload, sn_fetched := e_now e\<rparr> else s) (d_snaps d)\<rparr>)
      else if account_in_ws d ws acc = None then None
      else Some (d\<lparr>d_snaps := d_snaps d @ [\<lparr>sn_ws = ws, sn_account = acc, sn_service = service, sn_region = region,
                     sn_payload = payload, sn_fetched = e_now e\<rparr>]\<rparr>))"

text \<open>The payload to show, and whether there is one; \<^const>\<open>None\<close> is an error.\<close>

definition serviceSnapshot :: "env \<Rightarrow> nat \<Rightarrow> int \<Rightarrow> int \<Rightarrow> string \<Rightarrow> string \<Rightarrow> db \<Rightarrow> (json \<times> bool) option" where
  "serviceSnapshot e i ws acc service region d =
     (if e_fault e i then None
      else case find (\<lambda>s. sn_ws s = ws \<and> same_snapshot acc service region s) (d_snaps d) of
        None \<Rightarrow> Some (JObj [(''data'', JList []), (''snapshot'', JBool False), (''fetched_at'', JNull)], False)
      | Some s \<Rightarrow>
          (case sn_payload s of
             JObj fs \<Rightarrow> Some (JObj (set_key ''fetched_at'' (JInt (sn_fetched s)) (set_key ''snapshot'' (JBool True) fs)), True)
           | _ \<Rightarrow> None))"

definition show_snapshot :: "env \<Rightarrow> nat \<Rightarrow> user \<Rightarrow> int \<Rightarrow> string \<Rightarrow> string \<Rightarrow> db \<Rightarrow> resp" where
  "show_snapshot e i u acc service region d =
     (case serviceSnapshot e i (u_ws u) acc service region d of None \<Rightarrow> dbError DbFailed | Some (payload, _) \<Rightarrow> reply 200 payload)"

definition edsDesktops :: "env \<Rightarrow> user \<Rightarrow> request \<Rightarrow> db \<Rightarrow> resp" where
  "edsDesktops e u r d =
     (case edsSnapshotAccount e d u r True True of
        Inl q \<Rightarrow> q
      | Inr (acc, region) \<Rightarrow> show_snapshot e 2 u acc ''eds.desktops'' region d)"

definition edsRegions :: "env \<Rightarrow> user \<Rightarrow> request \<Rightarrow> db \<Rightarrow> resp" where
  "edsRegions e u r d =
     (case edsSnapshotAccount e d u r False False of
        Inl q \<Rightarrow> q
      | Inr (acc, region) \<Rightarrow> show_snapshot e 2 u acc ''eds.regions'' [] d)"

definition edsUsers :: "env \<Rightarrow> user \<Rightarrow> request \<Rightarrow> db \<Rightarrow> resp" where
  "edsUsers e u r d =
     (case edsSnapshotAccount e d u r False True of
        Inl q \<Rightarrow> q
      | Inr (acc, region) \<Rightarrow> show_snapshot e 2 u acc ''eds.users'' region d)"

definition ossBuckets :: "env \<Rightarrow> user \<Rightarrow> request \<Rightarrow> db \<Rightarrow> resp" where
  "ossBuckets e u r d =
     (case ossAccount e d u r ''view'' of Inl q \<Rightarrow> q | Inr acc \<Rightarrow> show_snapshot e 2 u acc ''oss.buckets'' [] d)"

definition securityGroups :: "env \<Rightarrow> user \<Rightarrow> request \<Rightarrow> db \<Rightarrow> resp" where
  "securityGroups e u r d =
     (case securityGroupAccount e d u r ''view'' of
        Inl q \<Rightarrow> q
      | Inr acc \<Rightarrow> show_snapshot e 2 u acc ''ecs.security_groups'' [] d)"

section \<open>The providers\<close>

text \<open>The clients a region and credentials make: \<^const>\<open>None\<close> where the SDK refuses to build one.\<close>

record service_ext =
  sx_ecs :: "string \<Rightarrow> credentials \<Rightarrow> client option"
  sx_eds :: "string \<Rightarrow> credentials \<Rightarrow> client option"
  sx_users :: "string \<Rightarrow> credentials \<Rightarrow> client option"
  sx_oss :: "string \<Rightarrow> credentials \<Rightarrow> client"
  sx_over :: bool

section \<open>Elastic desktops\<close>

record region_count =
  rc_id :: string
  rc_name :: string
  rc_desktops :: int
  rc_available :: bool

definition eds_seed :: "db \<Rightarrow> account_row \<Rightarrow> string" where
  "eds_seed d a =
     (case sort (map in_region (filter (\<lambda>i. in_account i = ac_id a) (d_insts d))) of
        r # _ \<Rightarrow> r
      | [] \<Rightarrow> (case ac_regions a of [] \<Rightarrow> ''cn-hangzhou'' | r # _ \<Rightarrow> if r = [] then ''cn-hangzhou'' else r))"

definition edsCredentials :: "env \<Rightarrow> nat \<Rightarrow> account_ext \<Rightarrow> db \<Rightarrow> int \<Rightarrow> int \<Rightarrow> (credentials \<times> string) option" where
  "edsCredentials e i x d ws acc =
     (case account_credentials e i x d ws acc ''alibaba'' of
        None \<Rightarrow> None
      | Some c \<Rightarrow>
          if e_fault e (i + 1) then None
          else map_option (\<lambda>a. (c, eds_seed d a)) (account_in_ws d ws acc))"

text \<open>An EDS client has a desktop and a user part; it is built only where both are.\<close>

definition eds_client :: "service_ext \<Rightarrow> string \<Rightarrow> credentials \<Rightarrow> (client \<times> client) option" where
  "eds_client s region c =
     (case (sx_eds s region c, sx_users s (user_region region) c) of
        (Some desktop, Some directory) \<Rightarrow> Some (desktop, directory) | _ \<Rightarrow> None)"

definition count_region :: "service_ext \<Rightarrow> credentials \<Rightarrow> eds_region \<Rightarrow> region_count" where
  "count_region s c r =
     (case Option.bind (eds_client s (er_id r) c) (\<lambda>(desktop, directory). EDSDesktopCount desktop (er_id r)) of
        None \<Rightarrow> \<lparr>rc_id = er_id r, rc_name = er_name r, rc_desktops = - 1, rc_available = False\<rparr>
      | Some n \<Rightarrow> \<lparr>rc_id = er_id r, rc_name = er_name r, rc_desktops = n, rc_available = True\<rparr>)"

definition total_desktops :: "region_count list \<Rightarrow> int" where
  "total_desktops counts = sum_list (map rc_desktops (filter (\<lambda>r. rc_available r \<and> rc_desktops r > 0) counts))"

definition count_json :: "region_count \<Rightarrow> json" where
  "count_json r = JObj [(''id'', JStr (rc_id r)), (''name'', JStr (rc_name r)), (''desktops'', JInt (rc_desktops r)),
     (''available'', JBool (rc_available r))]"

definition collectEDSRegions ::
    "env \<Rightarrow> nat \<Rightarrow> account_ext \<Rightarrow> service_ext \<Rightarrow> int \<Rightarrow> int \<Rightarrow> db \<Rightarrow> (region_count list \<times> db) option" where
  "collectEDSRegions e i x s ws acc d =
     (case edsCredentials e i x d ws acc of
        None \<Rightarrow> None
      | Some (c, seed) \<Rightarrow>
          (case Option.bind (eds_client s seed c) (\<lambda>(desktop, directory). EDSRegions desktop) of
             None \<Rightarrow> None
           | Some regions \<Rightarrow>
               let counts = map (count_region s c) regions; shown = sort_key rc_id counts
               in map_option (\<lambda>d'. (shown, d'))
                    (saveServiceSnapshot e (i + 2) ws acc ''eds.regions'' []
                      (JObj [(''data'', JList (map count_json shown)), (''total_desktops'', JInt (total_desktops counts))]) d)))"

definition list_region :: "service_ext \<Rightarrow> credentials \<Rightarrow> string \<Rightarrow> json list option" where
  "list_region s c region =
     Option.bind (eds_client s region c) (\<lambda>(desktop, directory). finished (EDSDesktops desktop region))"

definition desktops_payload :: "json list \<Rightarrow> string list \<Rightarrow> json" where
  "desktops_payload items failed = JObj [(''data'', JList items), (''failed_regions'', JList (map JStr failed))]"

definition collectEDSDesktops ::
    "env \<Rightarrow> nat \<Rightarrow> account_ext \<Rightarrow> service_ext \<Rightarrow> int \<Rightarrow> int \<Rightarrow> string \<Rightarrow> string list \<Rightarrow> db \<Rightarrow> db option" where
  "collectEDSDesktops e i x s ws acc target regions d =
     (case edsCredentials e i x d ws acc of
        None \<Rightarrow> None
      | Some (c, seed) \<Rightarrow>
          if target \<noteq> ''all''
          then (case list_region s c target of
                  None \<Rightarrow> None
                | Some items \<Rightarrow> saveServiceSnapshot e (i + 2) ws acc ''eds.desktops'' target (desktops_payload items []) d)
          else let items = concat (map (\<lambda>r. case list_region s c r of None \<Rightarrow> [] | Some js \<Rightarrow> js) regions);
                   failed = sort (filter (\<lambda>r. list_region s c r = None) regions)
               in if regions \<noteq> [] \<and> length failed = length regions then None
                  else saveServiceSnapshot e (i + 2) ws acc ''eds.desktops'' ''all'' (desktops_payload items failed) d)"

definition collectEDSUsers ::
    "env \<Rightarrow> nat \<Rightarrow> account_ext \<Rightarrow> service_ext \<Rightarrow> int \<Rightarrow> int \<Rightarrow> string \<Rightarrow> db \<Rightarrow> db option" where
  "collectEDSUsers e i x s ws acc region d =
     (case edsCredentials e i x d ws acc of
        None \<Rightarrow> None
      | Some (c, seed) \<Rightarrow>
          (case Option.bind (eds_client s region c) (\<lambda>(desktop, directory). finished (EDSUsers directory)) of
             None \<Rightarrow> None
           | Some items \<Rightarrow>
               saveServiceSnapshot e (i + 2) ws acc ''eds.users'' region (JObj [(''data'', JList items)]) d))"

text \<open>\<^verbatim>\<open>refreshEDSService\<close> under its lock: whether it succeeded, and the database.  Users and desktops are
  collected side by side; what one of them stored stays when the other fails.\<close>

definition keep_db :: "db \<Rightarrow> db option \<Rightarrow> bool \<times> db" where
  "keep_db d r = (case r of None \<Rightarrow> (False, d) | Some d' \<Rightarrow> (True, d'))"

definition refreshEDSService ::
    "env \<Rightarrow> account_ext \<Rightarrow> service_ext \<Rightarrow> int \<Rightarrow> int \<Rightarrow> string \<Rightarrow> string \<Rightarrow> db \<Rightarrow> bool \<times> db" where
  "refreshEDSService e x s ws acc service region d =
     (case collectEDSRegions e 10 x s ws acc d of
        None \<Rightarrow> (False, d)
      | Some (counts, d1) \<Rightarrow>
          if service = ''desktops'' then keep_db d1 (collectEDSDesktops e 20 x s ws acc region (map rc_id counts) d1)
          else if service = ''users''
          then (case keep_db d1 (collectEDSUsers e 30 x s ws acc region d1) of
                  (ok, d2) \<Rightarrow>
                    (case keep_db d2 (collectEDSDesktops e 20 x s ws acc ''all'' (map rc_id counts) d2) of
                       (ok', d3) \<Rightarrow> (ok \<and> ok', d3)))
          else (False, d1))"

text \<open>The handlers that ask the provider directly.  No route leads to the first one.\<close>

definition edsDesktopsAllRegions ::
    "env \<Rightarrow> account_ext \<Rightarrow> service_ext \<Rightarrow> user \<Rightarrow> request \<Rightarrow> db \<Rightarrow> resp \<times> db" where
  "edsDesktopsAllRegions e x s u r d =
     (case pathID r ''id'' of
        Inl q \<Rightarrow> (q, d)
      | Inr acc \<Rightarrow>
          if \<not> accountAccess e 0 d u acc ''view'' then (problem 403 ''Cloud account access required'', d)
          else (case account_credentials e 1 x d (u_ws u) acc ''alibaba'' of
            None \<Rightarrow> (problem 400 ''The selected account is not an Alibaba Cloud connection'', d)
          | Some c \<Rightarrow>
              if e_fault e 2 then (dbError DbFailed, d)
              else (case account_in_ws d (u_ws u) acc of
                None \<Rightarrow> (dbError NoRows, d)
              | Some a \<Rightarrow>
                  (case Option.bind (eds_client s (eds_seed d a) c) (\<lambda>(desktop, directory). EDSRegions desktop) of
                     None \<Rightarrow> (problem 502 ''Alibaba EDS rejected the request; check the region, RAM permissions, resource state, and request values'', d)
                   | Some regions \<Rightarrow>
                       let ids = map er_id regions;
                           items = concat (map (\<lambda>g. case list_region s c g of None \<Rightarrow> [] | Some js \<Rightarrow> js) ids);
                           failed = sort (filter (\<lambda>g. list_region s c g = None) ids)
                       in if ids \<noteq> [] \<and> length failed = length ids
                          then (problem 502 ''Alibaba EDS could not list desktops in any region'', d)
                          else (case saveServiceSnapshot e 3 (u_ws u) acc ''eds.desktops'' ''all'' (desktops_payload items failed) d of
                                  None \<Rightarrow> (dbError DbFailed, d)
                                | Some d' \<Rightarrow> (reply 200 (desktops_payload items failed), d'))))))"

definition catalog_json :: "eds_catalog \<Rightarrow> json" where
  "catalog_json c = JObj [(''office_sites'', JList (ec_sites c)), (''bundles'', JList (ec_bundles c)),
     (''policy_groups'', JList (ec_policies c)), (''desktop_types'', JList (ec_types c)), (''images'', JList (ec_images c))]"

definition edsCatalog ::
    "env \<Rightarrow> account_ext \<Rightarrow> provider_ext \<Rightarrow> (string \<Rightarrow> client) \<Rightarrow> user \<Rightarrow> request \<Rightarrow> db \<Rightarrow> resp" where
  "edsCatalog e x p desktop u r d =
     (case edsAccount e x p d u r ''view'' of
        Inl q \<Rightarrow> q
      | Inr (acc, region) \<Rightarrow>
          (case finished (EDSCatalogForRegion (desktop region) region) of
             None \<Rightarrow> eds_rejected
           | Some c \<Rightarrow>
               (case finished (EDSCustomCatalogForRegion (desktop region) region) of
                  None \<Rightarrow> reply 200 (catalog_json c)
                | Some (types, images) \<Rightarrow> reply 200 (catalog_json (c\<lparr>ec_types := types, ec_images := images\<rparr>)))))"

section \<open>Object storage\<close>

type_synonym bucket = "(string \<times> json) list"

definition OSSRegion :: "string \<Rightarrow> string" where
  "OSSRegion v = trim_prefix ''oss-'' (trim_space v)"

text \<open>Fields of pointer type are left out when they are nil.\<close>

definition set_pointer :: "string \<Rightarrow> json \<Rightarrow> bucket \<Rightarrow> bucket" where
  "set_pointer k v fs = (if v = JNull then filter (\<lambda>(k', v'). k' \<noteq> k) fs else set_key k v fs)"

definition string_field :: "json \<Rightarrow> string \<Rightarrow> json" where
  "string_field j k = JStr (text_of (field j k))"

definition listed_bucket :: "json \<Rightarrow> bucket" where
  "listed_bucket b =
     (let region = text_of (field b ''Region'');
          region = (if region = [] then OSSRegion (text_of (field b ''Location'')) else region)
      in [(''name'', string_field b ''Name''), (''region'', JStr (OSSRegion region)), (''location'', string_field b ''Location'')] @
         set_pointer ''creation_date'' (field b ''CreationDate'') [] @
         [(''storage_class'', string_field b ''StorageClass''), (''redundancy_type'', JStr []), (''acl'', JStr []),
          (''versioning'', JStr []), (''encryption'', JStr []), (''resource_group_id'', string_field b ''ResourceGroupId''),
          (''extranet_endpoint'', string_field b ''ExtranetEndpoint''), (''intranet_endpoint'', string_field b ''IntranetEndpoint''),
          (''cross_region_replication'', JStr []), (''transfer_acceleration'', JStr []), (''storage_bytes'', JInt 0),
          (''object_count'', JInt 0), (''multipart_upload_count'', JInt 0), (''details_available'', JBool False),
          (''stats_available'', JBool False), (''status'', JStr ''partial'')])"

text \<open>The paginator of the SDK hands over the pages.\<close>

definition OSSListBuckets :: "client \<Rightarrow> bucket list option option" where
  "OSSListBuckets ask = read_pages (token_step ask ''ListBuckets'' [] (\<lambda>body. map listed_bucket (elements (field body ''Buckets'')))) 0 [] []"

definition bucket_text :: "bucket \<Rightarrow> string \<Rightarrow> string" where
  "bucket_text b k = text_of (field (JObj b) k)"

definition OSSBucketDetails :: "client \<Rightarrow> bucket \<Rightarrow> bucket option" where
  "OSSBucketDetails ask b =
     map_option (\<lambda>info. let v = field info ''BucketInfo'' in
       set_pointer ''block_public_access'' (field v ''BlockPublicAccess'') (set_pointer ''creation_date'' (field v ''CreationDate'')
         (foldl (\<lambda>fs (k, j). set_key k j fs) b
           [(''details_available'', JBool True), (''location'', string_field v ''Location''),
            (''region'', JStr (OSSRegion (text_of (field v ''Location'')))), (''storage_class'', string_field v ''StorageClass''),
            (''redundancy_type'', string_field v ''DataRedundancyType''), (''acl'', string_field v ''ACL''),
            (''versioning'', string_field v ''Versioning''), (''resource_group_id'', string_field v ''ResourceGroupId''),
            (''extranet_endpoint'', string_field v ''ExtranetEndpoint''), (''intranet_endpoint'', string_field v ''IntranetEndpoint''),
            (''cross_region_replication'', string_field v ''CrossRegionReplication''),
            (''transfer_acceleration'', string_field v ''TransferAcceleration''),
            (''encryption'', string_field (field v ''SseRule'') ''SSEAlgorithm'')])))
       (ask 0 ''GetBucketInfo'' [(''Bucket'', JStr (bucket_text b ''name''))])"

definition OSSBucketStats :: "client \<Rightarrow> bucket \<Rightarrow> bucket option" where
  "OSSBucketStats ask b =
     map_option (\<lambda>st.
       (if int32Value (field st ''LastModifiedTime'') > 0 then set_key ''stat_modified_at'' (field st ''LastModifiedTime'') else id)
         (foldl (\<lambda>fs (k, j). set_key k j fs) b
           [(''stats_available'', JBool True), (''storage_bytes'', JInt (int32Value (field st ''Storage''))),
            (''object_count'', JInt (int32Value (field st ''ObjectCount''))),
            (''multipart_upload_count'', JInt (int32Value (field st ''MultipartUploadCount'')))]))
       (ask 0 ''GetBucketStat'' [(''Bucket'', JStr (bucket_text b ''name''))])"

text \<open>A bucket after its goroutine, and whether both answers came.\<close>

definition collect_bucket :: "service_ext \<Rightarrow> credentials \<Rightarrow> bucket \<Rightarrow> bucket \<times> bool" where
  "collect_bucket s c b =
     (let ask = sx_oss s (bucket_text b ''region'') c;
          (b1, details) = (case OSSBucketDetails ask b of None \<Rightarrow> (b, False) | Some b1 \<Rightarrow> (b1, True));
          (b2, stats) = (case OSSBucketStats ask b1 of None \<Rightarrow> (b1, False) | Some b2 \<Rightarrow> (b2, True))
      in (set_key ''status'' (JStr (if details \<and> stats then ''available'' else ''partial'')) b2, details \<and> stats))"

definition oss_seed :: "account_row \<Rightarrow> string" where
  "oss_seed a = (case ac_regions a of [] \<Rightarrow> ''cn-hangzhou'' | r # _ \<Rightarrow> if r = [] then ''cn-hangzhou'' else r)"

definition collectOSSBuckets :: "env \<Rightarrow> nat \<Rightarrow> account_ext \<Rightarrow> service_ext \<Rightarrow> int \<Rightarrow> int \<Rightarrow> db \<Rightarrow> db option" where
  "collectOSSBuckets e i x s ws acc d =
     (case account_credentials e i x d ws acc ''alibaba'' of
        None \<Rightarrow> None
      | Some c \<Rightarrow>
          if e_fault e (i + 1) then None
          else (case account_in_ws d ws acc of
            None \<Rightarrow> None
          | Some a \<Rightarrow>
              (case finished (OSSListBuckets (sx_oss s (oss_seed a) c)) of
                 None \<Rightarrow> None
               | Some items \<Rightarrow>
                   let done = map (collect_bucket s c) items;
                       shown = sort_key (\<lambda>b. bucket_text b ''name'') (map fst done);
                       failed = sort (map (\<lambda>b. bucket_text (fst b) ''name'') (filter (\<lambda>b. \<not> snd b) done))
                   in if sx_over s then None
                      else saveServiceSnapshot e (i + 2) ws acc ''oss.buckets'' []
                        (JObj [(''data'', JList (map JObj shown)), (''failed_buckets'', JList (map JStr failed))]) d)))"

section \<open>Security groups\<close>

definition sec_rule_json :: "sec_rule \<Rightarrow> json" where
  "sec_rule_json r = JObj [(''id'', JStr (sr_id r)), (''direction'', JStr (sr_direction r)), (''protocol'', JStr (sr_protocol r)),
     (''port_range'', JStr (sr_ports r)), (''source'', JStr (sr_source r)), (''destination'', JStr (sr_destination r)),
     (''policy'', JStr (sr_policy r)), (''priority'', JStr (sr_priority r)), (''description'', JStr (sr_desc r)),
     (''created_at'', JStr (sr_created r))]"

definition sec_group_json :: "sec_group \<Rightarrow> json" where
  "sec_group_json g = JObj [(''id'', JStr (sg_id g)), (''name'', JStr (sg_name g)), (''description'', JStr (sg_desc g)),
     (''region'', JStr (sg_region g)), (''vpc_id'', JStr (sg_vpc g)), (''type'', JStr (sg_type g)),
     (''instance_count'', JInt (sg_instances g)), (''rule_count'', JInt (sg_rule_count g)),
     (''group_to_group_rule_count'', JInt (sg_group_rules g)), (''available_instance_amount'', JInt (sg_available g)),
     (''resource_group_id'', JStr (sg_resource_group g)), (''service_managed'', JBool (sg_managed g)),
     (''created_at'', JStr (sg_created g)), (''rules'', JList (map sec_rule_json (sg_rules g))),
     (''rules_available'', JBool (sg_rules_available g))]"

definition read_rule :: "json \<Rightarrow> sec_rule" where
  "read_rule j = \<lparr>sr_id = text_of (field j ''id''), sr_direction = text_of (field j ''direction''),
     sr_protocol = text_of (field j ''protocol''), sr_ports = text_of (field j ''port_range''), sr_source = text_of (field j ''source''),
     sr_destination = text_of (field j ''destination''), sr_policy = text_of (field j ''policy''),
     sr_priority = text_of (field j ''priority''), sr_desc = text_of (field j ''description''),
     sr_created = text_of (field j ''created_at'')\<rparr>"

definition read_group :: "json \<Rightarrow> sec_group" where
  "read_group j = \<lparr>sg_id = text_of (field j ''id''), sg_name = text_of (field j ''name''), sg_desc = text_of (field j ''description''),
     sg_region = text_of (field j ''region''), sg_vpc = text_of (field j ''vpc_id''), sg_type = text_of (field j ''type''),
     sg_instances = int32Value (field j ''instance_count''), sg_rule_count = int32Value (field j ''rule_count''),
     sg_group_rules = int32Value (field j ''group_to_group_rule_count''), sg_available = int32Value (field j ''available_instance_amount''),
     sg_resource_group = text_of (field j ''resource_group_id''), sg_managed = boolValue (field j ''service_managed''),
     sg_created = text_of (field j ''created_at''), sg_rules = map read_rule (elements (field j ''rules'')),
     sg_rules_available = boolValue (field j ''rules_available'')\<rparr>"

definition group_key :: "sec_group \<Rightarrow> string" where
  "group_key g = sg_region g @ '':'' @ sg_id g"

text \<open>The groups of the stored snapshot, the last one for each key; none where it cannot be read.\<close>

fun latest :: "sec_group list \<Rightarrow> sec_group list" where
  "latest [] = []"
| "latest (g # gs) = (if group_key g \<in> group_key ` set gs then latest gs else g # latest gs)"

definition stored_groups :: "env \<Rightarrow> nat \<Rightarrow> int \<Rightarrow> int \<Rightarrow> db \<Rightarrow> sec_group list" where
  "stored_groups e i ws acc d =
     (case serviceSnapshot e i ws acc ''ecs.security_groups'' [] d of
        Some (payload, True) \<Rightarrow> map read_group (elements (field payload ''data''))
      | _ \<Rightarrow> [])"

definition with_rules :: "client \<Rightarrow> string \<Rightarrow> sec_group list \<Rightarrow> sec_group \<Rightarrow> sec_group" where
  "with_rules ask region previous g =
     (case finished (AlibabaSecurityGroupRules ask region (sg_id g)) of
        Some rules \<Rightarrow> g\<lparr>sg_rules := rules, sg_rules_available := True\<rparr>
      | None \<Rightarrow>
          (case find (\<lambda>p. group_key p = region @ '':'' @ sg_id g) previous of
             Some p \<Rightarrow> g\<lparr>sg_rules := sg_rules p, sg_rules_available := sg_rules_available p\<rparr>
           | None \<Rightarrow> g\<lparr>sg_rules := []\<rparr>))"

definition alibaba_client :: "env \<Rightarrow> nat \<Rightarrow> account_ext \<Rightarrow> service_ext \<Rightarrow> db \<Rightarrow> int \<Rightarrow> int \<Rightarrow> string \<Rightarrow> client option" where
  "alibaba_client e i x s d ws acc region = Option.bind (account_credentials e i x d ws acc ''alibaba'') (sx_ecs s region)"

definition list_groups ::
    "env \<Rightarrow> account_ext \<Rightarrow> service_ext \<Rightarrow> db \<Rightarrow> int \<Rightarrow> int \<Rightarrow> sec_group list \<Rightarrow> nat \<times> string \<Rightarrow> sec_group list option" where
  "list_groups e x s d ws acc previous k =
     Option.bind (alibaba_client e (fst k) x s d ws acc (snd k))
       (\<lambda>ask. map_option (map (with_rules ask (snd k) previous)) (finished (AlibabaSecurityGroups ask (snd k))))"

definition group_regions :: "env \<Rightarrow> nat \<Rightarrow> account_ext \<Rightarrow> service_ext \<Rightarrow> int \<Rightarrow> int \<Rightarrow> db \<Rightarrow> string list option" where
  "group_regions e i x s ws acc d =
     (if e_fault e i then None
      else case find (\<lambda>a. ac_id a = acc \<and> ac_ws a = ws \<and> ac_provider a = ''alibaba'') (d_accounts d) of
        None \<Rightarrow> None
      | Some a \<Rightarrow>
          if ac_regions a \<noteq> [] then Some (ac_regions a)
          else Option.bind (alibaba_client e (i + 1) x s d ws acc ''cn-hangzhou'') AlibabaRegions)"

definition collectSecurityGroups :: "env \<Rightarrow> nat \<Rightarrow> account_ext \<Rightarrow> service_ext \<Rightarrow> int \<Rightarrow> int \<Rightarrow> db \<Rightarrow> db option" where
  "collectSecurityGroups e i x s ws acc d =
     (case group_regions e i x s ws acc d of
        None \<Rightarrow> None
      | Some regions \<Rightarrow>
          let previous = latest (stored_groups e (i + 2) ws acc d);
              results = map (\<lambda>k. (snd k, list_groups e x s d ws acc previous k)) (zip [i + 10..<i + 10 + length regions] regions);
              failed = map fst (filter (\<lambda>r. snd r = None) results);
              items = concat (map (\<lambda>r. case snd r of None \<Rightarrow> [] | Some gs \<Rightarrow> gs) results)
          in if sx_over s \<or> results \<noteq> [] \<and> length failed = length results then None
             else let items = items @ filter (\<lambda>g. sg_region g \<in> set failed) previous;
                      shown = sort_key sg_region (sort_key sg_name items)
                  in saveServiceSnapshot e (i + 3) ws acc ''ecs.security_groups'' []
                       (JObj [(''data'', JList (map sec_group_json shown)), (''failed_regions'', JList (map JStr (sort failed)))]) d)"

section \<open>One instance\<close>

text \<open>The IDs in the details of the row; anything but a list of texts there does not decode.\<close>

definition group_ids :: "json \<Rightarrow> string list" where
  "group_ids details =
     (case field details ''security_group_ids'' of
        JList js \<Rightarrow> if list_all (\<lambda>j. case j of JStr s \<Rightarrow> True | _ \<Rightarrow> False) js then map text_of js else []
      | _ \<Rightarrow> [])"

definition instanceSecurityGroups :: "env \<Rightarrow> nat \<Rightarrow> int \<Rightarrow> int \<Rightarrow> string \<Rightarrow> json \<Rightarrow> db \<Rightarrow> json" where
  "instanceSecurityGroups e i ws acc region details d =
     (let known = rev (filter (\<lambda>g. sg_region g = region) (stored_groups e i ws acc d))
      in JList (map (\<lambda>gid. JObj [(''id'', JStr gid),
           (''name'', JStr (case find (\<lambda>g. sg_id g = gid) known of
              None \<Rightarrow> gid | Some g \<Rightarrow> if sg_name g = [] then gid else sg_name g)),
           (''region'', JStr region)]) (group_ids details)))"

record detail_ext =
  dx_aws :: "string \<Rightarrow> credentials \<Rightarrow> client"
  dx_ecs :: "string \<Rightarrow> credentials \<Rightarrow> client option"
  dx_azure :: "credentials \<Rightarrow> azure_body web option"
  dx_gcp :: "credentials \<Rightarrow> gcp_body web option"

definition live_details :: "env \<Rightarrow> nat \<Rightarrow> account_ext \<Rightarrow> detail_ext \<Rightarrow> db \<Rightarrow> int \<Rightarrow> target \<Rightarrow> json option" where
  "live_details e i x q d ws t =
     (if \<not> known_cloud (tg_provider t) then None
      else case account_credentials e i x d ws (tg_account t) (tg_provider t) of
        None \<Rightarrow> None
      | Some c \<Rightarrow>
          if tg_provider t = ''aws'' then finished (aws_details (dx_aws q (tg_region t) c) (tg_iid t))
          else if tg_provider t = ''alibaba''
          then Option.bind (dx_ecs q (tg_region t) c) (\<lambda>ask. AlibabaDetails ask (tg_region t) (tg_iid t))
          else if tg_provider t = ''azure'' then Option.bind (dx_azure q c) (\<lambda>web. AzureDetails web (tg_iid t))
          else Option.bind (dx_gcp q c) (\<lambda>web. GCPDetails web (cr_project c) (tg_iid t)))"

definition instance_row :: "db \<Rightarrow> int \<Rightarrow> int \<Rightarrow> (inst_row \<times> account_row) option" where
  "instance_row d ws iid =
     find (\<lambda>(r, a). in_id r = iid \<and> ac_id a = in_account r \<and> ac_ws a = ws) (List.product (d_insts d) (d_accounts d))"

definition one_instance :: "env \<Rightarrow> account_ext \<Rightarrow> detail_ext \<Rightarrow> user \<Rightarrow> request \<Rightarrow> world \<Rightarrow> resp \<times> world" where
  "one_instance e x q u r w =
     (case pathID r ''id'' of
        Inl p \<Rightarrow> (p, w)
      | Inr iid \<Rightarrow>
          (case instanceTarget e 0 (w_db w) u iid ''view'' of
             Inl err \<Rightarrow> (target_problem ''Access denied'' err, w)
           | Inr t \<Rightarrow>
               if e_fault e 2 then (dbError DbFailed, w)
               else (case instance_row (w_db w) (u_ws u) iid of
                 None \<Rightarrow> (dbError NoRows, w)
               | Some (i, a) \<Rightarrow>
                   let raw = JObj (instance_fields i @ [(''account_name'', JStr (ac_name a)), (''provider'', JStr (ac_provider a))]);
                       groups = instanceSecurityGroups e 3 (u_ws u) (tg_account t) (tg_region t) (in_details i) (w_db w)
                   in if rq_query r ''live'' \<noteq> ''true''
                      then (reply 200 (JObj [(''instance'', raw), (''security_groups'', groups)]), w)
                      else (case live_details e 4 x q (w_db w) (u_ws u) t of
                              None \<Rightarrow> (problem 502 ''Cloud details unavailable; check credentials and permissions'',
                                       audit e 5 u w ''instance.details_failed'' (tg_iid t) JNull)
                            | Some live \<Rightarrow> (reply 200 (JObj [(''instance'', raw), (''security_groups'', groups), (''live'', live)]), w)))))"

end
