(* ===== verification/SnapshotProps.thy ===== *)
theory SnapshotProps
  imports Snapshots AccountProps ProviderProps
begin

text \<open>
  Properties of the service snapshots: what is stored is what is shown, the security groups of a region
  that failed stay as they were, and the desktops of one that failed do not.
\<close>

section \<open>Fields of a document\<close>

lemma field_set_key [simp]: "field (JObj (set_key k v fs)) k' = (if k' = k then v else field (JObj fs) k')"
  by (induction fs) (auto simp: field_def set_key_def split: option.splits)

lemma field_Cons [simp]: "field (JObj ((k, v) # fs)) k' = (if k' = k then v else field (JObj fs) k')"
  by (simp add: field_def)

lemma readers [simp]: "text_of (JStr s) = s" "int32Value (JInt n) = n" "boolValue (JBool b) = b" "elements (JList js) = js"
  by (simp_all add: text_of_def int32Value_def boolValue_def elements_def)

lemma read_rule_json [simp]: "read_rule (sec_rule_json r) = r"
  by (simp add: read_rule_def sec_rule_json_def)

lemma read_rules_json [simp]: "map read_rule (map sec_rule_json rs) = rs" "map (read_rule \<circ> sec_rule_json) rs = rs"
  by (induction rs) simp_all

lemma read_group_json [simp]: "read_group (sec_group_json g) = g"
  by (simp add: read_group_def sec_group_json_def)

lemma read_groups_json [simp]: "map (read_group \<circ> sec_group_json) gs = gs"
  by (simp add: map_idI)

section \<open>Storing and reading\<close>

text \<open>The constraints of \<^verbatim>\<open>service_snapshots\<close>: one row for each account, service and region, in the workspace
  of the account; an account is in one workspace.\<close>

definition snaps_ok :: "db \<Rightarrow> bool" where
  "snaps_ok d \<longleftrightarrow> distinct (map (\<lambda>s. (sn_account s, sn_service s, sn_region s)) (d_snaps d)) \<and>
     (\<forall>s \<in> set (d_snaps d). account_in_ws d (sn_ws s) (sn_account s) \<noteq> None) \<and>
     distinct (map ac_id (d_accounts d))"

lemma account_in_one_ws:
  assumes "distinct (map ac_id (d_accounts d))" and "account_in_ws d ws acc \<noteq> None" and "account_in_ws d ws' acc \<noteq> None"
  shows "ws = ws'"
proof -
  obtain a b where ab: "account_in_ws d ws acc = Some a" "account_in_ws d ws' acc = Some b" using assms(2,3) by auto
  then have "a \<in> set (d_accounts d)" "b \<in> set (d_accounts d)" "ac_id a = acc" "ac_id b = acc" "ac_ws a = ws" "ac_ws b = ws'"
    by (auto simp: account_in_ws_def find_Some_iff in_set_conv_nth)
  moreover from this have "a = b" using assms(1) by (metis distinct_map inj_on_def)
  ultimately show ?thesis by simp
qed

lemma same_snapshot_key: "same_snapshot acc service region s \<longleftrightarrow> (sn_account s, sn_service s, sn_region s) = (acc, service, region)"
  by (simp add: same_snapshot_def)

lemma save_frame:
  assumes "saveServiceSnapshot e i ws acc service region payload d = Some d'"
  shows "d_accounts d' = d_accounts d" and "account_in_ws d' = account_in_ws d"
  using assms by (auto simp: saveServiceSnapshot_def account_in_ws_def fun_eq_iff split: if_splits)

text \<open>The row after the statement.\<close>

definition replaced :: "env \<Rightarrow> int \<Rightarrow> string \<Rightarrow> string \<Rightarrow> json \<Rightarrow> snap_row \<Rightarrow> snap_row" where
  "replaced e acc service region payload s =
     (if same_snapshot acc service region s then s\<lparr>sn_payload := payload, sn_fetched := e_now e\<rparr> else s)"

lemma replaced_fields [simp]:
  "sn_ws (replaced e acc service region p s) = sn_ws s" "sn_account (replaced e acc service region p s) = sn_account s"
  "sn_service (replaced e acc service region p s) = sn_service s" "sn_region (replaced e acc service region p s) = sn_region s"
  "same_snapshot acc' service' region' (replaced e acc service region p s) = same_snapshot acc' service' region' s"
  by (simp_all add: replaced_def same_snapshot_def)

lemma find_map_same: "(\<And>x. P (f x) = P x) \<Longrightarrow> find P (map f xs) = map_option f (find P xs)"
  by (induction xs) simp_all

lemma find_append: "find P (xs @ ys) = (case find P xs of None \<Rightarrow> find P ys | Some x \<Rightarrow> Some x)"
  by (induction xs) simp_all

lemma save_cases:
  assumes "saveServiceSnapshot e i ws acc service region payload d = Some d'"
  obtains (update) s where "s \<in> set (d_snaps d)" "same_snapshot acc service region s"
      "d' = d\<lparr>d_snaps := map (replaced e acc service region payload) (d_snaps d)\<rparr>"
  | (insert) "\<forall>s \<in> set (d_snaps d). \<not> same_snapshot acc service region s"
      "d' = d\<lparr>d_snaps := d_snaps d @ [\<lparr>sn_ws = ws, sn_account = acc, sn_service = service, sn_region = region,
         sn_payload = payload, sn_fetched = e_now e\<rparr>]\<rparr>"
  using assms unfolding saveServiceSnapshot_def
  by (auto simp: list_ex_iff replaced_def [abs_def] split: if_splits)

lemma saved_ok:
  assumes "saveServiceSnapshot e i ws acc service region payload d = Some d'" and "snaps_ok d" and "account_in_ws d ws acc \<noteq> None"
  shows "snaps_ok d'"
  using assms(1)
proof (cases rule: save_cases)
  case (update s)
  then show ?thesis using assms(2) by (simp add: snaps_ok_def comp_def account_in_ws_def)
next
  case insert
  then show ?thesis using assms(2,3) by (auto simp: snaps_ok_def account_in_ws_def same_snapshot_key)
qed

lemma saved_row:
  assumes "saveServiceSnapshot e i ws acc service region payload d = Some d'" and "snaps_ok d" and "account_in_ws d ws acc \<noteq> None"
  shows "find (\<lambda>s. sn_ws s = ws \<and> same_snapshot acc service region s) (d_snaps d') =
      Some \<lparr>sn_ws = ws, sn_account = acc, sn_service = service, sn_region = region, sn_payload = payload, sn_fetched = e_now e\<rparr>"
  using assms(1)
proof (cases rule: save_cases)
  case (update s)
  have "sn_ws s = ws"
    using update(1,2) assms(2,3) account_in_one_ws [of d "sn_ws s" acc ws] by (auto simp: snaps_ok_def same_snapshot_def)
  then obtain t where t: "find (\<lambda>s. sn_ws s = ws \<and> same_snapshot acc service region s) (d_snaps d) = Some t"
    using update(1,2) by (cases "find (\<lambda>s. sn_ws s = ws \<and> same_snapshot acc service region s) (d_snaps d)") (auto simp: find_None_iff)
  then have "sn_ws t = ws \<and> same_snapshot acc service region t" by (auto simp: find_Some_iff)
  then have "replaced e acc service region payload t =
      \<lparr>sn_ws = ws, sn_account = acc, sn_service = service, sn_region = region, sn_payload = payload, sn_fetched = e_now e\<rparr>"
    by (auto simp: replaced_def same_snapshot_def)
  then show ?thesis by (simp add: update(3) find_map_same t)
next
  case insert
  have "find (\<lambda>s. sn_ws s = ws \<and> same_snapshot acc service region s) (d_snaps d) = None"
    using insert(1) by (auto simp: find_None_iff)
  then show ?thesis by (simp add: insert(2) find_append same_snapshot_def)
qed

lemma saved_others:
  assumes "saveServiceSnapshot e i ws acc service region payload d = Some d'"
    and "(acc', service', region') \<noteq> (acc, service, region)"
  shows "find (\<lambda>s. sn_ws s = ws' \<and> same_snapshot acc' service' region' s) (d_snaps d') =
      find (\<lambda>s. sn_ws s = ws' \<and> same_snapshot acc' service' region' s) (d_snaps d)"
  using assms(1)
proof (cases rule: save_cases)
  case (update s)
  have "map_option (replaced e acc service region payload) r = r"
    if "r = find (\<lambda>s. sn_ws s = ws' \<and> same_snapshot acc' service' region' s) (d_snaps d)" for r
  proof (cases r)
    case (Some t)
    then have "same_snapshot acc' service' region' t" using that by (auto simp: find_Some_iff)
    then show ?thesis using assms(2) Some by (auto simp: replaced_def same_snapshot_key)
  qed simp
  then show ?thesis by (simp add: update(3) find_map_same)
next
  case insert
  have "\<not> (ws = ws' \<and> acc = acc' \<and> service = service' \<and> region = region')" using assms(2) by blast
  then show ?thesis by (auto simp: insert(2) find_append same_snapshot_def split: option.split)
qed

lemma saved_read:
  assumes "saveServiceSnapshot e i ws acc service region (JObj fs) d = Some d'" and "snaps_ok d" and "account_in_ws d ws acc \<noteq> None"
    and "\<not> e_fault e' j"
  shows "serviceSnapshot e' j ws acc service region d' =
      Some (JObj (set_key ''fetched_at'' (JInt (e_now e)) (set_key ''snapshot'' (JBool True) fs)), True)"
  using assms(4) by (simp add: serviceSnapshot_def saved_row [OF assms(1-3)])

text \<open>C28: a snapshot reads back as it was saved: where the statement succeeds, the constraints of the table hold
  again, the snapshot shown is the payload with every field but the two the reading sets, marked as a snapshot
  of the time it was saved, and every other snapshot - of another account, service or region - reads as
  before, for every workspace.\<close>

theorem snapshot_roundtrip:
  assumes "saveServiceSnapshot e i ws acc service region (JObj fs) d = Some d'"
    and "snaps_ok d" and "account_in_ws d ws acc \<noteq> None" and "\<not> e_fault e' j"
  shows "snaps_ok d' \<and>
    (\<exists>shown. serviceSnapshot e' j ws acc service region d' = Some (shown, True) \<and>
      field shown ''snapshot'' = JBool True \<and> field shown ''fetched_at'' = JInt (e_now e) \<and>
      (\<forall>k. k \<notin> {''snapshot'', ''fetched_at''} \<longrightarrow> field shown k = field (JObj fs) k)) \<and>
    (\<forall>ws' acc' service' region'. (acc', service', region') \<noteq> (acc, service, region) \<longrightarrow>
      serviceSnapshot e' j ws' acc' service' region' d' = serviceSnapshot e' j ws' acc' service' region' d)"
  using saved_ok [OF assms(1-3)] saved_read [OF assms] saved_others [OF assms(1)]
  by (auto simp: serviceSnapshot_def)

section \<open>Security groups\<close>

lemma listed_groups_region:
  assumes "finished (AlibabaSecurityGroups ask region) = Some gs" and "g \<in> set gs"
  shows "sg_region g = region"
proof -
  let ?step = "token_step ask ''DescribeSecurityGroups''
       [(''RegionId'', JStr region), (''MaxResults'', JInt 100), (''IsQueryEcsCount'', JBool True)]
       (\<lambda>body. map (to_group region) (filter (\<lambda>it. field it ''SecurityGroupId'' \<noteq> JNull)
                 (elements (field (field body ''SecurityGroups'') ''SecurityGroup''))))"
  have "read_pages ?step 0 [] [] = Some (Some gs)"
    using assms(1) unfolding AlibabaSecurityGroups_def finished_def by (auto split: option.splits)
  from read_pages_sound [OF this] obtain ps where "pages ?step 0 [] ps" "gs = concat ps" by auto
  then have "\<exists>m t items t'. ?step m t = Some (items, t') \<and> g \<in> set items" using pages_elem [of ?step 0 "[]" ps g] assms(2) by blast
  then show ?thesis by (auto simp: token_step_def to_group_def)
qed

lemma with_rules_region [simp]: "sg_region (with_rules ask region previous g) = sg_region g"
  by (simp add: with_rules_def split: option.split)

lemma list_groups_region: "list_groups e x s d ws acc previous k = Some gs \<Longrightarrow> g \<in> set gs \<Longrightarrow> sg_region g = snd k"
  by (auto simp: list_groups_def bind_eq_Some_conv listed_groups_region)

lemma guarded_find: "(if F then None else case find P xs of None \<Rightarrow> None | Some a \<Rightarrow> f a) = Some r \<Longrightarrow> \<exists>a \<in> set xs. P a"
  by (auto split: if_splits option.splits dest: find_Some_iff_in)

lemma group_regions_account:
  assumes "group_regions e i x s ws acc d = Some regions"
  shows "account_in_ws d ws acc \<noteq> None"
proof -
  obtain a where "a \<in> set (d_accounts d)" "ac_id a = acc \<and> ac_ws a = ws \<and> ac_provider a = ''alibaba''"
    using guarded_find [OF assms [unfolded group_regions_def]] by blast
  then show ?thesis unfolding account_in_ws_def by (auto simp: find_None_iff)
qed

text \<open>What the goroutine of each region brought.\<close>

definition group_answers ::
    "env \<Rightarrow> nat \<Rightarrow> account_ext \<Rightarrow> service_ext \<Rightarrow> int \<Rightarrow> int \<Rightarrow> sec_group list \<Rightarrow> string list \<Rightarrow> db \<Rightarrow> (string \<times> sec_group list option) list" where
  "group_answers e i x s ws acc previous regions d =
     map (\<lambda>k. (snd k, list_groups e x s d ws acc previous k)) (zip [i + 10..<i + 10 + length regions] regions)"

lemma map_fst_answers [simp]: "map fst (group_answers e i x s ws acc previous regions d) = regions"
  by (simp add: group_answers_def comp_def)

lemma answers_region: "(r, Some gs) \<in> set (group_answers e i x s ws acc previous regions d) \<Longrightarrow> g \<in> set gs \<Longrightarrow> sg_region g = r"
  unfolding group_answers_def by (fastforce dest: list_groups_region [OF sym])

lemma collected_groups:
  assumes "collectSecurityGroups e i x s ws acc d = Some d'"
    and "group_regions e i x s ws acc d = Some regions" and "previous = latest (stored_groups e (i + 2) ws acc d)"
    and "snaps_ok d" and "\<not> e_fault e' j"
    and results: "results = group_answers e i x s ws acc previous regions d"
  shows "set (stored_groups e' j ws acc d') =
      {g. \<exists>r gs. (r, Some gs) \<in> set results \<and> g \<in> set gs} \<union> {g \<in> set previous. (sg_region g, None) \<in> set results}"
proof -
  let ?failed = "map fst (filter (\<lambda>r. snd r = None) results)"
  let ?items = "concat (map (\<lambda>r. case snd r of None \<Rightarrow> [] | Some gs \<Rightarrow> gs) results) @ filter (\<lambda>g. sg_region g \<in> set ?failed) previous"
  let ?shown = "sort_key sg_region (sort_key sg_name ?items)"
  have "saveServiceSnapshot e (i + 3) ws acc ''ecs.security_groups'' []
      (JObj [(''data'', JList (map sec_group_json ?shown)), (''failed_regions'', JList (map JStr (sort ?failed)))]) d = Some d'"
    using assms(1,2) unfolding collectSecurityGroups_def Let_def assms(3) results group_answers_def
    by (simp split: if_splits)
  from saved_read [OF this assms(4) group_regions_account [OF assms(2)] assms(5)]
  have "stored_groups e' j ws acc d' = ?shown" by (simp add: stored_groups_def)
  then have "set (stored_groups e' j ws acc d') = set ?items" by simp
  moreover have "g \<in> set (concat (map (\<lambda>r. case snd r of None \<Rightarrow> [] | Some gs \<Rightarrow> gs) results)) \<longleftrightarrow>
      (\<exists>r gs. (r, Some gs) \<in> set results \<and> g \<in> set gs)" for g
    by (auto split: option.splits) force+
  moreover have "r \<in> set ?failed \<longleftrightarrow> (r, None) \<in> set results" for r by force
  ultimately show ?thesis by auto
qed

lemma stored_groups_observer: "\<not> e_fault e i \<Longrightarrow> \<not> e_fault e' j \<Longrightarrow> stored_groups e i ws acc d = stored_groups e' j ws acc d"
  by (simp add: stored_groups_def serviceSnapshot_def)

lemma zip_nth: "k < length xs \<Longrightarrow> (n + k, xs ! k) \<in> set (zip [n..<n + length xs] xs)"
  by (auto simp: in_set_zip intro!: exI [where x = k])

lemma answer_of:
  assumes "distinct regions" and "k < length regions"
  shows "(regions ! k, r) \<in> set (group_answers e i x s ws acc previous regions d) \<longleftrightarrow>
    r = list_groups e x s d ws acc previous (i + 10 + k, regions ! k)"
proof
  assume "(regions ! k, r) \<in> set (group_answers e i x s ws acc previous regions d)"
  then obtain m where m: "m < length regions" "regions ! m = regions ! k"
      "r = list_groups e x s d ws acc previous (i + 10 + m, regions ! m)"
    by (auto simp: group_answers_def in_set_zip)
  then have "m = k" using assms by (simp add: nth_eq_iff_index_eq)
  with m show "r = list_groups e x s d ws acc previous (i + 10 + k, regions ! k)" by simp
next
  assume "r = list_groups e x s d ws acc previous (i + 10 + k, regions ! k)"
  then show "(regions ! k, r) \<in> set (group_answers e i x s ws acc previous regions d)"
    using zip_nth [OF assms(2), of "i + 10"] unfolding group_answers_def by force
qed

text \<open>A completed refresh of the security groups keeps the groups of a region that failed: for each region of
  the account, the snapshot then holds exactly the groups that region answered with, or, where it did not
  answer, exactly the groups shown for it before; groups of regions that are no longer selected are gone.\<close>

theorem failed_region_keeps_groups:
  assumes "collectSecurityGroups e i x s ws acc d = Some d'"
    and "group_regions e i x s ws acc d = Some regions" and "distinct regions"
    and "previous = latest (stored_groups e' j ws acc d)"
    and "snaps_ok d" and "\<not> e_fault e' j" and "\<not> e_fault e (i + 2)"
  shows "(\<forall>k < length regions. {g \<in> set (stored_groups e' j ws acc d'). sg_region g = regions ! k} =
      (case list_groups e x s d ws acc previous (i + 10 + k, regions ! k) of
         Some gs \<Rightarrow> set gs
       | None \<Rightarrow> {g \<in> set previous. sg_region g = regions ! k})) \<and>
    (\<forall>g \<in> set (stored_groups e' j ws acc d'). sg_region g \<in> set regions)"
proof -
  let ?results = "group_answers e i x s ws acc previous regions d"
  have prev: "previous = latest (stored_groups e (i + 2) ws acc d)"
    using assms(4,6,7) stored_groups_observer by metis
  have stored: "set (stored_groups e' j ws acc d') =
      {g. \<exists>r gs. (r, Some gs) \<in> set ?results \<and> g \<in> set gs} \<union> {g \<in> set previous. (sg_region g, None) \<in> set ?results}"
    by (rule collected_groups [OF assms(1,2) prev assms(5,6) refl])
  have regions: "(r, a) \<in> set ?results \<Longrightarrow> r \<in> set regions" for r a
    using map_fst_answers [of e i x s ws acc previous regions d] by (metis in_set_zipE list.set_map image_eqI fst_conv)
  have selected: "\<forall>g \<in> set (stored_groups e' j ws acc d'). sg_region g \<in> set regions"
    unfolding stored using regions answers_region by fastforce
  have "\<forall>k < length regions. {g \<in> set (stored_groups e' j ws acc d'). sg_region g = regions ! k} =
      (case list_groups e x s d ws acc previous (i + 10 + k, regions ! k) of
         Some gs \<Rightarrow> set gs | None \<Rightarrow> {g \<in> set previous. sg_region g = regions ! k})"
  proof (intro allI impI)
    fix k assume k: "k < length regions"
    note answer = answer_of [OF assms(3) k]
    have "g \<in> set (stored_groups e' j ws acc d') \<and> sg_region g = regions ! k \<longleftrightarrow>
        (\<exists>gs. (regions ! k, Some gs) \<in> set ?results \<and> g \<in> set gs) \<or>
        g \<in> set previous \<and> sg_region g = regions ! k \<and> (regions ! k, None) \<in> set ?results" for g
      unfolding stored using answers_region by fastforce
    then show "{g \<in> set (stored_groups e' j ws acc d'). sg_region g = regions ! k} =
      (case list_groups e x s d ws acc previous (i + 10 + k, regions ! k) of
         Some gs \<Rightarrow> set gs | None \<Rightarrow> {g \<in> set previous. sg_region g = regions ! k})"
      by (auto simp: answer split: option.splits)
  qed
  with selected show ?thesis by blast
qed

section \<open>Elastic desktops\<close>

lemma eds_account: "edsCredentials e i x d ws acc = Some r \<Longrightarrow> account_in_ws d ws acc \<noteq> None"
  by (auto simp: edsCredentials_def split: option.splits if_splits)

text \<open>A completed refresh of the desktops of all regions replaces the snapshot by the desktops of the regions
  that answered, whatever it held: it names the regions that failed, and the desktops it held for them are
  gone.\<close>

theorem failed_region_loses_desktops:
  assumes "collectEDSDesktops e i x s ws acc ''all'' regions d = Some d'"
    and "edsCredentials e i x d ws acc = Some (c, seed)" and "snaps_ok d" and "\<not> e_fault e' j"
  shows "\<exists>shown. serviceSnapshot e' j ws acc ''eds.desktops'' ''all'' d' = Some (shown, True) \<and>
    elements (field shown ''data'') = concat (map (\<lambda>r. case list_region s c r of None \<Rightarrow> [] | Some js \<Rightarrow> js) regions) \<and>
    elements (field shown ''failed_regions'') = map JStr (sort (filter (\<lambda>r. list_region s c r = None) regions))"
proof -
  let ?items = "concat (map (\<lambda>r. case list_region s c r of None \<Rightarrow> [] | Some js \<Rightarrow> js) regions)"
  let ?failed = "sort (filter (\<lambda>r. list_region s c r = None) regions)"
  have "saveServiceSnapshot e (i + 2) ws acc ''eds.desktops'' ''all''
      (JObj [(''data'', JList ?items), (''failed_regions'', JList (map JStr ?failed))]) d = Some d'"
    using assms(1) unfolding collectEDSDesktops_def assms(2) desktops_payload_def Let_def by (simp split: if_splits)
  from saved_read [OF this assms(3) eds_account [OF assms(2)] assms(4)] show ?thesis by simp
qed

section \<open>Two regions, one of them down\<close>

lemma save_succeeds: "\<not> e_fault e i \<Longrightarrow> account_in_ws d ws acc \<noteq> None \<Longrightarrow> \<exists>d'. saveServiceSnapshot e i ws acc service region p d = Some d'"
  by (auto simp: saveServiceSnapshot_def)

lemma site_answers [simp]: "e_fault (site tag t) i = False" "e_now (site tag t) = t"
  by (simp_all add: site_def good_env_def)

definition open_accounts :: account_ext where
  "open_accounts = demo_accounts\<lparr>ae_unmarshal := (\<lambda>s. Some demo_keys), ae_open := Some\<rparr>"

definition us_group :: sec_group where
  "us_group = (to_group ''us'' (JObj [(''SecurityGroupId'', JStr ''sg-2''), (''SecurityGroupName'', JStr ''db'')]))"

definition group_db :: db where
  "group_db = team_db\<lparr>d_accounts := [(demo_account 5 ''alibaba'' (Some 3))\<lparr>ac_regions := [''eu'', ''us'']\<rparr>],
     d_snaps := [\<lparr>sn_ws = 1, sn_account = 5, sn_service = ''ecs.security_groups'', sn_region = [],
       sn_payload = JObj [(''data'', JList [sec_group_json us_group])], sn_fetched = 3\<rparr>]\<rparr>"

definition demo_ecs :: client where
  "demo_ecs n op args =
     (if op = ''DescribeSecurityGroups''
      then Some (JObj [(''SecurityGroups'', JObj [(''SecurityGroup'', JList [JObj [(''SecurityGroupId'', JStr ''sg-1'')]])])])
      else Some (JObj []))"

definition demo_eds :: client where
  "demo_eds n op args = Some (JObj [(''Desktops'', JList [JObj [(''DesktopId'', JStr ''ecd-1'')]])])"

definition half_down :: service_ext where
  "half_down = \<lparr>sx_ecs = (\<lambda>region c. if region = ''eu'' then Some demo_ecs else None),
     sx_eds = (\<lambda>region c. if region = ''eu'' then Some demo_eds else None),
     sx_users = (\<lambda>region c. Some demo_eds), sx_oss = (\<lambda>region c. demo_ecs), sx_over = False\<rparr>"

lemma group_db_facts:
  "account_credentials (site ''a'' 9) n open_accounts group_db 1 5 ''alibaba'' = Some demo_keys"
  "account_in_ws group_db 1 5 \<noteq> None"
  "group_regions (site ''a'' 9) n open_accounts half_down 1 5 group_db = Some [''eu'', ''us'']"
  "snaps_ok group_db"
  by (simp_all add: account_credentials_def group_db_def demo_account_def open_accounts_def account_in_ws_def group_regions_def snaps_ok_def)

lemma demo_groups:
  "AlibabaSecurityGroups demo_ecs ''eu'' = Some (Some [to_group ''eu'' (JObj [(''SecurityGroupId'', JStr ''sg-1'')])])"
  "AlibabaSecurityGroupRules demo_ecs ''eu'' ''sg-1'' = Some (Some [])"
  unfolding AlibabaSecurityGroups_def AlibabaSecurityGroupRules_def
  by (subst read_pages.simps, code_simp)+

lemma snapshot_roundtrip_witness:
  "\<exists>d' shown. saveServiceSnapshot (site ''a'' 9) 0 1 5 ''oss.buckets'' [] (JObj [(''data'', JList [])]) group_db = Some d' \<and>
     serviceSnapshot (site ''a'' 9) 1 1 5 ''oss.buckets'' [] d' = Some (shown, True) \<and> field shown ''fetched_at'' = JInt 9"
proof -
  obtain d' where save: "saveServiceSnapshot (site ''a'' 9) 0 1 5 ''oss.buckets'' [] (JObj [(''data'', JList [])]) group_db = Some d'"
    using save_succeeds [OF _ group_db_facts(2)] by fastforce
  have "\<not> e_fault (site ''a'' 9) 1" by simp
  from snapshot_roundtrip [OF save group_db_facts(4,2) this] save show ?thesis by auto
qed

lemma half_down_groups:
  "list_groups (site ''a'' 9) open_accounts half_down group_db 1 5 previous (n, ''us'') = None"
  "list_groups (site ''a'' 9) open_accounts half_down group_db 1 5 previous (n, ''eu'') =
     Some [(to_group ''eu'' (JObj [(''SecurityGroupId'', JStr ''sg-1'')]))\<lparr>sg_rules_available := True\<rparr>]"
proof -
  have "sg_id (to_group ''eu'' (JObj [(''SecurityGroupId'', JStr ''sg-1'')])) = ''sg-1''" by (simp add: to_group_def)
  then have "with_rules demo_ecs ''eu'' previous (to_group ''eu'' (JObj [(''SecurityGroupId'', JStr ''sg-1'')])) =
      (to_group ''eu'' (JObj [(''SecurityGroupId'', JStr ''sg-1'')]))\<lparr>sg_rules_available := True\<rparr>"
    unfolding with_rules_def by (simp add: demo_groups finished_def to_group_def)
  then show "list_groups (site ''a'' 9) open_accounts half_down group_db 1 5 previous (n, ''eu'') =
     Some [(to_group ''eu'' (JObj [(''SecurityGroupId'', JStr ''sg-1'')]))\<lparr>sg_rules_available := True\<rparr>]"
    by (simp add: list_groups_def alibaba_client_def group_db_facts half_down_def demo_groups finished_def)
qed (simp add: list_groups_def alibaba_client_def group_db_facts half_down_def)

lemma half_down_collects: "\<exists>d'. collectSecurityGroups (site ''a'' 9) 0 open_accounts half_down 1 5 group_db = Some d'"
proof -
  have "zip [0 + 10..<0 + 10 + length [''eu'', ''us'']] [''eu'', ''us''] = [(10, ''eu''), (11, ''us'')]" by code_simp
  then show ?thesis
    using save_succeeds [OF _ group_db_facts(2), of "site ''a'' 9" 3]
    unfolding collectSecurityGroups_def Let_def by (simp add: group_db_facts(3) half_down_groups) (simp add: half_down_def)
qed

lemma failed_region_keeps_groups_witness:
  "\<exists>d'. collectSecurityGroups (site ''a'' 9) 0 open_accounts half_down 1 5 group_db = Some d' \<and>
     us_group \<in> set (stored_groups (site ''a'' 9) 5 1 5 d')"
proof -
  obtain d' where collected: "collectSecurityGroups (site ''a'' 9) 0 open_accounts half_down 1 5 group_db = Some d'"
    using half_down_collects by blast
  have before: "stored_groups (site ''a'' 9) 5 1 5 group_db = [us_group]" by code_simp
  have "\<forall>k < length [''eu'', ''us'']. {g \<in> set (stored_groups (site ''a'' 9) 5 1 5 d'). sg_region g = [''eu'', ''us''] ! k} =
      (case list_groups (site ''a'' 9) open_accounts half_down group_db 1 5 (latest [us_group]) (0 + 10 + k, [''eu'', ''us''] ! k) of
         Some gs \<Rightarrow> set gs | None \<Rightarrow> {g \<in> set (latest [us_group]). sg_region g = [''eu'', ''us''] ! k})"
    by (rule failed_region_keeps_groups [OF collected group_db_facts(3) _ _ group_db_facts(4), THEN conjunct1]) (simp_all add: before)
  then have "{g \<in> set (stored_groups (site ''a'' 9) 5 1 5 d'). sg_region g = [''eu'', ''us''] ! 1} = {g \<in> set [us_group]. sg_region g = ''us''}"
    by (drule_tac x = 1 in spec) (simp add: half_down_groups)
  moreover have "sg_region us_group = ''us''" by (simp add: us_group_def to_group_def)
  ultimately have "us_group \<in> set (stored_groups (site ''a'' 9) 5 1 5 d')" by auto
  with collected show ?thesis by blast
qed

lemma half_down_desktops:
  "list_region half_down demo_keys ''us'' = None"
  "list_region half_down demo_keys ''eu'' = Some [JObj [(''DesktopId'', JStr ''ecd-1''), (''RegionId'', JStr ''eu'')]]"
proof -
  have "EDSDesktops demo_eds ''eu'' = Some (Some [JObj [(''DesktopId'', JStr ''ecd-1''), (''RegionId'', JStr ''eu'')]])"
    unfolding EDSDesktops_def by (subst read_pages.simps) code_simp
  then show "list_region half_down demo_keys ''eu'' = Some [JObj [(''DesktopId'', JStr ''ecd-1''), (''RegionId'', JStr ''eu'')]]"
    by (simp add: list_region_def eds_client_def half_down_def finished_def)
qed (simp add: list_region_def eds_client_def half_down_def)

lemma failed_region_loses_desktops_witness:
  "\<exists>d' shown. collectEDSDesktops (site ''a'' 9) 0 open_accounts half_down 1 5 ''all'' [''us'', ''eu''] group_db = Some d' \<and>
     serviceSnapshot (site ''a'' 9) 5 1 5 ''eds.desktops'' ''all'' d' = Some (shown, True) \<and>
     elements (field shown ''data'') = [JObj [(''DesktopId'', JStr ''ecd-1''), (''RegionId'', JStr ''eu'')]] \<and> elements (field shown ''failed_regions'') = [JStr ''us'']"
proof -
  have creds: "\<exists>seed. edsCredentials (site ''a'' 9) 0 open_accounts group_db 1 5 = Some (demo_keys, seed)"
    using group_db_facts(2) by (auto simp: edsCredentials_def group_db_facts(1))
  then obtain seed where seed: "edsCredentials (site ''a'' 9) 0 open_accounts group_db 1 5 = Some (demo_keys, seed)" by blast
  have "\<exists>d'. collectEDSDesktops (site ''a'' 9) 0 open_accounts half_down 1 5 ''all'' [''us'', ''eu''] group_db = Some d'"
    using save_succeeds [OF _ group_db_facts(2), of "site ''a'' 9" 2]
    unfolding collectEDSDesktops_def Let_def by (simp add: half_down_desktops seed numeral_2_eq_2)
  then obtain d' where collected: "collectEDSDesktops (site ''a'' 9) 0 open_accounts half_down 1 5 ''all'' [''us'', ''eu''] group_db = Some d'"
    by blast
  have "\<not> e_fault (site ''a'' 9) 5" by simp
  from failed_region_loses_desktops [OF collected seed group_db_facts(4) this] collected show ?thesis
    by (simp add: half_down_desktops)
qed

end
