(* ===== verification/Legacy.thy ===== *)
theory Legacy
  imports Auth
begin

text \<open>
  The importer of the former product (\<^verbatim>\<open>cmd/migrate-legacy/main.go\<close>): it reads the tables of a SQLite backup,
  checks them and writes them into the bootstrap workspace in one transaction, which is committed only with
  \<^verbatim>\<open>-apply\<close>.

  The statement numbers of \<open>e_fault\<close> are 0 for the beginning of the transaction and its locks, 1 and 2 for the
  two counts, 3 for the deletion, 4 to 13 for the inserts and updates in order, 14 for the commit.
\<close>

section \<open>Rows of the backup\<close>

text \<open>A column as \<^verbatim>\<open>sqlite3 -json\<close> prints it and \<^verbatim>\<open>UseNumber\<close> reads it: null, the text of a number, a text.\<close>

datatype cell = CNull | CNum string | CText string

type_synonym lrow = "string \<rightharpoonup> cell"

definition cell :: "lrow \<Rightarrow> string \<Rightarrow> cell" where
  "cell r k = (case r k of None \<Rightarrow> CNull | Some c \<Rightarrow> c)"

definition text_cell :: "lrow \<Rightarrow> string \<Rightarrow> string" where
  "text_cell r k = (case cell r k of CNull \<Rightarrow> [] | CNum s \<Rightarrow> s | CText s \<Rightarrow> s)"

text \<open>The value \<^verbatim>\<open>strconv.ParseInt\<close> returns beside its error: zero, or the bound a number exceeds.\<close>

definition parse_lax :: "string \<Rightarrow> int" where
  "parse_lax s =
     (case parse_int64 s of
        Some v \<Rightarrow> v
      | None \<Rightarrow>
          if has_prefix ''-'' s then (if parse_digits (tl s) = None then 0 else - (2 ^ 63))
          else if parse_digits (if has_prefix ''+'' s then tl s else s) = None then 0 else 2 ^ 63 - 1)"

definition number :: "lrow \<Rightarrow> string \<Rightarrow> int" where
  "number r k = parse_lax (text_cell r k)"

definition nullable :: "lrow \<Rightarrow> string \<Rightarrow> int option" where
  "nullable r k = (if cell r k = CNull then None else Some (number r k))"

text \<open>A column in a JSON document; the columns that get there hold integers, texts or nothing.\<close>

definition cell_json :: "cell \<Rightarrow> json" where
  "cell_json c = (case c of CNull \<Rightarrow> JNull | CNum s \<Rightarrow> JInt (parse_lax s) | CText s \<Rightarrow> JStr s)"

text \<open>What is outside the importer: the backup, the JSON library, the vault of the target's key
  (\<open>lx_encrypt\<close>; \<open>lx_key_ok\<close> where the key is one), the document of an AWS key pair, and PostgreSQL's reading of a
  time stamp.\<close>

record legacy_ext =
  lx_exists :: bool
  lx_key_ok :: bool
  lx_read :: "string \<Rightarrow> lrow list option"
  lx_json :: "string \<Rightarrow> json option"
  lx_credentials :: "string \<Rightarrow> string \<Rightarrow> string"
  lx_encrypt :: "string \<Rightarrow> string"
  lx_stamp :: "string \<Rightarrow> time option"

section \<open>Inserts\<close>

text \<open>Each insert fails on the constraints of its table.  \<^verbatim>\<open>email\<close> is not given, so it is null, which equals no
  address: the empty text here.\<close>

definition import_user :: "int \<Rightarrow> lrow \<Rightarrow> db \<Rightarrow> db option" where
  "import_user ws r d =
     (let i = number r ''id''; name = text_cell r ''username''; role = text_cell r ''role''
      in if ws_by_id d ws = None \<or> user_by_id d i \<noteq> None \<or> name_taken d name \<or> \<not> user_checks name role then None
         else Some (d\<lparr>d_users := d_users d @ [\<lparr>us_id = i, us_ws = ws, us_name = name, us_email = [], us_verified = False,
                us_hash = text_cell r ''password_hash'', us_role = role, us_owner = False, us_version = 1\<rparr>]\<rparr>))"

definition own_first_admin :: "int \<Rightarrow> db \<Rightarrow> db" where
  "own_first_admin ws d =
     (let admins = map us_id (filter (\<lambda>x. us_ws x = ws \<and> us_role x = ''admin'') (d_users d))
      in d\<lparr>d_users := map (\<lambda>x. if admins \<noteq> [] \<and> us_id x = Min (set admins) then x\<lparr>us_owner := True\<rparr> else x) (d_users d)\<rparr>)"

text \<open>The policy of a group over its default; \<^const>\<open>None\<close> where the text is no object of booleans.\<close>

definition group_policy :: "legacy_ext \<Rightarrow> string \<Rightarrow> (string \<Rightarrow> bool) option" where
  "group_policy x raw =
     (let p = (\<lambda>k. k = ''view_dashboard'')
      in if raw = [] then Some p
         else case lx_json x raw of
           Some JNull \<Rightarrow> Some (\<lambda>k. False)
         | Some (JObj fs) \<Rightarrow>
             if list_all (\<lambda>(k, v). v = JBool True \<or> v = JBool False \<or> v = JNull) fs
             then Some (foldl (\<lambda>p (k, v). p(k := (v = JBool True))) p fs) else None
         | _ \<Rightarrow> None)"

definition import_group :: "legacy_ext \<Rightarrow> int \<Rightarrow> lrow \<Rightarrow> db \<Rightarrow> db option" where
  "import_group x ws r d =
     (let i = number r ''id''; name = text_cell r ''name''
      in case group_policy x (text_cell r ''security_policy'') of
           None \<Rightarrow> None
         | Some p \<Rightarrow>
             if list_ex (\<lambda>g. gr_id g = i \<or> gr_ws g = ws \<and> gr_name g = name) (d_groups d) \<or>
                rune_count name < 1 \<or> rune_count name > 100 then None
             else Some (d\<lparr>d_groups := d_groups d @ [\<lparr>gr_id = i, gr_ws = ws, gr_name = name,
                    gr_desc = text_cell r ''description'', gr_view = p ''view_dashboard'',
                    gr_accounts = p ''manage_cloud_accounts'', gr_members = p ''manage_group_members''\<rparr>]\<rparr>))"

definition legacy_role :: "string \<Rightarrow> string" where
  "legacy_role role = (if role = ''group_admin'' then ''manager'' else role)"

definition import_member :: "lrow \<Rightarrow> db \<Rightarrow> db option" where
  "import_member r d =
     (let u = number r ''user_id''; g = number r ''group_id''; role = legacy_role (text_cell r ''role'')
      in if role \<notin> {''viewer'', ''operator'', ''manager''} \<or> user_by_id d u = None \<or> \<not> list_ex (\<lambda>x. gr_id x = g) (d_groups d) \<or>
            list_ex (\<lambda>m. mb_user m = u \<and> mb_group m = g) (d_members d) then None
         else Some (d\<lparr>d_members := d_members d @ [\<lparr>mb_user = u, mb_group = g, mb_role = role\<rparr>]\<rparr>))"

definition import_account :: "legacy_ext \<Rightarrow> int \<Rightarrow> lrow \<Rightarrow> db \<Rightarrow> db option" where
  "import_account x ws r d =
     (let i = number r ''id''; name = text_cell r ''account_name''; gid = nullable r ''group_id''
      in if list_ex (\<lambda>a. ac_id a = i \<or> ac_ws a = ws \<and> ac_name a = name) (d_accounts d) \<or>
            rune_count name < 1 \<or> rune_count name > 100 \<or>
            (case gid of None \<Rightarrow> False | Some g \<Rightarrow> \<not> list_ex (\<lambda>x. gr_id x = g) (d_groups d)) then None
         else Some (d\<lparr>d_accounts := d_accounts d @ [\<lparr>ac_id = i, ac_ws = ws, ac_name = name, ac_provider = ''aws'',
                ac_owner = text_cell r ''owner'', ac_group = gid,
                ac_cred = lx_encrypt x (lx_credentials x (text_cell r ''access_key_id'') (text_cell r ''secret_access_key'')),
                ac_regions = [], ac_sync = None, ac_err = [], ac_errcode = []\<rparr>]\<rparr>))"

text \<open>A JSON column of an instance: null when empty.\<close>

definition json_cell :: "legacy_ext \<Rightarrow> lrow \<Rightarrow> string \<Rightarrow> json option" where
  "json_cell x r k = (let raw = text_cell r k in if raw = [] then Some JNull else lx_json x raw)"

definition import_instance :: "env \<Rightarrow> legacy_ext \<Rightarrow> lrow \<Rightarrow> db \<Rightarrow> db option" where
  "import_instance e x r d =
     (let i = number r ''id''; acc = number r ''aws_account_id''; iid = text_cell r ''instance_id''; region = text_cell r ''region''
      in case (json_cell x r ''tags'', json_cell x r ''security_groups'') of
           (Some tags, Some groups) \<Rightarrow>
             if \<not> list_ex (\<lambda>a. ac_id a = acc) (d_accounts d) \<or>
                list_ex (\<lambda>n. in_id n = i \<or> in_account n = acc \<and> in_region n = region \<and> in_iid n = iid) (d_insts d) then None
             else Some (d\<lparr>d_insts := d_insts d @ [\<lparr>in_account = acc, in_iid = iid, in_region = region,
                    in_name = text_cell r ''name'', in_state = text_cell r ''state'', in_type = text_cell r ''instance_type'',
                    in_public = text_cell r ''public_ip'', in_private = text_cell r ''private_ip'',
                    in_details = JObj (map (\<lambda>k. (k, cell_json (cell r k)))
                        [''launch_time'', ''vpc_id'', ''subnet_id'', ''iam_instance_profile''] @
                      [(''tags'', tags), (''security_group_ids'', groups)]),
                    in_id = i, in_seen = e_now e\<rparr>]\<rparr>)
         | _ \<Rightarrow> None)"

definition import_audit :: "env \<Rightarrow> legacy_ext \<Rightarrow> int \<Rightarrow> string \<Rightarrow> lrow \<Rightarrow> db \<Rightarrow> db option" where
  "import_audit e x ws table r d =
     (let stamp = text_cell r ''created_at''; stamp = (if stamp = [] then text_cell r ''timestamp'' else stamp);
          person = Option.bind (nullable r ''user_id'') (user_by_id d)
      in case (if stamp = [] then Some (e_now e) else lx_stamp x stamp) of
           None \<Rightarrow> None
         | Some at \<Rightarrow>
             Some (d\<lparr>d_audit := d_audit d @ [\<lparr>au_ws = ws, au_user = map_option us_id person,
               au_name = (case person of None \<Rightarrow> ''system'' | Some p \<Rightarrow> us_name p), au_action = text_cell r ''action'',
               au_target = text_cell r ''aws_account_id'',
               au_details = JObj ((''legacy_table'', JStr table) # map (\<lambda>(k, c). (k, cell_json (cell r c)))
                 [(''legacy_id'', ''id''), (''details'', ''details''), (''account_id'', ''aws_account_id''), (''group_id'', ''group_id'')]),
               au_at = at\<rparr>]\<rparr>))"

section \<open>The import\<close>

fun import_rows :: "(lrow \<Rightarrow> db \<Rightarrow> db option) \<Rightarrow> lrow list \<Rightarrow> db \<Rightarrow> db option" where
  "import_rows f [] d = Some d"
| "import_rows f (r # rs) d = Option.bind (f r d) (import_rows f rs)"

definition at_site :: "env \<Rightarrow> nat \<Rightarrow> db option \<Rightarrow> db option" where
  "at_site e i r = (if e_fault e i then None else r)"

text \<open>\<^verbatim>\<open>resetSequence\<close>; the audit trail has no modelled id.\<close>

definition resetSequence :: "string \<Rightarrow> int list \<Rightarrow> db \<Rightarrow> db" where
  "resetSequence table ids d = d\<lparr>d_next := (d_next d)(table := (if ids = [] then 0 else Max (set ids)) + 1)\<rparr>"

definition reset_sequences :: "db \<Rightarrow> db" where
  "reset_sequences d =
     resetSequence ''instances'' (map in_id (d_insts d)) (resetSequence ''cloud_accounts'' (map ac_id (d_accounts d))
       (resetSequence ''access_groups'' (map gr_id (d_groups d)) (resetSequence ''users'' (map us_id (d_users d)) d)))"

definition legacy_tables :: "string list" where
  "legacy_tables = [''users'', ''access_groups'', ''user_groups'', ''aws_accounts'', ''ec2_instances'',
     ''account_activity_log'', ''logs'', ''app_settings'']"

definition bcrypt_hash :: "string \<Rightarrow> bool" where
  "bcrypt_hash h \<longleftrightarrow> length h = 60 \<and> (has_prefix ''$2y$'' h \<or> has_prefix ''$2a$'' h \<or> has_prefix ''$2b$'' h)"

definition import_all :: "env \<Rightarrow> legacy_ext \<Rightarrow> int \<Rightarrow> (string \<Rightarrow> lrow list) \<Rightarrow> db \<Rightarrow> db option" where
  "import_all e x ws data d0 =
     Option.bind (at_site e 3 (Some (foldl delete_user (d0\<lparr>d_audit := []\<rparr>) (map us_id (d_users d0))))) (\<lambda>d.
     Option.bind (at_site e 4 (import_rows (import_user ws) (data ''users'') d)) (\<lambda>d.
     Option.bind (at_site e 5 (Some (own_first_admin ws d))) (\<lambda>d.
     Option.bind (at_site e 6 (import_rows (import_group x ws) (data ''access_groups'') d)) (\<lambda>d.
     Option.bind (at_site e 7 (import_rows import_member (data ''user_groups'') d)) (\<lambda>d.
     Option.bind (at_site e 8 (import_rows (import_account x ws) (data ''aws_accounts'') d)) (\<lambda>d.
     Option.bind (at_site e 9 (import_rows (import_instance e x) (data ''ec2_instances'') d)) (\<lambda>d.
     Option.bind (at_site e 10 (import_rows (import_audit e x ws ''account_activity_log'') (data ''account_activity_log'') d)) (\<lambda>d.
     Option.bind (at_site e 11 (import_rows (import_audit e x ws ''logs'') (data ''logs'') d)) (\<lambda>d.
     Option.bind (at_site e 12 (Some (d\<lparr>d_settings := map (\<lambda>s. if se_ws s = ws then s\<lparr>se_last_run := Some (e_now e)\<rparr> else s)
         (d_settings d)\<rparr>))) (\<lambda>d.
     at_site e 13 (Some (reset_sequences d))))))))))))"

datatype import_result = Stopped string | Rehearsed | Imported

definition first_workspace :: "db \<Rightarrow> int option" where
  "first_workspace d = (if d_ws d = [] then None else Some (Min (set (map ws_id (d_ws d)))))"

definition run_import :: "env \<Rightarrow> legacy_ext \<Rightarrow> string \<Rightarrow> bool \<Rightarrow> db \<Rightarrow> import_result \<times> db" where
  "run_import e x source apply_it d =
     (if source = [] then (Stopped ''usage: migrate-legacy -source /path/to/backup.db [-apply]'', d)
      else if \<not> lx_exists x then (Stopped ''no such file'', d)
      else if \<not> lx_key_ok x then (Stopped ''ENCRYPTION_KEY must be a base64 encoded 32-byte key'', d)
      else if list_ex (\<lambda>t. lx_read x t = None) legacy_tables then (Stopped ''read legacy'', d)
      else
        let data = (\<lambda>t. the (lx_read x t)); people = data ''users''
        in if e_fault e 0 then (Stopped ''initialize the target schema with Netriun Nexus first'', d)
           else if e_fault e 1 then (Stopped ''database'', d)
           else if length (d_accounts d) + length (d_groups d) + length (d_insts d) + length (d_users d) > 1
           then (Stopped ''target must be a fresh Netriun Nexus database containing at most the bootstrap user'', d)
           else if e_fault e 2 then (Stopped ''target must contain the bootstrap workspace'', d)
           else (case first_workspace d of
             None \<Rightarrow> (Stopped ''target must contain the bootstrap workspace'', d)
           | Some ws \<Rightarrow>
               if people = [] then (Stopped ''legacy database has no users'', d)
               else if list_ex (\<lambda>r. \<not> bcrypt_hash (text_cell r ''password_hash'')) people
               then (Stopped ''unsupported legacy password hash; bcrypt hashes are required'', d)
               else if \<not> list_ex (\<lambda>r. text_cell r ''role'' = ''admin'') people then (Stopped ''legacy database has no administrator'', d)
               else (case import_all e x ws data d of
                 None \<Rightarrow> (Stopped ''import'', d)
               | Some d' \<Rightarrow>
                   if \<not> apply_it then (Rehearsed, d)
                   else if e_fault e 14 then (Stopped ''commit'', d)
                   else (Imported, d'))))"

end
