(* ===== verification/LegacyProps.thy ===== *)
theory LegacyProps
  imports Legacy AuthProps
begin

text \<open>
  Properties of the importer: it writes everything or nothing and a rehearsal writes nothing; what it writes are
  the rows of the backup with one owner; and nobody it imports can sign in.
\<close>

section \<open>Rows one by one\<close>

lemma import_rows_inv:
  assumes "import_rows f rs d = Some d'" and "P d" and "\<And>r d d1. f r d = Some d1 \<Longrightarrow> P d \<Longrightarrow> P d1"
  shows "P d'"
  using assms(1,2) by (induction rs arbitrary: d) (auto simp: bind_eq_Some_conv dest: assms(3))

lemma import_rows_frame:
  assumes "import_rows f rs d = Some d'" and "\<And>r d d1. f r d = Some d1 \<Longrightarrow> proj d1 = proj d"
  shows "proj d' = proj d"
  using import_rows_inv [OF assms(1), of "\<lambda>x. proj x = proj d"] assms(2) by simp

lemma import_rows_table:
  assumes "import_rows f rs d = Some d'" and "\<And>r d d1. f r d = Some d1 \<Longrightarrow> tab d1 = tab d @ [g r]"
  shows "tab d' = tab d @ map g rs"
  using assms(1) by (induction rs arbitrary: d) (auto simp: bind_eq_Some_conv dest: assms(2))

text \<open>The row of a person in the backup.\<close>

definition legacy_user :: "int \<Rightarrow> lrow \<Rightarrow> user_row" where
  "legacy_user ws r = \<lparr>us_id = number r ''id'', us_ws = ws, us_name = text_cell r ''username'', us_email = [], us_verified = False,
     us_hash = text_cell r ''password_hash'', us_role = text_cell r ''role'', us_owner = False, us_version = 1\<rparr>"

definition legacy_member :: "lrow \<Rightarrow> member_row" where
  "legacy_member r = \<lparr>mb_user = number r ''user_id'', mb_group = number r ''group_id'', mb_role = legacy_role (text_cell r ''role'')\<rparr>"

lemma import_user_Some:
  "import_user ws r d = Some d1 \<Longrightarrow> d1 = d\<lparr>d_users := d_users d @ [legacy_user ws r]\<rparr> \<and>
     number r ''id'' \<notin> us_id ` set (d_users d)"
  by (auto simp: import_user_def Let_def legacy_user_def user_by_id_def find_None_iff split: if_splits)

lemma import_group_Some:
  "import_group x ws r d = Some d1 \<Longrightarrow> \<exists>row. d1 = d\<lparr>d_groups := d_groups d @ [row]\<rparr> \<and> gr_id row = number r ''id'' \<and> gr_ws row = ws"
  by (auto simp: import_group_def Let_def split: if_splits option.splits)

lemma import_member_Some: "import_member r d = Some d1 \<Longrightarrow> d1 = d\<lparr>d_members := d_members d @ [legacy_member r]\<rparr>"
  by (auto simp: import_member_def Let_def legacy_member_def split: if_splits)

lemma import_account_Some:
  "import_account x ws r d = Some d1 \<Longrightarrow> \<exists>row. d1 = d\<lparr>d_accounts := d_accounts d @ [row]\<rparr> \<and> ac_id row = number r ''id'' \<and>
     ac_ws row = ws \<and> ac_group row = nullable r ''group_id'' \<and>
     ac_cred row = lx_encrypt x (lx_credentials x (text_cell r ''access_key_id'') (text_cell r ''secret_access_key''))"
  by (auto simp: import_account_def Let_def split: if_splits)

lemma import_instance_Some:
  "import_instance e x r d = Some d1 \<Longrightarrow> \<exists>row. d1 = d\<lparr>d_insts := d_insts d @ [row]\<rparr> \<and> in_id row = number r ''id''"
  by (auto simp: import_instance_def Let_def split: if_splits option.splits)

lemma import_audit_Some: "import_audit e x ws t r d = Some d1 \<Longrightarrow> \<exists>row. d1 = d\<lparr>d_audit := d_audit d @ [row]\<rparr>"
  by (auto simp: import_audit_def Let_def split: option.splits)

lemma imported_user: "import_user ws r d = Some d1 \<Longrightarrow> d_users d1 = d_users d @ [legacy_user ws r]"
  by (auto dest: import_user_Some)

lemma imported_member: "import_member r d = Some d1 \<Longrightarrow> \<exists>row. d_members d1 = d_members d @ [row] \<and> row = legacy_member r"
  by (auto dest: import_member_Some)

lemma imported_account:
  "import_account x ws r d = Some d1 \<Longrightarrow> \<exists>row. d_accounts d1 = d_accounts d @ [row] \<and> ac_id row = number r ''id'' \<and>
     ac_ws row = ws \<and> ac_group row = nullable r ''group_id'' \<and>
     ac_cred row = lx_encrypt x (lx_credentials x (text_cell r ''access_key_id'') (text_cell r ''secret_access_key''))"
  by (drule import_account_Some) auto

lemma group_frame: "import_group x ws r d = Some d1 \<Longrightarrow> d_users d1 = d_users d"
  by (auto dest: import_group_Some)

lemma member_frame: "import_member r d = Some d1 \<Longrightarrow> d_users d1 = d_users d"
  by (auto dest: import_member_Some)

lemma account_frame:
  assumes "import_account x ws r d = Some d1"
  shows "d_users d1 = d_users d" "d_members d1 = d_members d"
  using import_account_Some [OF assms] by auto

lemma instance_frame:
  assumes "import_instance e x r d = Some d1"
  shows "d_users d1 = d_users d" "d_members d1 = d_members d" "d_accounts d1 = d_accounts d"
  using import_instance_Some [OF assms] by auto

lemma audit_frame:
  assumes "import_audit e x ws t r d = Some d1"
  shows "d_users d1 = d_users d" "d_members d1 = d_members d" "d_accounts d1 = d_accounts d"
  using import_audit_Some [OF assms] by auto

lemma at_site_Some [simp]: "at_site e i r = Some d \<longleftrightarrow> \<not> e_fault e i \<and> r = Some d"
  by (simp add: at_site_def)

lemma own_first_admin_frame [simp]:
  "d_members (own_first_admin ws d) = d_members d" "d_groups (own_first_admin ws d) = d_groups d"
  "d_accounts (own_first_admin ws d) = d_accounts d" "d_insts (own_first_admin ws d) = d_insts d" "d_ws (own_first_admin ws d) = d_ws d"
  "map us_id (d_users (own_first_admin ws d)) = map us_id (d_users d)"
  by (simp_all add: own_first_admin_def Let_def comp_def)

lemma reset_frame [simp]:
  "d_users (reset_sequences d) = d_users d" "d_members (reset_sequences d) = d_members d" "d_groups (reset_sequences d) = d_groups d"
  "d_accounts (reset_sequences d) = d_accounts d" "d_insts (reset_sequences d) = d_insts d" "d_ws (reset_sequences d) = d_ws d"
  by (simp_all add: reset_sequences_def resetSequence_def)

lemma above_max: "i \<in> set ids \<Longrightarrow> i < (if ids = [] then 0 else Max (set ids)) + (1::int)"
  by (cases ids) (auto simp: zle_add1_eq_le)

lemma sequences_above:
  "u \<in> set (d_users d) \<Longrightarrow> us_id u < next_id (reset_sequences d) ''users''"
  "g \<in> set (d_groups d) \<Longrightarrow> gr_id g < next_id (reset_sequences d) ''access_groups''"
  "a \<in> set (d_accounts d) \<Longrightarrow> ac_id a < next_id (reset_sequences d) ''cloud_accounts''"
  "n \<in> set (d_insts d) \<Longrightarrow> in_id n < next_id (reset_sequences d) ''instances''"
  by (simp_all add: reset_sequences_def resetSequence_def next_id_def above_max del: set_map)
     (use above_max [of "us_id u" "map us_id (d_users d)"] above_max [of "gr_id g" "map gr_id (d_groups d)"]
        above_max [of "ac_id a" "map ac_id (d_accounts d)"] above_max [of "in_id n" "map in_id (d_insts d)"] in auto)

lemma deleted_users: "d_users (foldl delete_user d is) = filter (\<lambda>u. us_id u \<notin> set is) (d_users d)"
  by (induction "is" arbitrary: d) (auto simp: delete_user_def intro: filter_cong)

section \<open>The whole import\<close>

lemma min_in: "xs \<noteq> [] \<Longrightarrow> Min (set xs) \<in> set (xs :: int list)"
  by simp

lemma one_owner:
  assumes ids: "distinct (map us_id (d_users d))" and all: "\<forall>u \<in> set (d_users d). us_ws u = ws \<and> \<not> us_owner u"
    and admin: "\<exists>u \<in> set (d_users d). us_role u = ''admin''"
  shows "\<exists>b \<in> set (d_users (own_first_admin ws d)). us_owner b \<and> us_role b = ''admin'' \<and>
    (\<forall>u \<in> set (d_users (own_first_admin ws d)). (us_owner u \<longrightarrow> u = b) \<and> (us_role u = ''admin'' \<longrightarrow> us_id b \<le> us_id u))"
proof -
  let ?admins = "map us_id (filter (\<lambda>x. us_ws x = ws \<and> us_role x = ''admin'') (d_users d))"
  have ne: "?admins \<noteq> []" using all admin by (auto simp: filter_empty_conv)
  define m where "m = Min (set ?admins)"
  have "m \<in> set ?admins" unfolding m_def by (rule min_in [OF ne])
  then obtain b where b: "b \<in> set (d_users d)" "us_role b = ''admin''" "us_id b = m" by auto
  have owners: "d_users (own_first_admin ws d) = map (\<lambda>x. if us_id x = m then x\<lparr>us_owner := True\<rparr> else x) (d_users d)"
    using ne by (simp add: own_first_admin_def Let_def m_def)
  have unique: "u = b" if "u \<in> set (d_users d)" "us_id u = m" for u
    using that b ids by (metis distinct_map inj_on_def)
  have least: "m \<le> us_id u" if "u \<in> set (d_users d)" "us_role u = ''admin''" for u
    unfolding m_def using that all by (intro Min_le) auto
  show ?thesis
  proof (rule bexI [where x = "b\<lparr>us_owner := True\<rparr>"])
    show "b\<lparr>us_owner := True\<rparr> \<in> set (d_users (own_first_admin ws d))" unfolding owners using b by force
    show "us_owner (b\<lparr>us_owner := True\<rparr>) \<and> us_role (b\<lparr>us_owner := True\<rparr>) = ''admin'' \<and>
      (\<forall>u \<in> set (d_users (own_first_admin ws d)). (us_owner u \<longrightarrow> u = b\<lparr>us_owner := True\<rparr>) \<and>
         (us_role u = ''admin'' \<longrightarrow> us_id (b\<lparr>us_owner := True\<rparr>) \<le> us_id u))"
      unfolding owners using b(2,3) unique least all by (auto split: if_splits)
  qed
qed

text \<open>What the import leaves behind.\<close>

definition imported :: "legacy_ext \<Rightarrow> int \<Rightarrow> db \<Rightarrow> bool" where
  "imported x ws d \<longleftrightarrow>
     map (\<lambda>u. u\<lparr>us_owner := False\<rparr>) (d_users d) = map (legacy_user ws) (the (lx_read x ''users'')) \<and>
     distinct (map us_id (d_users d)) \<and>
     (\<exists>b \<in> set (d_users d). us_owner b \<and> us_role b = ''admin'' \<and>
       (\<forall>u \<in> set (d_users d). (us_owner u \<longrightarrow> u = b) \<and> (us_role u = ''admin'' \<longrightarrow> us_id b \<le> us_id u))) \<and>
     (\<forall>r \<in> set (the (lx_read x ''user_groups'')). legacy_member r \<in> set (d_members d)) \<and>
     (\<forall>r \<in> set (the (lx_read x ''aws_accounts'')). \<exists>a \<in> set (d_accounts d). ac_id a = number r ''id'' \<and> ac_ws a = ws \<and>
        ac_group a = nullable r ''group_id'' \<and>
        ac_cred a = lx_encrypt x (lx_credentials x (text_cell r ''access_key_id'') (text_cell r ''secret_access_key''))) \<and>
     (\<forall>u \<in> set (d_users d). us_id u < next_id d ''users'') \<and> (\<forall>g \<in> set (d_groups d). gr_id g < next_id d ''access_groups'') \<and>
     (\<forall>a \<in> set (d_accounts d). ac_id a < next_id d ''cloud_accounts'') \<and> (\<forall>n \<in> set (d_insts d). in_id n < next_id d ''instances'')"

lemma import_rows_mem:
  assumes "import_rows f rs d = Some d'" and "r \<in> set rs"
    and "\<And>r d d1. f r d = Some d1 \<Longrightarrow> \<exists>row. tab d1 = tab d @ [row] \<and> Q r row"
  shows "\<exists>row \<in> set (tab d'). Q r row"
  using assms(1,2)
proof (induction rs arbitrary: d)
  case (Cons r' rs)
  from Cons.prems(1) obtain d1 where d1: "f r' d = Some d1" "import_rows f rs d1 = Some d'" by (auto simp: bind_eq_Some_conv)
  have grows: "set (tab d1) \<subseteq> set (tab d')"
    using import_rows_inv [OF d1(2), of "\<lambda>x. set (tab d1) \<subseteq> set (tab x)"] assms(3) by fastforce
  show ?case
  proof (cases "r = r'")
    case True
    then show ?thesis using assms(3) [OF d1(1)] grows by fastforce
  next
    case False
    then show ?thesis using Cons.IH [OF d1(2)] Cons.prems(2) by simp
  qed
qed simp

lemma legacy_users_facts:
  assumes "map (\<lambda>u. u\<lparr>us_owner := False\<rparr>) us = map (legacy_user ws) rs" and "u \<in> set us"
  shows "us_email u = [] \<and> \<not> us_verified u"
proof -
  have "u\<lparr>us_owner := False\<rparr> \<in> set (map (legacy_user ws) rs)" using assms by (metis image_eqI list.set_map)
  then obtain r where r: "u\<lparr>us_owner := False\<rparr> = legacy_user ws r" by auto
  have "us_email (u\<lparr>us_owner := False\<rparr>) = []" "\<not> us_verified (u\<lparr>us_owner := False\<rparr>)" unfolding r by (simp_all add: legacy_user_def)
  then show ?thesis by simp
qed

lemma import_all_imported:
  assumes "import_all e x ws (\<lambda>t. the (lx_read x t)) d0 = Some d'"
    and "\<exists>r \<in> set (the (lx_read x ''users'')). text_cell r ''role'' = ''admin''"
  shows "imported x ws d'"
proof -
  let ?data = "\<lambda>t. the (lx_read x t)"
  from assms(1) obtain d1 d2 d3 d4 d5 d6 d7 d8 where
    d1: "import_rows (import_user ws) (?data ''users'') (foldl delete_user (d0\<lparr>d_audit := []\<rparr>) (map us_id (d_users d0))) = Some d1"
    and d2: "import_rows (import_group x ws) (?data ''access_groups'') (own_first_admin ws d1) = Some d2"
    and d3: "import_rows import_member (?data ''user_groups'') d2 = Some d3"
    and d4: "import_rows (import_account x ws) (?data ''aws_accounts'') d3 = Some d4"
    and d5: "import_rows (import_instance e x) (?data ''ec2_instances'') d4 = Some d5"
    and d6: "import_rows (import_audit e x ws ''account_activity_log'') (?data ''account_activity_log'') d5 = Some d6"
    and d7: "import_rows (import_audit e x ws ''logs'') (?data ''logs'') d6 = Some d7"
    and d8: "d8 = d7\<lparr>d_settings := map (\<lambda>s. if se_ws s = ws then s\<lparr>se_last_run := Some (e_now e)\<rparr> else s) (d_settings d7)\<rparr>"
    and d': "d' = reset_sequences d8"
    unfolding import_all_def by (auto simp: bind_eq_Some_conv)
  define start where "start = foldl delete_user (d0\<lparr>d_audit := []\<rparr>) (map us_id (d_users d0))"
  have empty: "d_users start = []" unfolding start_def deleted_users by (simp add: filter_empty_conv)
  have people: "d_users d1 = map (legacy_user ws) (?data ''users'')"
    using import_rows_table [where tab = d_users and g = "legacy_user ws", OF d1 imported_user] empty by (simp add: start_def)
  have ids: "distinct (map us_id (d_users d1))"
    by (rule import_rows_inv [OF d1, where P = "\<lambda>d. distinct (map us_id (d_users d))"])
       (use empty in \<open>auto simp: start_def legacy_user_def dest!: import_user_Some\<close>)
  note owner = one_owner [OF ids]
  have after_users: "d_users d' = d_users (own_first_admin ws d1)"
    unfolding d' d8
    using import_rows_frame [where proj = d_users, OF d7 audit_frame(1)] import_rows_frame [where proj = d_users, OF d6 audit_frame(1)]
      import_rows_frame [where proj = d_users, OF d5 instance_frame(1)] import_rows_frame [where proj = d_users, OF d4 account_frame(1)]
      import_rows_frame [where proj = d_users, OF d3 member_frame] import_rows_frame [where proj = d_users, OF d2 group_frame] by simp
  have after_members: "d_members d' = d_members d3"
    unfolding d' d8
    using import_rows_frame [where proj = d_members, OF d7 audit_frame(2)] import_rows_frame [where proj = d_members, OF d6 audit_frame(2)]
      import_rows_frame [where proj = d_members, OF d5 instance_frame(2)] import_rows_frame [where proj = d_members, OF d4 account_frame(2)]
    by simp
  have after_accounts: "d_accounts d' = d_accounts d4"
    unfolding d' d8
    using import_rows_frame [where proj = d_accounts, OF d7 audit_frame(3)] import_rows_frame [where proj = d_accounts, OF d6 audit_frame(3)]
      import_rows_frame [where proj = d_accounts, OF d5 instance_frame(3)] by simp
  have members: "\<forall>r \<in> set (?data ''user_groups''). legacy_member r \<in> set (d_members d')"
    using import_rows_mem [where tab = d_members and Q = "\<lambda>r row. row = legacy_member r", OF d3 _ imported_member]
    unfolding after_members by blast
  have accounts: "\<forall>r \<in> set (?data ''aws_accounts''). \<exists>a \<in> set (d_accounts d'). ac_id a = number r ''id'' \<and> ac_ws a = ws \<and>
        ac_group a = nullable r ''group_id'' \<and>
        ac_cred a = lx_encrypt x (lx_credentials x (text_cell r ''access_key_id'') (text_cell r ''secret_access_key''))"
    unfolding after_accounts by (intro ballI import_rows_mem [where tab = d_accounts, OF d4] imported_account)
  have all: "\<forall>u \<in> set (d_users d1). us_ws u = ws \<and> \<not> us_owner u" unfolding people by (auto simp: legacy_user_def)
  have admin: "\<exists>u \<in> set (d_users d1). us_role u = ''admin''" unfolding people using assms(2) by (auto simp: legacy_user_def)
  have cleared: "map (\<lambda>u. u\<lparr>us_owner := False\<rparr>) (d_users (own_first_admin ws d1)) = d_users d1"
    using all by (simp add: own_first_admin_def Let_def) (intro map_idI, auto)
  have above: "(\<forall>u \<in> set (d_users d'). us_id u < next_id d' ''users'') \<and> (\<forall>g \<in> set (d_groups d'). gr_id g < next_id d' ''access_groups'') \<and>
     (\<forall>a \<in> set (d_accounts d'). ac_id a < next_id d' ''cloud_accounts'') \<and> (\<forall>n \<in> set (d_insts d'). in_id n < next_id d' ''instances'')"
    unfolding d' using sequences_above [of _ d8] by simp
  show ?thesis
    unfolding imported_def after_users
    using owner [OF all admin] cleared people ids members accounts above [unfolded after_users] by auto
qed

lemma run_import_cases:
  assumes "run_import e x source apply_it d = (res, d')"
  shows "(res \<noteq> Imported \<and> d' = d) \<or>
    (res = Imported \<and> apply_it \<and> (\<exists>ws. first_workspace d = Some ws \<and> import_all e x ws (\<lambda>t. the (lx_read x t)) d = Some d' \<and>
      (\<exists>r \<in> set (the (lx_read x ''users'')). text_cell r ''role'' = ''admin'') \<and>
      (\<forall>r \<in> set (the (lx_read x ''users'')). bcrypt_hash (text_cell r ''password_hash''))))"
  using assms unfolding run_import_def Let_def
  by (auto simp: list_ex_iff split: if_splits option.splits)

text \<open>C29: the importer writes all of a backup or nothing.  It changes the database only when it says so and was
  asked to; then the people of the workspace are exactly those of the backup, with their IDs, names, hashes and
  roles, the administrator of the smallest ID alone owns the workspace, every membership and every account of
  the backup is there with its key pair encrypted, and the sequences start above every ID in use.\<close>

theorem import_all_or_nothing:
  assumes "run_import e x source apply_it d = (res, d')"
  shows "(res = Imported \<and> apply_it \<and> (\<exists>ws. first_workspace d = Some ws \<and> imported x ws d')) \<or> (res \<noteq> Imported \<and> d' = d)"
  using run_import_cases [OF assms] import_all_imported by blast

text \<open>C30: nobody can sign in after an import.  The importer gives its people no address and no verification, and
  it has deleted the bootstrap user: whatever address and password a request names, and whatever time passes,
  the sign-in is refused.\<close>

theorem imported_people_locked_out:
  assumes "run_import e x source apply_it d = (Imported, d')" and "w_db w = d'"
  shows "d_users d' \<noteq> [] \<and> rs_status (fst (login e' nets r b w)) \<noteq> 200"
proof -
  from import_all_or_nothing [OF assms(1)] obtain ws where i: "imported x ws d'" by auto
  then have unverified: "\<not> us_verified u" if "u \<in> set (d_users d')" for u
    using legacy_users_facts that unfolding imported_def by blast
  have "rs_status (fst (login e' nets r b w)) \<noteq> 200"
    using login_cases [of e' nets r b w] assms(2) unverified by (auto simp: login_ok_def dest!: login_row_Some)
  moreover have "d_users d' \<noteq> []" using i unfolding imported_def by auto
  ultimately show ?thesis by blast
qed

section \<open>A small backup\<close>

definition lrow_of :: "(string \<times> cell) list \<Rightarrow> lrow" where
  "lrow_of cs = map_of cs"

definition demo_backup :: legacy_ext where
  "demo_backup = \<lparr>lx_exists = True, lx_key_ok = True,
     lx_read = (\<lambda>t. Some (
       if t = ''users'' then
         [lrow_of [(''id'', CNum ''12''), (''username'', CText ''maria''), (''role'', CText ''user''),
            (''password_hash'', CText (''$2y$'' @ replicate 56 CHR ''x''))],
          lrow_of [(''id'', CNum ''4''), (''username'', CText ''root''), (''role'', CText ''admin''),
            (''password_hash'', CText (''$2y$'' @ replicate 56 CHR ''y''))]]
       else if t = ''access_groups'' then [lrow_of [(''id'', CNum ''2''), (''name'', CText ''ops'')]]
       else if t = ''user_groups'' then
         [lrow_of [(''user_id'', CNum ''12''), (''group_id'', CNum ''2''), (''role'', CText ''group_admin'')]]
       else if t = ''aws_accounts'' then
         [lrow_of [(''id'', CNum ''9''), (''account_name'', CText ''prod''), (''access_key_id'', CText ''AK''),
            (''secret_access_key'', CText ''s3''), (''group_id'', CNum ''2'')]]
       else [])),
     lx_json = (\<lambda>s. None), lx_credentials = (\<lambda>a b. a @ b), lx_encrypt = (\<lambda>s. ''sealed:'' @ s), lx_stamp = (\<lambda>s. Some 0)\<rparr>"

definition fresh_db :: db where
  "fresh_db = empty_db\<lparr>d_ws := [\<lparr>ws_id = 1, ws_name = ''acme'', ws_slug = ''default'', ws_limit = 6, ws_sso_required = False\<rparr>],
     d_users := [person 1 ''admin'']\<rparr>"

lemma backup_imported: "fst (run_import (site ''a'' 9) demo_backup ''backup.db'' True fresh_db) = Imported"
  by code_simp

lemma import_all_or_nothing_witness:
  "\<exists>d'. run_import (site ''a'' 9) demo_backup ''backup.db'' True fresh_db = (Imported, d') \<and> imported demo_backup 1 d'"
proof -
  obtain res d' where run: "run_import (site ''a'' 9) demo_backup ''backup.db'' True fresh_db = (res, d')" by fastforce
  have "first_workspace fresh_db = Some 1" by code_simp
  with import_all_or_nothing [OF run] backup_imported run show ?thesis by auto
qed

lemma imported_people_locked_out_witness:
  "\<exists>d'. run_import (site ''a'' 9) demo_backup ''backup.db'' True fresh_db = (Imported, d') \<and>
     rs_status (fst (login (site ''b'' 10) [] blank_request (Body sam_login) (world_of d'))) \<noteq> 200"
proof -
  obtain res d' where run: "run_import (site ''a'' 9) demo_backup ''backup.db'' True fresh_db = (res, d')" by fastforce
  then have "run_import (site ''a'' 9) demo_backup ''backup.db'' True fresh_db = (Imported, d')" using backup_imported by simp
  from imported_people_locked_out [OF this, of "world_of d'"] this show ?thesis by (auto simp: world_of_def)
qed

end
