(* ===== verification/Billing.thy ===== *)
theory Billing
  imports CloudOps Patterns "HOL-Library.Product_Lexorder"
begin

text \<open>
  The bills of Alibaba accounts (\<^verbatim>\<open>internal/app/alibaba_billing.go\<close>, \<^verbatim>\<open>internal/cloud/alibaba_billing.go\<close>): the
  months a request may name, reading a month's bills from the provider, replacing them in the table
  \<^verbatim>\<open>alibaba_billing_items\<close>, and the report with its exports.

  The table is a list of rows beside the database; the rows of a removed account would go with it, and no
  query shows them.  A time is in Unix seconds.
\<close>

section \<open>Months\<close>

text \<open>Year, month and day of a time, in UTC.\<close>

definition civil :: "time \<Rightarrow> int \<times> int \<times> int" where
  "civil t =
     (let z = t div 86400 + 719468; era = z div 146097; doe = z mod 146097;
          yoe = (doe - doe div 1460 + doe div 36524 - doe div 146096) div 365;
          doy = doe - (365 * yoe + yoe div 4 - yoe div 100); mp = (5 * doy + 2) div 153;
          m = (if mp < 10 then mp + 3 else mp - 9)
      in (yoe + era * 400 + (if m \<le> 2 then 1 else 0), m, doy - (153 * mp + 2) div 5 + 1))"

definition leap :: "int \<Rightarrow> bool" where
  "leap y \<longleftrightarrow> y mod 4 = 0 \<and> (y mod 100 \<noteq> 0 \<or> y mod 400 = 0)"

definition month_days :: "int \<Rightarrow> int \<Rightarrow> int" where
  "month_days y m = (if m = 2 then (if leap y then 29 else 28) else if m \<in> {4, 6, 9, 11} then 30 else 31)"

text \<open>The month of \<^verbatim>\<open>AddDate(0, -1, 0)\<close>: the same day of the month before, and where that month has no such day, as
  many days further.\<close>

definition a_month_before :: "int \<times> int \<times> int \<Rightarrow> int \<times> int" where
  "a_month_before ymd =
     (case ymd of (y, m, d) \<Rightarrow>
        (case (if m = 1 then (y - 1, 12) else (y, m - 1)) of
           (y', m') \<Rightarrow> if d > month_days y' m' then (y, m) else (y', m')))"

text \<open>The layout \<^verbatim>\<open>2006-01\<close>.\<close>

definition zeros :: "nat \<Rightarrow> string \<Rightarrow> string" where
  "zeros n s = replicate (n - length s) CHR ''0'' @ s"

definition show_month :: "int \<times> int \<Rightarrow> string" where
  "show_month ym = zeros 4 (show_int (fst ym)) @ ''-'' @ zeros 2 (show_int (snd ym))"

definition month_index :: "int \<times> int \<Rightarrow> int" where
  "month_index ym = 12 * fst ym + (snd ym - 1)"

definition defaultBillingCycle :: "time \<Rightarrow> string" where
  "defaultBillingCycle now = show_month (a_month_before (civil now))"

definition validBillingCycle :: "time \<Rightarrow> string \<Rightarrow> bool" where
  "validBillingCycle now s \<longleftrightarrow> billingCyclePattern s \<and>
     (case civil now of (y, m, d) \<Rightarrow>
        let k = month_index (int (read_nat (take 4 s)), int (read_nat (drop 5 s))); current = month_index (y, m)
        in k \<le> current \<and> current - 17 \<le> k)"

section \<open>The scope of a request\<close>

definition billing_services :: "string list" where
  "billing_services = [''ecs'', ''eds'', ''other'']"

fun pick_services :: "string list \<Rightarrow> string list \<Rightarrow> string list option" where
  "pick_services [] acc = Some acc"
| "pick_services (raw # rs) acc =
     (let s = to_lower (trim_space raw)
      in if s \<notin> set billing_services then None
         else pick_services rs (if s \<in> set acc then acc else acc @ [s]))"

definition requestedBillingServices :: "request \<Rightarrow> string list option" where
  "requestedBillingServices r =
     (let raw = trim_space (rq_query r ''services'')
      in if raw = [] then Some [''ecs'', ''eds'']
         else case pick_services (split_on CHR '','' raw) [] of
           None \<Rightarrow> None | Some ss \<Rightarrow> if ss = [] then None else Some ss)"

definition alibabaBillingScope :: "env \<Rightarrow> db \<Rightarrow> user \<Rightarrow> request \<Rightarrow> string \<Rightarrow> resp + int list \<times> string \<times> string list" where
  "alibabaBillingScope e d u r cap =
     (case accessibleAccountIDs e 0 d u cap of
        None \<Rightarrow> Inl (dbError DbFailed)
      | Some allowed \<Rightarrow>
          (case requestedAccountIDs e 1 d u r allowed of
             Inl q \<Rightarrow> Inl q
           | Inr ids \<Rightarrow>
               if ids = [] then Inl (problem 400 ''Select at least one Alibaba Cloud account'')
               else if e_fault e 2 then Inl (dbError DbFailed)
               else if length (filter (\<lambda>a. ac_ws a = u_ws u \<and> ac_id a \<in> set ids \<and> ac_provider a = ''alibaba'') (d_accounts d)) \<noteq> length ids
               then Inl (problem 400 ''Billing reports currently support Alibaba Cloud accounts only'')
               else
                 let raw = trim_space (rq_query r ''billing_cycle'');
                     cycle = (if raw = [] then defaultBillingCycle (e_now e) else raw)
                 in if \<not> validBillingCycle (e_now e) cycle
                    then Inl (problem 400 ''Billing cycle must be a month within the latest 18 months in YYYY-MM format'')
                    else (case requestedBillingServices r of
                            None \<Rightarrow> Inl (problem 400 ''Services must contain ecs, eds, or other'')
                          | Some services \<Rightarrow> Inr (ids, cycle, services))))"

section \<open>The provider's bills\<close>

text \<open>An amount is the bit pattern of a \<^verbatim>\<open>float64\<close>, zero being that of 0.0.  \<open>bx_amount\<close> is the conversion of the SDK's
  \<^verbatim>\<open>float32\<close>, \<open>bx_add\<close> the addition, \<open>bx_numeric\<close> the value a column \<^verbatim>\<open>numeric(24,8)\<close> gives back (\<^const>\<open>None\<close> where it
  refuses it), \<open>bx_json\<close> and \<open>bx_fixed\<close> the texts of an amount; \<open>bx_xlsx\<close> and \<open>bx_pdf\<close> lay out the documents.\<close>

type_synonym amount = int

datatype item_cell = TextCell string | AmountCell amount

record bill_ext =
  bx_client :: "credentials \<Rightarrow> client option"
  bx_amount :: "json \<Rightarrow> amount"
  bx_add :: "amount \<Rightarrow> amount \<Rightarrow> amount"
  bx_numeric :: "amount \<Rightarrow> amount option"
  bx_json :: "amount \<Rightarrow> json"
  bx_fixed :: "nat \<Rightarrow> amount \<Rightarrow> string"
  bx_xlsx :: "(string \<times> item_cell list list) list \<Rightarrow> string option"
  bx_pdf :: "string list \<Rightarrow> string list list \<Rightarrow> string option"

record bill_item =
  bl_service :: string
  bl_code :: string
  bl_product :: string
  bl_detail :: string
  bl_iid :: string
  bl_iname :: string
  bl_region :: string
  bl_type :: string
  bl_currency :: string
  bl_gross :: amount
  bl_discount :: amount
  bl_pretax :: amount
  bl_cash :: amount
  bl_payment :: amount
  bl_raw :: json

definition classifyAlibabaBillService :: "string \<Rightarrow> string \<Rightarrow> string \<Rightarrow> string" where
  "classifyAlibabaBillService code product detail =
     (let joined = to_lower (join_with CHR '' '' [code, product, detail]); code = to_lower (trim_space code)
      in if code = ''ecs'' \<or> contains_str joined ''elastic compute service'' then ''ecs''
         else if code = ''eds'' \<or> code = ''ecd'' \<or> code = ''gws'' \<or> contains_str joined ''elastic desktop'' \<or>
                 contains_str joined ''cloud desktop'' \<or> contains_str joined ''wuying'' then ''eds''
         else ''other'')"

definition to_bill :: "bill_ext \<Rightarrow> json \<Rightarrow> bill_item" where
  "to_bill b row =
     (let t = (\<lambda>k. text_of (field row k)); n = (\<lambda>k. bx_amount b (field row k))
      in \<lparr>bl_service = classifyAlibabaBillService (t ''ProductCode'') (t ''ProductName'') (t ''ProductDetail''),
          bl_code = t ''ProductCode'', bl_product = t ''ProductName'', bl_detail = t ''ProductDetail'', bl_iid = t ''InstanceID'',
          bl_iname = t ''NickName'', bl_region = t ''Region'', bl_type = t ''SubscriptionType'', bl_currency = t ''Currency'',
          bl_gross = n ''PretaxGrossAmount'', bl_discount = n ''InvoiceDiscount'', bl_pretax = n ''PretaxAmount'',
          bl_cash = n ''CashAmount'', bl_payment = n ''PaymentAmount'', bl_raw = row\<rparr>)"

definition bills_step :: "bill_ext \<Rightarrow> client \<Rightarrow> string \<Rightarrow> nat \<Rightarrow> string \<Rightarrow> (bill_item list \<times> string) option" where
  "bills_step b ask cycle n next =
     (case ask n ''DescribeInstanceBill'' ([(''BillingCycle'', JStr cycle), (''Granularity'', JStr ''MONTHLY''),
         (''IsBillingItem'', JBool False), (''IsHideZeroCharge'', JBool False), (''MaxResults'', JInt 300)] @
         (if next = [] then [] else [(''NextToken'', JStr next)])) of
        None \<Rightarrow> None
      | Some body \<Rightarrow>
          if field body ''Data'' = JNull \<or> field body ''Success'' = JBool False then None
          else Some (map (to_bill b) (filter (\<lambda>j. j \<noteq> JNull) (elements (field (field body ''Data'') ''Items''))),
                     text_of (field (field body ''Data'') ''NextToken'')))"

definition AlibabaInstanceBills :: "bill_ext \<Rightarrow> client \<Rightarrow> string \<Rightarrow> bill_item list option option" where
  "AlibabaInstanceBills b ask cycle = read_pages (bills_step b ask cycle) 0 [] []"

section \<open>The table\<close>

record bill_row =
  br_ws :: int
  br_account :: int
  br_cycle :: string
  br_item :: bill_item
  br_fetched :: time

text \<open>A row as it is stored: its amounts go through the columns.\<close>

definition stored_item :: "bill_ext \<Rightarrow> bill_item \<Rightarrow> bill_item option" where
  "stored_item b i =
     (case (bx_numeric b (bl_gross i), bx_numeric b (bl_discount i), bx_numeric b (bl_pretax i), bx_numeric b (bl_cash i),
            bx_numeric b (bl_payment i)) of
        (Some g, Some q, Some p, Some c, Some y) \<Rightarrow>
          Some (i\<lparr>bl_gross := g, bl_discount := q, bl_pretax := p, bl_cash := c, bl_payment := y\<rparr>)
      | _ \<Rightarrow> None)"

definition in_cycle :: "int \<Rightarrow> int \<Rightarrow> string \<Rightarrow> bill_row \<Rightarrow> bool" where
  "in_cycle ws acc cycle b \<longleftrightarrow> br_ws b = ws \<and> br_account b = acc \<and> br_cycle b = cycle"

definition to_row :: "int \<Rightarrow> int \<Rightarrow> string \<Rightarrow> time \<Rightarrow> bill_item \<Rightarrow> bill_row" where
  "to_row ws acc cycle now i = \<lparr>br_ws = ws, br_account = acc, br_cycle = cycle, br_item = i, br_fetched = now\<rparr>"

text \<open>Delete and copy; the copy violates the foreign key where the account is not of the workspace.\<close>

definition replace_bills ::
    "env \<Rightarrow> bill_ext \<Rightarrow> db \<Rightarrow> int \<Rightarrow> string \<Rightarrow> int \<times> bill_item list \<Rightarrow> bill_row list \<Rightarrow> bill_row list option" where
  "replace_bills e b d ws cycle result bills =
     (case result of (acc, items) \<Rightarrow>
        if e_fault e 5 then None
        else let kept = filter (\<lambda>x. \<not> in_cycle ws acc cycle x) bills
             in if items = [] then Some kept
                else if e_fault e 6 \<or> account_in_ws d ws acc = None then None
                else (case those (map (stored_item b) items) of
                        None \<Rightarrow> None
                      | Some stored \<Rightarrow> Some (kept @ map (to_row ws acc cycle (e_now e)) stored)))"

fun replace_all ::
    "env \<Rightarrow> bill_ext \<Rightarrow> db \<Rightarrow> int \<Rightarrow> string \<Rightarrow> (int \<times> bill_item list) list \<Rightarrow> bill_row list \<Rightarrow> bill_row list option" where
  "replace_all e b d ws cycle [] bills = Some bills"
| "replace_all e b d ws cycle (q # qs) bills =
     Option.bind (replace_bills e b d ws cycle q bills) (replace_all e b d ws cycle qs)"

text \<open>The bills of all accounts, or the first refusal.\<close>

fun fetch_bills ::
    "env \<Rightarrow> account_ext \<Rightarrow> bill_ext \<Rightarrow> db \<Rightarrow> int \<Rightarrow> string \<Rightarrow> int list \<Rightarrow> resp + (int \<times> bill_item list) list" where
  "fetch_bills e x b d ws cycle [] = Inr []"
| "fetch_bills e x b d ws cycle (acc # ids) =
     (case account_credentials e 3 x d ws acc ''alibaba'' of
        None \<Rightarrow> Inl (dbError (if \<not> e_fault e 3 \<and>
                 find (\<lambda>a. ac_id a = acc \<and> ac_ws a = ws \<and> ac_provider a = ''alibaba'') (d_accounts d) = None then NoRows else DbFailed))
      | Some c \<Rightarrow>
          (case bx_client b c of
             None \<Rightarrow> Inl (problem 502 ''Could not initialize Alibaba billing client'')
           | Some ask \<Rightarrow>
               (case finished (AlibabaInstanceBills b ask cycle) of
                  None \<Rightarrow> Inl (problem 502 ''Alibaba Billing rejected the request; add bssapi:DescribeInstanceBill and verify the account billing scope'')
                | Some items \<Rightarrow>
                    (case fetch_bills e x b d ws cycle ids of Inl q \<Rightarrow> Inl q | Inr rest \<Rightarrow> Inr ((acc, items) # rest)))))"

definition syncAlibabaBilling ::
    "env \<Rightarrow> account_ext \<Rightarrow> bill_ext \<Rightarrow> user \<Rightarrow> request \<Rightarrow> world \<Rightarrow> bill_row list \<Rightarrow> resp \<times> world \<times> bill_row list" where
  "syncAlibabaBilling e x b u r w bills =
     (case alibabaBillingScope e (w_db w) u r ''billing.sync'' of
        Inl q \<Rightarrow> (q, w, bills)
      | Inr (ids, cycle, services) \<Rightarrow>
          if length ids > 10 then (problem 400 ''Synchronize at most 10 accounts at a time'', w, bills)
          else (case fetch_bills e x b (w_db w) (u_ws u) cycle ids of
                  Inl q \<Rightarrow> (q, w, bills)
                | Inr results \<Rightarrow>
                    if e_fault e 4 then (dbError DbFailed, w, bills)
                    else (case replace_all e b (w_db w) (u_ws u) cycle results bills of
                            None \<Rightarrow> (dbError DbFailed, w, bills)
                          | Some bills' \<Rightarrow>
                              if e_fault e 7 then (dbError DbFailed, w, bills)
                              else let rows = int (sum_list (map (\<lambda>q. length (snd q)) results))
                                in (reply 200 (JObj [(''billing_cycle'', JStr cycle), (''accounts'', JInt (int (length ids))),
                                      (''rows'', JInt rows), (''synced_at'', JInt (e_now e))]),
                                    audit e 8 u w ''billing.alibaba_synced'' cycle
                                      (JObj [(''account_ids'', JList (map JInt ids)), (''rows'', JInt rows)]), bills'))))"

section \<open>The report\<close>

record bill_total =
  bt_service :: string
  bt_currency :: string
  bt_amount :: amount

record bill_report =
  bp_cycle :: string
  bp_services :: "string list"
  bp_query :: string
  bp_totals :: "bill_total list"
  bp_rows :: "(bill_row \<times> string) list"
  bp_fetched :: "time option"

text \<open>The rows of the query with the names of their accounts.\<close>

definition bill_rows ::
    "db \<Rightarrow> bill_row list \<Rightarrow> int \<Rightarrow> int list \<Rightarrow> string \<Rightarrow> string list \<Rightarrow> string \<Rightarrow> (bill_row \<times> string) list" where
  "bill_rows d bills ws ids cycle services q =
     sort_key (\<lambda>(b, n). (bl_service (br_item b), bl_iname (br_item b), bl_iid (br_item b), bl_detail (br_item b)))
       (concat (map (\<lambda>b. case account_in_ws d (br_ws b) (br_account b) of None \<Rightarrow> [] | Some a \<Rightarrow> [(b, ac_name a)])
         (filter (\<lambda>b. br_ws b = ws \<and> br_account b \<in> set ids \<and> br_cycle b = cycle \<and> bl_service (br_item b) \<in> set services \<and>
            (q = [] \<or> ilike (bl_iname (br_item b)) q \<or> ilike (bl_iid (br_item b)) q)) bills)))"

definition total_key :: "bill_item \<Rightarrow> string" where
  "total_key i = bl_service i @ CHR 0x00 # bl_currency i"

definition key_total :: "bill_ext \<Rightarrow> string \<Rightarrow> bill_item list \<Rightarrow> amount" where
  "key_total b k items = foldl (bx_add b) 0 (map bl_pretax (filter (\<lambda>i. total_key i = k) items))"

definition bill_totals :: "bill_ext \<Rightarrow> bill_item list \<Rightarrow> bill_total list" where
  "bill_totals b items =
     map (\<lambda>k. case cut_at CHR 0x00 k of
          Some (service, currency) \<Rightarrow> \<lparr>bt_service = service, bt_currency = currency, bt_amount = key_total b k items\<rparr>
        | None \<Rightarrow> \<lparr>bt_service = k, bt_currency = [], bt_amount = key_total b k items\<rparr>)
       (sort (remdups (map total_key items)))"

definition buildAlibabaBillingReport ::
    "env \<Rightarrow> nat \<Rightarrow> bill_ext \<Rightarrow> db \<Rightarrow> bill_row list \<Rightarrow> int \<Rightarrow> int list \<Rightarrow> string \<Rightarrow> string list \<Rightarrow> string \<Rightarrow> bill_report option" where
  "buildAlibabaBillingReport e i b d bills ws ids cycle services q =
     (if e_fault e i then None
      else let rows = bill_rows d bills ws ids cycle services q; times = map (\<lambda>x. br_fetched (fst x)) rows
           in Some \<lparr>bp_cycle = cycle, bp_services = services, bp_query = q, bp_totals = bill_totals b (map (\<lambda>x. br_item (fst x)) rows),
                bp_rows = rows, bp_fetched = (if times = [] then None else Some (Max (set times)))\<rparr>)"

definition bill_json :: "bill_ext \<Rightarrow> bill_row \<times> string \<Rightarrow> json" where
  "bill_json b x =
     (let i = br_item (fst x)
      in JObj [(''account_id'', JInt (br_account (fst x))), (''account_name'', JStr (snd x)), (''service'', JStr (bl_service i)),
        (''product_code'', JStr (bl_code i)), (''product_name'', JStr (bl_product i)), (''product_detail'', JStr (bl_detail i)),
        (''instance_id'', JStr (bl_iid i)), (''instance_name'', JStr (bl_iname i)), (''region'', JStr (bl_region i)),
        (''subscription_type'', JStr (bl_type i)), (''currency'', JStr (bl_currency i)), (''pretax_gross_amount'', bx_json b (bl_gross i)),
        (''invoice_discount'', bx_json b (bl_discount i)), (''pretax_amount'', bx_json b (bl_pretax i)),
        (''cash_amount'', bx_json b (bl_cash i)), (''payment_amount'', bx_json b (bl_payment i)), (''fetched_at'', JInt (br_fetched (fst x)))])"

definition report_json :: "bill_ext \<Rightarrow> bill_report \<Rightarrow> json" where
  "report_json b p = JObj ([(''billing_cycle'', JStr (bp_cycle p)), (''services'', JList (map JStr (bp_services p))),
     (''resource_query'', JStr (bp_query p)),
     (''totals'', JList (map (\<lambda>t. JObj [(''service'', JStr (bt_service t)), (''currency'', JStr (bt_currency t)),
        (''amount'', bx_json b (bt_amount t))]) (bp_totals p))),
     (''rows'', JList (map (bill_json b) (bp_rows p)))] @
     (case bp_fetched p of None \<Rightarrow> [] | Some t \<Rightarrow> [(''fetched_at'', JInt t)]) @
     [(''row_count'', JInt (int (length (bp_rows p))))])"

definition billing_report :: "env \<Rightarrow> bill_ext \<Rightarrow> user \<Rightarrow> request \<Rightarrow> db \<Rightarrow> bill_row list \<Rightarrow> resp + bill_report" where
  "billing_report e b u r d bills =
     (case alibabaBillingScope e d u r ''billing.view'' of
        Inl q \<Rightarrow> Inl q
      | Inr (ids, cycle, services) \<Rightarrow>
          (case buildAlibabaBillingReport e 3 b d bills (u_ws u) ids cycle services (trim_space (rq_query r ''resource_query'')) of
             None \<Rightarrow> Inl (dbError DbFailed) | Some p \<Rightarrow> Inr p))"

definition alibabaBillingReport :: "env \<Rightarrow> bill_ext \<Rightarrow> user \<Rightarrow> request \<Rightarrow> db \<Rightarrow> bill_row list \<Rightarrow> resp" where
  "alibabaBillingReport e b u r d bills =
     (case billing_report e b u r d bills of Inl q \<Rightarrow> q | Inr p \<Rightarrow> reply 200 (report_json b p))"

section \<open>Exports\<close>

text \<open>The sheets of the workbook, row by row.\<close>

definition alibabaBillingXLSX :: "bill_report \<Rightarrow> (string \<times> item_cell list list) list" where
  "alibabaBillingXLSX p =
     [(''Billing detail'',
        map TextCell [''Account'', ''Service'', ''Product code'', ''Product'', ''Resource name'', ''Resource ID'', ''Region'',
          ''Billing method'', ''Currency'', ''Gross amount'', ''Discount'', ''Pretax amount'', ''Cash amount'', ''Payment amount''] #
        map (\<lambda>(b, name). let i = br_item b in
          map TextCell [name, to_upper (bl_service i), bl_code i, bl_product i, bl_iname i, bl_iid i, bl_region i, bl_type i, bl_currency i] @
          map AmountCell [bl_gross i, bl_discount i, bl_pretax i, bl_cash i, bl_payment i]) (bp_rows p)),
      (''Summary'',
        [[TextCell ''Alibaba Cloud billing report''], [TextCell ''Billing cycle'', TextCell (bp_cycle p)],
         [TextCell ''Resource filter'', TextCell (bp_query p)], [],
         [TextCell ''Service'', TextCell ''Currency'', TextCell ''Pretax amount'']] @
        map (\<lambda>t. [TextCell (to_upper (bt_service t)), TextCell (bt_currency t), AmountCell (bt_amount t)]) (bp_totals p))]"

text \<open>A cell of the PDF: 32 bytes at most, printable ASCII.\<close>

definition clean :: "string \<Rightarrow> string" where
  "clean s = map (\<lambda>c. case c of Some n \<Rightarrow> if 32 \<le> n \<and> n \<le> 126 then char_of n else CHR ''?'' | None \<Rightarrow> CHR ''?'') (runes s)"

definition pdf_cell :: "string \<Rightarrow> string" where
  "pdf_cell s = clean (if length s > 32 then take 29 s @ ''...'' else s)"

text \<open>The lines above the table and the rows of the table.\<close>

definition alibabaBillingPDF :: "bill_ext \<Rightarrow> bill_report \<Rightarrow> string list \<times> string list list" where
  "alibabaBillingPDF b p =
     ([''Netriun Nexus - Alibaba Cloud billing report'',
       ''Billing cycle: '' @ bp_cycle p @ ''    Services: '' @
         to_upper (concat (case bp_services p of [] \<Rightarrow> [] | s # ss \<Rightarrow> s # map (\<lambda>s. '', '' @ s) ss))] @
      map (\<lambda>t. to_upper (bt_service t) @ '' total: '' @ bx_fixed b 2 (bt_amount t) @ '' '' @ bt_currency t) (bp_totals p),
      [''Account'', ''Service'', ''Product'', ''Resource name'', ''Resource ID'', ''Region'', ''Currency'', ''Pretax''] #
      map (\<lambda>(r, name). let i = br_item r in
        map pdf_cell [name, to_upper (bl_service i), bl_product i, bl_iname i, bl_iid i, bl_region i, bl_currency i, bx_fixed b 4 (bl_pretax i)])
        (bp_rows p))"

definition billingExportName :: "string \<Rightarrow> string \<Rightarrow> string" where
  "billingExportName cycle extension = ''netriun-nexus-alibaba-billing-'' @ cycle @ ''.'' @ extension"

text \<open>An answer, or a document with its content type and file name.\<close>

definition exportAlibabaBilling ::
    "env \<Rightarrow> bill_ext \<Rightarrow> user \<Rightarrow> request \<Rightarrow> db \<Rightarrow> bill_row list \<Rightarrow> resp + string \<times> string \<times> string" where
  "exportAlibabaBilling e b u r d bills =
     (case billing_report e b u r d bills of
        Inl q \<Rightarrow> Inl q
      | Inr p \<Rightarrow>
          let format = to_lower (rq_query r ''format'');
              answer = (\<lambda>kind body. case body of None \<Rightarrow> Inl (problem 500 ''Could not generate billing export'')
                         | Some doc \<Rightarrow> Inr (kind, billingExportName (bp_cycle p) format, doc))
          in if format = ''xlsx''
             then answer ''application/vnd.openxmlformats-officedocument.spreadsheetml.sheet'' (bx_xlsx b (alibabaBillingXLSX p))
             else if format = ''pdf''
             then answer ''application/pdf'' (bx_pdf b (fst (alibabaBillingPDF b p)) (snd (alibabaBillingPDF b p)))
             else Inl (problem 400 ''Export format must be xlsx or pdf''))"

text \<open>The query of an export, encoded key by key.\<close>

definition alibabaBillingExportURL :: "int list \<Rightarrow> string \<Rightarrow> string list \<Rightarrow> string \<Rightarrow> string \<Rightarrow> string" where
  "alibabaBillingExportURL ids cycle services q format =
     join_with CHR ''&'' (map (\<lambda>(k, v). k @ ''='' @ query_escape v)
       [(''account_ids'', join_with CHR '','' (map show_int ids)), (''billing_cycle'', cycle), (''format'', format),
        (''resource_query'', q), (''services'', join_with CHR '','' services)])"

end
