(* ===== verification/BillingProps.thy ===== *)
theory BillingProps
  imports Billing ProviderProps SnapshotProps
begin

text \<open>
  Properties of the bills: a synchronisation replaces exactly the months it fetched, or nothing; the months a
  request may name are the latest eighteen; and the totals of a report add up its rows.
\<close>

section \<open>Replacing months\<close>

text \<open>What the provider bills an account for.\<close>

definition provider_bills :: "env \<Rightarrow> account_ext \<Rightarrow> bill_ext \<Rightarrow> db \<Rightarrow> int \<Rightarrow> string \<Rightarrow> int \<Rightarrow> bill_item list option" where
  "provider_bills e x b d ws cycle acc =
     Option.bind (account_credentials e 3 x d ws acc ''alibaba'')
       (\<lambda>c. Option.bind (bx_client b c) (\<lambda>ask. finished (AlibabaInstanceBills b ask cycle)))"

lemma fetch_bills_Inr:
  "fetch_bills e x b d ws cycle ids = Inr results \<Longrightarrow>
     map fst results = ids \<and> (\<forall>(acc, items) \<in> set results. provider_bills e x b d ws cycle acc = Some items)"
  by (induction ids arbitrary: results) (auto simp: provider_bills_def split: option.splits sum.splits)

lemma fetch_bills_Inl: "fetch_bills e x b d ws cycle ids = Inl q \<Longrightarrow> rs_status q \<noteq> 200"
  by (induction ids) (auto simp: dbError_status split: option.splits sum.splits if_splits)

lemma replace_bills_Some:
  assumes "replace_bills e b d ws cycle (acc, items) bills = Some bills'"
  shows "\<exists>stored. those (map (stored_item b) items) = Some stored \<and>
    bills' = filter (\<lambda>x. \<not> in_cycle ws acc cycle x) bills @ map (to_row ws acc cycle (e_now e)) stored"
  using assms by (auto simp: replace_bills_def Let_def split: if_splits option.splits)

lemma row_in_cycle [simp]: "in_cycle ws acc cycle (to_row ws acc' cycle t i) \<longleftrightarrow> acc' = acc"
  by (simp add: in_cycle_def to_row_def)

text \<open>The rows of the fetched months.\<close>

definition fetched_month :: "int \<Rightarrow> int set \<Rightarrow> string \<Rightarrow> bill_row \<Rightarrow> bool" where
  "fetched_month ws accs cycle x \<longleftrightarrow> (\<exists>acc \<in> accs. in_cycle ws acc cycle x)"

lemma replace_all_Some:
  assumes "replace_all e b d ws cycle results bills = Some bills'" and "distinct (map fst results)"
  shows "(\<forall>(acc, items) \<in> set results. \<exists>stored. those (map (stored_item b) items) = Some stored \<and>
      filter (in_cycle ws acc cycle) bills' = map (to_row ws acc cycle (e_now e)) stored) \<and>
    filter (\<lambda>x. \<not> fetched_month ws (fst ` set results) cycle x) bills' =
      filter (\<lambda>x. \<not> fetched_month ws (fst ` set results) cycle x) bills \<and>
    (\<forall>acc. acc \<notin> fst ` set results \<longrightarrow> filter (in_cycle ws acc cycle) bills' = filter (in_cycle ws acc cycle) bills)"
  using assms
proof (induction results arbitrary: bills)
  case (Cons q qs)
  obtain acc items where q: "q = (acc, items)" by (cases q)
  from Cons.prems(1) obtain bills1 where one: "replace_bills e b d ws cycle (acc, items) bills = Some bills1"
    and rest: "replace_all e b d ws cycle qs bills1 = Some bills'" by (auto simp: q bind_eq_Some_conv)
  from replace_bills_Some [OF one] obtain stored where stored: "those (map (stored_item b) items) = Some stored"
    and bills1: "bills1 = filter (\<lambda>x. \<not> in_cycle ws acc cycle x) bills @ map (to_row ws acc cycle (e_now e)) stored" by blast
  have new: "acc \<notin> fst ` set qs" and dist: "distinct (map fst qs)" using Cons.prems(2) q by auto
  note IH = Cons.IH [OF rest dist]
  have mine: "filter (in_cycle ws acc cycle) bills' = map (to_row ws acc cycle (e_now e)) stored"
    using IH new unfolding bills1 by (auto simp: comp_def filter_empty_conv)
  have other: "filter (in_cycle ws acc' cycle) bills1 = filter (in_cycle ws acc' cycle) bills" if "acc' \<noteq> acc" for acc'
  proof -
    have "filter (\<lambda>x. \<not> in_cycle ws acc cycle x \<and> in_cycle ws acc' cycle x) bills = filter (in_cycle ws acc' cycle) bills"
      using that by (intro filter_cong) (auto simp: in_cycle_def)
    then show ?thesis unfolding bills1 using that by (simp add: comp_def)
  qed
  have "filter (\<lambda>x. \<not> fetched_month ws (fst ` set (q # qs)) cycle x) bills' =
      filter (\<lambda>x. \<not> in_cycle ws acc cycle x) (filter (\<lambda>x. \<not> fetched_month ws (fst ` set qs) cycle x) bills')"
    by (simp add: q fetched_month_def conj_commute)
  also have "\<dots> = filter (\<lambda>x. \<not> in_cycle ws acc cycle x) (filter (\<lambda>x. \<not> fetched_month ws (fst ` set qs) cycle x) bills1)"
    using IH by simp
  also have "\<dots> = filter (\<lambda>x. \<not> fetched_month ws (fst ` set (q # qs)) cycle x) bills"
    unfolding bills1 by (auto simp: q fetched_month_def comp_def conj_ac intro: filter_cong)
  finally show ?case using IH mine other stored new q by auto
qed simp

lemma counted_ids_distinct:
  assumes "distinct (map ac_id (d_accounts d))"
    and "length (filter (\<lambda>a. P a \<and> ac_id a \<in> set ids) (d_accounts d)) = length ids"
  shows "distinct ids"
proof -
  let ?rows = "filter (\<lambda>a. P a \<and> ac_id a \<in> set ids) (d_accounts d)"
  have "distinct (map ac_id ?rows)" using assms(1) by (rule distinct_map_filter)
  then have "length ids = card (set (map ac_id ?rows))" using assms(2) by (metis distinct_card length_map)
  also have "\<dots> \<le> card (set ids)" by (intro card_mono) auto
  finally show ?thesis using card_length [of ids] by (intro card_distinct) simp
qed

lemma scope_Inr:
  assumes "alibabaBillingScope e d u r cap = Inr (ids, cycle, services)" and "distinct (map ac_id (d_accounts d))"
  shows "distinct ids \<and> ids \<noteq> [] \<and> validBillingCycle (e_now e) cycle"
  using assms(1) counted_ids_distinct [OF assms(2), of "\<lambda>a. ac_ws a = u_ws u \<and> ac_provider a = ''alibaba''" ids]
  unfolding alibabaBillingScope_def Let_def
  by (auto simp: conj_ac split: option.splits sum.splits if_splits)

lemma scope_Inl:
  assumes "alibabaBillingScope e d u r cap = Inl q"
  shows "rs_status q \<noteq> 200"
proof -
  have "rs_status p \<noteq> 200" if "requestedAccountIDs e i d u r allowed = Inl p" for i allowed p
    using that unfolding requestedAccountIDs_def Let_def
    by (auto simp: dbError_status dest!: selectAccounts_status split: if_splits sum.splits)
  then show ?thesis using assms unfolding alibabaBillingScope_def Let_def
    by (auto simp: dbError_status split: option.splits sum.splits if_splits)
qed

text \<open>C31: a synchronisation of bills is all or nothing.  Answered 200, it has replaced, for each of the at most ten
  selected accounts, the rows of that month by exactly what the provider bills the account for in it, and
  touched no other row; answered anything else, it has changed no row at all.\<close>

theorem billing_sync_replaces:
  assumes "syncAlibabaBilling e x b u r w bills = (q, w', bills')" and "distinct (map ac_id (d_accounts (w_db w)))"
  shows "(rs_status q \<noteq> 200 \<and> bills' = bills \<and> w' = w) \<or>
    (rs_status q = 200 \<and> (\<exists>ids cycle services. alibabaBillingScope e (w_db w) u r ''billing.sync'' = Inr (ids, cycle, services) \<and>
      ids \<noteq> [] \<and> distinct ids \<and> length ids \<le> 10 \<and>
      (\<forall>acc \<in> set ids. \<exists>items stored. provider_bills e x b (w_db w) (u_ws u) cycle acc = Some items \<and>
         those (map (stored_item b) items) = Some stored \<and>
         filter (in_cycle (u_ws u) acc cycle) bills' = map (to_row (u_ws u) acc cycle (e_now e)) stored) \<and>
      filter (\<lambda>x. \<not> fetched_month (u_ws u) (set ids) cycle x) bills' = filter (\<lambda>x. \<not> fetched_month (u_ws u) (set ids) cycle x) bills))"
proof (cases "alibabaBillingScope e (w_db w) u r ''billing.sync''")
  case (Inl p)
  then show ?thesis using assms(1) scope_Inl [OF Inl] by (simp add: syncAlibabaBilling_def)
next
  case (Inr p)
  obtain ids cycle services where p: "p = (ids, cycle, services)" by (cases p)
  note scope = Inr [unfolded p]
  have ids: "distinct ids" "ids \<noteq> []" using scope_Inr [OF scope assms(2)] by auto
  show ?thesis
  proof (cases "rs_status q = 200")
    case False
    then show ?thesis using assms(1) fetch_bills_Inl
      by (auto simp: syncAlibabaBilling_def scope Let_def dbError_status split: if_splits sum.splits option.splits)
  next
    case True
    then obtain results where few: "length ids \<le> 10" and fetched: "fetch_bills e x b (w_db w) (u_ws u) cycle ids = Inr results"
      and stored: "replace_all e b (w_db w) (u_ws u) cycle results bills = Some bills'"
      using assms(1) fetch_bills_Inl
      by (auto simp: syncAlibabaBilling_def scope Let_def dbError_status split: if_splits sum.splits option.splits)
    from fetch_bills_Inr [OF fetched] have names: "map fst results = ids"
      and bills: "\<forall>(acc, items) \<in> set results. provider_bills e x b (w_db w) (u_ws u) cycle acc = Some items" by blast+
    have set: "fst ` set results = set ids" using names by (metis list.set_map)
    note replaced = replace_all_Some [OF stored] names ids(1) set
    have each: "\<exists>items stored. provider_bills e x b (w_db w) (u_ws u) cycle acc = Some items \<and>
         those (map (stored_item b) items) = Some stored \<and>
         filter (in_cycle (u_ws u) acc cycle) bills' = map (to_row (u_ws u) acc cycle (e_now e)) stored" if acc: "acc \<in> set ids" for acc
    proof -
      from acc have "acc \<in> fst ` set results" by (simp add: set)
      then obtain items where "(acc, items) \<in> set results" by auto
      then show ?thesis using replaced bills by fastforce
    qed
    have rest: "filter (\<lambda>x. \<not> fetched_month (u_ws u) (set ids) cycle x) bills' = filter (\<lambda>x. \<not> fetched_month (u_ws u) (set ids) cycle x) bills"
      using replaced by (simp add: set)
    show ?thesis
      by (intro disjI2 conjI exI [of _ ids] exI [of _ cycle] exI [of _ services] ballI)
         (fact True scope ids(2) ids(1) few rest | erule each)+
  qed
qed

definition one_bill :: json where
  "one_bill = JObj [(''ProductCode'', JStr ''ecs''), (''ProductName'', JStr ''ECS''), (''ProductDetail'', JStr ''server''),
     (''InstanceID'', JStr ''i-1''), (''NickName'', JStr ''web''), (''Region'', JStr ''us''), (''SubscriptionType'', JStr ''PayAsYouGo''),
     (''Currency'', JStr ''USD''), (''PretaxGrossAmount'', JInt 9), (''InvoiceDiscount'', JInt 2), (''PretaxAmount'', JInt 7),
     (''CashAmount'', JInt 7), (''PaymentAmount'', JInt 7)]"

definition demo_bills :: bill_ext where
  "demo_bills = \<lparr>bx_client = (\<lambda>c. Some (\<lambda>n a ps. Some (JObj [(''Data'', JObj [(''Items'', JList [one_bill])])]))),
     bx_amount = (\<lambda>j. case j of JInt i \<Rightarrow> i | _ \<Rightarrow> 0), bx_add = (+), bx_numeric = Some, bx_json = JInt,
     bx_fixed = (\<lambda>n a. show_int a), bx_xlsx = (\<lambda>sheets. Some ''PK''), bx_pdf = (\<lambda>ls rs. Some ''%PDF'')\<rparr>"

abbreviation march_end :: env where
  "march_end \<equiv> site ''a'' 1774915200"

definition billed_db :: db where
  "billed_db = team_db\<lparr>d_accounts := [demo_account 5 ''alibaba'' (Some 3)]\<rparr>"

text \<open>What the table held before: a row of the month that is fetched and one of the month before.\<close>

definition old_bills :: "bill_row list" where
  "old_bills = [to_row 1 5 ''2026-03'' 0 (to_bill demo_bills JNull), to_row 1 5 ''2026-02'' 0 (to_bill demo_bills JNull)]"

lemma one_page: "finished (AlibabaInstanceBills demo_bills (\<lambda>n a ps. Some (JObj [(''Data'', JObj [(''Items'', JList [one_bill])])])) cycle) =
    Some [to_bill demo_bills one_bill]"
proof -
  have "bills_step demo_bills (\<lambda>n a ps. Some (JObj [(''Data'', JObj [(''Items'', JList [one_bill])])])) cycle 0 [] =
      Some ([to_bill demo_bills one_bill], [])"
    by (simp add: bills_step_def field_def text_of_def elements_def one_bill_def)
  then show ?thesis unfolding AlibabaInstanceBills_def by (subst read_pages.simps) (simp add: finished_def)
qed

lemma march_synced:
  "syncAlibabaBilling march_end open_accounts demo_bills demo_admin blank_request (world_of billed_db) old_bills =
     (q, w', bills') \<Longrightarrow> rs_status q = 200"
proof -
  have scope: "alibabaBillingScope march_end billed_db demo_admin blank_request ''billing.sync'' = Inr ([5], ''2026-03'', [''ecs'', ''eds''])"
    by code_simp
  have "account_credentials march_end 3 open_accounts billed_db 1 5 ''alibaba'' = Some demo_keys"
    by (simp add: account_credentials_def billed_db_def demo_account_def open_accounts_def)
  then have fetched: "fetch_bills march_end open_accounts demo_bills billed_db 1 ''2026-03'' [5] = Inr [(5, [to_bill demo_bills one_bill])]"
    using one_page by (simp add: demo_bills_def)
  have "replace_all march_end demo_bills billed_db 1 ''2026-03'' [(5, [to_bill demo_bills one_bill])] old_bills \<noteq> None"
    by code_simp
  then show "syncAlibabaBilling march_end open_accounts demo_bills demo_admin blank_request (world_of billed_db) old_bills =
     (q, w', bills') \<Longrightarrow> rs_status q = 200"
    using scope fetched by (auto simp: syncAlibabaBilling_def world_of_def demo_admin_def demo_user_def)
qed

lemma billing_sync_replaces_witness:
  "\<exists>q w' bills'. syncAlibabaBilling march_end open_accounts demo_bills demo_admin blank_request (world_of billed_db) old_bills =
     (q, w', bills') \<and> rs_status q = 200 \<and>
     (\<exists>ids. ids \<noteq> [] \<and> filter (\<lambda>x. \<not> fetched_month 1 (set ids) ''2026-03'' x) bills' =
        filter (\<lambda>x. \<not> fetched_month 1 (set ids) ''2026-03'' x) old_bills)"
proof -
  obtain q w' bills' where run: "syncAlibabaBilling march_end open_accounts demo_bills demo_admin blank_request (world_of billed_db) old_bills =
      (q, w', bills')" by (metis prod_cases3)
  have scope: "alibabaBillingScope march_end (w_db (world_of billed_db)) demo_admin blank_request ''billing.sync'' = Inr ([5], ''2026-03'', [''ecs'', ''eds''])"
    by code_simp
  have "distinct (map ac_id (d_accounts (w_db (world_of billed_db))))" by code_simp
  from billing_sync_replaces [OF run this] march_synced [OF run]
  have "filter (\<lambda>x. \<not> fetched_month (u_ws demo_admin) (set [5]) ''2026-03'' x) bills' =
      filter (\<lambda>x. \<not> fetched_month (u_ws demo_admin) (set [5]) ''2026-03'' x) old_bills"
    unfolding scope by auto
  then have "filter (\<lambda>x. \<not> fetched_month 1 (set [5]) ''2026-03'' x) bills' = filter (\<lambda>x. \<not> fetched_month 1 (set [5]) ''2026-03'' x) old_bills"
    by (simp add: demo_admin_def demo_user_def)
  then show ?thesis using run march_synced [OF run] by (intro exI conjI) (assumption | rule not_Cons_self2 | fact)+
qed

section \<open>The latest eighteen months\<close>

definition months_ago :: "nat \<Rightarrow> int \<times> int \<Rightarrow> int \<times> int" where
  "months_ago k ym = (let i = month_index ym - int k in (i div 12, i mod 12 + 1))"

lemma show_small: "n < 10 \<Longrightarrow> show_nat n = [digit_char n]"
  by (subst show_nat.simps) simp

lemma show_step: "10 \<le> n \<Longrightarrow> show_nat n = show_nat (n div 10) @ [digit_char (n mod 10)]"
  by (subst show_nat.simps) simp

lemma zeros_short: "length s = 1 \<Longrightarrow> zeros 4 s = ''000'' @ s" "length s = 2 \<Longrightarrow> zeros 4 s = ''00'' @ s"
    "length s = 3 \<Longrightarrow> zeros 4 s = ''0'' @ s" "length s = 4 \<Longrightarrow> zeros 4 s = s"
    "length s = 1 \<Longrightarrow> zeros 2 s = ''0'' @ s" "length s = 2 \<Longrightarrow> zeros 2 s = s"
  by (simp_all add: zeros_def eval_nat_numeral)

lemma show_two: "10 \<le> n \<Longrightarrow> n < 100 \<Longrightarrow> show_nat n = [digit_char (n div 10), digit_char (n mod 10)]"
  by (simp add: show_step show_small)

lemma show_three: "100 \<le> n \<Longrightarrow> n < 1000 \<Longrightarrow> show_nat n = [digit_char (n div 100), digit_char (n div 10 mod 10), digit_char (n mod 10)]"
  by (subst show_step) (simp_all add: show_two div_mult2_eq [symmetric])

lemma show_four:
  "1000 \<le> n \<Longrightarrow> n < 10000 \<Longrightarrow>
     show_nat n = [digit_char (n div 1000), digit_char (n div 100 mod 10), digit_char (n div 10 mod 10), digit_char (n mod 10)]"
  by (subst show_step) (simp_all add: show_three div_mult2_eq [symmetric])

lemma digit_zero: "digit_char 0 = CHR ''0''"
  by code_simp

lemma zeros_four:
  assumes "n < 10000"
  shows "zeros 4 (show_nat n) = [digit_char (n div 1000), digit_char (n div 100 mod 10), digit_char (n div 10 mod 10), digit_char (n mod 10)]"
proof -
  consider "n < 10" | "10 \<le> n" "n < 100" | "100 \<le> n" "n < 1000" | "1000 \<le> n" using assms by linarith
  then show ?thesis
  proof cases
    case 1
    then show ?thesis by (simp add: show_small zeros_short digit_zero)
  next
    case 2
    then show ?thesis by (simp add: show_two zeros_short digit_zero)
  next
    case 3
    then show ?thesis by (simp add: show_three zeros_short digit_zero)
  next
    case 4
    then show ?thesis using assms by (simp add: show_four zeros_short)
  qed
qed

lemma zeros_two: "n < 100 \<Longrightarrow> zeros 2 (show_nat n) = [digit_char (n div 10), digit_char (n mod 10)]"
  by (cases "n < 10") (simp_all add: show_small show_two zeros_short digit_zero)

lemma length_four: "length s = 4 \<Longrightarrow> \<exists>a b c d. s = [a, b, c, d]"
  by (auto simp: eval_nat_numeral length_Suc_conv)

lemma pattern_iff:
  "billingCyclePattern s \<longleftrightarrow> (\<exists>a b c d g h. s = [a, b, c, d, CHR ''-'', g, h] \<and> is_digit a \<and> is_digit b \<and> is_digit c \<and> is_digit d \<and>
     (g = CHR ''0'' \<and> is_digit h \<and> h \<noteq> CHR ''0'' \<or> g = CHR ''1'' \<and> h \<in> set ''012''))"
proof -
  have "length s = 7" if "billingCyclePattern s"
    using that unfolding billingCyclePattern_def lit_def by (auto dest!: match_seq_length)
  moreover have "\<exists>a b c d f g h. s = [a, b, c, d, f, g, h]" if "length s = 7"
    using that by (auto simp: eval_nat_numeral length_Suc_conv)
  moreover have "billingCyclePattern [a, b, c, d, f, g, h] \<longleftrightarrow> is_digit a \<and> is_digit b \<and> is_digit c \<and> is_digit d \<and> f = CHR ''-'' \<and>
     (g = CHR ''0'' \<and> is_digit h \<and> h \<noteq> CHR ''0'' \<or> g = CHR ''1'' \<and> h \<in> set ''012'')" for a b c d f g h
    unfolding billingCyclePattern_def lit_def by (auto simp: eval_nat_numeral)
  ultimately show ?thesis by metis
qed

lemma read_zeros [simp]: "read_nat (zeros k s) = read_nat s"
proof -
  have "foldl (\<lambda>n c. 10 * n + digit_val c) 0 (replicate m CHR ''0'') = 0" for m
    by (induction m) (simp_all add: digit_val_def)
  then show ?thesis by (simp add: read_nat_def zeros_def)
qed

lemma digit_chars: "is_digit c \<Longrightarrow> digit_val c < 10 \<and> digit_char (digit_val c) = c"
  by (auto simp: is_digit_def digit_val_def digit_char_def Let_def)

lemma digits_two:
  assumes "is_digit g" and "is_digit h"
  shows "zeros 2 (show_nat (read_nat [g, h])) = [g, h]"
proof -
  have "read_nat [g, h] = 10 * digit_val g + digit_val h" by (simp add: read_nat_def)
  then show ?thesis using digit_chars [OF assms(1)] digit_chars [OF assms(2)] by (simp add: zeros_two)
qed

lemma last_digit: "d < 10 \<Longrightarrow> (d + 10 * n) mod 10 = (d :: nat) \<and> (d + 10 * n) div 10 = n"
  by simp

lemma next_place: "(d :: nat) < 10 \<Longrightarrow> n < k \<Longrightarrow> d + 10 * n < 10 * k"
  by linarith

lemma four_places: "(d :: nat) < 10 \<Longrightarrow> c < 10 \<Longrightarrow> b < 10 \<Longrightarrow> a < 10 \<Longrightarrow> d + 10 * (c + 10 * (b + 10 * a)) < 10000"
  using next_place [of d "c + 10 * (b + 10 * a)" 1000] next_place [of c "b + 10 * a" 100] next_place [of b a 10] by simp

lemma digits_four:
  assumes "is_digit a" "is_digit b" "is_digit c" "is_digit d"
  shows "zeros 4 (show_nat (read_nat [a, b, c, d])) = [a, b, c, d]"
proof -
  note v = digit_chars [OF assms(1)] digit_chars [OF assms(2)] digit_chars [OF assms(3)] digit_chars [OF assms(4)]
  define n where "n = digit_val d + 10 * (digit_val c + 10 * (digit_val b + 10 * digit_val a))"
  have parts: "n mod 10 = digit_val d" "n div 10 = digit_val c + 10 * (digit_val b + 10 * digit_val a)"
    unfolding n_def using last_digit v by blast+
  have "n div 10 mod 10 = digit_val c" "n div 10 div 10 = digit_val b + 10 * digit_val a"
    "n div 10 div 10 mod 10 = digit_val b" "n div 10 div 10 div 10 = digit_val a"
    unfolding parts(2) using last_digit [of "digit_val c" "digit_val b + 10 * digit_val a"] last_digit [of "digit_val b" "digit_val a"] v
    by simp_all
  moreover have "n div 100 = n div 10 div 10" "n div 1000 = n div 10 div 10 div 10" by (simp_all add: div_mult2_eq [symmetric])
  moreover have "n < 10000" unfolding n_def using v by (intro four_places) blast+
  moreover have "read_nat [a, b, c, d] = n" by (simp add: read_nat_def n_def)
  ultimately show ?thesis using v parts(1) by (simp add: zeros_four)
qed

lemma digit_one_two: "digit_char (Suc 0) = CHR ''1''" "digit_char 2 = CHR ''2''"
  by code_simp+

lemma two_digit_month:
  assumes "1 \<le> k" and "k \<le> 12"
  shows "\<exists>g h. zeros 2 (show_nat k) = [g, h] \<and> (g = CHR ''0'' \<and> is_digit h \<and> h \<noteq> CHR ''0'' \<or> g = CHR ''1'' \<and> h \<in> set ''012'')"
proof (cases "k < 10")
  case True
  have "digit_char k \<noteq> CHR ''0''" using digit_val_digit [OF True] digit_val_digit [of 0] digit_zero assms(1) by force
  then show ?thesis using True by (simp add: zeros_two digit_zero)
next
  case False
  then have "k = 10 \<or> k = 11 \<or> k = 12" using assms(2) by auto
  then show ?thesis by (auto simp: zeros_two digit_zero digit_one_two)
qed

lemma digit_values: "digit_val CHR ''0'' = 0" "digit_val CHR ''1'' = 1" "digit_val CHR ''2'' = 2"
  by code_simp+

lemma month_text:
  assumes "billingCyclePattern s"
  obtains y m where "s = show_month (int y, int m)" "1 \<le> m" "m \<le> 12" "read_nat (take 4 s) = y" "read_nat (drop 5 s) = m"
proof -
  from assms [unfolded pattern_iff] obtain a b c d g h where s: "s = [a, b, c, d, CHR ''-'', g, h]"
    and ds: "is_digit a" "is_digit b" "is_digit c" "is_digit d"
    and month: "g = CHR ''0'' \<and> is_digit h \<and> h \<noteq> CHR ''0'' \<or> g = CHR ''1'' \<and> h \<in> set ''012''" by blast
  have gh: "is_digit g" "is_digit h" using month by (auto simp: is_digit_def)
  have num: "read_nat [g, h] = 10 * digit_val g + digit_val h" by (simp add: read_nat_def)
  have h: "digit_val h = 0 \<Longrightarrow> h = CHR ''0''" using digit_chars [OF gh(2)] digit_zero by auto
  have "1 \<le> read_nat [g, h] \<and> read_nat [g, h] \<le> 12"
    using month h digit_chars [OF gh(2)] digit_values unfolding num by (auto simp: Suc_le_eq)
  then show ?thesis
    using that [of "read_nat [a, b, c, d]" "read_nat [g, h]"] digits_four [OF ds] digits_two [OF gh]
    by (simp add: s show_month_def show_int_def)
qed

lemma month_shown:
  assumes "0 \<le> y" "y < 10000" "1 \<le> m" "m \<le> 12" and s: "s = show_month (y, m)"
  shows "billingCyclePattern s \<and> int (read_nat (take 4 s)) = y \<and> int (read_nat (drop 5 s)) = m"
proof -
  define n where "n = nat y"
  define k where "k = nat m"
  have n: "y = int n" "n < 10000" and k: "m = int k" "1 \<le> k" "k \<le> 12" using assms by (auto simp: n_def k_def)
  have layout: "s = zeros 4 (show_nat n) @ CHR ''-'' # zeros 2 (show_nat k)" by (simp add: s show_month_def show_int_def n k)
  have four: "length (zeros 4 (show_nat n)) = 4" using zeros_four [OF n(2)] by simp
  then have parts: "take 4 s = zeros 4 (show_nat n)" "drop 5 s = zeros 2 (show_nat k)" unfolding layout by simp_all
  from two_digit_month [OF k(2,3)] obtain g h where gh: "zeros 2 (show_nat k) = [g, h]"
    "g = CHR ''0'' \<and> is_digit h \<and> h \<noteq> CHR ''0'' \<or> g = CHR ''1'' \<and> h \<in> set ''012''" by blast
  have "n div 1000 < 10" using n(2) by simp
  then have "billingCyclePattern s" unfolding pattern_iff layout zeros_four [OF n(2)] gh(1) using gh(2) by simp
  then show ?thesis using parts n k by simp
qed

lemma valid_cycle_iff:
  assumes "civil now = (y, m, d)" and "2 \<le> y" "y < 10000" "1 \<le> m" "m \<le> 12"
  shows "validBillingCycle now s \<longleftrightarrow> (\<exists>k \<le> 17. s = show_month (months_ago k (y, m)))"
proof
  assume valid: "validBillingCycle now s"
  then have "billingCyclePattern s" by (simp add: validBillingCycle_def)
  from month_text [OF this] obtain y' m' where s: "s = show_month (int y', int m')" "1 \<le> m'" "m' \<le> 12"
    "read_nat (take 4 s) = y'" "read_nat (drop 5 s) = m'" by blast
  define i where "i = month_index (int y', int m')"
  have i: "i \<le> month_index (y, m)" "month_index (y, m) - 17 \<le> i"
    using valid assms(1) by (simp_all add: validBillingCycle_def Let_def s(4,5) i_def)
  have "i div 12 = int y'" "i mod 12 + 1 = int m'" using s(2,3) by (simp_all add: i_def month_index_def)
  moreover have "month_index (y, m) - int (nat (month_index (y, m) - i)) = i" using i(1) by simp
  ultimately have "months_ago (nat (month_index (y, m) - i)) (y, m) = (int y', int m')" by (simp add: months_ago_def)
  moreover have "nat (month_index (y, m) - i) \<le> 17" using i(2) by simp
  ultimately show "\<exists>k \<le> 17. s = show_month (months_ago k (y, m))" using s(1) by metis
next
  assume "\<exists>k \<le> 17. s = show_month (months_ago k (y, m))"
  then obtain k where k: "k \<le> 17" "s = show_month (months_ago k (y, m))" by blast
  define i where "i = month_index (y, m) - int k"
  have pos: "0 \<le> i" "i < 120000" using assms(2-5) k(1) by (simp_all add: i_def month_index_def)
  have s: "s = show_month (i div 12, i mod 12 + 1)" using k(2) by (simp add: months_ago_def Let_def i_def)
  from month_shown [OF _ _ _ _ s] pos have "billingCyclePattern s" "int (read_nat (take 4 s)) = i div 12" "int (read_nat (drop 5 s)) = i mod 12 + 1"
    by auto
  moreover have "month_index (i div 12, i mod 12 + 1) = i" by (simp add: month_index_def)
  ultimately show "validBillingCycle now s" using assms(1) k(1) by (simp add: validBillingCycle_def Let_def i_def)
qed

text \<open>The day is one of the month before.\<close>

definition day_before :: "int \<times> int \<times> int \<Rightarrow> bool" where
  "day_before ymd = (case ymd of (y, m, d) \<Rightarrow> d \<le> month_days (fst (months_ago 1 (y, m))) (snd (months_ago 1 (y, m))))"

lemma a_month_before_ago:
  assumes "1 \<le> m" "m \<le> 12"
  shows "a_month_before (y, m, d) = months_ago (if day_before (y, m, d) then 1 else 0) (y, m)"
proof -
  have "months_ago 0 (y, m) = (y, m)" using assms by (simp add: months_ago_def month_index_def)
  moreover have "months_ago 1 (y, m) = (if m = 1 then (y - 1, 12) else (y, m - 1))"
  proof (cases "m = 1")
    case True
    have "(12 * y - 1) div 12 = y - 1 \<and> (12 * y - 1) mod 12 = 11" by presburger
    then show ?thesis using True by (simp add: months_ago_def month_index_def)
  next
    case False
    then have "(12 * y + (m - 1) - 1) div 12 = y \<and> (12 * y + (m - 1) - 1) mod 12 = m - 2" using assms by presburger
    then show ?thesis using False by (simp add: months_ago_def month_index_def Let_def)
  qed
  ultimately show ?thesis by (auto simp: a_month_before_def day_before_def)
qed

text \<open>The months a request may name are the current one and the seventeen before it, each in its one form of four
  and two digits.  Without a month the request is for the one before, or, on a day that the month before does
  not have, for the current one; either is accepted.\<close>

theorem billing_window:
  assumes "civil now = (y, m, d)" and "2 \<le> y" "y < 10000" "1 \<le> m" "m \<le> 12"
  shows "(\<forall>s. validBillingCycle now s \<longleftrightarrow> (\<exists>k \<le> 17. s = show_month (months_ago k (y, m)))) \<and>
    defaultBillingCycle now = show_month (months_ago (if day_before (y, m, d) then 1 else 0) (y, m)) \<and>
    validBillingCycle now (defaultBillingCycle now)"
proof -
  note valid = valid_cycle_iff [OF assms]
  have chosen: "defaultBillingCycle now = show_month (months_ago (if day_before (y, m, d) then 1 else 0) (y, m))"
    using a_month_before_ago [OF assms(4,5)] by (simp add: defaultBillingCycle_def assms(1))
  moreover have "(if day_before (y, m, d) then 1 else 0) \<le> (17 :: nat)" by simp
  ultimately show ?thesis using valid by blast
qed

text \<open>On the 31st of March the month of a request without one is March, not February.\<close>

lemma billing_window_witness:
  "validBillingCycle 1774915200 ''2024-10'' \<and>
   defaultBillingCycle 1774915200 = ''2026-03''"
proof -
  have civil: "civil 1774915200 = (2026, 3, 31)" by code_simp
  have old: "''2024-10'' = show_month (months_ago 17 (2026, 3))" by code_simp
  have "show_month (months_ago (if day_before (2026, 3, 31) then 1 else 0) (2026, 3)) = ''2026-03''" by code_simp
  then show ?thesis using billing_window [OF civil] old by auto
qed

section \<open>Totals\<close>

lemma pick_services_sound:
  "pick_services rs acc = Some ss \<Longrightarrow> set acc \<subseteq> set billing_services \<Longrightarrow> set ss \<subseteq> set billing_services"
  by (induction rs arbitrary: acc) (auto simp: Let_def split: if_splits)

lemma requested_services_known: "requestedBillingServices r = Some ss \<Longrightarrow> set ss \<subseteq> set billing_services"
  using pick_services_sound [of _ "[]"]
  by (auto simp: requestedBillingServices_def Let_def billing_services_def split: if_splits option.splits)

lemma scope_services:
  "alibabaBillingScope e d u r cap = Inr (ids, cycle, services) \<Longrightarrow> set services \<subseteq> set billing_services"
  unfolding alibabaBillingScope_def Let_def
  by (auto dest: requested_services_known split: option.splits sum.splits if_splits)

lemma service_no_nul: "s \<in> set billing_services \<Longrightarrow> CHR 0x00 \<notin> set s"
  by (auto simp: billing_services_def)

lemma total_key_eq:
  assumes "bl_service i \<in> set billing_services" and "bl_service j \<in> set billing_services"
  shows "total_key i = total_key j \<longleftrightarrow> bl_service i = bl_service j \<and> bl_currency i = bl_currency j"
  using cut_eq [OF service_no_nul [OF assms(1)] service_no_nul [OF assms(2)]] by (auto simp: total_key_def)

text \<open>The items of a service in a currency.\<close>

definition items_of :: "string \<Rightarrow> string \<Rightarrow> bill_item list \<Rightarrow> bill_item list" where
  "items_of s c = filter (\<lambda>i. bl_service i = s \<and> bl_currency i = c)"

lemma bill_totals_exact:
  assumes "\<forall>i \<in> set items. bl_service i \<in> set billing_services"
  shows "distinct (map (\<lambda>t. (bt_service t, bt_currency t)) (bill_totals b items)) \<and>
    (\<lambda>t. (bt_service t, bt_currency t)) ` set (bill_totals b items) = (\<lambda>i. (bl_service i, bl_currency i)) ` set items \<and>
    (\<forall>t \<in> set (bill_totals b items). bt_amount t = foldl (bx_add b) 0 (map bl_pretax (items_of (bt_service t) (bt_currency t) items)))"
proof -
  define ks where "ks = sort (remdups (map total_key items))"
  define row where "row k = (case cut_at CHR 0x00 k of
          Some (service, currency) \<Rightarrow> \<lparr>bt_service = service, bt_currency = currency, bt_amount = key_total b k items\<rparr>
        | None \<Rightarrow> \<lparr>bt_service = k, bt_currency = [], bt_amount = key_total b k items\<rparr>)" for k
  have totals: "bill_totals b items = map row ks" by (simp add: bill_totals_def ks_def row_def [abs_def])
  have keys: "distinct ks" "set ks = total_key ` set items" by (simp_all add: ks_def)
  have row: "row (total_key i) = \<lparr>bt_service = bl_service i, bt_currency = bl_currency i, bt_amount = key_total b (total_key i) items\<rparr>"
    if "i \<in> set items" for i
    using cut_at_append [OF service_no_nul] assms that by (simp add: row_def total_key_def)
  have amount: "key_total b (total_key i) items = foldl (bx_add b) 0 (map bl_pretax (items_of (bl_service i) (bl_currency i) items))"
    if "i \<in> set items" for i
  proof -
    have "filter (\<lambda>j. total_key j = total_key i) items = items_of (bl_service i) (bl_currency i) items"
      unfolding items_of_def using total_key_eq assms that by (intro filter_cong) auto
    then show ?thesis by (simp add: key_total_def)
  qed
  have "inj_on (\<lambda>k. (bt_service (row k), bt_currency (row k))) (set ks)"
    unfolding keys(2) by (auto intro!: inj_onI simp: row) (simp add: total_key_def)
  then have "distinct (map (\<lambda>t. (bt_service t, bt_currency t)) (bill_totals b items))"
    using keys(1) by (simp add: totals distinct_map comp_def)
  moreover have "(\<lambda>t. (bt_service t, bt_currency t)) ` set (bill_totals b items) = (\<lambda>i. (bl_service i, bl_currency i)) ` set items"
    using row by (force simp: totals keys(2) image_image)
  moreover have "\<forall>t \<in> set (bill_totals b items). bt_amount t = foldl (bx_add b) 0 (map bl_pretax (items_of (bt_service t) (bt_currency t) items))"
    using row amount by (auto simp: totals keys(2))
  ultimately show ?thesis by blast
qed

lemma bill_rows_services: "x \<in> set (bill_rows d bills ws ids cycle services q) \<Longrightarrow> bl_service (br_item (fst x)) \<in> set services"
  by (auto simp: bill_rows_def split: option.splits)

text \<open>C32: the totals of a report are those of its rows: one for every service and currency that has a row and no
  other, each the sum of the pretax amounts of exactly these rows.\<close>

theorem billing_totals_exact:
  assumes "billing_report e b u r d bills = Inr p"
  shows "distinct (map (\<lambda>t. (bt_service t, bt_currency t)) (bp_totals p)) \<and>
    (\<lambda>t. (bt_service t, bt_currency t)) ` set (bp_totals p) =
      (\<lambda>x. (bl_service (br_item (fst x)), bl_currency (br_item (fst x)))) ` set (bp_rows p) \<and>
    (\<forall>t \<in> set (bp_totals p). bt_amount t =
      foldl (bx_add b) 0 (map bl_pretax (items_of (bt_service t) (bt_currency t) (map (\<lambda>x. br_item (fst x)) (bp_rows p)))))"
proof -
  from assms obtain ids cycle services where scope: "alibabaBillingScope e d u r ''billing.view'' = Inr (ids, cycle, services)"
    and p: "bp_rows p = bill_rows d bills (u_ws u) ids cycle services (trim_space (rq_query r ''resource_query''))"
      "bp_totals p = bill_totals b (map (\<lambda>x. br_item (fst x)) (bp_rows p))"
    by (auto simp: billing_report_def buildAlibabaBillingReport_def Let_def split: sum.splits option.splits if_splits)
  have "\<forall>i \<in> set (map (\<lambda>x. br_item (fst x)) (bp_rows p)). bl_service i \<in> set billing_services"
    using scope_services [OF scope] by (auto simp: p(1) dest: bill_rows_services)
  from bill_totals_exact [OF this, of b] show ?thesis unfolding p(2) by (simp add: image_image)
qed

definition march_bills :: "bill_row list" where
  "march_bills = map (to_row 1 5 ''2026-03'' 0) [to_bill demo_bills one_bill, to_bill demo_bills one_bill]"

lemma billing_totals_exact_witness:
  "\<exists>p. billing_report march_end demo_bills demo_admin blank_request billed_db march_bills = Inr p \<and>
     (\<forall>t \<in> set (bp_totals p). bt_amount t = foldl (+) 0 (map bl_pretax (items_of (bt_service t) (bt_currency t) (map (\<lambda>x. br_item (fst x)) (bp_rows p))))) \<and>
     map bt_amount (bp_totals p) = [14]"
proof -
  have run: "case billing_report march_end demo_bills demo_admin blank_request billed_db march_bills of
      Inl q \<Rightarrow> False | Inr p \<Rightarrow> map bt_amount (bp_totals p) = [14]" by code_simp
  then obtain p where p: "billing_report march_end demo_bills demo_admin blank_request billed_db march_bills = Inr p" "map bt_amount (bp_totals p) = [14]"
    by (auto split: sum.splits)
  from billing_totals_exact [OF p(1)] p show ?thesis by (auto simp: demo_bills_def)
qed

end
