(* ===== verification/Reports.thy ===== *)
theory Reports
  imports Snapshots
begin

text \<open>
  The overview of all accounts (\<^verbatim>\<open>internal/app/reports.go\<close>): instances by provider, region and state from the inventory,
  desktops and buckets from the snapshots.

  The maps of the handler are lists of keys and values in the order of their first use; the answer sorts them.
  An \<^verbatim>\<open>int64\<close> is a 64-bit word.  A payload has the member \<^verbatim>\<open>data\<close> under this very name.
\<close>

section \<open>Accounts, dimensions and the report\<close>

record report_account =
  ra_id :: int
  ra_name :: string
  ra_provider :: string
  ra_instances :: int
  ra_running :: int

record dimension =
  dm_accounts :: int
  dm_instances :: int
  dm_running :: int
  dm_desktops :: int
  dm_buckets :: int
  dm_bytes :: "64 word"
  dm_objects :: "64 word"

definition no_dimension :: dimension where
  "no_dimension = \<lparr>dm_accounts = 0, dm_instances = 0, dm_running = 0, dm_desktops = 0, dm_buckets = 0, dm_bytes = 0, dm_objects = 0\<rparr>"

text \<open>The entry of a key is made where it is missing and changed.\<close>

primrec count_up :: "'k \<Rightarrow> 'v \<Rightarrow> ('v \<Rightarrow> 'v) \<Rightarrow> ('k \<times> 'v) list \<Rightarrow> ('k \<times> 'v) list" where
  "count_up k z f [] = [(k, f z)]"
| "count_up k z f (x # xs) = (if fst x = k then (k, f (snd x)) # xs else x # count_up k z f xs)"

text \<open>Everything the loop over the snapshots counts.\<close>

record tally =
  ty_providers :: "(string \<times> dimension) list"
  ty_regions :: "(string \<times> dimension) list"
  ty_desktops :: int
  ty_buckets :: int
  ty_bytes :: "64 word"
  ty_objects :: "64 word"
  ty_charges :: "(string \<times> int) list"
  ty_seen :: "string list"
  ty_latest :: "time option"

record overview =
  ov_accounts :: "report_account list"
  ov_tally :: tally
  ov_states :: "(string \<times> int) list"
  ov_latest :: "time option"

section \<open>Values of an item\<close>

primrec reportString :: "json \<Rightarrow> string list \<Rightarrow> string" where
  "reportString item [] = []"
| "reportString item (k # ks) = (case field item k of JStr s \<Rightarrow> s | _ \<Rightarrow> reportString item ks)"

text \<open>\<^verbatim>\<open>json.Number.Int64\<close> gives the nearest value in range with an error that is dropped.\<close>

definition reportInt64 :: "json \<Rightarrow> string \<Rightarrow> 64 word" where
  "reportInt64 item k = (case field item k of JInt n \<Rightarrow> word_of_int (max (- (2 ^ 63)) (min (2 ^ 63 - 1) n)) | _ \<Rightarrow> 0)"

definition newest :: "time \<Rightarrow> time option \<Rightarrow> time option" where
  "newest t old = (case old of None \<Rightarrow> Some t | Some t' \<Rightarrow> if t > t' then Some t else old)"

section \<open>The inventory\<close>

definition account_counts :: "db \<Rightarrow> int \<Rightarrow> int list \<Rightarrow> report_account list" where
  "account_counts d ws ids =
     map (\<lambda>a. let mine = filter (\<lambda>i. in_account i = ac_id a) (d_insts d)
              in \<lparr>ra_id = ac_id a, ra_name = ac_name a, ra_provider = ac_provider a, ra_instances = int (length mine),
                  ra_running = int (length (filter (\<lambda>i. to_lower (in_state i) = ''running'') mine))\<rparr>)
       (sort_key ac_provider (sort_key ac_name (filter (\<lambda>a. ac_ws a = ws \<and> ac_id a \<in> set ids) (d_accounts d))))"

definition count_account :: "report_account \<Rightarrow> (string \<times> dimension) list \<Rightarrow> (string \<times> dimension) list" where
  "count_account a = count_up (ra_provider a) no_dimension
     (\<lambda>s. s\<lparr>dm_accounts := dm_accounts s + 1, dm_instances := dm_instances s + ra_instances a, dm_running := dm_running s + ra_running a\<rparr>)"

text \<open>\<^verbatim>\<open>GROUP BY i.region,lower(i.state)\<close>: region, state, number and the latest sight.\<close>

definition region_counts :: "db \<Rightarrow> int \<Rightarrow> int list \<Rightarrow> (string \<times> string \<times> int \<times> time) list" where
  "region_counts d ws ids =
     (let rows = filter (\<lambda>i. case account_in_ws d ws (in_account i) of None \<Rightarrow> False | Some a \<Rightarrow> ac_id a \<in> set ids) (d_insts d);
          key = (\<lambda>i. (in_region i, to_lower (in_state i)))
      in map (\<lambda>k. let mine = filter (\<lambda>i. key i = k) rows
                  in (fst k, snd k, int (length mine), Max (set (map in_seen mine))))
           (sort_key fst (sort_key snd (remdups (map key rows)))))"

definition count_region_row :: "string \<times> string \<times> int \<times> time \<Rightarrow> (string \<times> dimension) list \<Rightarrow> (string \<times> dimension) list" where
  "count_region_row q =
     (case q of (region, state, n, seen) \<Rightarrow>
        count_up (if region = [] then ''unknown'' else region) no_dimension
          (\<lambda>s. s\<lparr>dm_instances := dm_instances s + n, dm_running := dm_running s + (if state = ''running'' then n else 0)\<rparr>))"

definition count_state_row :: "string \<times> string \<times> int \<times> time \<Rightarrow> (string \<times> int) list \<Rightarrow> (string \<times> int) list" where
  "count_state_row q = (case q of (region, state, n, seen) \<Rightarrow> count_up state 0 (\<lambda>m. m + n))"

section \<open>The snapshots\<close>

text \<open>The list \<^verbatim>\<open>envelope.Data\<close>; \<^const>\<open>None\<close> where the payload is not of this form.\<close>

definition envelope_data :: "json \<Rightarrow> json list option" where
  "envelope_data payload =
     (case payload of
        JNull \<Rightarrow> Some []
      | JObj fs \<Rightarrow>
          (case field payload ''data'' of
             JNull \<Rightarrow> Some []
           | JList items \<Rightarrow> if list_all (\<lambda>j. case j of JObj _ \<Rightarrow> True | JNull \<Rightarrow> True | _ \<Rightarrow> False) items then Some items else None
           | _ \<Rightarrow> None)
      | _ \<Rightarrow> None)"

definition item_region :: "snap_row \<Rightarrow> json \<Rightarrow> string" where
  "item_region s item =
     (let named = reportString item [''RegionId'', ''region'', ''location'']; region = (if named = [] then sn_region s else named)
      in if region = [] \<or> region = ''all'' then ''unknown'' else region)"

definition count_desktop :: "int \<Rightarrow> string \<Rightarrow> string \<Rightarrow> json \<Rightarrow> tally \<Rightarrow> tally" where
  "count_desktop acc provider region item t =
     (let iid = reportString item [''DesktopId'']; key = show_int acc @ CHR 0x00 # iid;
          charge = reportString item [''ChargeType'']; more = (\<lambda>s. s\<lparr>dm_desktops := dm_desktops s + 1\<rparr>)
      in if iid \<noteq> [] \<and> key \<in> set (ty_seen t) then t\<lparr>ty_regions := count_up region no_dimension id (ty_regions t)\<rparr>
         else t\<lparr>ty_seen := key # ty_seen t, ty_desktops := ty_desktops t + 1,
           ty_providers := count_up provider no_dimension more (ty_providers t),
           ty_regions := count_up region no_dimension more (ty_regions t),
           ty_charges := count_up (if charge = [] then ''Unknown'' else charge) 0 (\<lambda>n. n + 1) (ty_charges t)\<rparr>)"

definition count_bucket :: "string \<Rightarrow> string \<Rightarrow> json \<Rightarrow> tally \<Rightarrow> tally" where
  "count_bucket provider region item t =
     (let used = reportInt64 item ''storage_bytes''; count = reportInt64 item ''object_count'';
          more = (\<lambda>s. s\<lparr>dm_buckets := dm_buckets s + 1, dm_bytes := dm_bytes s + used, dm_objects := dm_objects s + count\<rparr>)
      in t\<lparr>ty_buckets := ty_buckets t + 1, ty_bytes := ty_bytes t + used, ty_objects := ty_objects t + count,
           ty_providers := count_up provider no_dimension more (ty_providers t),
           ty_regions := count_up region no_dimension more (ty_regions t)\<rparr>)"

definition count_item :: "string \<Rightarrow> snap_row \<Rightarrow> json \<Rightarrow> tally \<Rightarrow> tally" where
  "count_item provider s item t =
     (if sn_service s = ''eds.desktops'' then count_desktop (sn_account s) provider (item_region s item) item t
      else count_bucket provider (item_region s item) item t)"

definition eds_all :: "snap_row list \<Rightarrow> int \<Rightarrow> bool" where
  "eds_all snapshots acc \<longleftrightarrow> list_ex (\<lambda>s. sn_service s = ''eds.desktops'' \<and> sn_region s = ''all'' \<and> sn_account s = acc) snapshots"

text \<open>\<^const>\<open>None\<close> is the panic on an account without statistics.\<close>

definition count_snapshot :: "(int \<Rightarrow> string option) \<Rightarrow> (int \<Rightarrow> bool) \<Rightarrow> snap_row \<Rightarrow> tally \<Rightarrow> tally option" where
  "count_snapshot provider_of whole s t =
     (if sn_service s = ''eds.desktops'' \<and> whole (sn_account s) \<and> sn_region s \<noteq> ''all'' then Some t
      else case envelope_data (sn_payload s) of
        None \<Rightarrow> Some t
      | Some items \<Rightarrow>
          let t = t\<lparr>ty_latest := newest (sn_fetched s) (ty_latest t)\<rparr>
          in if items = [] then Some t
             else map_option (\<lambda>provider. fold (count_item provider s) items t) (provider_of (sn_account s)))"

fun count_snapshots :: "(int \<Rightarrow> string option) \<Rightarrow> (int \<Rightarrow> bool) \<Rightarrow> snap_row list \<Rightarrow> tally \<Rightarrow> tally option" where
  "count_snapshots provider_of whole [] t = Some t"
| "count_snapshots provider_of whole (s # ss) t =
     Option.bind (count_snapshot provider_of whole s t) (count_snapshots provider_of whole ss)"

definition report_snapshots :: "db \<Rightarrow> int \<Rightarrow> int list \<Rightarrow> snap_row list" where
  "report_snapshots d ws ids =
     sort_key sn_account (sort_key sn_service (sort_key sn_region
       (filter (\<lambda>s. sn_ws s = ws \<and> sn_account s \<in> set ids \<and> sn_service s \<in> {''eds.desktops'', ''oss.buckets''}) (d_snaps d))))"

section \<open>The handler\<close>

definition build_overview :: "db \<Rightarrow> int \<Rightarrow> int list \<Rightarrow> overview option" where
  "build_overview d ws ids =
     (let accounts = account_counts d ws ids; regions = region_counts d ws ids; snapshots = report_snapshots d ws ids;
          start = \<lparr>ty_providers = fold count_account accounts [], ty_regions = fold count_region_row regions [], ty_desktops = 0,
            ty_buckets = 0, ty_bytes = 0, ty_objects = 0, ty_charges = [], ty_seen = [], ty_latest = None\<rparr>
      in map_option (\<lambda>t. \<lparr>ov_accounts = accounts, ov_tally = t, ov_states = fold count_state_row regions [],
             ov_latest = fold (\<lambda>(region, state, n, seen). newest seen) regions None\<rparr>)
           (count_snapshots (\<lambda>acc. map_option ra_provider (find (\<lambda>a. ra_id a = acc) accounts)) (eds_all snapshots) snapshots start))"

text \<open>The lists of the answer.\<close>

definition by_provider :: "overview \<Rightarrow> (string \<times> dimension) list" where
  "by_provider p = concat (map (\<lambda>k. case map_of (ty_providers (ov_tally p)) k of None \<Rightarrow> [] | Some v \<Rightarrow> [(k, v)])
     [''aws'', ''alibaba'', ''azure'', ''gcp''])"

definition by_region :: "overview \<Rightarrow> (string \<times> dimension) list" where
  "by_region p = sort_key fst (ty_regions (ov_tally p))"

definition by_state :: "overview \<Rightarrow> (string \<times> int) list" where
  "by_state p = sort_key fst (ov_states p)"

definition total_instances :: "overview \<Rightarrow> int" where
  "total_instances p = sum_list (map ra_instances (ov_accounts p))"

definition total_running :: "overview \<Rightarrow> int" where
  "total_running p = sum_list (map ra_running (ov_accounts p))"

definition dimension_json :: "string \<times> dimension \<Rightarrow> json" where
  "dimension_json q =
     (case q of (k, s) \<Rightarrow> JObj ([(''key'', JStr k)] @ (if dm_accounts s = 0 then [] else [(''accounts'', JInt (dm_accounts s))]) @
        [(''instances'', JInt (dm_instances s)), (''running_instances'', JInt (dm_running s)), (''desktops'', JInt (dm_desktops s)),
         (''buckets'', JInt (dm_buckets s)), (''storage_bytes'', JInt (sint (dm_bytes s))), (''objects'', JInt (sint (dm_objects s)))]))"

definition account_report_json :: "report_account \<Rightarrow> json" where
  "account_report_json a = JObj [(''id'', JInt (ra_id a)), (''name'', JStr (ra_name a)), (''provider'', JStr (ra_provider a)),
     (''instances'', JInt (ra_instances a)), (''running_instances'', JInt (ra_running a))]"

definition time_json :: "time option \<Rightarrow> json" where
  "time_json t = (case t of None \<Rightarrow> JNull | Some s \<Rightarrow> JInt s)"

definition overview_json :: "time \<Rightarrow> overview \<Rightarrow> json" where
  "overview_json now p =
     (let t = ov_tally p
      in JObj [(''generated_at'', JInt now), (''accounts'', JList (map account_report_json (ov_accounts p))),
        (''resources'', JObj [(''total'', JInt (total_instances p + ty_desktops t + ty_buckets t)), (''instances'', JInt (total_instances p)),
          (''running_instances'', JInt (total_running p)), (''desktops'', JInt (ty_desktops t)), (''buckets'', JInt (ty_buckets t)),
          (''storage_bytes'', JInt (sint (ty_bytes t))), (''objects'', JInt (sint (ty_objects t)))]),
        (''by_provider'', JList (map dimension_json (by_provider p))),
        (''by_region'', JList (map dimension_json (by_region p))),
        (''by_state'', JList (map (\<lambda>(k, n). JObj [(''key'', JStr k), (''count'', JInt n)]) (by_state p))),
        (''billing'', JObj [(''exact_spend_available'', JBool False),
          (''eds_charge_types'', JObj (map (\<lambda>(k, n). (k, JInt n)) (ty_charges t))),
          (''message'', JStr ''Exact charges are not shown until provider billing APIs are connected with separate cost-read permissions.'')]),
        (''freshness'', JObj [(''instances'', time_json (ov_latest p)), (''services'', time_json (ty_latest t))])])"

definition report_overview :: "env \<Rightarrow> user \<Rightarrow> request \<Rightarrow> db \<Rightarrow> resp + overview" where
  "report_overview e u r d =
     (case accessibleAccountIDs e 0 d u ''account.view'' of
        None \<Rightarrow> Inl (dbError DbFailed)
      | Some allowed \<Rightarrow>
          (case requestedAccountIDs e 1 d u r allowed of
             Inl q \<Rightarrow> Inl q
           | Inr ids \<Rightarrow>
               if e_fault e 2 \<or> e_fault e 3 \<or> e_fault e 4 then Inl (dbError DbFailed)
               else (case build_overview d (u_ws u) ids of None \<Rightarrow> Inl panicked | Some p \<Rightarrow> Inr p)))"

definition reportsOverview :: "env \<Rightarrow> user \<Rightarrow> request \<Rightarrow> db \<Rightarrow> resp" where
  "reportsOverview e u r d = (case report_overview e u r d of Inl q \<Rightarrow> q | Inr p \<Rightarrow> reply 200 (overview_json (e_now e) p))"

end
