(* ===== verification/ReportProps.thy ===== *)
theory ReportProps
  imports Reports Access "HOL-Library.Multiset"
begin

text \<open>
  The overview adds up: every breakdown sums to the totals, and the instances are those of the inventory.
\<close>

section \<open>Sums over tables\<close>

definition summed :: "('v \<Rightarrow> 'a :: comm_monoid_add) \<Rightarrow> ('k \<times> 'v) list \<Rightarrow> 'a" where
  "summed g m = sum_list (map (\<lambda>x. g (snd x)) m)"

lemma summed_Nil [simp]: "summed g [] = 0"
  by (simp add: summed_def)

lemma summed_count_up:
  assumes "g z = 0" and "\<And>v. g (f v) = g v + c"
  shows "summed g (count_up k z f m) = summed g m + c"
  using assms(1) assms(2) [of z] by (induction m) (auto simp: summed_def assms(2) ac_simps)

lemma count_up_keys [simp]: "fst ` set (count_up k z f m) = insert k (fst ` set m)"
  by (induction m) auto

lemma count_up_distinct: "distinct (map fst m) \<Longrightarrow> distinct (map fst (count_up k z f m))"
proof (induction m)
  case (Cons x m)
  have "fst ` set (count_up k z f m) = insert k (fst ` set m)" by simp
  then show ?case using Cons by auto
qed simp

lemma summed_sorted [simp]: "summed g (sort_key h m) = summed g m"
proof -
  have "mset (map (\<lambda>x. g (snd x)) (sort_key h m)) = mset (map (\<lambda>x. g (snd x)) m)" by simp
  then show ?thesis unfolding summed_def sum_mset_sum_list [symmetric] by (rule arg_cong)
qed

lemma summed_by_keys:
  assumes "distinct (map fst m)" and "fst ` set m \<subseteq> set ks" and "distinct ks"
  shows "summed g (concat (map (\<lambda>k. case map_of m k of None \<Rightarrow> [] | Some v \<Rightarrow> [(k, v)]) ks)) = summed g m"
proof -
  define h where "h k = (case map_of m k of None \<Rightarrow> 0 | Some v \<Rightarrow> g v)" for k
  have "summed g (concat (map (\<lambda>k. case map_of m k of None \<Rightarrow> [] | Some v \<Rightarrow> [(k, v)]) ks)) = sum_list (map h ks)"
    by (induction ks) (auto simp: summed_def h_def split: option.splits)
  also have "\<dots> = sum h (set ks)" using assms(3) by (simp add: sum_list_distinct_conv_sum_set)
  also have "\<dots> = sum h (fst ` set m)"
    using assms(2) by (intro sum.mono_neutral_right) (force simp: h_def dest: map_of_SomeD split: option.splits)+
  also have "\<dots> = sum_list (map h (map fst m))" using sum_list_distinct_conv_sum_set [OF assms(1), of h] by simp
  also have "map h (map fst m) = map (\<lambda>x. g (snd x)) m"
    using assms(1) by (auto simp: h_def)
  finally show ?thesis by (simp add: summed_def)
qed

text \<open>Rows counted group by group are counted once.\<close>

lemma sum_groups:
  assumes "finite K" and "key ` set rows \<subseteq> K"
  shows "(\<Sum>k \<in> K. if P k then int (length (filter (\<lambda>i. key i = k) rows)) else 0) = int (length (filter (\<lambda>i. P (key i)) rows))"
  using assms(2)
proof (induction rows)
  case (Cons i rows)
  have "(\<Sum>k \<in> K. if P k then int (length (filter (\<lambda>i. key i = k) (i # rows))) else 0) =
      (\<Sum>k \<in> K. (if P k then int (length (filter (\<lambda>i. key i = k) rows)) else 0) + (if k = key i then if P k then 1 else 0 else 0))"
    by (intro sum.cong) auto
  also have "\<dots> = int (length (filter (\<lambda>i. P (key i)) rows)) + (if P (key i) then 1 else 0)"
    using Cons assms(1) by (simp add: sum.distrib)
  finally show ?case by simp
qed (auto intro: sum.neutral)

section \<open>The inventory\<close>

lemma count_account_total:
  "summed dm_instances (count_account a m) = summed dm_instances m + ra_instances a"
  "summed dm_running (count_account a m) = summed dm_running m + ra_running a"
  "summed dm_desktops (count_account a m) = summed dm_desktops m"
  "summed dm_buckets (count_account a m) = summed dm_buckets m"
  "summed dm_bytes (count_account a m) = summed dm_bytes m"
  "summed dm_objects (count_account a m) = summed dm_objects m"
  unfolding count_account_def
  by (subst summed_count_up [where c = "ra_instances a"] summed_count_up [where c = "ra_running a"] summed_count_up [where c = 0];
      simp add: no_dimension_def)+

lemma count_region_total:
  "summed dm_instances (count_region_row (region, state, n, seen) m) = summed dm_instances m + n"
  "summed dm_running (count_region_row (region, state, n, seen) m) = summed dm_running m + (if state = ''running'' then n else 0)"
  "summed dm_desktops (count_region_row (region, state, n, seen) m) = summed dm_desktops m"
  "summed dm_buckets (count_region_row (region, state, n, seen) m) = summed dm_buckets m"
  "summed dm_bytes (count_region_row (region, state, n, seen) m) = summed dm_bytes m"
  "summed dm_objects (count_region_row (region, state, n, seen) m) = summed dm_objects m"
  unfolding count_region_row_def prod.case
  by (subst summed_count_up [where c = n] summed_count_up [where c = "if state = ''running'' then n else 0"] summed_count_up [where c = 0];
      simp add: no_dimension_def)+

text \<open>A row of the groups.\<close>

abbreviation row_number :: "string \<times> string \<times> int \<times> time \<Rightarrow> int" where
  "row_number q \<equiv> fst (snd (snd q))"

abbreviation row_running :: "string \<times> string \<times> int \<times> time \<Rightarrow> int" where
  "row_running q \<equiv> if fst (snd q) = ''running'' then row_number q else 0"

lemma count_accounts_total:
  "summed dm_instances (fold count_account as m) = summed dm_instances m + sum_list (map ra_instances as)"
  "summed dm_running (fold count_account as m) = summed dm_running m + sum_list (map ra_running as)"
  "summed dm_desktops (fold count_account as m) = summed dm_desktops m"
  "summed dm_buckets (fold count_account as m) = summed dm_buckets m"
  "summed dm_bytes (fold count_account as m) = summed dm_bytes m"
  "summed dm_objects (fold count_account as m) = summed dm_objects m"
  by (induction as arbitrary: m) (simp_all add: count_account_total)

lemma count_regions_total:
  "summed dm_instances (fold count_region_row qs m) = summed dm_instances m + sum_list (map row_number qs)"
  "summed dm_running (fold count_region_row qs m) = summed dm_running m + sum_list (map row_running qs)"
  "summed dm_desktops (fold count_region_row qs m) = summed dm_desktops m"
  "summed dm_buckets (fold count_region_row qs m) = summed dm_buckets m"
  "summed dm_bytes (fold count_region_row qs m) = summed dm_bytes m"
  "summed dm_objects (fold count_region_row qs m) = summed dm_objects m"
proof (induction qs arbitrary: m)
  case (Cons q qs)
  obtain region state n seen where q: "q = (region, state, n, seen)" by (cases q)
  { case 1 show ?case by (simp add: Cons q count_region_total) }
  { case 2 show ?case by (simp add: Cons q count_region_total) }
  { case 3 show ?case by (simp add: Cons q count_region_total) }
  { case 4 show ?case by (simp add: Cons q count_region_total) }
  { case 5 show ?case by (simp add: Cons q count_region_total) }
  { case 6 show ?case by (simp add: Cons q count_region_total) }
qed simp_all

lemma count_states_total: "summed (\<lambda>n. n) (fold count_state_row qs m) = summed (\<lambda>n. n) m + sum_list (map row_number qs)"
proof (induction qs arbitrary: m)
  case (Cons q qs)
  obtain region state n seen where q: "q = (region, state, n, seen)" by (cases q)
  have "summed (\<lambda>n. n) (count_state_row q m) = summed (\<lambda>n. n) m + n"
    unfolding q count_state_row_def prod.case by (rule summed_count_up) simp_all
  then show ?case by (simp add: Cons q)
qed simp

text \<open>The instances of the accounts of a report.\<close>

definition report_instances :: "db \<Rightarrow> int \<Rightarrow> int list \<Rightarrow> inst_row list" where
  "report_instances d ws ids = filter (\<lambda>i. case account_in_ws d ws (in_account i) of None \<Rightarrow> False | Some a \<Rightarrow> ac_id a \<in> set ids) (d_insts d)"

lemma region_counts_sums:
  "sum_list (map row_number (region_counts d ws ids)) = int (length (report_instances d ws ids))"
  "sum_list (map row_running (region_counts d ws ids)) =
     int (length (filter (\<lambda>i. to_lower (in_state i) = ''running'') (report_instances d ws ids)))"
proof -
  let ?rows = "report_instances d ws ids" and ?key = "\<lambda>i. (in_region i, to_lower (in_state i))"
  let ?ks = "sort_key fst (sort_key snd (remdups (map ?key ?rows)))"
  have ks: "distinct ?ks" "set ?ks = ?key ` set ?rows" by simp_all
  have counts: "region_counts d ws ids =
      map (\<lambda>k. (fst k, snd k, int (length (filter (\<lambda>i. ?key i = k) ?rows)), Max (set (map in_seen (filter (\<lambda>i. ?key i = k) ?rows))))) ?ks"
    unfolding region_counts_def Let_def report_instances_def [symmetric] by (rule refl)
  have "sum_list (map row_number (region_counts d ws ids)) =
      sum_list (map (\<lambda>k. if True then int (length (filter (\<lambda>i. ?key i = k) ?rows)) else 0) ?ks)"
    unfolding counts map_map comp_def by (intro arg_cong [where f = sum_list] map_cong refl) simp
  also have "\<dots> = (\<Sum>k \<in> set ?ks. if True then int (length (filter (\<lambda>i. ?key i = k) ?rows)) else 0)"
    using ks(1) by (rule sum_list_distinct_conv_sum_set)
  also have "\<dots> = int (length (filter (\<lambda>i. True) ?rows))" using ks(2) by (intro sum_groups) simp_all
  finally show "sum_list (map row_number (region_counts d ws ids)) = int (length ?rows)" by simp
  have "sum_list (map row_running (region_counts d ws ids)) =
      sum_list (map (\<lambda>k. if snd k = ''running'' then int (length (filter (\<lambda>i. ?key i = k) ?rows)) else 0) ?ks)"
    unfolding counts map_map comp_def by (intro arg_cong [where f = sum_list] map_cong refl) simp
  also have "\<dots> = (\<Sum>k \<in> set ?ks. if snd k = ''running'' then int (length (filter (\<lambda>i. ?key i = k) ?rows)) else 0)"
    using ks(1) by (rule sum_list_distinct_conv_sum_set)
  also have "\<dots> = int (length (filter (\<lambda>i. snd (?key i) = ''running'') ?rows))" using ks(2) by (intro sum_groups) simp_all
  finally show "sum_list (map row_running (region_counts d ws ids)) = int (length (filter (\<lambda>i. to_lower (in_state i) = ''running'') ?rows))"
    by simp
qed

lemma report_instances_eq:
  "report_instances d ws ids =
     filter (\<lambda>i. in_account i \<in> ac_id ` set (filter (\<lambda>a. ac_ws a = ws \<and> ac_id a \<in> set ids) (d_accounts d))) (d_insts d)"
proof -
  have "(case account_in_ws d ws acc of None \<Rightarrow> False | Some a \<Rightarrow> ac_id a \<in> set ids) \<longleftrightarrow>
      acc \<in> ac_id ` set (filter (\<lambda>a. ac_ws a = ws \<and> ac_id a \<in> set ids) (d_accounts d))" for acc
  proof (cases "account_in_ws d ws acc")
    case None
    then show ?thesis unfolding None using None [unfolded account_in_ws_def find_None] by auto
  next
    case (Some a)
    then have "a \<in> set (d_accounts d)" "ac_id a = acc" "ac_ws a = ws"
      unfolding account_in_ws_def by (blast dest: find_Some_iff_in)+
    then show ?thesis using Some by auto
  qed
  then show ?thesis unfolding report_instances_def by presburger
qed

lemma account_counts_facts:
  "map ra_id (account_counts d ws ids) = map ac_id (sort_key ac_provider (sort_key ac_name (filter (\<lambda>a. ac_ws a = ws \<and> ac_id a \<in> set ids) (d_accounts d))))"
  "set (map ra_provider (account_counts d ws ids)) \<subseteq> ac_provider ` set (d_accounts d)"
  by (auto simp: account_counts_def Let_def)

lemma account_counts_sums:
  assumes "distinct (map ac_id (d_accounts d))"
  shows "sum_list (map ra_instances (account_counts d ws ids)) = int (length (report_instances d ws ids))"
    and "sum_list (map ra_running (account_counts d ws ids)) =
      int (length (filter (\<lambda>i. to_lower (in_state i) = ''running'') (report_instances d ws ids)))"
proof -
  let ?accs = "sort_key ac_provider (sort_key ac_name (filter (\<lambda>a. ac_ws a = ws \<and> ac_id a \<in> set ids) (d_accounts d)))"
  let ?run = "\<lambda>i. to_lower (in_state i) = ''running''"
  define K where "K = ac_id ` set ?accs"
  have names: "distinct (map ac_id ?accs)"
  proof -
    have "mset (map ac_id ?accs) = mset (map ac_id (filter (\<lambda>a. ac_ws a = ws \<and> ac_id a \<in> set ids) (d_accounts d)))" by simp
    then show ?thesis using distinct_map_filter [OF assms] mset_eq_imp_distinct_iff by blast
  qed
  have sums: "sum_list (map (\<lambda>a. h (ac_id a)) ?accs) = sum h K" for h :: "int \<Rightarrow> int"
    using sum_list_distinct_conv_sum_set [OF names, of h] by (simp add: K_def comp_def)
  have rows: "report_instances d ws ids = filter (\<lambda>i. in_account i \<in> K) (d_insts d)" by (simp add: report_instances_eq K_def)
  have group: "filter (\<lambda>i. in_account i = k) (filter (\<lambda>i. in_account i \<in> K \<and> Q i) (d_insts d)) = filter (\<lambda>i. Q i \<and> in_account i = k) (d_insts d)"
    if "k \<in> K" for k Q using that by (auto intro: filter_cong)
  have count: "(\<Sum>k \<in> K. int (length (filter (\<lambda>i. Q i \<and> in_account i = k) (d_insts d)))) = int (length (filter (\<lambda>i. in_account i \<in> K \<and> Q i) (d_insts d)))" for Q
    using sum_groups [of K in_account "filter (\<lambda>i. in_account i \<in> K \<and> Q i) (d_insts d)" "\<lambda>k. True"] group [of _ Q]
    by (auto simp: K_def)
  have "sum_list (map ra_instances (account_counts d ws ids)) = sum_list (map (\<lambda>a. int (length (filter (\<lambda>i. in_account i = ac_id a) (d_insts d)))) ?accs)"
    by (simp add: account_counts_def Let_def comp_def)
  then show "sum_list (map ra_instances (account_counts d ws ids)) = int (length (report_instances d ws ids))"
    using sums [of "\<lambda>k. int (length (filter (\<lambda>i. in_account i = k) (d_insts d)))"] count [of "\<lambda>i. True"] by (simp add: rows)
  have "sum_list (map ra_running (account_counts d ws ids)) =
      sum_list (map (\<lambda>a. int (length (filter (\<lambda>i. ?run i \<and> in_account i = ac_id a) (d_insts d)))) ?accs)"
    by (simp add: account_counts_def Let_def comp_def conj_commute)
  then show "sum_list (map ra_running (account_counts d ws ids)) = int (length (filter ?run (report_instances d ws ids)))"
    using sums [of "\<lambda>k. int (length (filter (\<lambda>i. ?run i \<and> in_account i = k) (d_insts d)))"] count [of ?run]
    by (simp add: rows conj_commute)
qed

section \<open>The snapshots\<close>

text \<open>What stays true while the snapshots are counted.\<close>

definition tallied :: "int \<Rightarrow> int \<Rightarrow> tally \<Rightarrow> bool" where
  "tallied number run t \<longleftrightarrow> (\<forall>m \<in> {ty_providers t, ty_regions t}.
     summed dm_instances m = number \<and> summed dm_running m = run \<and> summed dm_desktops m = ty_desktops t \<and>
     summed dm_buckets m = ty_buckets t \<and> summed dm_bytes m = ty_bytes t \<and> summed dm_objects m = ty_objects t \<and> distinct (map fst m)) \<and>
   summed (\<lambda>n. n) (ty_charges t) = ty_desktops t \<and> distinct (map fst (ty_charges t))"

lemma summed_same: "g z = 0 \<Longrightarrow> (\<And>v. g (f v) = g v) \<Longrightarrow> summed g (count_up k z f m) = summed g m"
  using summed_count_up [of g z f 0] by simp

lemma summed_one: "g z = 0 \<Longrightarrow> (\<And>v. g (f v) = g v + (1 :: int)) \<Longrightarrow> summed g (count_up k z f m) = summed g m + 1"
  by (rule summed_count_up)

lemma tallied_desktop: "tallied i n t \<Longrightarrow> tallied i n (count_desktop acc provider region item t)"
  unfolding tallied_def count_desktop_def Let_def
  by (auto simp: summed_same summed_one count_up_distinct no_dimension_def split: if_splits)

lemma tallied_bucket: "tallied i n t \<Longrightarrow> tallied i n (count_bucket provider region item t)"
  unfolding tallied_def count_bucket_def Let_def
  by (auto simp: summed_same summed_one summed_count_up [where c = "reportInt64 item ''storage_bytes''"]
      summed_count_up [where c = "reportInt64 item ''object_count''"] count_up_distinct no_dimension_def)

lemma tallied_items: "tallied i n t \<Longrightarrow> tallied i n (fold (count_item provider s) items t)"
  by (induction items arbitrary: t) (auto simp: count_item_def tallied_desktop tallied_bucket)

lemma tallied_latest: "tallied i n (t\<lparr>ty_latest := x\<rparr>) = tallied i n t"
  by (simp add: tallied_def)

lemma tallied_snapshots: "count_snapshots p w ss t = Some t' \<Longrightarrow> tallied i n t \<Longrightarrow> tallied i n t'"
  by (induction ss arbitrary: t)
     (auto simp: count_snapshot_def bind_eq_Some_conv Let_def tallied_latest tallied_items split: if_splits option.splits)

lemma item_providers: "fst ` set (ty_providers (fold (count_item provider s) items t)) \<subseteq> insert provider (fst ` set (ty_providers t))"
proof (induction items arbitrary: t)
  case (Cons item items)
  have "fst ` set (ty_providers (count_item provider s item t)) \<subseteq> insert provider (fst ` set (ty_providers t))"
    by (auto simp: count_item_def count_desktop_def count_bucket_def Let_def)
  with Cons.IH [of "count_item provider s item t"] show ?case unfolding fold_simps comp_apply by blast
qed auto

lemma snapshot_providers:
  "count_snapshots provider_of whole ss t = Some t' \<Longrightarrow> (\<And>acc p. provider_of acc = Some p \<Longrightarrow> p \<in> P) \<Longrightarrow>
     fst ` set (ty_providers t) \<subseteq> P \<Longrightarrow> fst ` set (ty_providers t') \<subseteq> P"
proof (induction ss arbitrary: t)
  case (Cons s ss)
  from Cons.prems(1) obtain t1 where one: "count_snapshot provider_of whole s t = Some t1" and rest: "count_snapshots provider_of whole ss t1 = Some t'"
    by (auto simp: bind_eq_Some_conv)
  have "fst ` set (ty_providers t1) \<subseteq> P"
  proof -
    let ?t = "t\<lparr>ty_latest := newest (sn_fetched s) (ty_latest t)\<rparr>"
    from one consider "t1 = t" | "t1 = ?t"
      | items provider where "provider_of (sn_account s) = Some provider" "t1 = fold (count_item provider s) items ?t"
      by (auto simp: count_snapshot_def Let_def split: if_splits option.splits)
    then show ?thesis
    proof cases
      case 3
      have "fst ` set (ty_providers t1) \<subseteq> insert provider (fst ` set (ty_providers ?t))" unfolding 3(2) by (rule item_providers)
      moreover have "provider \<in> P" by (rule Cons.prems(2) [OF 3(1)])
      moreover have "fst ` set (ty_providers ?t) \<subseteq> P" using Cons.prems(3) by simp
      ultimately show ?thesis by blast
    qed (use Cons.prems(3) in simp_all)
  qed
  then show ?case using Cons.IH [OF rest] Cons.prems(2) by blast
qed simp

lemma count_accounts_keys: "fst ` set (fold count_account as m) = ra_provider ` set as \<union> fst ` set m"
  by (induction as arbitrary: m) (auto simp: count_account_def)

lemma count_accounts_distinct: "distinct (map fst m) \<Longrightarrow> distinct (map fst (fold count_account as m))"
  by (induction as arbitrary: m) (simp_all add: count_account_def count_up_distinct)

lemma count_regions_distinct: "distinct (map fst m) \<Longrightarrow> distinct (map fst (fold count_region_row qs m))"
  by (induction qs arbitrary: m) (auto simp: count_region_row_def count_up_distinct split: prod.splits)

section \<open>The report\<close>

text \<open>The providers the schema admits.\<close>

definition known_providers :: "db \<Rightarrow> bool" where
  "known_providers d \<longleftrightarrow> (\<forall>a \<in> set (d_accounts d). ac_provider a \<in> {''aws'', ''alibaba'', ''azure'', ''gcp''})"

lemma build_overview_tallied:
  assumes "build_overview d ws ids = Some p" and "distinct (map ac_id (d_accounts d))"
  shows "total_instances p = int (length (report_instances d ws ids)) \<and>
    total_running p = int (length (filter (\<lambda>i. to_lower (in_state i) = ''running'') (report_instances d ws ids))) \<and>
    tallied (total_instances p) (total_running p) (ov_tally p) \<and>
    summed (\<lambda>n. n) (ov_states p) = total_instances p \<and>
    (known_providers d \<longrightarrow> fst ` set (ty_providers (ov_tally p)) \<subseteq> {''aws'', ''alibaba'', ''azure'', ''gcp''})"
proof -
  define accounts where "accounts = account_counts d ws ids"
  define regions where "regions = region_counts d ws ids"
  define start where "start = \<lparr>ty_providers = fold count_account accounts [], ty_regions = fold count_region_row regions [], ty_desktops = 0,
            ty_buckets = 0, ty_bytes = 0, ty_objects = 0, ty_charges = [], ty_seen = [], ty_latest = None\<rparr>"
  define provider_of where "provider_of acc = map_option ra_provider (find (\<lambda>a. ra_id a = acc) accounts)" for acc
  from assms(1) obtain t where t: "count_snapshots provider_of (eds_all (report_snapshots d ws ids)) (report_snapshots d ws ids) start = Some t"
    and p: "ov_tally p = t" "ov_accounts p = accounts" "ov_states p = fold count_state_row regions []"
    by (auto simp: build_overview_def Let_def accounts_def regions_def start_def provider_of_def [abs_def])
  note sums = account_counts_sums [OF assms(2), of ws ids] region_counts_sums [of d ws ids]
  have totals: "total_instances p = int (length (report_instances d ws ids))"
    "total_running p = int (length (filter (\<lambda>i. to_lower (in_state i) = ''running'') (report_instances d ws ids)))"
    using sums by (simp_all add: total_instances_def total_running_def p(2) accounts_def)
  have "tallied (total_instances p) (total_running p) start"
    unfolding tallied_def start_def totals using sums
    by (simp add: count_accounts_total count_regions_total count_accounts_distinct count_regions_distinct accounts_def regions_def)
  from tallied_snapshots [OF t this] have tally: "tallied (total_instances p) (total_running p) (ov_tally p)" by (simp add: p(1))
  have states: "summed (\<lambda>n. n) (ov_states p) = total_instances p"
    using sums(3) by (simp add: p(3) count_states_total regions_def totals(1))
  have "fst ` set (ty_providers (ov_tally p)) \<subseteq> {''aws'', ''alibaba'', ''azure'', ''gcp''}" if known: "known_providers d"
  proof -
    have all: "ra_provider a \<in> {''aws'', ''alibaba'', ''azure'', ''gcp''}" if "a \<in> set accounts" for a
      using account_counts_facts(2) [of d ws ids] known that unfolding known_providers_def accounts_def by fastforce
    have "q \<in> {''aws'', ''alibaba'', ''azure'', ''gcp''}" if "provider_of acc = Some q" for acc q
      using that all unfolding provider_of_def by (auto dest!: find_Some_iff_in)
    moreover have "fst ` set (ty_providers start) \<subseteq> {''aws'', ''alibaba'', ''azure'', ''gcp''}"
      using all by (auto simp: start_def count_accounts_keys)
    ultimately show ?thesis unfolding p(1) by (rule snapshot_providers [OF t])
  qed
  then show ?thesis using totals tally states by blast
qed

text \<open>C33: the overview adds up.  Its instances are those of the inventory of the selected accounts, each counted once;
  the lists by provider and by region sum to the same instances, running instances, desktops, buckets, bytes and
  objects as the totals, the list by state to the instances and the charge types to the desktops; and no
  provider and no region is listed twice.\<close>

theorem report_adds_up:
  assumes "report_overview e u r d = Inr p" and "distinct (map ac_id (d_accounts d))" and "known_providers d"
  shows "(\<exists>ids. total_instances p = int (length (report_instances d (u_ws u) ids)) \<and>
      set (map ra_id (ov_accounts p)) = {ac_id a |a. a \<in> set (d_accounts d) \<and> ac_ws a = u_ws u \<and> ac_id a \<in> set ids}) \<and>
    (\<forall>m \<in> {by_provider p, by_region p}. distinct (map fst m) \<and>
      summed dm_instances m = total_instances p \<and> summed dm_running m = total_running p \<and>
      summed dm_desktops m = ty_desktops (ov_tally p) \<and> summed dm_buckets m = ty_buckets (ov_tally p) \<and>
      summed dm_bytes m = ty_bytes (ov_tally p) \<and> summed dm_objects m = ty_objects (ov_tally p)) \<and>
    summed (\<lambda>n. n) (by_state p) = total_instances p \<and>
    summed (\<lambda>n. n) (ty_charges (ov_tally p)) = ty_desktops (ov_tally p)"
proof -
  from assms(1) obtain ids where built: "build_overview d (u_ws u) ids = Some p"
    by (auto simp: report_overview_def split: option.splits sum.splits if_splits)
  note facts = build_overview_tallied [OF built assms(2)]
  have accounts: "set (map ra_id (ov_accounts p)) = {ac_id a |a. a \<in> set (d_accounts d) \<and> ac_ws a = u_ws u \<and> ac_id a \<in> set ids}"
    using built account_counts_facts(1) [of d "u_ws u" ids] unfolding build_overview_def Let_def by (auto simp del: set_map) auto
  let ?m = "ty_providers (ov_tally p)"
  have dist: "distinct (map fst ?m)" using facts by (simp add: tallied_def)
  have keys: "fst ` set ?m \<subseteq> set [''aws'', ''alibaba'', ''azure'', ''gcp'']" using facts assms(3) by simp
  have provider: "summed g (by_provider p) = summed g ?m" for g :: "dimension \<Rightarrow> 'a :: comm_monoid_add"
    unfolding by_provider_def by (rule summed_by_keys [OF dist keys]) simp
  have "distinct (map fst (by_provider p))" unfolding by_provider_def by (auto split: option.splits)
  moreover have "distinct (map fst (by_region p))"
  proof -
    have "mset (map fst (by_region p)) = mset (map fst (ty_regions (ov_tally p)))" by (simp add: by_region_def)
    from mset_eq_imp_distinct_iff [OF this] show ?thesis using facts by (simp add: tallied_def)
  qed
  ultimately show ?thesis using facts accounts unfolding tallied_def by (auto simp: provider by_region_def by_state_def)
qed

definition seen_instance :: "string \<Rightarrow> string \<Rightarrow> string \<Rightarrow> inst_row" where
  "seen_instance iid region state = \<lparr>in_account = 5, in_iid = iid, in_region = region, in_name = [], in_state = state, in_type = [],
     in_public = [], in_private = [], in_details = JNull, in_id = 1, in_seen = 50\<rparr>"

definition desktops_snapshot :: "string \<Rightarrow> time \<Rightarrow> string list \<Rightarrow> snap_row" where
  "desktops_snapshot region t ids = \<lparr>sn_ws = 1, sn_account = 5, sn_service = ''eds.desktops'', sn_region = region,
     sn_payload = JObj [(''data'', JList (map (\<lambda>k. JObj [(''DesktopId'', JStr k), (''RegionId'', JStr ''eu'')]) ids))], sn_fetched = t\<rparr>"

text \<open>Two instances; the desktops of all regions, and those of one region read a hundred seconds later.\<close>

definition report_db :: db where
  "report_db = team_db\<lparr>d_accounts := [demo_account 5 ''alibaba'' (Some 3)],
     d_insts := [seen_instance ''i-1'' ''eu'' ''Running'', seen_instance ''i-2'' [] ''stopped''],
     d_snaps := [desktops_snapshot ''all'' 100 [''ecd-1''], desktops_snapshot ''eu'' 200 [''ecd-1'', ''ecd-2'']]\<rparr>"

lemma report_adds_up_witness:
  "\<exists>p. report_overview good_env demo_admin blank_request report_db = Inr p \<and> total_instances p = 2 \<and> total_running p = 1 \<and>
     summed dm_instances (by_region p) = 2 \<and> summed dm_running (by_provider p) = 1 \<and> summed (\<lambda>n. n) (by_state p) = 2"
proof -
  have run: "case report_overview good_env demo_admin blank_request report_db of
      Inl q \<Rightarrow> False | Inr p \<Rightarrow> total_instances p = 2 \<and> total_running p = 1" by code_simp
  then obtain p where p: "report_overview good_env demo_admin blank_request report_db = Inr p" "total_instances p = 2" "total_running p = 1"
    by (auto split: sum.splits)
  have "distinct (map ac_id (d_accounts report_db))" "known_providers report_db" by code_simp+
  from report_adds_up [OF p(1) this] p show ?thesis by simp
qed

text \<open>Once the desktops of all regions are stored, a later refresh of one region is not counted: the report knows one
  desktop where two were seen since, and dates its services at the older snapshot.\<close>

lemma later_region_ignored:
  "case report_overview good_env demo_admin blank_request report_db of
     Inl q \<Rightarrow> False | Inr p \<Rightarrow> ty_desktops (ov_tally p) = 1 \<and> ty_latest (ov_tally p) = Some 100"
  by code_simp

end
