(* ===== verification/Server.thy ===== *)
theory Server
  imports Auth
begin

text \<open>
  The server (\<^verbatim>\<open>internal/app/app.go\<close>, \<^verbatim>\<open>internal/app/migrate.go\<close>): the outermost handler with its checks, the route
  table and how the multiplexer of \<^verbatim>\<open>net/http\<close> chooses a route, the first boot, and the schema migrations.

  A request target is the escaped path; \<open>pct\<close> decodes it to \<^verbatim>\<open>r.URL.Path\<close>.  The handlers behind the routes and the
  embedded files are parameters.  The address of a redirection by the multiplexer is not modelled.
\<close>

section \<open>Paths\<close>

fun pct :: "string \<Rightarrow> string" where
  "pct [] = []"
| "pct (c # cs) =
     (if c = CHR ''%''
      then (case cs of
              a # b # rest \<Rightarrow>
                (case (hex_val a, hex_val b) of
                   (Some x, Some y) \<Rightarrow> char_of (16 * x + y) # pct rest
                 | _ \<Rightarrow> c # pct cs)
            | _ \<Rightarrow> c # pct cs)
      else c # pct cs)"

text \<open>\<^verbatim>\<open>path.Clean\<close> of a rooted path, the trailing slash kept.\<close>

fun clean_parts :: "string list \<Rightarrow> string list \<Rightarrow> string list" where
  "clean_parts out [] = rev out"
| "clean_parts out (s # ss) =
     clean_parts (if s = [] \<or> s = ''.'' then out else if s = ''..'' then drop 1 out else s # out) ss"

definition cleanPath :: "string \<Rightarrow> string" where
  "cleanPath p =
     (let p = (if p \<noteq> [] \<and> hd p = CHR ''/'' then p else CHR ''/'' # p);
          cleaned = CHR ''/'' # join_with CHR ''/'' (clean_parts [] (split_on CHR ''/'' p))
      in if last p = CHR ''/'' \<and> cleaned \<noteq> ''/'' then cleaned @ ''/'' else cleaned)"

definition path_parts :: "string \<Rightarrow> string list" where
  "path_parts p = map pct (drop 1 (split_on CHR ''/'' p))"

section \<open>The multiplexer\<close>

datatype part = Lit string | Wild string

record pattern =
  pt_method :: string
  pt_parts :: "part list"
  pt_rest :: bool

definition parse_part :: "string \<Rightarrow> part" where
  "parse_part s = (case s of [] \<Rightarrow> Lit [] | c # cs \<Rightarrow> if c = CHR ''{'' then Wild (butlast cs) else Lit s)"

definition parse_pattern :: "string \<Rightarrow> pattern" where
  "parse_pattern t =
     (let (method, path) = (case cut_at CHR '' '' t of None \<Rightarrow> ([], t) | Some q \<Rightarrow> q);
          parts = drop 1 (split_on CHR ''/'' path); rest = (parts \<noteq> [] \<and> last parts = [])
      in \<lparr>pt_method = method, pt_parts = map parse_part (if rest then butlast parts else parts), pt_rest = rest\<rparr>)"

fun part_match :: "part \<Rightarrow> string \<Rightarrow> bool" where
  "part_match (Lit a) s = (a = s)"
| "part_match (Wild k) s = (s \<noteq> [] \<and> s \<noteq> ''/'')"

fun path_match :: "part list \<Rightarrow> bool \<Rightarrow> string list \<Rightarrow> bool" where
  "path_match [] rest ss = (if rest then ss \<noteq> [] else ss = [])"
| "path_match (q # qs) rest [] = False"
| "path_match (q # qs) rest (s # ss) = (part_match q s \<and> path_match qs rest ss)"

definition method_match :: "string \<Rightarrow> string \<Rightarrow> bool" where
  "method_match pm m \<longleftrightarrow> pm = [] \<or> pm = m \<or> (pm = ''GET'' \<and> m = ''HEAD'')"

definition matches :: "pattern \<Rightarrow> string \<Rightarrow> string list \<Rightarrow> bool" where
  "matches p m ss \<longleftrightarrow> method_match (pt_method p) m \<and> path_match (pt_parts p) (pt_rest p) ss"

text \<open>Whatever matches the first matches the second.\<close>

fun part_under :: "part \<Rightarrow> part \<Rightarrow> bool" where
  "part_under (Lit a) (Lit b) = (a = b)"
| "part_under (Lit a) (Wild k) = True"
| "part_under (Wild k) (Lit b) = False"
| "part_under (Wild k) (Wild k') = True"

fun path_under :: "part list \<Rightarrow> bool \<Rightarrow> part list \<Rightarrow> bool \<Rightarrow> bool" where
  "path_under [] r [] r' = (r = r')"
| "path_under [] r (y # ys) r' = False"
| "path_under (x # xs) r [] r' = r'"
| "path_under (x # xs) r (y # ys) r' = (part_under x y \<and> path_under xs r ys r')"

definition more_specific :: "pattern \<Rightarrow> pattern \<Rightarrow> bool" where
  "more_specific p q \<longleftrightarrow> method_match (pt_method q) (pt_method p) \<and> path_under (pt_parts p) (pt_rest p) (pt_parts q) (pt_rest q) \<and>
     \<not> (pt_method p = pt_method q \<and> path_under (pt_parts q) (pt_rest q) (pt_parts p) (pt_rest p))"

text \<open>Something matches both.\<close>

fun part_meet :: "part \<Rightarrow> part \<Rightarrow> bool" where
  "part_meet (Lit a) (Lit b) = (a = b)"
| "part_meet p q = True"

fun path_meet :: "part list \<Rightarrow> bool \<Rightarrow> part list \<Rightarrow> bool \<Rightarrow> bool" where
  "path_meet [] r [] r' = (r = r')"
| "path_meet [] r (y # ys) r' = r"
| "path_meet (x # xs) r [] r' = r'"
| "path_meet (x # xs) r (y # ys) r' = (part_meet x y \<and> path_meet xs r ys r')"

definition method_meet :: "string \<Rightarrow> string \<Rightarrow> bool" where
  "method_meet a b \<longleftrightarrow> method_match a b \<or> method_match b a"

definition meet :: "pattern \<Rightarrow> pattern \<Rightarrow> bool" where
  "meet p q \<longleftrightarrow> method_meet (pt_method p) (pt_method q) \<and> path_meet (pt_parts p) (pt_rest p) (pt_parts q) (pt_rest q)"

text \<open>Registering a pattern panics where an earlier one matches some of the same requests and neither is more
  specific.\<close>

definition conflict :: "pattern \<Rightarrow> pattern \<Rightarrow> bool" where
  "conflict p q \<longleftrightarrow> meet p q \<and> \<not> more_specific p q \<and> \<not> more_specific q p"

primrec registered :: "pattern list \<Rightarrow> bool" where
  "registered [] \<longleftrightarrow> True"
| "registered (p # ps) \<longleftrightarrow> list_all (\<lambda>q. \<not> conflict p q) ps \<and> registered ps"

text \<open>The most specific of the patterns that match.\<close>

definition mux_match :: "string list \<Rightarrow> string \<Rightarrow> string list \<Rightarrow> string option" where
  "mux_match routes m ss =
     find (\<lambda>t. matches (parse_pattern t) m ss \<and>
       list_all (\<lambda>t'. t' = t \<or> \<not> matches (parse_pattern t') m ss \<or> more_specific (parse_pattern t) (parse_pattern t')) routes) routes"

fun path_values :: "part list \<Rightarrow> string list \<Rightarrow> (string \<times> string) list" where
  "path_values (Wild k # qs) (s # ss) = (k, s) # path_values qs ss"
| "path_values (Lit a # qs) (s # ss) = path_values qs ss"
| "path_values qs ss = []"

text \<open>A path that has a pattern only with a slash added.\<close>

definition exact_match :: "string list \<Rightarrow> string \<Rightarrow> string list \<Rightarrow> bool" where
  "exact_match routes m ss =
     (case mux_match routes m ss of
        None \<Rightarrow> False
      | Some t \<Rightarrow> \<not> pt_rest (parse_pattern t) \<or> last ss = [] \<and> length ss = Suc (length (pt_parts (parse_pattern t))))"

definition slash_added :: "string list \<Rightarrow> string \<Rightarrow> string list \<Rightarrow> bool" where
  "slash_added routes m ss \<longleftrightarrow> \<not> exact_match routes m ss \<and> last ss \<noteq> [] \<and> exact_match routes m (ss @ [[]])"

section \<open>The routes\<close>

definition health_routes :: "string list" where
  "health_routes = [''GET /healthz'', ''GET /readyz'']"

definition public_routes :: "string list" where
  "public_routes = [''POST /api/v1/auth/login'', ''POST /api/v1/auth/signup'', ''POST /api/v1/auth/resend-verification'',
     ''GET /api/v1/auth/sso/providers'', ''GET /verify-email'', ''GET /sso/{provider}/start'', ''GET /sso/{provider}/callback'',
     ''GET /sso/{provider}/metadata'', ''POST /sso/{provider}/acs'', ''GET /sso/{provider}/slo'', ''POST /sso/{provider}/slo'']"

definition api_routes :: "string list" where
  "api_routes = [''GET /api/v1/summary'', ''GET /api/v1/reports/overview'', ''GET /api/v1/reports/alibaba/billing'',
     ''POST /api/v1/reports/alibaba/billing/sync'', ''GET /api/v1/reports/alibaba/billing/export'', ''GET /api/v1/auth/me'',
     ''POST /api/v1/auth/logout'', ''GET /api/v1/instances'', ''GET /api/v1/instances/{id}'', ''POST /api/v1/instances/{id}/actions'',
     ''GET /api/v1/accounts'', ''POST /api/v1/accounts'', ''PUT /api/v1/accounts/{id}'', ''DELETE /api/v1/accounts/{id}'',
     ''POST /api/v1/accounts/test'', ''POST /api/v1/accounts/{id}/test'',
     ''GET /api/v1/accounts/{id}/eds/desktops'', ''POST /api/v1/accounts/{id}/eds/desktops'',
     ''GET /api/v1/accounts/{id}/eds/catalog'', ''GET /api/v1/accounts/{id}/eds/regions'',
     ''POST /api/v1/accounts/{id}/eds/desktops/{desktopID}/actions'', ''POST /api/v1/accounts/{id}/eds/desktops/{desktopID}/renew'',
     ''POST /api/v1/accounts/{id}/eds/desktops/{desktopID}/users'', ''POST /api/v1/accounts/{id}/eds/desktops/{desktopID}/policy'',
     ''POST /api/v1/accounts/{id}/eds/desktops/{desktopID}/maintenance'', ''POST /api/v1/accounts/{id}/eds/desktops/{desktopID}/commands'',
     ''GET /api/v1/accounts/{id}/eds/desktops/{desktopID}/commands/{invokeID}'', ''POST /api/v1/accounts/{id}/eds/desktops/{desktopID}/billing'',
     ''GET /api/v1/accounts/{id}/eds/users'', ''POST /api/v1/accounts/{id}/eds/users'',
     ''POST /api/v1/accounts/{id}/eds/refresh'', ''GET /api/v1/accounts/{id}/eds/refresh/{jobID}'',
     ''GET /api/v1/accounts/{id}/oss/buckets'', ''POST /api/v1/accounts/{id}/oss/buckets'',
     ''POST /api/v1/accounts/{id}/oss/refresh'', ''GET /api/v1/accounts/{id}/oss/refresh/{jobID}'',
     ''GET /api/v1/accounts/{id}/ecs/security-groups'', ''POST /api/v1/accounts/{id}/ecs/security-groups/refresh'',
     ''GET /api/v1/accounts/{id}/ecs/security-groups/refresh/{jobID}'', ''POST /api/v1/accounts/{id}/ecs/security-groups/{groupID}/rules'',
     ''DELETE /api/v1/accounts/{id}/ecs/security-groups/{groupID}/rules/{ruleID}'',
     ''GET /api/v1/groups'', ''POST /api/v1/groups'', ''PUT /api/v1/groups/{id}'', ''DELETE /api/v1/groups/{id}'',
     ''GET /api/v1/users'', ''POST /api/v1/users'', ''PUT /api/v1/users/{id}'', ''DELETE /api/v1/users/{id}'',
     ''GET /api/v1/memberships'', ''PUT /api/v1/groups/{id}/members/{userID}'', ''DELETE /api/v1/groups/{id}/members/{userID}'',
     ''GET /api/v1/account-access'', ''PUT /api/v1/account-access'',
     ''POST /api/v1/access-roles'', ''PUT /api/v1/access-roles/{id}'', ''DELETE /api/v1/access-roles/{id}'',
     ''GET /api/v1/identity-providers'', ''POST /api/v1/identity-providers'',
     ''PUT /api/v1/identity-providers/{id}'', ''DELETE /api/v1/identity-providers/{id}'',
     ''GET /api/v1/identity-providers/{id}/group-mappings'', ''PUT /api/v1/identity-providers/{id}/group-mappings'',
     ''DELETE /api/v1/identity-providers/{id}/group-mappings/{mappingID}'', ''PUT /api/v1/sso-settings'',
     ''GET /api/v1/activity'', ''GET /api/v1/settings'', ''PUT /api/v1/settings'',
     ''POST /api/v1/inventory/refresh'', ''GET /api/v1/inventory/refresh/{jobID}'']"

definition routes :: "string list" where
  "routes = health_routes @ public_routes @ api_routes @ [''/api/'', ''/'']"

section \<open>The response writer\<close>

text \<open>The state of \<^verbatim>\<open>statusWriter\<close> and the statuses passed on to the connection.\<close>

record status_writer =
  sw_status :: nat
  sw_bytes :: nat
  sw_wrote :: bool
  sw_sent :: "nat list"

definition fresh_writer :: status_writer where
  "fresh_writer = \<lparr>sw_status = 200, sw_bytes = 0, sw_wrote = False, sw_sent = []\<rparr>"

definition WriteHeader :: "nat \<Rightarrow> status_writer \<Rightarrow> status_writer" where
  "WriteHeader status w =
     (if sw_wrote w then w else w\<lparr>sw_wrote := True, sw_status := status, sw_sent := sw_sent w @ [status]\<rparr>)"

definition Write :: "nat \<Rightarrow> status_writer \<Rightarrow> status_writer" where
  "Write n w =
     (let w = (if sw_wrote w then w else WriteHeader 200 w) in w\<lparr>sw_bytes := sw_bytes w + n\<rparr>)"

section \<open>The outermost handler\<close>

text \<open>A handler answers, or panics before it has written anything.\<close>

datatype outcome = Answered resp | Panics

record server_ext =
  sv_public :: "string \<Rightarrow> request \<Rightarrow> world \<Rightarrow> outcome \<times> world"
  sv_api :: "string \<Rightarrow> user \<Rightarrow> request \<Rightarrow> world \<Rightarrow> outcome \<times> world"
  sv_file :: "string \<Rightarrow> string \<Rightarrow> resp"

definition serve_route :: "server_ext \<Rightarrow> env \<Rightarrow> string \<Rightarrow> string \<Rightarrow> request \<Rightarrow> world \<Rightarrow> outcome \<times> world" where
  "serve_route s e t path r w =
     (if t = ''GET /healthz'' then (Answered (reply 200 (JObj [(''status'', JStr ''ok'')])), w)
      else if t = ''GET /readyz''
      then (Answered (if e_fault e 0 \<or> e_fault e 1 then problem 503 ''Dependencies unavailable''
                      else reply 200 (JObj [(''status'', JStr ''ready'')])), w)
      else if t \<in> set public_routes then sv_public s t r w
      else if t \<in> set api_routes then (case auth e r w of Inl q \<Rightarrow> (Answered q, w) | Inr u \<Rightarrow> sv_api s t u r w)
      else if t = ''/api/'' then (Answered (problem 404 ''API route not found''), w)
      else (Answered (sv_file s (rq_method r) path), w))"

definition ServeHTTP :: "server_ext \<Rightarrow> env \<Rightarrow> string \<Rightarrow> request \<Rightarrow> world \<Rightarrow> outcome \<times> world" where
  "ServeHTTP s e target r w =
     (let p = (if rq_method r = ''CONNECT'' then target else cleanPath target); ss = path_parts p
      in if slash_added routes (rq_method r) ss \<or> p \<noteq> target then (Answered (redirect 301 []), w)
         else case mux_match routes (rq_method r) ss of
           None \<Rightarrow> (Answered (reply 404 JNull), w)
         | Some t \<Rightarrow>
             let vs = path_values (pt_parts (parse_pattern t)) ss
             in serve_route s e t (pct target)
                  (r\<lparr>rq_path := (\<lambda>k. case map_of vs k of None \<Rightarrow> [] | Some v \<Rightarrow> v)\<rparr>) w)"

definition safe_method :: "string \<Rightarrow> bool" where
  "safe_method m \<longleftrightarrow> m = ''GET'' \<or> m = ''HEAD'' \<or> m = ''OPTIONS''"

definition saml_post :: "string \<Rightarrow> string \<Rightarrow> bool" where
  "saml_post m path \<longleftrightarrow> m = ''POST'' \<and> has_prefix ''/sso/'' path \<and> (has_suffix ''/acs'' path \<or> has_suffix ''/slo'' path)"

definition response_headers :: "env \<Rightarrow> string \<Rightarrow> string \<Rightarrow> (string \<times> string) list" where
  "response_headers e m path =
     [(''X-Request-ID'', e_token e 0), (''X-Content-Type-Options'', ''nosniff''), (''X-Frame-Options'', ''DENY''),
      (''Referrer-Policy'', ''same-origin''),
      (''Content-Security-Policy'', ''default-src 'self'; script-src 'self'; style-src 'self'; img-src 'self' data:; frame-ancestors 'none'; form-action 'self'; base-uri '' @ [CHR 0x27] @ ''none'' @ [CHR 0x27])] @
     (if has_prefix ''/api/'' path then [(''Cache-Control'', ''no-store'')]
      else if m = ''GET'' \<or> m = ''HEAD'' then [(''Cache-Control'', ''no-cache'')] else [])"

definition Handler ::
    "server_ext \<Rightarrow> env \<Rightarrow> string \<Rightarrow> request \<Rightarrow> world \<Rightarrow> ((string \<times> string) list \<times> resp) \<times> world" where
  "Handler s e target r w =
     (let path = pct target; m = rq_method r; heads = response_headers e m path; origin = rq_header r ''Origin''
      in if \<not> safe_method m \<and> \<not> saml_post m path \<and> origin \<noteq> [] \<and> origin \<noteq> e_origin e
         then ((heads, problem 403 ''Origin not allowed''), w)
         else case ServeHTTP s e target r w of
           (Answered q, w') \<Rightarrow> ((heads, q), w')
         | (Panics, w') \<Rightarrow> ((heads, panicked), w'))"

section \<open>The first boot\<close>

record boot_env =
  bo_name :: string
  bo_email :: string
  bo_password :: string

definition bootstrap :: "env \<Rightarrow> boot_env \<Rightarrow> db \<Rightarrow> db option" where
  "bootstrap e b d =
     (let name = trim_space (bo_name b)
      in if e_fault e 0 then None
         else if d_users d \<noteq> [] then Some d
         else if length name < 3 \<or> length name > 100 \<or> strongPassword e (bo_password b) \<noteq> None then None
         else case normalizeEmail e (bo_email b) of
           None \<Rightarrow> None
         | Some email \<Rightarrow>
             if e_fault e 1 then None
             else case insert_workspace d ''Netriun Nexus Workspace'' ''default'' of
               None \<Rightarrow> None
             | Some (ws, d1) \<Rightarrow>
                 (case (if e_fault e 2 then None else insert_user d1 ws name email True (e_hash e (bo_password b)) ''admin'' True) of
                    None \<Rightarrow> None
                  | Some (uid, d2) \<Rightarrow>
                      if e_fault e 3 then None
                      else (case insert_settings d2 ws of None \<Rightarrow> None | Some d3 \<Rightarrow> if e_fault e 4 then None else Some d3)))"

section \<open>Schema migrations\<close>

text \<open>A file of the embedded directory: its name, whether it is a directory, its text.  \<open>exec\<close> runs a text on the
  database; \<^const>\<open>None\<close> is an error and rolls the transaction back.  A version is a column \<^verbatim>\<open>integer\<close>.\<close>

type_synonym migration_file = "string \<times> bool \<times> string"

definition migration_version :: "string \<Rightarrow> int option" where
  "migration_version name = Option.bind (cut_at CHR ''_'' name) (\<lambda>(prefix, rest). parse_int64 prefix)"

fun migrate_files :: "(string \<Rightarrow> 'd \<Rightarrow> 'd option) \<Rightarrow> migration_file list \<Rightarrow> int list \<times> 'd \<Rightarrow> (int list \<times> 'd) option" where
  "migrate_files exec [] st = Some st"
| "migrate_files exec ((name, dir, sql) # fs) (applied, d) =
     (if dir \<or> \<not> has_suffix ''.sql'' name then migrate_files exec fs (applied, d)
      else case migration_version name of
        None \<Rightarrow> None
      | Some v \<Rightarrow>
          if v < - (2 ^ 31) \<or> v \<ge> 2 ^ 31 then None
          else if v \<in> set applied then migrate_files exec fs (applied, d)
          else case exec sql d of None \<Rightarrow> None | Some d' \<Rightarrow> migrate_files exec fs (applied @ [v], d'))"

definition migrate :: "(string \<Rightarrow> 'd \<Rightarrow> 'd option) \<Rightarrow> migration_file list \<Rightarrow> int list \<times> 'd \<Rightarrow> (int list \<times> 'd) option" where
  "migrate exec files st = migrate_files exec (sort_key fst files) st"

end
