(* ===== verification/ServerProps.thy ===== *)
theory ServerProps
  imports Server AuthProps SignupProps "HOL-Library.Multiset"
begin

text \<open>
  Properties of the server: the order in which the routes are registered does not matter, without a session the API
  shows nothing and changes nothing, a foreign page cannot change anything, the first boot leaves a way in, and
  migrations are applied once.
\<close>

section \<open>Routes\<close>

lemma part_meets: "part_match a s \<Longrightarrow> part_match b s \<Longrightarrow> part_meet a b"
  by (cases a; cases b) auto

lemma path_meets: "path_match a r ss \<Longrightarrow> path_match b r' ss \<Longrightarrow> path_meet a r b r'"
proof (induction a r b r' arbitrary: ss rule: path_meet.induct)
  case (4 x xs r y ys r')
  then show ?case by (cases ss) (auto dest: part_meets)
qed (auto elim: path_match.elims split: if_splits)

lemma methods_meet: "method_match a m \<Longrightarrow> method_match b m \<Longrightarrow> method_meet a b"
  by (auto simp: method_match_def method_meet_def)

lemma matches_meet: "matches p m ss \<Longrightarrow> matches q m ss \<Longrightarrow> meet p q"
  by (auto simp: matches_def meet_def intro: methods_meet path_meets)

lemma part_meet_sym: "part_meet a b = part_meet b a"
  by (cases a; cases b) auto

lemma path_meet_sym: "path_meet a r b r' = path_meet b r' a r"
  by (induction a r b r' rule: path_meet.induct) (auto simp: part_meet_sym)

lemma conflict_sym: "conflict p q = conflict q p"
  by (auto simp: conflict_def meet_def method_meet_def path_meet_sym)

lemma more_specific_asym: "more_specific p q \<Longrightarrow> \<not> more_specific q p"
  by (auto simp: more_specific_def method_match_def)

lemma pairs_insert:
  assumes "\<And>a b. C a b = C b a" and "t \<notin> S"
  shows "(\<forall>a \<in> insert t S. \<forall>b \<in> insert t S. a \<noteq> b \<longrightarrow> \<not> C a b) \<longleftrightarrow>
    (\<forall>b \<in> S. \<not> C t b) \<and> (\<forall>a \<in> S. \<forall>b \<in> S. a \<noteq> b \<longrightarrow> \<not> C a b)" (is "?l \<longleftrightarrow> ?r")
proof
  assume ?l
  then show ?r using assms(2) by (metis insertCI)
next
  assume r: ?r
  show ?l
  proof (intro ballI impI)
    fix a b
    assume "a \<in> insert t S" "b \<in> insert t S" "a \<noteq> b"
    then show "\<not> C a b" using r assms(1) [of a b] by (cases "a = t"; cases "b = t") simp_all
  qed
qed

lemma registered_iff:
  "distinct ts \<Longrightarrow> registered (map f ts) \<longleftrightarrow> (\<forall>t \<in> set ts. \<forall>t' \<in> set ts. t \<noteq> t' \<longrightarrow> \<not> conflict (f t) (f t'))"
proof (induction ts)
  case (Cons t ts)
  have "registered (map f (t # ts)) \<longleftrightarrow> (\<forall>t' \<in> set ts. \<not> conflict (f t) (f t')) \<and> registered (map f ts)"
    by (simp add: list_all_iff)
  moreover have "registered (map f ts) \<longleftrightarrow> (\<forall>t \<in> set ts. \<forall>t' \<in> set ts. t \<noteq> t' \<longrightarrow> \<not> conflict (f t) (f t'))" "t \<notin> set ts"
    using Cons by simp_all
  moreover have "(\<forall>a \<in> insert t (set ts). \<forall>b \<in> insert t (set ts). a \<noteq> b \<longrightarrow> \<not> conflict (f a) (f b)) \<longleftrightarrow>
      (\<forall>b \<in> set ts. \<not> conflict (f t) (f b)) \<and> (\<forall>a \<in> set ts. \<forall>b \<in> set ts. a \<noteq> b \<longrightarrow> \<not> conflict (f a) (f b))"
    by (rule pairs_insert) (rule conflict_sym, fact)
  ultimately show ?case by simp
qed simp

lemma same_option: "(\<And>t. a = Some t \<longleftrightarrow> b = Some t) \<Longrightarrow> a = b"
  by (cases a; cases b) auto

lemma routes_registered: "registered (map parse_pattern routes)"
  by code_simp

lemma part_reflexive: "part_meet a a" "part_under a a"
  by (cases a; simp)+

lemma path_reflexive: "path_meet a r a r" "path_under a r a r"
  by (induction a) (simp_all add: part_reflexive)

lemma conflict_self: "conflict p p"
  by (auto simp: conflict_def meet_def method_meet_def method_match_def more_specific_def path_reflexive)

lemma registered_distinct: "registered (map f ts) \<Longrightarrow> distinct ts"
  by (induction ts) (auto simp: list_all_iff conflict_self)

lemma routes_distinct: "distinct routes"
  using routes_registered by (rule registered_distinct)

text \<open>The pattern \<^const>\<open>mux_match\<close> selects depends on which are registered alone.\<close>

lemma mux_match_iff:
  assumes "set rs = set routes"
  shows "mux_match rs m ss = Some t \<longleftrightarrow> t \<in> set routes \<and> matches (parse_pattern t) m ss \<and>
    (\<forall>t' \<in> set routes. t' = t \<or> \<not> matches (parse_pattern t') m ss \<or> more_specific (parse_pattern t) (parse_pattern t'))"
    (is "_ \<longleftrightarrow> t \<in> set routes \<and> ?best t")
proof -
  define best where "best t \<longleftrightarrow> ?best t" for t
  have one: "t = t'" if "t \<in> set routes" "t' \<in> set routes" "best t" "best t'" for t t'
    using that more_specific_asym [of "parse_pattern t" "parse_pattern t'"] unfolding best_def by metis
  have find: "mux_match rs m ss = find best rs" by (simp add: mux_match_def list_all_iff assms best_def [abs_def])
  have "find best rs = Some t \<longleftrightarrow> t \<in> set rs \<and> best t"
  proof
    assume "find best rs = Some t"
    then show "t \<in> set rs \<and> best t" by (rule find_Some_iff_in)
  next
    assume t: "t \<in> set rs \<and> best t"
    then have "find best rs \<noteq> None" unfolding find_None by blast
    then obtain t' where t': "find best rs = Some t'" by blast
    then have "t' \<in> set rs \<and> best t'" by (rule find_Some_iff_in)
    then have "t' = t" using one [of t' t] t by (simp add: assms)
    then show "find best rs = Some t" using t' by simp
  qed
  then show ?thesis by (simp add: find assms best_def)
qed

text \<open>C34: the routes are registered in the order in which Go happens to walk a map.  In whatever order, no
  registration panics, and every request is served by the same route.\<close>

theorem routes_any_order:
  assumes "mset rs = mset routes"
  shows "registered (map parse_pattern rs) \<and> mux_match rs m ss = mux_match routes m ss"
proof -
  have set: "set rs = set routes" using assms by (rule mset_eq_setD)
  have "distinct rs" using routes_distinct mset_eq_imp_distinct_iff [OF assms] by simp
  then have "registered (map parse_pattern rs)"
    using routes_registered registered_iff [OF routes_distinct, of parse_pattern] by (simp add: registered_iff set)
  moreover have "mux_match rs m ss = mux_match routes m ss"
    by (rule same_option) (simp only: mux_match_iff [OF set] mux_match_iff [OF refl])
  ultimately show ?thesis by blast
qed

lemma routes_any_order_witness:
  "mux_match (rev routes) ''GET'' [''api'', ''v1'', ''instances'', ''7''] = mux_match routes ''GET'' [''api'', ''v1'', ''instances'', ''7'']"
proof -
  have "mset (rev routes) = mset routes" by simp
  from routes_any_order [OF this] show ?thesis by blast
qed

section \<open>Who reaches what\<close>

text \<open>A slash stays a slash.\<close>

lemma hex_slash [simp]: "hex_val CHR ''/'' = None"
  by code_simp

lemma pct_plain: "c \<noteq> CHR ''%'' \<Longrightarrow> pct (c # cs) = c # pct cs"
  by simp

lemma pct_slash: "pct (a @ CHR ''/'' # b) = pct a @ CHR ''/'' # pct b"
proof (induction a rule: length_induct)
  case (1 a)
  show ?case
  proof (cases a)
    case Nil
    then show ?thesis by simp
  next
    case (Cons c cs)
    then have IH: "pct (cs @ CHR ''/'' # b) = pct cs @ CHR ''/'' # pct b" using 1 by simp
    show ?thesis
    proof (cases "c = CHR ''%''")
      case False
      then show ?thesis using IH by (simp add: Cons)
    next
      case True
      consider "cs = []" | x where "cs = [x]" | x y rest where "cs = x # y # rest" by (metis neq_Nil_conv)
      then show ?thesis
      proof cases
        case 1
        then show ?thesis using True IH by (cases b) (auto simp: Cons split: option.splits)
      next
        case 2
        then show ?thesis using True IH by (auto simp: Cons split: option.splits)
      next
        case 3
        then have "pct (rest @ CHR ''/'' # b) = pct rest @ CHR ''/'' # pct b" using 1 Cons by simp
        then show ?thesis using True IH 3 by (auto simp: Cons split: option.splits)
      qed
    qed
  qed
qed

lemma first_part: "split_on c s = p # ps \<Longrightarrow> s = p \<or> (\<exists>rest. s = p @ c # rest)"
  using join_split [of c s] by (cases ps) auto

lemma first_part_path:
  assumes "cleanPath target = target" and "path_parts target = p # ps" and "CHR ''/'' \<notin> set p"
  shows "pct target = CHR ''/'' # p \<or> (\<exists>rest. pct target = CHR ''/'' # p @ CHR ''/'' # rest)"
proof -
  have "hd (cleanPath target) = CHR ''/''" "cleanPath target \<noteq> []" by (simp_all add: cleanPath_def Let_def)
  then obtain x where x: "target = CHR ''/'' # x" unfolding assms(1) by (cases target) auto
  obtain q qs where q: "split_on CHR ''/'' x = q # qs" by (cases "split_on CHR ''/'' x") auto
  then have "pct q = p" using assms(2) by (simp add: path_parts_def x)
  then show ?thesis using first_part [OF q] by (auto simp: x pct_slash)
qed

text \<open>What can be posted without a session: to sign in or up, and by a SAML provider.\<close>

definition open_posts :: "string list" where
  "open_posts = [''POST /api/v1/auth/login'', ''POST /api/v1/auth/signup'', ''POST /api/v1/auth/resend-verification'']"

definition saml_posts :: "string list" where
  "saml_posts = [''POST /sso/{provider}/acs'', ''POST /sso/{provider}/slo'']"

lemma api_parts:
  "list_all (\<lambda>t. take 1 (pt_parts (parse_pattern t)) = [Lit ''api''] \<and> 2 \<le> length (pt_parts (parse_pattern t)))
     (open_posts @ api_routes)"
  by code_simp

lemma api_first:
  assumes "t \<in> set open_posts \<or> t \<in> set api_routes"
    and "matches (parse_pattern t) m ss"
  shows "\<exists>s ps. ss = ''api'' # s # ps"
proof -
  from api_parts assms(1) have "take 1 (pt_parts (parse_pattern t)) = [Lit ''api'']" "2 \<le> length (pt_parts (parse_pattern t))"
    unfolding list_all_iff set_append by blast+
  then obtain q qs where "pt_parts (parse_pattern t) = Lit ''api'' # q # qs"
    by (cases "pt_parts (parse_pattern t)"; cases "tl (pt_parts (parse_pattern t))") auto
  then show ?thesis using assms(2) unfolding matches_def by (cases ss; cases "tl ss") auto
qed

lemma auth_path [simp]: "auth e (r\<lparr>rq_path := f\<rparr>) w = auth e r w"
proof -
  have "rq_cookie (r\<lparr>rq_path := f\<rparr>) = rq_cookie r" "rq_header (r\<lparr>rq_path := f\<rparr>) = rq_header r" by simp_all
  then have "sessionToken (r\<lparr>rq_path := f\<rparr>) = sessionToken r" unfolding sessionToken_def by presburger
  then show ?thesis unfolding auth_def by (rule arg_cong)
qed

lemma auth_status: "auth e r w = Inl q \<Longrightarrow> rs_status q = 401"
  by (auto simp: auth_def Let_def problem_def reply_def split: if_splits option.splits)

lemma other_patterns:
  "parse_pattern ''/'' = \<lparr>pt_method = [], pt_parts = [], pt_rest = True\<rparr>"
  "parse_pattern ''/api/'' = \<lparr>pt_method = [], pt_parts = [Lit ''api''], pt_rest = True\<rparr>"
  "parse_pattern ''GET /healthz'' = \<lparr>pt_method = ''GET'', pt_parts = [Lit ''healthz''], pt_rest = False\<rparr>"
  "parse_pattern ''GET /readyz'' = \<lparr>pt_method = ''GET'', pt_parts = [Lit ''readyz''], pt_rest = False\<rparr>"
  by code_simp+

lemma api_not_file: "mux_match routes m (''api'' # p # ps) \<noteq> Some ''/''"
proof
  assume "mux_match routes m (''api'' # p # ps) = Some ''/''"
  then have "''/api/'' = ''/'' \<or> \<not> matches (parse_pattern ''/api/'') m (''api'' # p # ps) \<or> more_specific (parse_pattern ''/'') (parse_pattern ''/api/'')"
    unfolding mux_match_iff [OF refl] by (auto simp: routes_def)
  then show False by (simp add: other_patterns matches_def method_match_def more_specific_def)
qed


definition anonymous :: request where
  "anonymous = blank_request\<lparr>rq_method := ''DELETE''\<rparr>"

definition no_files :: server_ext where
  "no_files = \<lparr>sv_public = (\<lambda>t r w. (Panics, w)), sv_api = (\<lambda>t u r w. (Panics, w)), sv_file = (\<lambda>m p. reply 404 JNull)\<rparr>"


lemma only_sso_posts:
  "list_all (\<lambda>t. pt_method (parse_pattern t) = ''GET'' \<or> t \<in> set open_posts \<or> t \<in> set saml_posts) public_routes"
  by code_simp

text \<open>C36: a foreign page changes nothing.  A request that is not safe and names another origin is refused, unless it is
  posted to one of the two endpoints that SAML providers post to; nothing else it could reach changes the world.\<close>

theorem foreign_origin_refused:
  assumes "rq_method r \<notin> {''GET'', ''HEAD'', ''OPTIONS''}" and "rq_header r ''Origin'' \<noteq> []" and "rq_header r ''Origin'' \<noteq> e_origin e"
  shows "snd (Handler s e target r w) = w \<or>
    rq_method r = ''POST'' \<and> mux_match routes ''POST'' (path_parts target) \<in> Some ` set saml_posts"
proof (cases "saml_post (rq_method r) (pct target)")
  case False
  moreover have "\<not> safe_method (rq_method r)" using assms(1) by (simp add: safe_method_def)
  ultimately show ?thesis using assms(2,3) by (simp add: Handler_def Let_def)
next
  case True
  then have post: "rq_method r = ''POST''" and sso: "has_prefix ''/sso/'' (pct target)" by (simp_all add: saml_post_def)
  have handler: "snd (Handler s e target r w) = snd (ServeHTTP s e target r w)"
    using True by (simp add: Handler_def Let_def split: prod.splits outcome.splits)
  show ?thesis
  proof (cases "snd (ServeHTTP s e target r w) = w")
    case True
    then show ?thesis using handler by simp
  next
    case False
    then obtain t where clean: "cleanPath target = target" and mux: "mux_match routes ''POST'' (path_parts target) = Some t"
      and changed: "\<exists>r'. snd (serve_route s e t (pct target) r' w) \<noteq> w"
      unfolding ServeHTTP_def Let_def using post by (auto split: if_splits option.splits)
    have t: "matches (parse_pattern t) ''POST'' (path_parts target)" using mux unfolding mux_match_iff [OF refl] by blast
    have known: "t \<in> set public_routes \<or> t \<in> set api_routes"
      using changed unfolding serve_route_def by (auto split: if_splits)
    have "\<not> (\<exists>p ps. path_parts target = ''api'' # p # ps)"
    proof
      assume "\<exists>p ps. path_parts target = ''api'' # p # ps"
      then obtain p ps where "path_parts target = ''api'' # p # ps" by blast
      from first_part_path [OF clean this] show False using sso by (auto simp: has_prefix_def)
    qed
    then have "t \<notin> set open_posts" "t \<notin> set api_routes" using api_first [OF _ t] by blast+
    moreover have "pt_method (parse_pattern t) \<noteq> ''GET''" using t by (auto simp: matches_def method_match_def)
    ultimately have "t \<in> set saml_posts" using known only_sso_posts unfolding list_all_iff by blast
    then show ?thesis using mux post by blast
  qed
qed

definition foreign_request :: request where
  "foreign_request = blank_request\<lparr>rq_header := (\<lambda>k. if k = ''Origin'' then ''https://evil.example'' else [])\<rparr>"

lemma foreign_origin_refused_witness:
  "snd (Handler no_files good_env ''/api/v1/auth/login'' foreign_request (world_of demo_db)) = world_of demo_db \<and>
   rs_status (snd (fst (Handler no_files good_env ''/api/v1/auth/login'' foreign_request (world_of demo_db)))) = 403"
proof -
  have "rs_status (snd (fst (Handler no_files good_env ''/api/v1/auth/login'' foreign_request (world_of demo_db)))) = 403"
    by code_simp
  moreover have "mux_match routes ''POST'' (path_parts ''/api/v1/auth/login'') \<notin> Some ` set saml_posts"
  proof -
    have "list_all (\<lambda>t. \<not> matches (parse_pattern t) ''POST'' (path_parts ''/api/v1/auth/login'')) saml_posts" by code_simp
    then show ?thesis unfolding list_all_iff image_iff mux_match_iff [OF refl] by blast
  qed
  moreover have "rq_method foreign_request \<notin> {''GET'', ''HEAD'', ''OPTIONS''}" "rq_header foreign_request ''Origin'' \<noteq> []"
    "rq_header foreign_request ''Origin'' \<noteq> e_origin good_env" by code_simp+
  ultimately show ?thesis using foreign_origin_refused [of foreign_request good_env no_files "''/api/v1/auth/login''" "world_of demo_db"] by blast
qed

section \<open>The response writer\<close>

text \<open>Only the first status is sent, and it is the one that is logged.\<close>

lemma one_status:
  "sw_sent (fold (\<lambda>op. case op of Inl st \<Rightarrow> WriteHeader st | Inr n \<Rightarrow> Write n) ops w) =
     (if sw_wrote w \<or> ops = [] then sw_sent w else sw_sent w @ [case hd ops of Inl st \<Rightarrow> st | Inr n \<Rightarrow> 200])"
  by (induction ops arbitrary: w) (auto simp: WriteHeader_def Write_def Let_def split: sum.splits)

section \<open>Migrations\<close>

definition run_all :: "(string \<Rightarrow> 'd \<Rightarrow> 'd option) \<Rightarrow> string list \<Rightarrow> 'd \<Rightarrow> 'd option" where
  "run_all exec sqls d = foldl (\<lambda>r sql. Option.bind r (exec sql)) (Some d) sqls"

lemma run_all_Cons: "exec sql d = Some d1 \<Longrightarrow> run_all exec (sql # sqls) d = run_all exec sqls d1"
  by (simp add: run_all_def)

definition migration_of :: "int \<Rightarrow> migration_file \<Rightarrow> bool" where
  "migration_of v f \<longleftrightarrow> (case f of (name, dir, sql) \<Rightarrow> \<not> dir \<and> has_suffix ''.sql'' name \<and> migration_version name = Some v)"

lemma migrate_files_Some:
  "migrate_files exec fs (vs, d) = Some (vs', d') \<Longrightarrow>
     \<exists>ran. vs' = vs @ map fst ran \<and> distinct (map fst ran) \<and> set (map fst ran) \<inter> set vs = {} \<and> run_all exec (map snd ran) d = Some d' \<and>
       (\<forall>(v, sql) \<in> set ran. \<exists>name. (name, False, sql) \<in> set fs \<and> migration_of v (name, False, sql)) \<and>
       (\<forall>f \<in> set fs. \<forall>v. migration_of v f \<longrightarrow> v \<in> set vs')"
proof (induction exec fs "(vs, d)" arbitrary: vs d rule: migrate_files.induct)
  case (1 exec vs d)
  then show ?case by (intro exI [of _ "[]"]) (simp add: run_all_def)
next
  case (2 exec name dir sql fs vs d)
  show ?case
  proof (cases "dir \<or> \<not> has_suffix ''.sql'' name")
    case True
    with 2 show ?thesis by (fastforce simp: migration_of_def)
  next
    case False
    with 2(4) obtain v where v: "migration_version name = Some v" "\<not> (v < - (2 ^ 31) \<or> v \<ge> 2 ^ 31)"
      by (auto split: option.splits if_splits)
    show ?thesis
    proof (cases "v \<in> set vs")
      case True
      with 2(4) False v have rest: "migrate_files exec fs (vs, d) = Some (vs', d')" by simp
      have mine: "w \<in> set vs" if "migration_of w (name, dir, sql)" for w using that True v by (simp add: migration_of_def)
      from 2(2) [OF False v(1) v(2) True rest] mine show ?thesis by fastforce
    next
      case new: False
      with 2(4) False v obtain d1 where d1: "exec sql d = Some d1" and rest: "migrate_files exec fs (vs @ [v], d1) = Some (vs', d')"
        by (auto split: option.splits)
      from 2(3) [OF False v(1) v(2) new d1 rest] obtain ran where ran: "vs' = (vs @ [v]) @ map fst ran" "distinct (map fst ran)"
        "set (map fst ran) \<inter> set (vs @ [v]) = {}" "run_all exec (map snd ran) d1 = Some d'"
        "\<forall>(v, sql) \<in> set ran. \<exists>name. (name, False, sql) \<in> set fs \<and> migration_of v (name, False, sql)"
        "\<forall>f \<in> set fs. \<forall>v. migration_of v f \<longrightarrow> v \<in> set vs'" by blast
      have me: "(name, False, sql) \<in> set ((name, dir, sql) # fs) \<and> migration_of v (name, False, sql)"
        using False v by (simp add: migration_of_def)
      have all: "\<forall>f \<in> set ((name, dir, sql) # fs). \<forall>u. migration_of u f \<longrightarrow> u \<in> set vs'"
        using ran(1,6) v(1) by (auto simp: migration_of_def)
      have "run_all exec (map snd ((v, sql) # ran)) d = Some d'" using ran(4) run_all_Cons [of exec sql d d1, OF d1] by simp
      moreover have "\<forall>(u, s) \<in> set ((v, sql) # ran). \<exists>n. (n, False, s) \<in> set ((name, dir, sql) # fs) \<and> migration_of u (n, False, s)"
        using ran(5) me by fastforce
      ultimately show ?thesis using ran(1-3) new all by (intro exI [of _ "(v, sql) # ran"] conjI) auto
    qed
  qed
qed

lemma migrate_files_again:
  "migrate_files exec fs st = Some st' \<Longrightarrow> \<forall>f \<in> set fs. \<forall>v. migration_of v f \<longrightarrow> v \<in> set (fst st2) \<Longrightarrow> migrate_files exec fs st2 = Some st2"
proof (induction exec fs st arbitrary: st2 rule: migrate_files.induct)
  case (2 exec name dir sql fs vs d)
  obtain us d2 where st2: "st2 = (us, d2)" by (cases st2)
  show ?case
  proof (cases "dir \<or> \<not> has_suffix ''.sql'' name")
    case True
    with 2 show ?thesis by (simp add: st2)
  next
    case False
    with 2(4) obtain v where v: "migration_version name = Some v" "\<not> (v < - (2 ^ 31) \<or> v \<ge> 2 ^ 31)"
      by (auto split: option.splits if_splits)
    then have "v \<in> set us" using 2(5) False by (auto simp: migration_of_def st2)
    moreover have "migrate_files exec fs st2 = Some st2"
      using 2 False v by (auto split: option.splits if_splits)
    ultimately show ?thesis using False v by (simp add: st2)
  qed
qed simp

text \<open>C38: a start that succeeds has run exactly the migrations whose versions were missing, each version once, and
  recorded them; started again it runs nothing.  A start that fails has changed nothing (there is no result).\<close>

theorem migrations_once:
  assumes "migrate exec files (vs, d) = Some (vs', d')"
  shows "(\<exists>ran. vs' = vs @ map fst ran \<and> distinct (map fst ran) \<and> set (map fst ran) \<inter> set vs = {} \<and>
      run_all exec (map snd ran) d = Some d' \<and>
      (\<forall>(v, sql) \<in> set ran. \<exists>name. (name, False, sql) \<in> set files \<and> migration_of v (name, False, sql))) \<and>
    (\<forall>f \<in> set files. \<forall>v. migration_of v f \<longrightarrow> v \<in> set vs') \<and>
    migrate exec files (vs', d') = Some (vs', d')"
proof -
  note run = assms [unfolded migrate_def]
  from migrate_files_Some [OF run] have all: "\<forall>f \<in> set (sort_key fst files). \<forall>v. migration_of v f \<longrightarrow> v \<in> set (fst (vs', d'))"
    by auto
  from migrate_files_again [OF run all] migrate_files_Some [OF run] show ?thesis
    unfolding migrate_def by (simp del: split_paired_Ex) blast
qed

lemma migrations_once_witness:
  "migrate (\<lambda>sql d. Some (d @ [sql])) [(''002_b.sql'', False, ''B''), (''001_a.sql'', False, ''A''), (''notes.txt'', False, ''N'')] ([1], [''A'']) =
     Some ([1, 2], [''A'', ''B'']) \<and>
   migrate (\<lambda>sql d. Some (d @ [sql])) [(''002_b.sql'', False, ''B''), (''001_a.sql'', False, ''A''), (''notes.txt'', False, ''N'')] ([1, 2], [''A'', ''B'']) =
     Some ([1, 2], [''A'', ''B''])"
proof -
  have run: "migrate (\<lambda>sql d. Some (d @ [sql])) [(''002_b.sql'', False, ''B''), (''001_a.sql'', False, ''A''), (''notes.txt'', False, ''N'')] ([1], [''A'']) =
     Some ([1, 2], [''A'', ''B''])" by code_simp
  then show ?thesis using migrations_once [OF run] by blast
qed

section \<open>The first boot\<close>

lemma lower_char_again [simp]: "lower_char (lower_char c) = lower_char c"
proof (cases "is_upper c")
  case True
  then have "of_char (lower_char c) = of_char c + (32 :: nat)" by (simp add: lower_char_def is_upper_def Let_def)
  then have "\<not> is_upper (lower_char c)" using True by (simp add: is_upper_def Let_def)
  then show ?thesis by (simp add: lower_char_def [of "lower_char c"])
qed (simp add: lower_char_def)

lemma to_lower_again [simp]: "to_lower (to_lower s) = to_lower s"
  by (simp add: to_lower_def)

lemma insert_user_ws: "insert_user d ws name email v hash role owner = Some (i, d') \<Longrightarrow> ws_by_id d ws \<noteq> None \<and> d_ws d' = d_ws d"
  by (auto simp: insert_user_def Let_def split: if_splits)

lemma bootstrap_Some:
  assumes "bootstrap e b d = Some d'" and "d_users d = []"
  shows "\<exists>x email. normalizeEmail e (bo_email b) = Some email \<and> d_users d' = [x] \<and> us_email x = email \<and> us_verified x \<and>
    us_hash x = e_hash e (bo_password b) \<and> us_role x = ''admin'' \<and> us_owner x \<and> ws_by_id d' (us_ws x) \<noteq> None"
proof -
  from assms obtain email ws d1 uid d2 where email: "normalizeEmail e (bo_email b) = Some email"
    and one: "insert_workspace d ''Netriun Nexus Workspace'' ''default'' = Some (ws, d1)"
    and two: "insert_user d1 ws (trim_space (bo_name b)) email True (e_hash e (bo_password b)) ''admin'' True = Some (uid, d2)"
    and three: "insert_settings d2 ws = Some d'"
    unfolding bootstrap_def Let_def by (auto split: if_splits option.splits)
  from insert_workspace_Some [OF one] insert_settings_Some [OF three] insert_user_ws [OF two] assms(2)
  have "d_users d1 = []" "d_users d' = d_users d2" "ws_by_id d' ws \<noteq> None" by (simp_all add: ws_by_id_def)
  with insert_user_Some [OF two] email show ?thesis by auto
qed

text \<open>C37: the first boot leaves exactly one way in.  Where nobody exists yet it creates one person, a verified
  administrator who owns the workspace, who can sign in with the configured address and password; and no later
  boot, however configured, changes the database.\<close>

theorem first_boot_signs_in:
  assumes "bootstrap e b d = Some d'" and "d_users d = []" and "w_db w = d'"
    and "e_address e' = e_address e" and "e_check e' (e_hash e (bo_password b)) (bo_password b)"
    and "has_prefix ''application/json'' (rq_header r ''Content-Type'')"
    and "\<not> e_fault e' 0" "\<not> e_fault e' 1" "\<not> e_fault e' 2"
    and "rincr_window (e_now e') 300 (attempt_key e' nets ''login'' r) (w_redis w) = Some (n, red)" and "n \<le> 20"
  shows "(\<exists>x. d_users d' = [x] \<and> us_role x = ''admin'' \<and> us_owner x \<and> us_verified x) \<and>
    rs_status (fst (login e' nets r (Body \<lparr>li_email = bo_email b, li_password = bo_password b\<rparr>) w)) = 200 \<and>
    (\<forall>e2 b2. \<not> e_fault e2 0 \<longrightarrow> bootstrap e2 b2 d' = Some d')"
proof -
  from bootstrap_Some [OF assms(1,2)] obtain x email where x: "normalizeEmail e (bo_email b) = Some email" "d_users d' = [x]"
    "us_email x = email" "us_verified x" "us_hash x = e_hash e (bo_password b)" "us_role x = ''admin''" "us_owner x" "ws_by_id d' (us_ws x) \<noteq> None"
    by blast
  have email: "normalizeEmail e' (bo_email b) = Some email" using x(1) unfolding normalizeEmail_def assms(4) .
  have "to_lower email = email" using x(1) by (auto simp: normalizeEmail_def Let_def split: if_splits option.splits)
  then have "user_by_email d' email = Some x" using x(2,3) by (simp add: user_by_email_def)
  then obtain u sso where row: "login_row e' d' (bo_email b) = Some (x, u, sso)" "u_owner u"
    using email x(7,8) assms(8) by (auto simp: login_row_def user_of_def split: option.splits)
  have json: "decode r (Body \<lparr>li_email = bo_email b, li_password = bo_password b\<rparr>) = Inr \<lparr>li_email = bo_email b, li_password = bo_password b\<rparr>"
    using assms(6) by (simp add: decode_def)
  have "rs_status (fst (login e' nets r (Body \<lparr>li_email = bo_email b, li_password = bo_password b\<rparr>) w)) = 200"
    using row x(4,5) assms(3,5,7,9,10,11) json by (simp add: login_def startSession_status)
  moreover have "\<forall>e2 b2. \<not> e_fault e2 0 \<longrightarrow> bootstrap e2 b2 d' = Some d'" using x(2) by (simp add: bootstrap_def Let_def)
  ultimately show ?thesis using x by blast
qed

definition boot_config :: boot_env where
  "boot_config = \<lparr>bo_name = '' root '', bo_email = '' Root@a.io'', bo_password = ''Secret-pw-1''\<rparr>"

lemma first_boot_signs_in_witness:
  "\<exists>d'. bootstrap (site ''t'' 0) boot_config empty_db = Some d' \<and>
     rs_status (fst (login (site ''t'' 9) [] blank_request (Body \<lparr>li_email = '' Root@a.io'', li_password = ''Secret-pw-1''\<rparr>) (world_of d'))) = 200"
proof -
  have "bootstrap (site ''t'' 0) boot_config empty_db \<noteq> None" by code_simp
  then obtain d' where boot: "bootstrap (site ''t'' 0) boot_config empty_db = Some d'" by blast
  have facts: "d_users empty_db = []" "w_db (world_of d') = d'" "e_address (site ''t'' 9) = e_address (site ''t'' 0)"
    "e_check (site ''t'' 9) (e_hash (site ''t'' 0) (bo_password boot_config)) (bo_password boot_config)"
    "has_prefix ''application/json'' (rq_header blank_request ''Content-Type'')"
    "\<not> e_fault (site ''t'' 9) 0" "\<not> e_fault (site ''t'' 9) 1" "\<not> e_fault (site ''t'' 9) 2"
    by (simp_all add: empty_db_def world_of_def site_def good_env_def blank_request_def has_prefix_def)
  have "rincr_window (e_now (site ''t'' 9)) 300 (attempt_key (site ''t'' 9) [] ''login'' blank_request) (w_redis (world_of d')) =
      Some (1, (w_redis (world_of d'))(attempt_key (site ''t'' 9) [] ''login'' blank_request := Some (RCount 1, Some (e_now (site ''t'' 9) + 300))))"
    by (simp add: rincr_window_def rget_def world_of_def)
  from first_boot_signs_in [OF boot facts this] boot show ?thesis by (simp add: boot_config_def)
qed

end
