(* ===== verification/Config.thy ===== *)
theory Config
  imports Auth
begin

text \<open>
  What the process is configured with and depends on: the environment (\<^verbatim>\<open>internal/app/config.go\<close>), the vault that seals
  credentials (\<^verbatim>\<open>internal/secure\<close>) and the mail sender (\<^verbatim>\<open>internal/app/mail.go\<close>).

  AES-GCM, the parsing of URLs and the SMTP server are parameters.  Bytes are characters.
\<close>

section \<open>Base64\<close>

definition b64_char :: "nat \<Rightarrow> char" where
  "b64_char n =
     (if n < 26 then char_of (65 + n) else if n < 52 then char_of (71 + n) else if n < 62 then char_of (n - 4)
      else if n = 62 then CHR ''+'' else CHR ''/'')"

definition b64_val :: "char \<Rightarrow> nat option" where
  "b64_val c =
     (if is_upper c then Some (of_char c - 65) else if is_lower c then Some (of_char c - 71)
      else if is_digit c then Some (of_char c + 4) else if c = CHR ''+'' then Some 62 else if c = CHR ''/'' then Some 63 else None)"

fun b64_encode :: "string \<Rightarrow> string" where
  "b64_encode [] = []"
| "b64_encode [a] = (let x = of_char a in [b64_char (x div 4), b64_char (x mod 4 * 16), CHR ''='', CHR ''=''])"
| "b64_encode [a, b] =
     (let x = of_char a; y = of_char b
      in [b64_char (x div 4), b64_char (x mod 4 * 16 + y div 16), b64_char (y mod 16 * 4), CHR ''=''])"
| "b64_encode (a # b # c # s) =
     (let x = of_char a; y = of_char b; z = of_char c
      in b64_char (x div 4) # b64_char (x mod 4 * 16 + y div 16) # b64_char (y mod 16 * 4 + z div 64) # b64_char (z mod 64) # b64_encode s)"

text \<open>A group of four: one or two bytes where it is padded, which only the last may be.\<close>

fun b64_groups :: "string \<Rightarrow> string option" where
  "b64_groups [] = Some []"
| "b64_groups (p # q # r # t # s) =
     (case (b64_val p, b64_val q) of
        (Some x, Some y) \<Rightarrow>
          let a = char_of (x * 4 + y div 16)
          in if r = CHR ''='' then (if t = CHR ''='' \<and> s = [] then Some [a] else None)
             else (case b64_val r of
               None \<Rightarrow> None
             | Some z \<Rightarrow>
                 let b = char_of (y mod 16 * 16 + z div 4)
                 in if t = CHR ''='' then (if s = [] then Some [a, b] else None)
                    else (case (b64_val t, b64_groups s) of
                            (Some v, Some rest) \<Rightarrow> Some (a # b # char_of (z mod 4 * 64 + v) # rest)
                          | _ \<Rightarrow> None))
      | _ \<Rightarrow> None)"
| "b64_groups _ = None"

text \<open>Line ends are skipped.\<close>

definition b64_decode :: "string \<Rightarrow> string option" where
  "b64_decode s = b64_groups (filter (\<lambda>c. c \<noteq> CHR 0x0A \<and> c \<noteq> CHR 0x0D) s)"

section \<open>The vault\<close>

text \<open>\<open>gcm_seal\<close> and \<open>gcm_open\<close> take key, nonce, text and additional data; the nonce has twelve bytes.\<close>

record aead =
  gcm_seal :: "string \<Rightarrow> string \<Rightarrow> string \<Rightarrow> string \<Rightarrow> string"
  gcm_open :: "string \<Rightarrow> string \<Rightarrow> string \<Rightarrow> string \<Rightarrow> string option"

definition nexusCredentialsAAD :: string where
  "nexusCredentialsAAD = ''netriun-nexus:credentials:v1''"

definition legacyCredentialsAAD :: string where
  "legacyCredentialsAAD = ''netriun-ccmp:credentials:v1''"

definition NewVault :: "string \<Rightarrow> string option" where
  "NewVault key = (case b64_decode key of None \<Rightarrow> None | Some b \<Rightarrow> if length b = 32 then Some b else None)"

definition Encrypt :: "aead \<Rightarrow> string \<Rightarrow> string \<Rightarrow> string \<Rightarrow> string" where
  "Encrypt g key nonce s = b64_encode (nonce @ gcm_seal g key nonce s nexusCredentialsAAD)"

definition Decrypt :: "aead \<Rightarrow> string \<Rightarrow> string \<Rightarrow> string option" where
  "Decrypt g key s =
     (case b64_decode s of
        None \<Rightarrow> None
      | Some b \<Rightarrow>
          if length b < 12 then None
          else (case gcm_open g key (take 12 b) (drop 12 b) nexusCredentialsAAD of
                  Some p \<Rightarrow> Some p
                | None \<Rightarrow> gcm_open g key (take 12 b) (drop 12 b) legacyCredentialsAAD))"

section \<open>The environment\<close>

record parsed_url =
  pu_scheme :: string
  pu_host :: string
  pu_user :: bool
  pu_path :: string
  pu_query :: string
  pu_fragment :: string
  pu_text :: string

record runtime_config =
  cg_database :: string
  cg_redis :: string
  cg_key :: string
  cg_origin :: string
  cg_secure :: bool
  cg_proxies :: "network list"
  cg_smtp_host :: string
  cg_smtp_port :: string
  cg_smtp_username :: string
  cg_smtp_password :: string
  cg_smtp_address :: string
  cg_smtp_name :: string

definition parse_bool :: "string \<Rightarrow> bool option" where
  "parse_bool s =
     (if s \<in> {''1'', ''t'', ''T'', ''true'', ''TRUE'', ''True''} then Some True
      else if s \<in> {''0'', ''f'', ''F'', ''false'', ''FALSE'', ''False''} then Some False else None)"

definition exact_origin :: "parsed_url \<Rightarrow> bool" where
  "exact_origin u \<longleftrightarrow> (pu_scheme u = ''http'' \<or> pu_scheme u = ''https'') \<and> pu_host u \<noteq> [] \<and> \<not> pu_user u \<and>
     (pu_path u = [] \<or> pu_path u = ''/'') \<and> pu_query u = [] \<and> pu_fragment u = []"

text \<open>The result or the error message.\<close>

definition loadRuntimeConfig :: "(string \<Rightarrow> parsed_url option) \<Rightarrow> (string \<Rightarrow> string) \<Rightarrow> string + runtime_config" where
  "loadRuntimeConfig parse getenv =
     (let get = (\<lambda>k. trim_space (getenv k))
      in if get ''DATABASE_URL'' = [] \<or> get ''REDIS_URL'' = [] \<or> get ''ENCRYPTION_KEY'' = []
         then Inl ''DATABASE_URL, REDIS_URL and ENCRYPTION_KEY are required''
         else if list_ex (\<lambda>k. get k = []) [''SMTP_HOST'', ''SMTP_PORT'', ''SMTP_USERNAME'', ''SMTP_PASSWORD'', ''SMTP_FROM_ADDRESS'', ''SMTP_FROM_NAME'']
         then Inl ''SMTP_HOST, SMTP_PORT, SMTP_USERNAME, SMTP_PASSWORD, SMTP_FROM_ADDRESS and SMTP_FROM_NAME are required''
         else if (case parse_int64 (get ''SMTP_PORT'') of None \<Rightarrow> True | Some p \<Rightarrow> p < 1 \<or> p > 65535)
         then Inl ''SMTP_PORT must be a valid TCP port''
         else case parse (get ''APP_ORIGIN'') of
           None \<Rightarrow> Inl ''APP_ORIGIN must be an exact http(s) origin without a path, query or fragment''
         | Some u \<Rightarrow>
             if \<not> exact_origin u then Inl ''APP_ORIGIN must be an exact http(s) origin without a path, query or fragment''
             else case (if get ''COOKIE_SECURE'' = [] then Some True else parse_bool (get ''COOKIE_SECURE'')) of
               None \<Rightarrow> Inl ''COOKIE_SECURE must be true or false''
             | Some secure \<Rightarrow>
                 if pu_scheme u = ''https'' \<and> \<not> secure then Inl ''COOKIE_SECURE must be true when APP_ORIGIN uses https''
                 else case parseTrustedProxies (getenv ''TRUSTED_PROXY_CIDRS'') of
                   None \<Rightarrow> Inl ''TRUSTED_PROXY_CIDRS must be a comma-separated list of IP addresses or CIDRs''
                 | Some nets \<Rightarrow>
                     Inr \<lparr>cg_database = get ''DATABASE_URL'', cg_redis = get ''REDIS_URL'', cg_key = get ''ENCRYPTION_KEY'',
                       cg_origin = trim_suffix ''/'' (pu_text u), cg_secure = secure, cg_proxies = nets,
                       cg_smtp_host = get ''SMTP_HOST'', cg_smtp_port = get ''SMTP_PORT'', cg_smtp_username = get ''SMTP_USERNAME'',
                       cg_smtp_password = get ''SMTP_PASSWORD'', cg_smtp_address = get ''SMTP_FROM_ADDRESS'', cg_smtp_name = get ''SMTP_FROM_NAME''\<rparr>)"

section \<open>Mail\<close>

text \<open>\<open>ml_format\<close> is \<^verbatim>\<open>mail.Address.String\<close> of a name and an address.\<close>

record sender =
  sd_username :: string
  sd_password :: string
  sd_from :: string
  sd_name :: string

definition newSMTPSender :: "env \<Rightarrow> runtime_config \<Rightarrow> sender option" where
  "newSMTPSender e c =
     (case e_address e (cg_smtp_address c) of
        None \<Rightarrow> None
      | Some a \<Rightarrow>
          if \<not> equal_fold a (cg_smtp_address c) then None
          else Some \<lparr>sd_username = cg_smtp_username c, sd_password = cg_smtp_password c, sd_from = a, sd_name = cg_smtp_name c\<rparr>)"

definition html_escape :: "string \<Rightarrow> string" where
  "html_escape s = concat (map (\<lambda>c.
     if c = CHR ''&'' then ''&amp;'' else if c = CHR 0x27 then ''&#39;'' else if c = CHR ''<'' then ''&lt;''
     else if c = CHR ''>'' then ''&gt;'' else if c = CHR 0x22 then ''&#34;'' else [c]) s)"

definition newline :: string where
  "newline = [CHR 0x0A]"

definition quoted :: "string \<Rightarrow> string" where
  "quoted s = CHR 0x22 # s @ [CHR 0x22]"

definition plain_text :: "string \<Rightarrow> string \<Rightarrow> string" where
  "plain_text username url = ''Hello '' @ username @ '','' @ newline @ newline @
     ''Verify your email to activate your Netriun Nexus workspace:'' @ newline @ url @ newline @ newline @
     ''This link expires in 24 hours. If you did not create this account, you can ignore this email.'' @ newline"

definition html_text :: "string \<Rightarrow> string \<Rightarrow> string" where
  "html_text username url = ''<p>Hello '' @ html_escape username @
     '',</p><p>Verify your email to activate your Netriun Nexus workspace:</p><p><a href='' @ quoted (html_escape url) @
     ''>Verify email address</a></p><p>This link expires in 24 hours. If you did not create this account, you can ignore this email.</p>''"

definition message_lines :: "(string \<Rightarrow> string \<Rightarrow> string) \<Rightarrow> sender \<Rightarrow> string \<Rightarrow> string \<Rightarrow> string \<Rightarrow> string list" where
  "message_lines format s recipient username url =
     [''From: '' @ format (sd_name s) (sd_from s), ''To: '' @ format [] recipient, ''Subject: Verify your Netriun Nexus email'',
      ''MIME-Version: 1.0'', ''Content-Type: multipart/alternative; boundary=nexus-verification-boundary'', [],
      ''--nexus-verification-boundary'', ''Content-Type: text/plain; charset=UTF-8'', ''Content-Transfer-Encoding: 8bit'', [],
      plain_text username url, ''--nexus-verification-boundary'', ''Content-Type: text/html; charset=UTF-8'',
      ''Content-Transfer-Encoding: 8bit'', [], html_text username url, ''--nexus-verification-boundary--'', []]"

definition crlf_join :: "string list \<Rightarrow> string" where
  "crlf_join ls = (case ls of [] \<Rightarrow> [] | l # ls \<Rightarrow> l @ concat (map (\<lambda>l. CHR 0x0D # CHR 0x0A # l) ls))"

text \<open>The dialogue: \<open>says\<close> tells whether the server (or the connection) accepts the next step after those already taken.\<close>

datatype smtp_step =
    Dial
  | Greeting
  | OfferTLS
  | StartTLS
  | Auth string string
  | MailFrom string
  | RcptTo string
  | DataStart
  | DataBody string
  | DataEnd
  | Quit

fun dialogue :: "(smtp_step list \<Rightarrow> smtp_step \<Rightarrow> bool) \<Rightarrow> smtp_step list \<Rightarrow> smtp_step list \<Rightarrow> smtp_step list \<times> bool" where
  "dialogue says taken [] = (taken, True)"
| "dialogue says taken (c # cs) = (if says taken c then dialogue says (taken @ [c]) cs else (taken @ [c], False))"

definition send :: "(smtp_step list \<Rightarrow> smtp_step \<Rightarrow> bool) \<Rightarrow> sender \<Rightarrow> string \<Rightarrow> string \<Rightarrow> smtp_step list \<times> bool" where
  "send says s to body =
     dialogue says [] [Dial, Greeting, OfferTLS, StartTLS, Auth (sd_username s) (sd_password s), MailFrom (sd_from s), RcptTo to,
       DataStart, DataBody body, DataEnd, Quit]"

definition SendVerification ::
    "env \<Rightarrow> (string \<Rightarrow> string \<Rightarrow> string) \<Rightarrow> (smtp_step list \<Rightarrow> smtp_step \<Rightarrow> bool) \<Rightarrow> sender \<Rightarrow> string \<Rightarrow> string \<Rightarrow> string \<Rightarrow> smtp_step list \<times> bool" where
  "SendVerification e format says s to username url =
     (case e_address e to of
        None \<Rightarrow> ([], False)
      | Some a \<Rightarrow> if \<not> equal_fold a to then ([], False) else send says s a (crlf_join (message_lines format s a username url)))"

end
