(* ===== verification/ConfigProps.thy ===== *)
theory ConfigProps
  imports Config AuthProps
begin

text \<open>
  Properties of the vault, the configuration and the mail sender.
\<close>

section \<open>Base64\<close>

lemma b64_val_char:
  assumes "n < 64"
  shows "b64_val (b64_char n) = Some n"
proof -
  consider "n < 26" | "26 \<le> n" "n < 52" | "52 \<le> n" "n < 62" | "n = 62" | "n = 63" using assms by linarith
  then show ?thesis
    by cases (auto simp: b64_char_def b64_val_def is_upper_def is_lower_def is_digit_def Let_def)
qed

lemma b64_not_chars: "b64_val CHR ''='' = None" "b64_val CHR 0x0A = None" "b64_val CHR 0x0D = None"
  by code_simp+

lemma b64_char_facts:
  assumes "n < 64"
  shows "b64_val (b64_char n) = Some n" "b64_char n \<noteq> CHR ''=''" "b64_char n \<noteq> CHR 0x0A" "b64_char n \<noteq> CHR 0x0D"
  using b64_val_char [OF assms] b64_not_chars by auto

lemma byte_bound: "(of_char c :: nat) < 256"
  by simp

lemma sextets:
  assumes "(x :: nat) < 256" "(y :: nat) < 256" "(z :: nat) < 256"
  shows "x div 4 < 64" "x mod 4 * 16 < 64" "x mod 4 * 16 + y div 16 < 64" "y mod 16 * 4 < 64" "y mod 16 * 4 + z div 64 < 64" "z mod 64 < 64"
    and "x div 4 * 4 + x mod 4 * 16 div 16 = x" "x div 4 * 4 + (x mod 4 * 16 + y div 16) div 16 = x"
    and "(x mod 4 * 16 + y div 16) mod 16 * 16 + y mod 16 * 4 div 4 = y" "(x mod 4 * 16 + y div 16) mod 16 * 16 + (y mod 16 * 4 + z div 64) div 4 = y"
    and "(y mod 16 * 4 + z div 64) mod 4 * 64 + z mod 64 = z"
proof -
  have b: "y div 16 < 16" "z div 64 < 4" "x div 4 < 64" using assms by auto
  have m: "x mod 4 < 4" "y mod 16 < 16" "z mod 64 < 64" by simp_all
  show "x div 4 < 64" "x mod 4 * 16 < 64" "x mod 4 * 16 + y div 16 < 64" "y mod 16 * 4 < 64" "y mod 16 * 4 + z div 64 < 64" "z mod 64 < 64"
    using b m by linarith+
  have d: "(x mod 4 * 16 + y div 16) div 16 = x mod 4" "(x mod 4 * 16 + y div 16) mod 16 = y div 16"
    "(y mod 16 * 4 + z div 64) div 4 = y mod 16" "(y mod 16 * 4 + z div 64) mod 4 = z div 64" using b by simp_all
  show "x div 4 * 4 + x mod 4 * 16 div 16 = x" "x div 4 * 4 + (x mod 4 * 16 + y div 16) div 16 = x"
    "(x mod 4 * 16 + y div 16) mod 16 * 16 + y mod 16 * 4 div 4 = y" "(x mod 4 * 16 + y div 16) mod 16 * 16 + (y mod 16 * 4 + z div 64) div 4 = y"
    "(y mod 16 * 4 + z div 64) mod 4 * 64 + z mod 64 = z"
    unfolding d by simp_all
qed

text \<open>The three shapes of a group.\<close>

lemma group_1:
  assumes "b64_val p = Some x" "b64_val q = Some y" "x * 4 + y div 16 = of_char a"
  shows "b64_groups [p, q, CHR ''='', CHR ''=''] = Some [a]"
  by (simp add: assms Let_def)

lemma group_2:
  assumes "b64_val p = Some x" "b64_val q = Some y" "b64_val r = Some z" "r \<noteq> CHR ''=''"
    and "x * 4 + y div 16 = of_char a" "y mod 16 * 16 + z div 4 = of_char b"
  shows "b64_groups [p, q, r, CHR ''=''] = Some [a, b]"
  by (simp add: assms Let_def)

lemma group_3:
  assumes "b64_val p = Some x" "b64_val q = Some y" "b64_val r = Some z" "b64_val t = Some v" "r \<noteq> CHR ''=''" "t \<noteq> CHR ''=''"
    and "x * 4 + y div 16 = of_char a" "y mod 16 * 16 + z div 4 = of_char b" "z mod 4 * 64 + v = of_char c"
  shows "b64_groups (p # q # r # t # s) = map_option (\<lambda>rest. a # b # c # rest) (b64_groups s)"
  by (simp add: assms Let_def split: option.split)

lemma b64_groups_encode: "b64_groups (b64_encode s) = Some s"
proof (induction s rule: b64_encode.induct)
  case (2 a)
  note f = sextets [OF byte_bound [of a] byte_bound [of a] byte_bound [of a]]
  show ?case unfolding b64_encode.simps Let_def by (rule group_1 [OF b64_val_char [OF f(1)] b64_val_char [OF f(2)] f(7)])
next
  case (3 a b)
  note f = sextets [OF byte_bound [of a] byte_bound [of b] byte_bound [of b]]
  show ?case unfolding b64_encode.simps Let_def
    by (rule group_2 [OF b64_val_char [OF f(1)] b64_val_char [OF f(3)] b64_val_char [OF f(4)] b64_char_facts(2) [OF f(4)] f(8) f(9)])
next
  case (4 a b c s)
  note f = sextets [OF byte_bound [of a] byte_bound [of b] byte_bound [of c]]
  show ?case unfolding b64_encode.simps Let_def
      group_3 [OF b64_val_char [OF f(1)] b64_val_char [OF f(3)] b64_val_char [OF f(5)] b64_val_char [OF f(6)]
        b64_char_facts(2) [OF f(5)] b64_char_facts(2) [OF f(6)] f(8) f(10) f(11)] using 4 by simp
qed simp

lemma b64_no_breaks: "filter (\<lambda>c. c \<noteq> CHR 0x0A \<and> c \<noteq> CHR 0x0D) (b64_encode s) = b64_encode s"
proof (induction s rule: b64_encode.induct)
  case (2 a)
  note f = sextets [OF byte_bound [of a] byte_bound [of a] byte_bound [of a]]
  show ?case by (simp add: Let_def b64_char_facts f)
next
  case (3 a b)
  note f = sextets [OF byte_bound [of a] byte_bound [of b] byte_bound [of b]]
  show ?case by (simp add: Let_def b64_char_facts f)
next
  case (4 a b c s)
  note f = sextets [OF byte_bound [of a] byte_bound [of b] byte_bound [of c]]
  show ?case using 4 by (simp add: Let_def b64_char_facts f)
qed simp

lemma b64_roundtrip: "b64_decode (b64_encode s) = Some s"
  by (simp add: b64_decode_def b64_no_breaks b64_groups_encode)

section \<open>The vault\<close>

text \<open>What authenticated encryption promises: under the key, a text opens under nonce and context exactly where it was
  sealed under them.\<close>

definition aead_ok :: "aead \<Rightarrow> string \<Rightarrow> bool" where
  "aead_ok g key \<longleftrightarrow> (\<forall>n c ad p. gcm_open g key n c ad = Some p \<longleftrightarrow> c = gcm_seal g key n p ad)"

text \<open>C39: what the vault sealed it opens, and so it does with what was sealed before the product was renamed; anything
  else, in whatever encoding, it refuses.\<close>

theorem vault_roundtrip:
  assumes "aead_ok g key" and "length nonce = 12" and "gcm_open g key nonce (gcm_seal g key nonce s legacyCredentialsAAD) nexusCredentialsAAD = None"
  shows "Decrypt g key (Encrypt g key nonce s) = Some s \<and>
    Decrypt g key (b64_encode (nonce @ gcm_seal g key nonce s legacyCredentialsAAD)) = Some s \<and>
    (\<forall>c p. Decrypt g key c = Some p \<longrightarrow> (\<exists>n ad. length n = 12 \<and> ad \<in> {nexusCredentialsAAD, legacyCredentialsAAD} \<and>
       b64_decode c = Some (n @ gcm_seal g key n p ad)))"
proof (intro conjI allI impI)
  have opens: "gcm_open g key n (gcm_seal g key n p ad) ad = Some p" for n p ad using assms(1) by (simp add: aead_ok_def)
  show "Decrypt g key (Encrypt g key nonce s) = Some s"
    using assms(2) by (simp add: Decrypt_def Encrypt_def b64_roundtrip opens)
  show "Decrypt g key (b64_encode (nonce @ gcm_seal g key nonce s legacyCredentialsAAD)) = Some s"
    using assms(2,3) by (simp add: Decrypt_def b64_roundtrip opens)
  fix c p
  assume "Decrypt g key c = Some p"
  then obtain b where some: "b64_decode c = Some b" "12 \<le> length b" "gcm_open g key (take 12 b) (drop 12 b) nexusCredentialsAAD = Some p \<or>
      gcm_open g key (take 12 b) (drop 12 b) legacyCredentialsAAD = Some p"
    by (auto simp: Decrypt_def not_less split: option.splits if_splits)
  then obtain ad where b: "b64_decode c = Some b" "12 \<le> length b" "ad \<in> {nexusCredentialsAAD, legacyCredentialsAAD}"
    "gcm_open g key (take 12 b) (drop 12 b) ad = Some p" by blast
  then have "drop 12 b = gcm_seal g key (take 12 b) p ad" using assms(1) by (simp add: aead_ok_def)
  then have "b = take 12 b @ gcm_seal g key (take 12 b) p ad" by (metis append_take_drop_id)
  then show "\<exists>n ad. length n = 12 \<and> ad \<in> {nexusCredentialsAAD, legacyCredentialsAAD} \<and> b64_decode c = Some (n @ gcm_seal g key n p ad)"
    using b by (intro exI [of _ "take 12 b"] exI [of _ ad]) simp
qed

text \<open>A toy cipher: it marks the text with its length-prefixed context.\<close>

definition toy_mark :: "string \<Rightarrow> string \<Rightarrow> string" where
  "toy_mark n ad = n @ ad"

definition toy_aead :: aead where
  "toy_aead = \<lparr>gcm_seal = (\<lambda>k n s ad. toy_mark n ad @ s),
     gcm_open = (\<lambda>k n c ad. if take (length (toy_mark n ad)) c = toy_mark n ad then Some (drop (length (toy_mark n ad)) c) else None)\<rparr>"

lemma toy_aead_ok: "aead_ok toy_aead key"
  unfolding aead_ok_def toy_aead_def by (auto simp: take_eq_Nil) (metis append_take_drop_id)

lemma vault_roundtrip_witness:
  "Decrypt toy_aead ''k'' (Encrypt toy_aead ''k'' ''abcdefghijkl'' ''secret'') = Some ''secret''"
proof -
  have "length ''abcdefghijkl'' = 12" by simp
  moreover have "gcm_open toy_aead ''k'' ''abcdefghijkl'' (gcm_seal toy_aead ''k'' ''abcdefghijkl'' ''secret'' legacyCredentialsAAD) nexusCredentialsAAD = None"
    by code_simp
  ultimately show ?thesis using vault_roundtrip [OF toy_aead_ok] by blast
qed

section \<open>Configuration\<close>

lemma loaded_config:
  assumes "loadRuntimeConfig parse getenv = Inr c"
  shows "cg_database c \<noteq> [] \<and> cg_redis c \<noteq> [] \<and> cg_key c \<noteq> [] \<and> cg_smtp_username c \<noteq> [] \<and> cg_smtp_password c \<noteq> [] \<and>
    (\<exists>p. parse_int64 (cg_smtp_port c) = Some p \<and> 1 \<le> p \<and> p \<le> 65535) \<and>
    (\<exists>u. parse (trim_space (getenv ''APP_ORIGIN'')) = Some u \<and> exact_origin u \<and> (pu_scheme u = ''https'' \<longrightarrow> cg_secure c))"
  using assms unfolding loadRuntimeConfig_def Let_def by (auto split: if_splits option.splits)

section \<open>Mail\<close>

lemma dialogue_prefix:
  "dialogue says taken cs = (steps, ok) \<Longrightarrow>
     \<exists>k. steps = taken @ take k cs \<and> (ok \<longrightarrow> k = length cs) \<and> (\<forall>i < k - 1. i < length cs \<longrightarrow> says (taken @ take i cs) (cs ! i))"
proof (induction cs arbitrary: taken)
  case (Cons c cs)
  show ?case
  proof (cases "says taken c")
    case True
    with Cons.prems have "dialogue says (taken @ [c]) cs = (steps, ok)" by simp
    from Cons.IH [OF this] obtain k where k: "steps = (taken @ [c]) @ take k cs" "ok \<longrightarrow> k = length cs"
      "\<forall>i < k - 1. i < length cs \<longrightarrow> says ((taken @ [c]) @ take i cs) (cs ! i)" by blast
    have "says (taken @ take i (c # cs)) ((c # cs) ! i)" if "i < k" "i < length (c # cs)" for i
      using that True k(3) by (cases i) auto
    then show ?thesis using k by (intro exI [of _ "Suc k"]) auto
  next
    case False
    with Cons.prems show ?thesis by (intro exI [of _ 1]) auto
  qed
qed simp

text \<open>What only the mail server may learn.\<close>

fun confidential :: "smtp_step \<Rightarrow> bool" where
  "confidential (Auth a b) = True"
| "confidential (MailFrom a) = True"
| "confidential (RcptTo a) = True"
| "confidential (DataBody s) = True"
| "confidential c = False"

text \<open>Nothing confidential leaves the process before the server has accepted encryption: wherever the dialogue sends
  the credentials, an address or the link, the third step before was an offer of TLS, and TLS was started.\<close>

theorem mail_only_encrypted:
  assumes "SendVerification e format says s to username url = (steps, ok)" and "j < length steps" and "confidential (steps ! j)"
  shows "4 \<le> j \<and> steps ! 3 = StartTLS \<and> says (take 3 steps) StartTLS"
proof -
  from assms have "\<exists>a body. send says s a body = (steps, ok)"
    by (auto simp: SendVerification_def split: option.splits if_splits)
  then obtain a body where "send says s a body = (steps, ok)" by blast
  then have run: "send says s a body = (steps, ok)" .
  let ?cs = "[Dial, Greeting, OfferTLS, StartTLS, Auth (sd_username s) (sd_password s), MailFrom (sd_from s), RcptTo a,
       DataStart, DataBody body, DataEnd, Quit]"
  from dialogue_prefix [OF run [unfolded send_def]] obtain k where
    k: "steps = take k ?cs" and said: "\<forall>i < k - 1. i < length ?cs \<longrightarrow> says (take i ?cs) (?cs ! i)" by auto
  have j: "j < k" "j < length ?cs" "steps ! j = ?cs ! j" using assms(2) by (auto simp: k)
  have "\<not> j < 4"
  proof
    assume "j < 4"
    then have "j = 0 \<or> j = 1 \<or> j = 2 \<or> j = 3" by auto
    then show False using assms(3) j(3) by auto
  qed
  then have four: "4 \<le> j" by simp
  then have "3 < k - 1" using j(1) by simp
  with said have "3 < length ?cs \<longrightarrow> says (take 3 ?cs) (?cs ! 3)" by blast
  then have "says (take 3 ?cs) (?cs ! 3)" by simp
  moreover have "take 3 steps = take 3 ?cs" "steps ! 3 = ?cs ! 3" using four j(1) by (simp_all add: k min_def)
  ultimately show ?thesis using four by simp
qed

definition demo_sender :: sender where
  "demo_sender = \<lparr>sd_username = ''mailer'', sd_password = ''pw'', sd_from = ''nexus@a.io'', sd_name = ''Nexus''\<rparr>"

lemma mail_only_encrypted_witness:
  "\<exists>steps. SendVerification good_env (\<lambda>n a. a) (\<lambda>taken c. True) demo_sender ''s@a.io'' ''sam'' ''https://n/verify'' = (steps, True) \<and>
     confidential (steps ! 4) \<and> steps ! 3 = StartTLS"
proof -
  let ?run = "SendVerification good_env (\<lambda>n a. a) (\<lambda>taken c. True) demo_sender ''s@a.io'' ''sam'' ''https://n/verify''"
  have facts: "4 < length (fst ?run)" "confidential (fst ?run ! 4)" "snd ?run"
    by (simp_all add: SendVerification_def good_env_def equal_fold_def send_def eval_nat_numeral)
  then have run: "?run = (fst ?run, True)" by (cases ?run) auto
  from mail_only_encrypted [OF run facts(1,2)] facts run show ?thesis by metis
qed

text \<open>The name of the person stands as it is between the boundaries of the message: a name with line ends and a boundary
  adds a part of its own.\<close>

definition occurs :: "string \<Rightarrow> string \<Rightarrow> bool" where
  "occurs x s \<longleftrightarrow> (\<exists>pre post. s = pre @ x @ post)"

lemma occurs_self: "occurs x x"
  unfolding occurs_def by (metis append_Nil append_Nil2)

lemma occurs_left: "occurs x s \<Longrightarrow> occurs x (t @ s)"
  unfolding occurs_def by (metis append_assoc)

lemma occurs_right: "occurs x s \<Longrightarrow> occurs x (s @ t)"
  unfolding occurs_def by (metis append_assoc)

lemma occurs_line: "occurs x l \<Longrightarrow> l \<in> set ls \<Longrightarrow> occurs x (crlf_join ls)"
proof -
  assume x: "occurs x l" and "l \<in> set ls"
  have tail: "occurs x (concat (map (\<lambda>l. CHR 0x0D # CHR 0x0A # l) ls'))" if "l \<in> set ls'" for ls'
  proof -
    from that obtain as bs where ls': "ls' = as @ l # bs" by (metis split_list)
    have "occurs x (CHR 0x0D # CHR 0x0A # l)" using occurs_left [OF x, of "[CHR 0x0D, CHR 0x0A]"] by simp
    from occurs_left [OF occurs_right [OF this]] show ?thesis by (simp add: ls')
  qed
  from \<open>l \<in> set ls\<close> obtain k ks where ls: "ls = k # ks" by (cases ls) auto
  show ?thesis
  proof (cases "l = k")
    case True
    then show ?thesis using occurs_right [OF x] by (simp add: crlf_join_def ls)
  next
    case False
    then have "l \<in> set ks" using \<open>l \<in> set ls\<close> ls by simp
    then show ?thesis using occurs_left [OF tail] by (simp add: crlf_join_def ls)
  qed
qed

lemma mail_name_unescaped: "occurs username (crlf_join (message_lines format s recipient username url))"
proof (rule occurs_line)
  show "plain_text username url \<in> set (message_lines format s recipient username url)" by (simp add: message_lines_def)
  show "occurs username (plain_text username url)"
    unfolding plain_text_def by (rule occurs_left, rule occurs_right, rule occurs_self)
qed

end
