(* ===== verification/Clients.thy ===== *)
theory Clients
  imports Providers Snapshots Accounts SsoFlow Config Server
begin

text \<open>
  What the parts are made of: the clients of the providers (\<^verbatim>\<open>internal/cloud\<close>) and the connection test over them
  (\<^verbatim>\<open>internal/app/cloud_connection.go\<close>), the SAML metadata a provider is given (\<^verbatim>\<open>internal/app/sso.go\<close>), and the start of the process (\<^verbatim>\<open>New\<close> of
  \<^verbatim>\<open>internal/app/app.go\<close>).
\<close>

section \<open>Azure\<close>

definition azure_token_url :: "string \<Rightarrow> string" where
  "azure_token_url tenant = ''https://login.microsoftonline.com/'' @ path_escape tenant @ ''/oauth2/v2.0/token''"

text \<open>\<^verbatim>\<open>url.Values.Encode\<close> of fields in the order of their names.\<close>

definition form_encode :: "(string \<times> string) list \<Rightarrow> string" where
  "form_encode kvs = join_with CHR ''&'' (map (\<lambda>(k, v). k @ ''='' @ query_escape v) kvs)"

text \<open>\<open>post\<close> gives the status and the token of the answer, \<^const>\<open>None\<close> where there is none or it does not decode.\<close>

definition NewAzureClient :: "(string \<Rightarrow> string \<Rightarrow> (nat \<times> string option) option) \<Rightarrow> string \<Rightarrow> string \<Rightarrow> string \<Rightarrow> string option" where
  "NewAzureClient post tenant clientID secret =
     (case post (azure_token_url tenant) (form_encode [(''client_id'', clientID), (''client_secret'', secret),
         (''grant_type'', ''client_credentials''), (''scope'', ''https://management.azure.com/.default'')]) of
        None \<Rightarrow> None
      | Some (status, token) \<Rightarrow>
          if status < 200 \<or> status \<ge> 300 then None
          else (case token of None \<Rightarrow> None | Some t \<Rightarrow> if t = [] then None else Some t))"

definition AzureConnection :: "'p web \<Rightarrow> string \<Rightarrow> bool" where
  "AzureConnection web subscription \<longleftrightarrow> web_request web azure_base 0 ''GET'' (azure_target subscription) \<noteq> None"

section \<open>Google Cloud\<close>

definition gcp_token_uri :: string where
  "gcp_token_uri = ''https://oauth2.googleapis.com/token''"

definition NewGCPClient :: "(string \<Rightarrow> gcp_key option) \<Rightarrow> string \<Rightarrow> string + gcp_key" where
  "NewGCPClient parse text =
     (case parse text of
        None \<Rightarrow> Inl ''invalid GCP service account JSON''
      | Some k \<Rightarrow>
          if gk_email k = [] \<or> gk_private k = [] then Inl ''invalid GCP service account JSON''
          else if gk_uri k \<noteq> gcp_token_uri then Inl ''GCP service account token URI is not trusted''
          else Inr k)"

definition GCPConnection :: "'p web \<Rightarrow> string \<Rightarrow> bool" where
  "GCPConnection web project \<longleftrightarrow>
     web_request web gcp_base 0 ''GET''
       (''/projects/'' @ path_escape project @ ''/aggregated/instances?returnPartialSuccess=true&maxResults=1'') \<noteq> None"

section \<open>AWS and Alibaba Cloud\<close>

text \<open>What the SDKs are configured with.  The SDK makes a client of it, or refuses.\<close>

record sdk_config =
  sc_region :: string
  sc_key :: string
  sc_secret :: string
  sc_token :: "string option"
  sc_endpoint :: "string option"
  sc_protocol :: string

definition given :: "string \<Rightarrow> string option" where
  "given s = (if s = [] then None else Some s)"

definition alibaba_config :: "string \<Rightarrow> string \<Rightarrow> string \<Rightarrow> string \<Rightarrow> string \<Rightarrow> string \<Rightarrow> sdk_config" where
  "alibaba_config region key secret token endpoint protocol =
     \<lparr>sc_region = region, sc_key = key, sc_secret = secret, sc_token = given token, sc_endpoint = given endpoint,
      sc_protocol = protocol\<rparr>"

definition newAlibabaClient ::
    "(sdk_config \<Rightarrow> 'c option) \<Rightarrow> string \<Rightarrow> string \<Rightarrow> string \<Rightarrow> string \<Rightarrow> string \<Rightarrow> string \<Rightarrow> 'c option" where
  "newAlibabaClient sdk region key secret token endpoint protocol =
     sdk (alibaba_config region key secret token endpoint protocol)"

definition AlibabaClient :: "(sdk_config \<Rightarrow> 'c option) \<Rightarrow> string \<Rightarrow> string \<Rightarrow> string \<Rightarrow> string \<Rightarrow> 'c option" where
  "AlibabaClient sdk region key secret token = newAlibabaClient sdk region key secret token [] ''HTTPS''"

record ('c, 'u) eds_clients =
  ec_desktop :: 'c
  ec_user :: 'u

definition newEDSClients ::
    "(sdk_config \<Rightarrow> 'c option) \<Rightarrow> (sdk_config \<Rightarrow> 'u option) \<Rightarrow>
     string \<Rightarrow> string \<Rightarrow> string \<Rightarrow> string \<Rightarrow> string \<Rightarrow> string \<Rightarrow> ('c, 'u) eds_clients option" where
  "newEDSClients desktops directory region key secret token endpoint protocol =
     (case desktops (alibaba_config region key secret token endpoint protocol) of
        None \<Rightarrow> None
      | Some desktop \<Rightarrow>
          (case directory (alibaba_config (user_region region) key secret token endpoint protocol) of
             None \<Rightarrow> None
           | Some user \<Rightarrow> Some \<lparr>ec_desktop = desktop, ec_user = user\<rparr>))"

definition EDSClient ::
    "(sdk_config \<Rightarrow> 'c option) \<Rightarrow> (sdk_config \<Rightarrow> 'u option) \<Rightarrow>
     string \<Rightarrow> string \<Rightarrow> string \<Rightarrow> string \<Rightarrow> ('c, 'u) eds_clients option" where
  "EDSClient desktops directory region key secret token =
     newEDSClients desktops directory region key secret token [] ''HTTPS''"

definition AlibabaBillingClient :: "(sdk_config \<Rightarrow> 'c option) \<Rightarrow> string \<Rightarrow> string \<Rightarrow> string \<Rightarrow> 'c option" where
  "AlibabaBillingClient sdk key secret token =
     sdk \<lparr>sc_region = ''cn-hangzhou'', sc_key = key, sc_secret = secret, sc_token = given token,
           sc_endpoint = Some ''business.aliyuncs.com'', sc_protocol = ''HTTPS''\<rparr>"

text \<open>The SDKs of AWS and of object storage take region, key, secret and session token.\<close>

definition Client :: "(string \<Rightarrow> string \<Rightarrow> string \<Rightarrow> string \<Rightarrow> 'c) \<Rightarrow> string \<Rightarrow> string \<Rightarrow> string \<Rightarrow> string \<Rightarrow> 'c" where
  "Client sdk region key secret token = sdk region key secret token"

definition OSSClient :: "(string \<Rightarrow> string \<Rightarrow> string \<Rightarrow> string \<Rightarrow> 'c) \<Rightarrow> string \<Rightarrow> string \<Rightarrow> string \<Rightarrow> string \<Rightarrow> 'c" where
  "OSSClient sdk region key secret token = sdk (OSSRegion region) key secret token"

definition AWSConnection :: "client \<Rightarrow> bool" where
  "AWSConnection ask \<longleftrightarrow> ask 0 ''DescribeInstances'' [(''MaxResults'', JInt 5)] \<noteq> None"

definition AlibabaConnection :: "client \<Rightarrow> string \<Rightarrow> bool" where
  "AlibabaConnection ask region \<longleftrightarrow>
     ask 0 ''DescribeInstances'' [(''RegionId'', JStr region), (''MaxResults'', JInt 1)] \<noteq> None"

section \<open>The connection test\<close>

text \<open>The SDKs and the network the test runs over.  The switch of \<^verbatim>\<open>testCloudAccount\<close>; its default is out of reach
  behind \<^const>\<open>validateCredentials\<close>, which knows the same four providers.\<close>

record clouds =
  co_aws :: "string \<Rightarrow> string \<Rightarrow> string \<Rightarrow> string \<Rightarrow> client"
  co_ecs :: "sdk_config \<Rightarrow> client option"
  co_post :: "string \<Rightarrow> string \<Rightarrow> (nat \<times> string option) option"
  co_azure :: "string \<Rightarrow> azure_body web"
  co_key :: "string \<Rightarrow> gcp_key option"
  co_gcp :: "gcp_key \<Rightarrow> gcp_body web"

definition probe :: "clouds \<Rightarrow> string \<Rightarrow> credentials \<Rightarrow> bool" where
  "probe k provider c =
     (if provider = ''aws''
      then let ask = Client (co_aws k) ''us-east-1'' (cr_access c) (cr_secret c) (cr_token c)
           in aws_regions ask \<noteq> None \<and> AWSConnection ask
      else if provider = ''alibaba''
      then (case AlibabaClient (co_ecs k) ''cn-hangzhou'' (cr_access c) (cr_secret c) (cr_token c) of
              None \<Rightarrow> False
            | Some ask \<Rightarrow>
                (case AlibabaRegions ask of
                   None \<Rightarrow> False
                 | Some regions \<Rightarrow> AlibabaConnection ask (case regions of [] \<Rightarrow> ''cn-hangzhou'' | r # _ \<Rightarrow> r)))
      else if provider = ''azure''
      then (case NewAzureClient (co_post k) (cr_tenant c) (cr_client c) (cr_client_secret c) of
              None \<Rightarrow> False
            | Some token \<Rightarrow> AzureConnection (co_azure k token) (cr_subscription c))
      else if provider = ''gcp''
      then (case NewGCPClient (co_key k) (cr_service_json c) of
              Inl err \<Rightarrow> False
            | Inr key \<Rightarrow> GCPConnection (co_gcp k key) (cr_project c))
      else False)"

section \<open>SAML metadata\<close>

text \<open>The document, or a refusal.  \<open>document\<close> is crewjam/saml's metadata as XML.\<close>

definition samlMetadata :: "env \<Rightarrow> sso_ext \<Rightarrow> (idp_config \<Rightarrow> string option) \<Rightarrow> request \<Rightarrow> db \<Rightarrow> resp + string" where
  "samlMetadata e x document r d =
     (case loadIdentityProvider e 0 x d (rq_path r ''provider'') False of
        None \<Rightarrow> Inl (reply 404 JNull)
      | Some (p, cfg) \<Rightarrow>
          if ip_protocol p \<noteq> ''saml'' then Inl (reply 404 JNull)
          else (case samlServiceProvider x cfg of
                  SpError \<Rightarrow> Inl (reply 404 JNull)
                | SpPanic \<Rightarrow> Inl panicked
                | SpOk \<Rightarrow> (case document cfg of None \<Rightarrow> Inl (reply 500 JNull) | Some doc \<Rightarrow> Inr doc)))"

section \<open>The start\<close>

record server =
  rn_config :: runtime_config
  rn_key :: string
  rn_sender :: sender

text \<open>\<open>db_ok\<close> and \<open>redis_ok\<close> tell whether the address parses and the server answers.  The migrations stay when the first
  boot fails.\<close>

definition New ::
    "env \<Rightarrow> (string \<Rightarrow> parsed_url option) \<Rightarrow> (string \<Rightarrow> string) \<Rightarrow> (string \<Rightarrow> bool) \<Rightarrow> (string \<Rightarrow> bool) \<Rightarrow> (string \<Rightarrow> db \<Rightarrow> db option) \<Rightarrow>
     migration_file list \<Rightarrow> int list \<times> db \<Rightarrow> server option \<times> int list \<times> db" where
  "New e parse getenv db_ok redis_ok exec files st =
     (case loadRuntimeConfig parse getenv of
        Inl err \<Rightarrow> (None, st)
      | Inr c \<Rightarrow>
          (case NewVault (cg_key c) of
             None \<Rightarrow> (None, st)
           | Some key \<Rightarrow>
               if \<not> db_ok (cg_database c) \<or> \<not> redis_ok (cg_redis c) then (None, st)
               else (case newSMTPSender e c of
                       None \<Rightarrow> (None, st)
                     | Some s \<Rightarrow>
                         (case migrate exec files st of
                            None \<Rightarrow> (None, st)
                          | Some (applied, d) \<Rightarrow>
                              (case bootstrap e \<lparr>bo_name = getenv ''ADMIN_USERNAME'', bo_email = getenv ''ADMIN_EMAIL'',
                                  bo_password = getenv ''ADMIN_PASSWORD''\<rparr> d of
                                 None \<Rightarrow> (None, applied, d)
                               | Some d' \<Rightarrow> (Some \<lparr>rn_config = c, rn_key = key, rn_sender = s\<rparr>, applied, d'))))))"

end
