(* ===== verification/ClientProps.thy ===== *)
theory ClientProps
  imports Clients AccountProps ServerProps ConfigProps
begin

text \<open>
  Access tokens stay at their provider, a connection test that succeeds has read instances over an encrypted
  connection, and a process that has started is ready.
\<close>

section \<open>Access tokens\<close>

text \<open>Two networks that answer alike wherever scheme and host are those of a base.\<close>

definition same_at :: "string \<Rightarrow> 'p web \<Rightarrow> 'p web \<Rightarrow> bool" where
  "same_at base web web' \<longleftrightarrow> we_parse web' = we_parse web \<and> we_token web' = we_token web \<and>
     (\<forall>scheme host url host'. we_parse web base = Some (scheme, host) \<longrightarrow> we_parse web url = Some (scheme, host') \<longrightarrow> equal_fold host host' \<longrightarrow>
        (\<forall>n verb. we_get web' n verb url = we_get web n verb url))"

lemma web_request_same:
  assumes "same_at base web web'"
  shows "web_request web' base n verb target = web_request web base n verb target"
proof (cases "request_target (we_parse web) base target")
  case None
  then show ?thesis using assms by (simp add: same_at_def web_request_def)
next
  case (Some url)
  then have "\<exists>scheme host host'. we_parse web base = Some (scheme, host) \<and> we_parse web url = Some (scheme, host') \<and> equal_fold host host'"
    by (auto simp: request_target_def Let_def split: option.splits if_splits)
  then have "we_get web' n verb url = we_get web n verb url" using assms unfolding same_at_def by blast
  then show ?thesis using assms Some by (simp add: same_at_def web_request_def)
qed


text \<open>Google hands out a link to another host; it is not followed.\<close>

definition split_url :: "string \<Rightarrow> (string \<times> string) option" where
  "split_url s =
     (case cut_at CHR '':'' s of
        None \<Rightarrow> None
      | Some (scheme, rest) \<Rightarrow> (case split_on CHR ''/'' rest of a # b # host # ps \<Rightarrow> Some (scheme, host) | _ \<Rightarrow> None))"

definition honest_azure :: "azure_body web" where
  "honest_azure = \<lparr>we_parse = split_url, we_token = True, we_get = (\<lambda>n verb url.
     if has_prefix azure_base url then Some (VmPage [] ''https://evil.example/next'') else None)\<rparr>"

definition tapped_azure :: "azure_body web" where
  "tapped_azure = honest_azure\<lparr>we_get := (\<lambda>n verb url.
     if has_prefix ''https://evil.example/'' url then Some (VmPage [] []) else we_get honest_azure n verb url)\<rparr>"

definition quiet_gcp :: "gcp_body web" where
  "quiet_gcp = \<lparr>we_parse = split_url, we_token = True, we_get = (\<lambda>n verb url. None)\<rparr>"

lemma evil_host: "has_prefix ''https://evil.example/'' url \<Longrightarrow> split_url url = Some (scheme, host) \<Longrightarrow> host = ''evil.example''"
proof -
  assume "has_prefix ''https://evil.example/'' url" and split: "split_url url = Some (scheme, host)"
  then obtain rest where "url = ''https://evil.example/'' @ rest" unfolding has_prefix_def by (metis append_take_drop_id)
  then have url: "url = ''https'' @ CHR '':'' # ''//evil.example/'' @ rest" by simp
  have "cut_at CHR '':'' url = Some (''https'', ''//evil.example/'' @ rest)" unfolding url by (rule cut_at_append) simp
  moreover have "split_on CHR ''/'' (''//evil.example/'' @ rest) = [] # [] # ''evil.example'' # split_on CHR ''/'' rest"
    using split_on_append [of "CHR ''/''" "''evil.example''" rest] by simp
  ultimately show ?thesis using split by (simp add: split_url_def)
qed


section \<open>The connection test\<close>

text \<open>Clients of Alibaba Cloud that may use the network: encrypted, at the endpoint the SDK or the code chooses.\<close>

definition encrypted_only :: "(sdk_config \<Rightarrow> 'c option) \<Rightarrow> sdk_config \<Rightarrow> 'c option" where
  "encrypted_only sdk cfg =
     (if sc_protocol cfg = ''HTTPS'' \<and> sc_endpoint cfg \<in> {None, Some ''business.aliyuncs.com''} then sdk cfg else None)"

text \<open>Every client of Alibaba Cloud is encrypted: an SDK that refuses all others makes the same clients.\<close>

lemma alibaba_config_encrypted:
  "encrypted_only sdk (alibaba_config region key secret token [] ''HTTPS'') = sdk (alibaba_config region key secret token [] ''HTTPS'')"
  by (simp add: encrypted_only_def alibaba_config_def given_def)

lemma alibaba_clients_encrypted:
  "AlibabaClient (encrypted_only sdk) region key secret token = AlibabaClient sdk region key secret token"
  "EDSClient (encrypted_only sdk) (encrypted_only directory) region key secret token = EDSClient sdk directory region key secret token"
  "AlibabaBillingClient (encrypted_only sdk) key secret token = AlibabaBillingClient sdk key secret token"
  by (simp_all only: AlibabaClient_def newAlibabaClient_def EDSClient_def newEDSClients_def alibaba_config_encrypted)
    (simp add: AlibabaBillingClient_def encrypted_only_def)

lemma probe_encrypted: "probe (k\<lparr>co_ecs := encrypted_only (co_ecs k)\<rparr>) provider c = probe k provider c"
  unfolding probe_def by (simp add: alibaba_clients_encrypted split: option.split sum.split)

text \<open>What a successful test has read with the credentials.\<close>

definition instances_read :: "clouds \<Rightarrow> string \<Rightarrow> credentials \<Rightarrow> bool" where
  "instances_read k provider c \<longleftrightarrow>
     provider = ''aws'' \<and> AWSConnection (co_aws k ''us-east-1'' (cr_access c) (cr_secret c) (cr_token c)) \<or>
     provider = ''alibaba'' \<and> (\<exists>ask region. co_ecs k (alibaba_config ''cn-hangzhou'' (cr_access c) (cr_secret c) (cr_token c) [] ''HTTPS'') = Some ask \<and>
        AlibabaConnection ask region) \<or>
     provider = ''azure'' \<and> (\<exists>token. token \<noteq> [] \<and> AzureConnection (co_azure k token) (cr_subscription c)) \<or>
     provider = ''gcp'' \<and> (\<exists>key. co_key k (cr_service_json c) = Some key \<and> gk_uri key = gcp_token_uri \<and> GCPConnection (co_gcp k key) (cr_project c))"

lemma probe_reads: "probe k provider c \<Longrightarrow> instances_read k provider c"
  unfolding probe_def instances_read_def
  by (auto simp: Client_def AlibabaClient_def newAlibabaClient_def NewAzureClient_def NewGCPClient_def Let_def
      split: if_splits option.splits sum.splits prod.splits list.splits)

lemma valid_subject_status: "valid_subject e x u r inp d = Inl p \<Longrightarrow> rs_status p \<noteq> 200"
  by (auto simp: valid_subject_def test_subject_def codedProblem_def Let_def
      split: sum.splits option.splits if_splits prod.splits dest: pathID_Inl_status)

lemma tested_200:
  assumes "rs_status (fst (testCloudAccount e nets x u r b w)) = 200"
  shows "\<exists>provider acc c. (u, provider, acc, c, e_now e) \<in> set (tested e nets x u r b w) \<and> ae_probe x provider c"
proof -
  obtain ok w1 where attempt: "allowAttempt e 0 nets r (test_kind u) 20 w = (ok, w1)" by fastforce
  note [simp] = testCloudAccount_def tested_def attempt
  have ok: "ok" using assms by (cases ok) simp_all
  obtain inp where inp: "decode r b = Inr inp" using assms ok decode_Inl_status [of r b] by (cases "decode r b") auto
  obtain provider acc c where subject: "valid_subject e x u r inp (w_db w1) = Inr (provider, acc, c)"
    using assms ok inp valid_subject_status [of e x u r inp "w_db w1"] by (cases "valid_subject e x u r inp (w_db w1)") auto
  have "ae_probe x provider c" using assms ok inp subject by (auto simp: codedProblem_def split: if_splits)
  then show ?thesis using ok inp subject by simp
qed

text \<open>The default of the switch is out of reach: what has passed the checks names one of the four providers.\<close>

theorem test_reads_instances:
  assumes "rs_status (fst (testCloudAccount e nets (x\<lparr>ae_probe := probe k\<rparr>) u r b w)) = 200"
  shows "\<exists>provider acc c. (u, provider, acc, c, e_now e) \<in> set (tested e nets (x\<lparr>ae_probe := probe k\<rparr>) u r b w) \<and> instances_read k provider c"
  using tested_200 [OF assms] probe_reads by fastforce

section \<open>The start\<close>

lemma bootstrap_people: "bootstrap e b d = Some d' \<Longrightarrow> d_users d' \<noteq> []"
proof (cases "d_users d = []")
  case True
  assume "bootstrap e b d = Some d'"
  from bootstrap_Some [OF this True] show ?thesis by auto
next
  case False
  assume "bootstrap e b d = Some d'"
  then show ?thesis using False by (auto simp: bootstrap_def Let_def split: if_splits)
qed

text \<open>A process that has started has a complete configuration, a key of 32 bytes, secure cookies where its origin is
  https, all migrations recorded and somebody in the database.\<close>

theorem started_ready:
  assumes "New e parse getenv db_ok redis_ok exec files (vs, d) = (Some server, vs', d')"
  shows "length (rn_key server) = 32 \<and>
    (\<exists>u. parse (trim_space (getenv ''APP_ORIGIN'')) = Some u \<and> exact_origin u \<and> (pu_scheme u = ''https'' \<longrightarrow> cg_secure (rn_config server))) \<and>
    (\<forall>f \<in> set files. \<forall>v. migration_of v f \<longrightarrow> v \<in> set vs') \<and> d_users d' \<noteq> []"
proof -
  from assms obtain c d1 b where config: "loadRuntimeConfig parse getenv = Inr c" "rn_config server = c" "NewVault (cg_key c) = Some (rn_key server)"
    and migrated: "migrate exec files (vs, d) = Some (vs', d1)" and booted: "bootstrap e b d1 = Some d'"
    unfolding New_def by (auto split: sum.splits option.splits prod.splits if_splits)
  have "length (rn_key server) = 32" using config(3) by (auto simp: NewVault_def split: option.splits if_splits)
  moreover have "\<forall>f \<in> set files. \<forall>v. migration_of v f \<longrightarrow> v \<in> set vs'"
    using migrate_files_Some [OF migrated [unfolded migrate_def]] by auto
  ultimately show ?thesis using loaded_config [OF config(1)] config(2) bootstrap_people [OF booted] by blast
qed

end
