(* ===== verification/Spec2Isabelle.thy ===== *)
theory Spec2Isabelle
  imports SsoRules InventoryProps Locks RefreshProps CloudProps ProviderProps SnapshotProps LegacyProps BillingProps ReportProps ServerProps ConfigProps ClientProps
begin

text \<open>
  Netriun Nexus is a multi-tenant console for accounts at AWS, Alibaba Cloud, Azure and Google Cloud: one Go
  process (\<^verbatim>\<open>internal/app\<close>) over PostgreSQL and Redis that serves a JSON API, keeps an inventory of
  instances and snapshots of Alibaba services, and submits operations to the providers
  (\<^verbatim>\<open>internal/cloud\<close>).  This development translates the Go code into HOL functions and proves what its
  parts promise each other.

  \<^bold>\<open>State.\<close>  \<open>Store.db\<close> is the PostgreSQL schema, a record of tables; each statement of the program is a
  function on it that runs into the constraints of \<^verbatim>\<open>internal/app/migrations\<close> (unique indexes, checks, foreign
  keys, \<^verbatim>\<open>ON DELETE\<close> actions, the trigger that seeds roles).  \<open>Redis\<close> is the key-value store with expiry.
  \<open>Store.world\<close> adds to both the mails handed to the mail server and the calls submitted to providers.  A
  handler is \<open>h e u r body w = (response, w')\<close>: the environment \<open>e\<close> (time, tokens, digest, and which statement
  fails), the signed-in user, the request, its decoded body, the world before and after.  A response carries
  its status, JSON body and cookies.  A statement that fails because the database or Redis is out of reach is
  \<open>e_fault e i\<close> for its call site \<open>i\<close>; every early return of the source is a branch.  A transaction installs its
  database only when it commits.

  \<^bold>\<open>Theories and code.\<close>
  \<^item> \<open>Prelude\<close>, \<open>Http\<close> (write, problem, decode, pathID, pagination: app.go, auth.go), \<open>Redis\<close>, \<open>Store\<close> (tables,
    record and audit), \<open>Tables\<close> (statements several components share), \<open>Patterns\<close> (the regular expressions).
  \<^item> \<open>Policy\<close>: policy.go, the authorisation queries and their agreement (locale \<open>authorizer\<close>).
  \<^item> \<open>Access\<close>, \<open>AccessRoles\<close>: account_access.go, roles, assignments and the migration of legacy teams.
  \<^item> \<open>ClientIP\<close>: clientIP and parseTrustedProxies (auth.go, config.go).
  \<^item> \<open>Auth\<close> with \<open>AuthProps\<close>, \<open>SignupProps\<close>: auth.go, sign-in, sessions, signing up, mail verification (mail.go).
  \<^item> \<open>Sso\<close>, \<open>SsoFlow\<close> with \<open>SsoProps\<close>, \<open>SsoRules\<close>: sso.go, identity providers, OIDC and SAML flows, provisioning.
  \<^item> \<open>Admin\<close> with \<open>AdminProps\<close>: admin.go, groups, people, memberships, settings, activity.
  \<^item> \<open>Accounts\<close> with \<open>AccountProps\<close>: accounts.go, cloud_connection.go, summary.go.
  \<^item> \<open>Inventory\<close> with \<open>InventoryProps\<close>: collector.go; \<open>Locks\<close>: the collector locks of collector.go and
    eds_refresh.go and the protocol of several processes over them.
  \<^item> \<open>Refresh\<close> with \<open>RefreshProps\<close>: refresh_jobs.go and the jobs of eds_refresh.go, oss.go, security_groups.go.
  \<^item> \<open>Providers\<close> with \<open>ProviderProps\<close>: the listings, details and actions of internal/cloud (aws.go, alibaba.go,
    azure.go, gcp.go, security_groups.go, eds.go).
  \<^item> \<open>CloudOps\<close>, \<open>EdsOps\<close> with \<open>CloudProps\<close>: what submits operations to a provider (instances.go,
    security_groups.go, oss.go, eds.go).
  \<^item> \<open>Snapshots\<close> with \<open>SnapshotProps\<close>: snapshots.go and the collections of eds_refresh.go, oss.go,
    security_groups.go with the handlers that show them.
  \<^item> \<open>Billing\<close> with \<open>BillingProps\<close>: alibaba_billing.go of both packages, synchronising and reporting bills.
  \<^item> \<open>Reports\<close> with \<open>ReportProps\<close>: reports.go, the overview over accounts, instances, buckets, groups and desktops.
  \<^item> \<open>Legacy\<close> with \<open>LegacyProps\<close>: cmd/migrate-legacy/main.go, the importer of the former product.
  \<^item> \<open>Server\<close> with \<open>ServerProps\<close>: the outermost handler, the route table, how net/http chooses a route, and the
    first boot (app.go), the migrations (migrate.go).
  \<^item> \<open>Config\<close> with \<open>ConfigProps\<close>: config.go, the vault (secure.go), the mails and the dialogue with the mail server
    (mail.go).
  \<^item> \<open>Clients\<close> with \<open>ClientProps\<close>: what composes these parts: the clients of the providers and the connection test
    over them, SAML metadata, and the start of the process (\<^verbatim>\<open>New\<close>).

  \<^bold>\<open>Interfaces.\<close>  The locale \<open>authorizer\<close> states when a decision for one account and the list of accounts agree;
  \<open>kv_store\<close>, \<open>one_time\<close> and \<open>lease\<close> state what the clients of Redis rely on (a read after a write, a key that is
  taken once, a lock with an expiry), and \<open>job_keys\<close> that jobs and scopes do not collide.  Each is interpreted on
  the model of the code that provides it.

  \<^bold>\<open>What the lemmas show.\<close>  The policy engine's two queries agree, a viewer only views, an assignment takes effect
  and takes nothing from others.  A session proves its person until it ends; a state of a single sign-on and
  a verification link work once; signing up and provisioning are all or nothing.  No sequence of
  administration requests removes an owner or exceeds the seats, and enforced single sign-on keeps a provider.
  The collector refines the specification that a region holds what the provider listed; two collectors never
  work at once; a refresh job ends and shows its outcome.  Every call to a provider was permitted, went to an
  account of the workspace and was recorded before.  Listings end and are complete; a snapshot reads back as
  it was stored.  A synchronisation of bills replaces a month or changes nothing, its totals and those of the
  overview are those of the rows.  Without a session the API answers nothing and changes nothing, a foreign
  origin changes nothing, and the order of the routes does not matter.  The first boot leaves one way in; each
  migration runs once; the vault opens what it sealed and the importer takes all of a backup or nothing.  The
  access tokens of Azure and Google Cloud stay at their provider, and a connection test that succeeds has read instances.
  Where the code does not do what it means to, a theorem says what it does instead; the findings of the manifest
  name those theorems, as far as they are listed there.

  \<^bold>\<open>Bounds and fuel.\<close>  A service lock polls at most 2,400 times and an inventory lock 7,200 times, the 250 ms
  polls of its deadline; a user name is searched among the 1,000 candidates the source tries.  The loops over
  pages are partial functions whose \<^const>\<open>None\<close> is a loop that does not return; they return because the context of
  their requests has a deadline.  All other recursions are structural.

  \<^bold>\<open>Parameters.\<close>  Code that is not in the repository is an argument: bcrypt and SHA-256 (\<open>e_hash\<close>,
  \<open>e_digest\<close>), AES-GCM (the vault over it is \<open>Encrypt\<close> and \<open>Decrypt\<close> of \<open>Config\<close>; the handlers take the sealing
  and opening of credentials as \<open>ae_seal\<close> and \<open>ae_open\<close>), go-oidc and crewjam/saml, the SDK clients (\<open>client\<close>,
  \<open>web\<close>, the clients an \<open>sdk_config\<close> gives), the JSON text of configurations and credentials, the parsing of URLs.  In \<open>Server\<close> the handlers behind the routes
  are arguments too: what is shown there holds whatever they are.  Hypotheses on parameters, such as that a digest is
  injective on the tokens in play, are premises of the theorems that need them.

  \<^bold>\<open>Abstractions.\<close>  Identifiers are unbounded sequences; text compares by code point where PostgreSQL has a collation,
  and \<^verbatim>\<open>ILIKE\<close> folds ASCII; the goroutines of a collection run in a fixed order (\<open>regions_any_order\<close> shows that
  the order does not matter) and a Go map is visited in one order; requests are atomic except where a
  theorem interleaves their statements.

  \<^bold>\<open>Not modelled.\<close>  The web assets and the Helm chart, which are not Go; \<^verbatim>\<open>cmd/nexus\<close>, logging and shutdown, which are
  input and output; the HTTP transport and the SDKs' signing and retries, which belong to third-party code; \<^verbatim>\<open>generateSAMLKeyPair\<close>, a call of the standard library's RSA and X.509; the
  reading of the importer's backup through the \<^verbatim>\<open>sqlite3\<close> program; the bytes of an XLSX or PDF report, whose cells
  are modelled.
\<close>

end
